(* ===== verification/Splinter_Prelude.thy ===== *)
theory Splinter_Prelude
  imports Main "HOL-Library.Word"
begin

text \<open>
  Shared vocabulary of the development.

  The Rust sources return \<open>Result<T, E>\<close> and propagate errors with \<open>?\<close>; mutation done before
  an early return stays in place. The prelude has the two types that express this: \<open>result\<close>
  for pure fallible code, and \<open>action\<close> for code that takes \<open>&mut self\<close>: a function from the
  state to a result \<^emph>\<open>and\<close> the state, also on the error branch. It also has the few operations of
  the Rust standard library that several components use (\<open>position\<close>, removal at an index,
  \<open>collect\<close> into a \<open>Result\<close>) and the lemmas about them, collected in \<open>rust_simps\<close>.
\<close>

named_theorems rust_simps \<open>unfolding rules for the result and action combinators\<close>
named_theorems keeps_intros \<open>introduction rules for invariant preservation\<close>

section \<open>Types\<close>

type_synonym byte = "8 word"
type_synonym bytes = "byte list"
type_synonym node_id = string
type_synonym service_id = string
type_synonym circuit_id = string

text \<open>\<open>std::usize::MAX\<close> on a 64-bit target.\<close>

definition usize_max :: nat where
  "usize_max = 2 ^ 64 - 1"

section \<open>Results\<close>

datatype ('a, 'e) result = Ok 'a | Err 'e

fun bind_result :: "('a, 'e) result \<Rightarrow> ('a \<Rightarrow> ('b, 'e) result) \<Rightarrow> ('b, 'e) result" where
  "bind_result (Ok a) f = f a"
| "bind_result (Err e) f = Err e"

fun map_result :: "('a \<Rightarrow> 'b) \<Rightarrow> ('a, 'e) result \<Rightarrow> ('b, 'e) result" where
  "map_result f (Ok a) = Ok (f a)"
| "map_result f (Err e) = Err e"

fun map_err :: "('e \<Rightarrow> 'f) \<Rightarrow> ('a, 'e) result \<Rightarrow> ('a, 'f) result" where
  "map_err f (Ok a) = Ok a"
| "map_err f (Err e) = Err (f e)"

fun ok_or :: "'e \<Rightarrow> 'a option \<Rightarrow> ('a, 'e) result" where
  "ok_or e (Some a) = Ok a"
| "ok_or e None = Err e"

fun is_ok :: "('a, 'e) result \<Rightarrow> bool" where
  "is_ok (Ok _) = True"
| "is_ok (Err _) = False"

text \<open>\<open>if cond { return Err(e) }\<close> followed by the rest.\<close>

definition guard_err :: "bool \<Rightarrow> 'e \<Rightarrow> ('a, 'e) result \<Rightarrow> ('a, 'e) result" where
  "guard_err c e r = (if c then Err e else r)"

fun collect_results :: "('a, 'e) result list \<Rightarrow> ('a list, 'e) result" where
  "collect_results [] = Ok []"
| "collect_results (r # rs) =
     bind_result r (\<lambda>a. bind_result (collect_results rs) (\<lambda>as. Ok (a # as)))"

lemma bind_result_Ok_iff [rust_simps]:
  "bind_result r f = Ok b \<longleftrightarrow> (\<exists>a. r = Ok a \<and> f a = Ok b)"
  by (cases r) auto

lemma bind_result_Err_iff [rust_simps]:
  "bind_result r f = Err e \<longleftrightarrow> r = Err e \<or> (\<exists>a. r = Ok a \<and> f a = Err e)"
  by (cases r) auto

lemma map_result_Ok_iff [rust_simps]: "map_result f r = Ok b \<longleftrightarrow> (\<exists>a. r = Ok a \<and> b = f a)"
  by (cases r) auto

lemma map_err_Ok_iff [rust_simps]: "map_err f r = Ok a \<longleftrightarrow> r = Ok a"
  by (cases r) auto

lemma map_err_Err_iff [rust_simps]: "map_err f r = Err e \<longleftrightarrow> (\<exists>e'. r = Err e' \<and> e = f e')"
  by (cases r) auto

lemma ok_or_Ok_iff [rust_simps]: "ok_or e m = Ok a \<longleftrightarrow> m = Some a"
  by (cases m) auto

lemma ok_or_Err_iff [rust_simps]: "ok_or e m = Err e' \<longleftrightarrow> m = None \<and> e' = e"
  by (cases m) auto

lemma guard_err_Ok_iff [rust_simps]: "guard_err c e r = Ok a \<longleftrightarrow> \<not> c \<and> r = Ok a"
  by (simp add: guard_err_def)

lemma guard_err_Err_iff [rust_simps]:
  "guard_err c e r = Err e' \<longleftrightarrow> (c \<and> e' = e) \<or> (\<not> c \<and> r = Err e')"
  by (auto simp: guard_err_def)

lemma is_ok_iff [rust_simps]: "is_ok r \<longleftrightarrow> (\<exists>a. r = Ok a)"
  by (cases r) auto

lemma collect_results_map_Ok:
  "(\<And>x. x \<in> set xs \<Longrightarrow> f x = Ok (g x)) \<Longrightarrow> collect_results (map f xs) = Ok (map g xs)"
  by (induction xs) auto

lemma collect_results_Ok_iff:
  "collect_results rs = Ok as \<longleftrightarrow> rs = map Ok as"
proof (induction rs arbitrary: as)
  case Nil
  show ?case by auto
next
  case (Cons r rs)
  show ?case by (cases as) (auto simp: rust_simps Cons.IH)
qed

lemma collect_results_length:
  "collect_results rs = Ok as \<Longrightarrow> length as = length rs"
  by (simp add: collect_results_Ok_iff)

section \<open>Actions: mutable state with early returns\<close>

type_synonym ('s, 'a, 'e) action = "'s \<Rightarrow> ('a, 'e) result \<times> 's"

definition pure_act :: "'a \<Rightarrow> ('s, 'a, 'e) action" where
  "pure_act a s = (Ok a, s)"

definition fail_act :: "'e \<Rightarrow> ('s, 'a, 'e) action" where
  "fail_act e s = (Err e, s)"

definition bind_act ::
  "('s, 'a, 'e) action \<Rightarrow> ('a \<Rightarrow> ('s, 'b, 'e) action) \<Rightarrow> ('s, 'b, 'e) action" where
  "bind_act m f s = (case m s of (Ok a, s') \<Rightarrow> f a s' | (Err e, s') \<Rightarrow> (Err e, s'))"

definition modify_act :: "('s \<Rightarrow> 's) \<Rightarrow> ('s, unit, 'e) action" where
  "modify_act f s = (Ok (), f s)"

definition read_act :: "('s \<Rightarrow> 'a) \<Rightarrow> ('s, 'a, 'e) action" where
  "read_act f s = (Ok (f s), s)"

definition lift_act :: "('s \<Rightarrow> ('a, 'e) result) \<Rightarrow> ('s, 'a, 'e) action" where
  "lift_act f s = (f s, s)"

text \<open>A \<open>for\<close> loop whose body may return early.\<close>

fun for_act :: "'a list \<Rightarrow> ('a \<Rightarrow> ('s, unit, 'e) action) \<Rightarrow> ('s, unit, 'e) action" where
  "for_act [] body = pure_act ()"
| "for_act (x # xs) body = bind_act (body x) (\<lambda>_. for_act xs body)"

text \<open>\<open>if let Err(err) = m { error!(..) }\<close>: the error is logged and dropped.\<close>

definition ignore_err :: "('s, unit, 'e) action \<Rightarrow> 's \<Rightarrow> 's" where
  "ignore_err m s = snd (m s)"

lemmas act_simps [rust_simps] =
  pure_act_def fail_act_def modify_act_def read_act_def lift_act_def ignore_err_def

lemma bind_act_Ok [simp]: "m s = (Ok a, s') \<Longrightarrow> bind_act m f s = f a s'"
  by (simp add: bind_act_def)

lemma bind_act_Err [simp]: "m s = (Err e, s') \<Longrightarrow> bind_act m f s = (Err e, s')"
  by (simp add: bind_act_def)

lemma bind_act_Ok_iff:
  "bind_act m f s = (Ok b, t) \<longleftrightarrow> (\<exists>a s'. m s = (Ok a, s') \<and> f a s' = (Ok b, t))"
  by (auto simp: bind_act_def split: prod.splits result.splits)

lemma bind_act_Err_iff:
  "bind_act m f s = (Err e, t) \<longleftrightarrow>
     m s = (Err e, t) \<or> (\<exists>a s'. m s = (Ok a, s') \<and> f a s' = (Err e, t))"
  by (auto simp: bind_act_def split: prod.splits result.splits)

lemma bind_act_assoc: "bind_act (bind_act m f) g = bind_act m (\<lambda>a. bind_act (f a) g)"
  by (auto simp: fun_eq_iff bind_act_def split: prod.splits result.splits)

text \<open>
  \<open>keeps P m\<close>: the state after \<open>m\<close> satisfies \<open>P\<close> if the state before did, whether \<open>m\<close>
  returned \<open>Ok\<close> or \<open>Err\<close>.
\<close>

definition keeps :: "('s \<Rightarrow> bool) \<Rightarrow> ('s, 'a, 'e) action \<Rightarrow> bool" where
  "keeps P m \<longleftrightarrow> (\<forall>s. P s \<longrightarrow> P (snd (m s)))"

lemma keepsI: "(\<And>s. P s \<Longrightarrow> P (snd (m s))) \<Longrightarrow> keeps P m"
  by (simp add: keeps_def)

lemma keepsD: "keeps P m \<Longrightarrow> P s \<Longrightarrow> P (snd (m s))"
  by (simp add: keeps_def)

lemma keeps_pure [keeps_intros]: "keeps P (pure_act a)"
  by (simp add: keeps_def rust_simps)

lemma keeps_fail [keeps_intros]: "keeps P (fail_act e)"
  by (simp add: keeps_def rust_simps)

lemma keeps_read [keeps_intros]: "keeps P (read_act f)"
  by (simp add: keeps_def rust_simps)

lemma keeps_lift [keeps_intros]: "keeps P (lift_act f)"
  by (simp add: keeps_def rust_simps)

lemma keeps_modify [keeps_intros]: "(\<And>s. P s \<Longrightarrow> P (f s)) \<Longrightarrow> keeps P (modify_act f)"
  by (simp add: keeps_def rust_simps)

lemma keeps_bind [keeps_intros]:
  assumes "keeps P m" and "\<And>a. keeps P (f a)"
  shows "keeps P (bind_act m f)"
proof (rule keepsI)
  fix s assume "P s"
  with assms(1) have *: "P (snd (m s))" by (rule keepsD)
  show "P (snd (bind_act m f s))"
  proof (cases "m s")
    case (Pair r s')
    show ?thesis
      using * Pair assms(2) by (cases r) (auto simp: bind_act_def keeps_def)
  qed
qed

lemma keeps_for [keeps_intros]:
  assumes "\<And>x. x \<in> set xs \<Longrightarrow> keeps P (body x)"
  shows "keeps P (for_act xs body)"
  using assms by (induction xs) (auto intro: keeps_intros)

text \<open>What the body of a loop achieves for each element and later rounds do not undo holds in the end.\<close>

lemma for_act_establishes:
  assumes "for_act xs body s = (Ok (), s')" and "I s"
    and inv: "\<And>y s s1. I s \<Longrightarrow> body y s = (Ok (), s1) \<Longrightarrow> I s1"
    and est: "\<And>y s s1. y \<in> set xs \<Longrightarrow> I s \<Longrightarrow> body y s = (Ok (), s1) \<Longrightarrow> Q y s1"
    and mono: "\<And>y z s s1. Q y s \<Longrightarrow> body z s = (Ok (), s1) \<Longrightarrow> Q y s1"
  shows "I s' \<and> (\<forall>y \<in> set xs. Q y s')"
proof -
  have keep: "Q y s'" if "Q y s" "for_act ys body s = (Ok (), s')" for y ys s
    using that
  proof (induction ys arbitrary: s)
    case (Cons z ys)
    then obtain s1 where "body z s = (Ok (), s1)" "for_act ys body s1 = (Ok (), s')" by (auto simp: bind_act_Ok_iff)
    with Cons.IH mono Cons.prems(1) show ?case by blast
  qed (simp add: rust_simps)
  have "I s' \<and> (\<forall>y \<in> set ys. Q y s')" if "set ys \<subseteq> set xs" "for_act ys body s = (Ok (), s')" "I s" for ys s
    using that
  proof (induction ys arbitrary: s)
    case (Cons z ys)
    then obtain s1 where s1: "body z s = (Ok (), s1)" "for_act ys body s1 = (Ok (), s')" by (auto simp: bind_act_Ok_iff)
    with est [of z s s1] Cons.prems have "Q z s1" "I s1" using inv by auto
    with keep [OF this(1) s1(2)] Cons.IH [OF _ s1(2)] Cons.prems(1) show ?case by simp
  qed (simp add: rust_simps)
  from this [OF _ assms(1,2)] show ?thesis by simp
qed

section \<open>Actions on a part of the state\<close>

text \<open>Running an action of a part on the whole.\<close>

definition on_part ::
  "('w \<Rightarrow> 'p) \<Rightarrow> ('p \<Rightarrow> 'w \<Rightarrow> 'w) \<Rightarrow> ('e \<Rightarrow> 'f) \<Rightarrow> ('p, 'a, 'e) action \<Rightarrow> ('w, 'a, 'f) action" where
  "on_part get put err m w = (let (r, p) = m (get w) in (map_err err r, put p w))"

lemma keeps_on_part [keeps_intros]:
  "(\<And>p s. P s \<Longrightarrow> P (put p s)) \<Longrightarrow> keeps P (on_part get put err m)"
  by (auto simp: keeps_def on_part_def Let_def split: prod.splits)

lemma snd_on_part: "snd (on_part get put err m w) = put (snd (m (get w))) w"
  by (simp add: on_part_def Let_def case_prod_beta)

section \<open>Lists: \<open>position\<close> and removal at an index\<close>

fun position :: "('a \<Rightarrow> bool) \<Rightarrow> 'a list \<Rightarrow> nat option" where
  "position p [] = None"
| "position p (x # xs) = (if p x then Some 0 else map_option Suc (position p xs))"

definition remove_at :: "nat \<Rightarrow> 'a list \<Rightarrow> 'a list" where
  "remove_at i xs = take i xs @ drop (Suc i) xs"

text \<open>\<open>str::starts_with\<close> and \<open>str::contains\<close>.\<close>

definition starts_with :: "'a list \<Rightarrow> 'a list \<Rightarrow> bool" where
  "starts_with pre s = (take (length pre) s = pre)"

fun contains_str :: "'a list \<Rightarrow> 'a list \<Rightarrow> bool" where
  "contains_str sub [] = (sub = [])"
| "contains_str sub (c # cs) = (take (length sub) (c # cs) = sub \<or> contains_str sub cs)"

section \<open>Strings and bytes\<close>

text \<open>A string is the list of its UTF-8 bytes.\<close>

definition as_bytes :: "string \<Rightarrow> bytes" where
  "as_bytes s = map of_char s"

definition utf8_continues :: "byte \<Rightarrow> bool" where
  "utf8_continues b \<longleftrightarrow> 0x80 \<le> b \<and> b \<le> 0xBF"

text \<open>The first two bytes of a character of three and of four bytes.\<close>

definition utf8_lead3 :: "byte \<Rightarrow> byte \<Rightarrow> bool" where
  "utf8_lead3 a b \<longleftrightarrow>
     (a = 0xE0 \<and> 0xA0 \<le> b \<and> b \<le> 0xBF) \<or> (0xE1 \<le> a \<and> a \<le> 0xEC \<and> utf8_continues b) \<or>
     (a = 0xED \<and> 0x80 \<le> b \<and> b \<le> 0x9F) \<or> (0xEE \<le> a \<and> a \<le> 0xEF \<and> utf8_continues b)"

definition utf8_lead4 :: "byte \<Rightarrow> byte \<Rightarrow> bool" where
  "utf8_lead4 a b \<longleftrightarrow>
     (a = 0xF0 \<and> 0x90 \<le> b \<and> b \<le> 0xBF) \<or> (0xF1 \<le> a \<and> a \<le> 0xF3 \<and> utf8_continues b) \<or>
     (a = 0xF4 \<and> 0x80 \<le> b \<and> b \<le> 0x8F)"

fun utf8_valid :: "bytes \<Rightarrow> bool" where
  "utf8_valid [] \<longleftrightarrow> True"
| "utf8_valid [a] \<longleftrightarrow> a < 0x80"
| "utf8_valid [a, b] \<longleftrightarrow>
     (if a < 0x80 then utf8_valid [b] else 0xC2 \<le> a \<and> a \<le> 0xDF \<and> utf8_continues b)"
| "utf8_valid [a, b, c] \<longleftrightarrow>
     (if a < 0x80 then utf8_valid [b, c]
      else if 0xC2 \<le> a \<and> a \<le> 0xDF then utf8_continues b \<and> utf8_valid [c]
      else utf8_lead3 a b \<and> utf8_continues c)"
| "utf8_valid (a # b # c # d # bs) \<longleftrightarrow>
     (if a < 0x80 then utf8_valid (b # c # d # bs)
      else if 0xC2 \<le> a \<and> a \<le> 0xDF then utf8_continues b \<and> utf8_valid (c # d # bs)
      else if utf8_lead3 a b then utf8_continues c \<and> utf8_valid (d # bs)
      else utf8_lead4 a b \<and> utf8_continues c \<and> utf8_continues d \<and> utf8_valid bs)"

definition from_utf8 :: "bytes \<Rightarrow> (string, string) result" where
  "from_utf8 bs = (if utf8_valid bs then Ok (map (\<lambda>b. char_of (unat b)) bs) else Err ''invalid utf-8 sequence'')"

text \<open>\<open>join\<close> of a list of strings.\<close>

fun join_texts :: "string \<Rightarrow> string list \<Rightarrow> string" where
  "join_texts sep [] = ''''"
| "join_texts sep [t] = t"
| "join_texts sep (t # ts) = t @ sep @ join_texts sep ts"

section \<open>Serialization\<close>

text \<open>
  The protobuf code that reads and writes the messages is generated by the build, so it is a
  parameter: a \<open>codec\<close> per message type. What the sources rely on is \<open>round_trip\<close>: bytes written by
  \<open>write_to_bytes\<close> are read back as the same message by \<open>parse_from_bytes\<close>.
\<close>

record 'm codec =
  write_to_bytes :: "'m \<Rightarrow> (bytes, string) result"
  parse_from_bytes :: "bytes \<Rightarrow> ('m, string) result"

definition round_trip :: "'m codec \<Rightarrow> bool" where
  "round_trip c \<longleftrightarrow> (\<forall>m b. write_to_bytes c m = Ok b \<longrightarrow> parse_from_bytes c b = Ok m)"

text \<open>A codec for the messages of a list, each written as its index; used in the concrete instances.\<close>

definition table_codec :: "'m list \<Rightarrow> 'm codec" where
  "table_codec ms = \<lparr>
     write_to_bytes = (\<lambda>m. case position (\<lambda>x. x = m) (take 256 ms) of
        Some i \<Rightarrow> Ok [of_nat i] | None \<Rightarrow> Err ''no encoding''),
     parse_from_bytes = (\<lambda>b. case b of
        [w] \<Rightarrow> if unat w < length ms then Ok (ms ! unat w) else Err ''no message''
      | _ \<Rightarrow> Err ''no message'')\<rparr>"

section \<open>Channels\<close>

text \<open>The sending half of a channel: \<open>send\<close> queues the message as long as the receiver exists.\<close>

record 'm channel =
  chan_open :: bool
  chan_queue :: "'m list"

definition chan_send :: "'m \<Rightarrow> ('m channel, unit, unit) action" where
  "chan_send m c =
     (if chan_open c then (Ok (), c\<lparr>chan_queue := chan_queue c @ [m]\<rparr>) else (Err (), c))"

section \<open>Facts about positions and codecs\<close>

lemma position_None_iff: "position p xs = None \<longleftrightarrow> (\<forall>x \<in> set xs. \<not> p x)"
  by (induction xs) auto

lemma position_SomeD:
  assumes "position p xs = Some i"
  shows "i < length xs" and "p (xs ! i)" and "\<And>j. j < i \<Longrightarrow> \<not> p (xs ! j)"
proof -
  have "i < length xs \<and> p (xs ! i) \<and> (\<forall>j < i. \<not> p (xs ! j))"
    using assms
  proof (induction xs arbitrary: i)
    case Nil
    then show ?case by simp
  next
    case (Cons x xs)
    show ?case
    proof (cases "p x")
      case True
      with Cons.prems show ?thesis by auto
    next
      case False
      with Cons.prems obtain k where k: "position p xs = Some k" and i: "i = Suc k" by auto
      from Cons.IH [OF k] i False show ?thesis by (auto simp: less_Suc_eq_0_disj)
    qed
  qed
  then show "i < length xs" and "p (xs ! i)" and "\<And>j. j < i \<Longrightarrow> \<not> p (xs ! j)"
    by blast+
qed

lemma position_ex: "(\<exists>x \<in> set xs. p x) \<Longrightarrow> \<exists>i. position p xs = Some i"
  using position_None_iff [of p xs] by (cases "position p xs") auto

lemma remove_at_0 [simp]: "remove_at 0 (x # xs) = xs"
  by (simp add: remove_at_def)

lemma remove_at_Suc [simp]: "remove_at (Suc i) (x # xs) = x # remove_at i xs"
  by (simp add: remove_at_def)

lemma set_remove_at_subset: "set (remove_at i xs) \<subseteq> set xs"
  by (auto simp: remove_at_def dest: in_set_takeD in_set_dropD)

lemma length_remove_at: "i < length xs \<Longrightarrow> length (remove_at i xs) = length xs - 1"
  by (simp add: remove_at_def min_def)

lemma split_at_index:
  "i < length xs \<Longrightarrow> xs = take i xs @ xs ! i # drop (Suc i) xs"
  by (rule id_take_nth_drop)

lemma set_remove_at:
  assumes "i < length xs"
  shows "set xs = insert (xs ! i) (set (remove_at i xs))"
  by (subst split_at_index [OF assms]) (auto simp: remove_at_def)

lemma map_remove_at: "map f (remove_at i xs) = remove_at i (map f xs)"
  by (simp add: remove_at_def take_map drop_map)

lemma distinct_remove_at: "distinct xs \<Longrightarrow> distinct (remove_at i xs)"
proof (induction xs arbitrary: i)
  case Nil
  then show ?case by (simp add: remove_at_def)
next
  case (Cons x xs)
  then show ?case
    using set_remove_at_subset [of _ xs] by (cases i) auto
qed

lemma distinct_remove_at_nth:
  assumes "distinct xs" and "i < length xs"
  shows "xs ! i \<notin> set (remove_at i xs)"
proof -
  have "distinct (take i xs @ xs ! i # drop (Suc i) xs)"
    using assms split_at_index by metis
  then show ?thesis by (auto simp: remove_at_def)
qed

lemma as_bytes_inj: "as_bytes s = as_bytes s' \<Longrightarrow> s = s'"
proof -
  have "inj (of_char :: char \<Rightarrow> byte)"
  proof (rule injI)
    fix c d :: char assume "(of_char c :: byte) = of_char d"
    then have "unat (of_char c :: byte) = unat (of_char d :: byte)" by simp
    moreover have "unat (of_char e :: byte) = of_char e" for e
    proof -
      have "(of_char e :: byte) = of_nat (of_char e)" by (rule of_nat_of_char [symmetric])
      then have "unat (of_char e :: byte) = of_char e mod 2 ^ 8" by (simp add: unat_of_nat)
      then show ?thesis by simp
    qed
    ultimately show "c = d" by simp
  qed
  then show "as_bytes s = as_bytes s' \<Longrightarrow> s = s'" by (simp add: as_bytes_def inj_map_eq_map)
qed

lemma round_tripD: "round_trip c \<Longrightarrow> write_to_bytes c m = Ok b \<Longrightarrow> parse_from_bytes c b = Ok m"
  by (simp add: round_trip_def)

lemma round_trip_inj:
  "round_trip c \<Longrightarrow> write_to_bytes c m = Ok b \<Longrightarrow> write_to_bytes c m' = Ok b \<Longrightarrow> m = m'"
  using round_tripD [of c m b] round_tripD [of c m' b] by simp

lemma round_trip_table: "round_trip (table_codec ms)"
  unfolding round_trip_def
proof (intro allI impI)
  fix m b assume "write_to_bytes (table_codec ms) m = Ok b"
  then obtain i where i: "position (\<lambda>x. x = m) (take 256 ms) = Some i" and b: "b = [of_nat i]"
    by (auto simp: table_codec_def split: option.splits)
  note * = position_SomeD [OF i]
  then have "unat (of_nat i :: byte) = i" by (simp add: unat_of_nat)
  with * b show "parse_from_bytes (table_codec ms) b = Ok m"
    by (simp add: table_codec_def)
qed

end
