(* ===== verification/Hex.thy ===== *)
theory Hex
  imports Splinter_Prelude
begin

text \<open>
  The hexadecimal codec of \<^verbatim>\<open>libsplinter/src/hex.rs\<close>. Keys are stored under their hexadecimal
  form (\<^verbatim>\<open>keys/storage.rs\<close>) and hashes are compared as hexadecimal strings, so the round trip
  of the codec is what the key registry rests on.

  A Rust \<open>&str\<close> is its list of UTF-8 bytes (\<open>string\<close>, a list of 8-bit characters).
  \<open>parse_hex\<close> slices the string two bytes at a time; slicing inside a multi-byte character
  panics, which is the error value \<open>HexSlicePanic\<close> here. The digit parser is
  \<open>u8::from_str_radix\<close> of the standard library: an optional leading plus sign, then digits with
  checked multiplication and addition.
\<close>

section \<open>Encoding\<close>

definition hex_digit :: "nat \<Rightarrow> char" where
  "hex_digit n = (if n < 10 then char_of (48 + n) else char_of (87 + n))"

text \<open>The format string \<^verbatim>\<open>{:02x}\<close> applied to one byte.\<close>

definition byte_to_hex :: "byte \<Rightarrow> string" where
  "byte_to_hex b = [hex_digit (unat b div 16), hex_digit (unat b mod 16)]"

fun to_hex :: "bytes \<Rightarrow> string" where
  "to_hex [] = []"
| "to_hex (b # bs) = byte_to_hex b @ to_hex bs"

section \<open>Decoding\<close>

datatype parse_int_error = IntEmpty | InvalidDigit | IntOverflow

datatype hex_error =
    HexOddDigits string
  | HexInvalid string parse_int_error
  | HexSlicePanic

definition to_digit16 :: "char \<Rightarrow> nat option" where
  "to_digit16 c =
     (let n = of_char c in
      if 48 \<le> n \<and> n \<le> 57 then Some (n - 48)
      else if 97 \<le> n \<and> n \<le> 102 then Some (n - 87)
      else if 65 \<le> n \<and> n \<le> 70 then Some (n - 55)
      else None)"

fun from_digits16 :: "nat \<Rightarrow> string \<Rightarrow> (nat, parse_int_error) result" where
  "from_digits16 acc [] = Ok acc"
| "from_digits16 acc (c # cs) =
     (case to_digit16 c of
        None \<Rightarrow> Err InvalidDigit
      | Some d \<Rightarrow>
          if 255 < acc * 16 then Err IntOverflow
          else if 255 < acc * 16 + d then Err IntOverflow
          else from_digits16 (acc * 16 + d) cs)"

definition from_str_radix16_u8 :: "string \<Rightarrow> (byte, parse_int_error) result" where
  "from_str_radix16_u8 s =
     (case s of
        [] \<Rightarrow> Err IntEmpty
      | c # cs \<Rightarrow>
          let digits = (if c = CHR ''+'' then cs else s) in
          if digits = [] then Err IntEmpty
          else map_result of_nat (from_digits16 0 digits))"

text \<open>A byte index is a character boundary unless it points at a UTF-8 continuation byte.\<close>

definition continuation_byte :: "char \<Rightarrow> bool" where
  "continuation_byte c \<longleftrightarrow> (128 :: nat) \<le> of_char c \<and> (of_char c :: nat) < 192"

fun parse_hex_pairs :: "string \<Rightarrow> string \<Rightarrow> (bytes, hex_error) result" where
  "parse_hex_pairs hex (c # d # cs) =
     (if continuation_byte c \<or> (cs \<noteq> [] \<and> continuation_byte (hd cs)) then Err HexSlicePanic
      else bind_result (map_err (HexInvalid hex) (from_str_radix16_u8 [c, d]))
             (\<lambda>b. bind_result (parse_hex_pairs hex cs) (\<lambda>bs. Ok (b # bs))))"
| "parse_hex_pairs hex _ = Ok []"

definition parse_hex :: "string \<Rightarrow> (bytes, hex_error) result" where
  "parse_hex hex =
     (if length hex mod 2 \<noteq> 0 then Err (HexOddDigits hex) else parse_hex_pairs hex hex)"

text \<open>\<open>Display\<close> of the errors; a panic has none.\<close>

fun parse_int_error_text :: "parse_int_error \<Rightarrow> string" where
  "parse_int_error_text IntEmpty = ''cannot parse integer from empty string''"
| "parse_int_error_text InvalidDigit = ''invalid digit found in string''"
| "parse_int_error_text IntOverflow = ''number too large to fit in target type''"

fun hex_error_text :: "hex_error \<Rightarrow> string" where
  "hex_error_text (HexOddDigits hex) = hex @ '' is not valid hex: odd number of digits''"
| "hex_error_text (HexInvalid hex err) = hex @ '' contains invalid hex: '' @ parse_int_error_text err"
| "hex_error_text HexSlicePanic = ''''"

section \<open>Digits\<close>

lemma unat_byte_less: "unat (b :: byte) < 256"
  by (rule order_less_le_trans [OF unsigned_less]) simp

lemma of_char_hex_digit:
  "n < 16 \<Longrightarrow> of_char (hex_digit n) = (if n < 10 then 48 + n else 87 + n :: nat)"
  by (simp add: hex_digit_def of_char_of)

lemma to_digit16_hex_digit [simp]: "n < 16 \<Longrightarrow> to_digit16 (hex_digit n) = Some n"
  by (auto simp: to_digit16_def of_char_hex_digit Let_def)

lemma hex_digit_ascii: "n < 16 \<Longrightarrow> of_char (hex_digit n) < (128 :: nat)"
  by (simp add: of_char_hex_digit)

lemma hex_digit_not_plus: "n < 16 \<Longrightarrow> hex_digit n \<noteq> CHR ''+''"
proof
  assume n: "n < 16" and eq: "hex_digit n = CHR ''+''"
  have "(of_char (hex_digit n) :: nat) = 43" by (simp add: eq)
  with n show False by (simp add: of_char_hex_digit split: if_splits)
qed

lemma to_digit16_bound: "to_digit16 c = Some d \<Longrightarrow> d < 16"
  by (auto simp: to_digit16_def Let_def split: if_splits)

lemma to_digit16_ascii: "to_digit16 c = Some d \<Longrightarrow> of_char c < (128 :: nat)"
  by (auto simp: to_digit16_def Let_def split: if_splits)

lemma to_digit16_not_plus: "to_digit16 c = Some d \<Longrightarrow> c \<noteq> CHR ''+''"
  by (auto simp: to_digit16_def Let_def split: if_splits)

lemma not_continuation_if_digit: "to_digit16 c \<noteq> None \<Longrightarrow> \<not> continuation_byte c"
  using to_digit16_ascii by (fastforce simp: continuation_byte_def)

lemma from_str_radix16_two_digits:
  assumes "to_digit16 c = Some h" and "to_digit16 d = Some l"
  shows "from_str_radix16_u8 [c, d] = Ok (of_nat (16 * h + l))"
proof -
  have "h < 16" "l < 16" using assms by (auto dest: to_digit16_bound)
  with assms to_digit16_not_plus [OF assms(1)] show ?thesis
    by (simp add: from_str_radix16_u8_def mult.commute)
qed

lemma from_str_radix16_byte_to_hex: "from_str_radix16_u8 (byte_to_hex b) = Ok b"
proof -
  have "unat b div 16 < 16" using unat_byte_less [of b] by simp
  then have "from_str_radix16_u8 (byte_to_hex b) =
      Ok (of_nat (16 * (unat b div 16) + unat b mod 16))"
    unfolding byte_to_hex_def by (intro from_str_radix16_two_digits) simp_all
  also have "16 * (unat b div 16) + unat b mod 16 = unat b" by simp
  finally show ?thesis by simp
qed

section \<open>The round trip\<close>

lemma length_to_hex [simp]: "length (to_hex bs) = 2 * length bs"
  by (induction bs) (auto simp: byte_to_hex_def)

lemma to_hex_digits: "c \<in> set (to_hex bs) \<Longrightarrow> to_digit16 c \<noteq> None"
proof (induction bs)
  case Nil
  then show ?case by simp
next
  case (Cons b bs)
  have "unat b div 16 < 16" using unat_byte_less [of b] by simp
  with Cons show ?case by (auto simp: byte_to_hex_def)
qed

lemma hd_to_hex_not_continuation: "to_hex bs \<noteq> [] \<Longrightarrow> \<not> continuation_byte (hd (to_hex bs))"
  by (intro not_continuation_if_digit to_hex_digits [of _ bs]) simp

lemma parse_hex_pairs_to_hex: "parse_hex_pairs hex (to_hex bs) = Ok bs"
proof (induction bs)
  case Nil
  show ?case by simp
next
  case (Cons b bs)
  obtain c d where cd: "byte_to_hex b = [c, d]" by (simp add: byte_to_hex_def)
  have "\<not> continuation_byte c"
    using to_hex_digits [of c "b # bs"] cd by (intro not_continuation_if_digit) simp
  moreover have "\<not> (to_hex bs \<noteq> [] \<and> continuation_byte (hd (to_hex bs)))"
    using hd_to_hex_not_continuation by blast
  ultimately show ?case
    using from_str_radix16_byte_to_hex [of b] Cons.IH cd by simp
qed

lemma parse_hex_to_hex: "parse_hex (to_hex bs) = Ok bs"
  by (simp add: parse_hex_def parse_hex_pairs_to_hex)

lemma to_hex_inject [simp]: "to_hex as = to_hex bs \<longleftrightarrow> as = bs"
proof
  assume "to_hex as = to_hex bs"
  then have "parse_hex (to_hex as) = parse_hex (to_hex bs)" by (rule arg_cong)
  then show "as = bs" by (simp add: parse_hex_to_hex)
qed simp

section \<open>What is accepted\<close>

definition ascii_lower :: "char \<Rightarrow> char" where
  "ascii_lower c =
     (let n = of_char c :: nat in if 65 \<le> n \<and> n \<le> 90 then char_of (n + 32) else c)"

lemma hex_digit_to_digit16: "to_digit16 c = Some d \<Longrightarrow> hex_digit d = ascii_lower c"
  by (auto simp: to_digit16_def ascii_lower_def hex_digit_def Let_def split: if_splits)

lemma byte_to_hex_of_digits:
  assumes "to_digit16 c = Some h" and "to_digit16 d = Some l"
  shows "byte_to_hex (of_nat (16 * h + l)) = [ascii_lower c, ascii_lower d]"
proof -
  have hl: "h < 16" "l < 16" using assms by (auto dest: to_digit16_bound)
  then have "unat (of_nat (16 * h + l) :: byte) = 16 * h + l"
    by (simp add: unat_of_nat del: of_nat_add of_nat_mult)
  with hl assms show ?thesis
    by (simp add: byte_to_hex_def hex_digit_to_digit16 del: of_nat_add of_nat_mult)
qed

lemma parse_hex_pairs_digits:
  assumes "list_all (\<lambda>c. to_digit16 c \<noteq> None) s" and "even (length s)"
  shows "\<exists>bs. parse_hex_pairs hex s = Ok bs \<and> to_hex bs = map ascii_lower s"
  using assms
proof (induction hex s rule: parse_hex_pairs.induct)
  case (1 hex c d cs)
  from "1.prems" obtain h l where d: "to_digit16 c = Some h" "to_digit16 d = Some l" by auto
  have ok: "\<not> (continuation_byte c \<or> (cs \<noteq> [] \<and> continuation_byte (hd cs)))"
    using "1.prems"(1) not_continuation_if_digit by (cases cs) auto
  with "1.IH" d "1.prems" obtain bs where
    bs: "parse_hex_pairs hex cs = Ok bs" "to_hex bs = map ascii_lower cs"
    by (auto simp: from_str_radix16_two_digits)
  with ok d show ?case
    by (simp add: from_str_radix16_two_digits byte_to_hex_of_digits
        del: of_nat_add of_nat_mult)
qed auto

lemma parse_hex_pairs_length:
  "parse_hex_pairs hex s = Ok bs \<Longrightarrow> even (length s) \<Longrightarrow> length s = 2 * length bs"
  by (induction hex s arbitrary: bs rule: parse_hex_pairs.induct)
    (auto simp: rust_simps split: if_splits)

section \<open>Properties\<close>

text \<open>Decoding what \<open>to_hex\<close> printed returns the bytes: no key is lost or confused by being
  stored under its hexadecimal form.\<close>

theorem hex_round_trip: "parse_hex (to_hex bs) = Ok bs"
  by (rule parse_hex_to_hex)

text \<open>Every string of hexadecimal digits of even length is decoded, and printing the result
  gives the string back in lower case.\<close>

theorem hex_digits_accepted:
  assumes "list_all (\<lambda>c. to_digit16 c \<noteq> None) s" and "even (length s)"
  shows "\<exists>bs. parse_hex s = Ok bs \<and> to_hex bs = map ascii_lower s"
proof -
  from assms obtain bs where "parse_hex_pairs s s = Ok bs" "to_hex bs = map ascii_lower s"
    using parse_hex_pairs_digits by blast
  with assms(2) show ?thesis by (simp add: parse_hex_def even_iff_mod_2_eq_zero)
qed

theorem hex_digits_accepted_witness:
  "parse_hex ''0aFf'' = Ok [10, 255] \<and>
   (\<exists>bs. parse_hex ''0aFf'' = Ok bs \<and> to_hex bs = map ascii_lower ''0aFf'')"
proof
  show "parse_hex ''0aFf'' = Ok [10, 255]"
    by (simp add: parse_hex_def from_str_radix16_u8_def to_digit16_def continuation_byte_def)
  show "\<exists>bs. parse_hex ''0aFf'' = Ok bs \<and> to_hex bs = map ascii_lower ''0aFf''"
    by (rule hex_digits_accepted) (simp_all add: to_digit16_def)
qed

text \<open>The decoder also accepts strings that are not hexadecimal: a pair may be a plus sign and
  one digit, because \<open>from_str_radix\<close> allows a sign. Such a string does not survive a round
  trip.\<close>

theorem parse_hex_accepts_sign:
  "parse_hex ''+a'' = Ok [10] \<and> to_hex [10] = ''0a'' \<and> to_digit16 (CHR ''+'') = None"
  by code_simp

end
