(* ===== verification/Paging.thy ===== *)
theory Paging
  imports Hex
begin

text \<open>
  Paging of the REST interface of the daemon: \<open>get_response_paging_info\<close> and its links
  (\<^verbatim>\<open>splinterd/src/routes/mod.rs\<close>), and the numbers in a query and in a link, which the standard library reads
  and writes (\<open>str::parse::<usize>\<close> and \<open>Display for usize\<close>).

  A \<open>usize\<close> is a natural number up to \<open>usize_max\<close>. The addition of offset and limit wraps, as in a release build
  (a debug build panics there); the division by a limit of 0 panics in both, which is the value \<open>None\<close>.
\<close>

section \<open>Decimal numbers\<close>

definition decimal_digit :: "nat \<Rightarrow> char" where
  "decimal_digit d = char_of (48 + d)"

fun decimal :: "nat \<Rightarrow> string" where
  "decimal n = (if n < 10 then [decimal_digit n] else decimal (n div 10) @ [decimal_digit (n mod 10)])"

declare decimal.simps [simp del]

definition to_digit10 :: "char \<Rightarrow> nat option" where
  "to_digit10 c = (let n = of_char c in if 48 \<le> n \<and> n \<le> 57 then Some (n - 48) else None)"

fun parse_digits10 :: "nat \<Rightarrow> string \<Rightarrow> (nat, parse_int_error) result" where
  "parse_digits10 acc [] = Ok acc"
| "parse_digits10 acc (c # cs) =
     (case to_digit10 c of
        None \<Rightarrow> Err InvalidDigit
      | Some d \<Rightarrow>
          if usize_max < acc * 10 then Err IntOverflow
          else if usize_max < acc * 10 + d then Err IntOverflow
          else parse_digits10 (acc * 10 + d) cs)"

definition parse_usize :: "string \<Rightarrow> (nat, parse_int_error) result" where
  "parse_usize s =
     (case s of
        [] \<Rightarrow> Err IntEmpty
      | c # cs \<Rightarrow>
          let digits = (if c = CHR ''+'' then cs else s) in
          if digits = [] then Err IntEmpty else parse_digits10 0 digits)"

section \<open>Paging\<close>

definition DEFAULT_LIMIT :: nat where
  "DEFAULT_LIMIT = 100"

definition DEFAULT_OFFSET :: nat where
  "DEFAULT_OFFSET = 0"

record paging =
  pg_current :: string
  pg_offset :: nat
  pg_limit :: nat
  pg_total :: nat
  pg_first :: string
  pg_prev :: string
  pg_next :: string
  pg_last :: string

definition unwrap_or :: "'a option \<Rightarrow> 'a \<Rightarrow> 'a" where
  "unwrap_or x d = (case x of Some a \<Rightarrow> a | None \<Rightarrow> d)"

definition base_link :: "string \<Rightarrow> nat \<Rightarrow> string" where
  "base_link link limit = link @ ''limit='' @ decimal limit @ ''&''"

definition offset_link :: "string \<Rightarrow> nat \<Rightarrow> nat \<Rightarrow> string" where
  "offset_link link limit offset = base_link link limit @ ''offset='' @ decimal offset"

definition previous_offset :: "nat \<Rightarrow> nat \<Rightarrow> nat" where
  "previous_offset limit offset = (if limit < offset then offset - limit else 0)"

definition last_offset :: "nat \<Rightarrow> nat \<Rightarrow> nat option" where
  "last_offset limit query_count =
     (if 0 < query_count then
        if limit = 0 then None else Some (((query_count - 1) div limit) * limit)
      else Some 0)"

definition next_offset :: "nat \<Rightarrow> nat \<Rightarrow> nat \<Rightarrow> nat" where
  "next_offset limit offset final =
     (let sum = (offset + limit) mod Suc usize_max in if final < sum then final else sum)"

definition get_response_paging_info :: "nat option \<Rightarrow> nat option \<Rightarrow> string \<Rightarrow> nat \<Rightarrow> paging option" where
  "get_response_paging_info limit offset link query_count =
     (let limit = unwrap_or limit DEFAULT_LIMIT;
          offset = unwrap_or offset DEFAULT_OFFSET
      in map_option (\<lambda>final.
           \<lparr>pg_current = offset_link link limit offset, pg_offset = offset, pg_limit = limit, pg_total = query_count,
            pg_first = base_link link limit @ ''offset=0'',
            pg_prev = offset_link link limit (previous_offset limit offset),
            pg_next = offset_link link limit (next_offset limit offset final),
            pg_last = offset_link link limit final\<rparr>)
         (last_offset limit query_count))"

section \<open>Numbers\<close>

lemma to_digit10_decimal [simp]: "d < 10 \<Longrightarrow> to_digit10 (decimal_digit d) = Some d"
  by (simp add: to_digit10_def decimal_digit_def of_char_of Let_def)

lemma decimal_digit_not_plus: "d < 10 \<Longrightarrow> decimal_digit d \<noteq> CHR ''+''"
proof
  assume d: "d < 10" and "decimal_digit d = CHR ''+''"
  then have "to_digit10 (CHR ''+'') = Some d" using to_digit10_decimal by metis
  then show False by (simp add: to_digit10_def)
qed

lemma parse_digits10_append:
  "parse_digits10 acc (xs @ ys) = bind_result (parse_digits10 acc xs) (\<lambda>a. parse_digits10 a ys)"
  by (induction acc xs rule: parse_digits10.induct) (auto split: option.split)

lemma parse_digits10_decimal: "n \<le> usize_max \<Longrightarrow> parse_digits10 0 (decimal n) = Ok n"
proof (induction n rule: decimal.induct)
  case (1 n)
  show ?case
  proof (cases "n < 10")
    case True
    with "1.prems" show ?thesis by (simp add: decimal.simps)
  next
    case False
    have "n div 10 \<le> usize_max" using "1.prems" div_le_dividend order_trans by blast
    with "1.IH" False have IH: "parse_digits10 0 (decimal (n div 10)) = Ok (n div 10)" by simp
    have "n div 10 * 10 + n mod 10 = n" "n div 10 * 10 \<le> n" by simp_all
    with "1.prems" False show ?thesis
      by (subst decimal.simps) (simp add: parse_digits10_append IH)
  qed
qed

lemma decimal_not_empty [simp]: "decimal n \<noteq> []"
  by (subst decimal.simps) simp

lemma hd_decimal: "hd (decimal n) \<noteq> CHR ''+''"
proof (induction n rule: decimal.induct)
  case (1 n)
  then show ?case by (subst decimal.simps) (simp add: decimal_digit_not_plus)
qed

text \<open>Reading a number that was printed gives the number back.\<close>

lemma parse_usize_decimal:
  assumes "n \<le> usize_max"
  shows "parse_usize (decimal n) = Ok n"
proof -
  obtain c cs where c: "decimal n = c # cs" by (cases "decimal n") auto
  with hd_decimal [of n] have "c \<noteq> CHR ''+''" by simp
  with c parse_digits10_decimal [OF assms] show ?thesis by (simp add: parse_usize_def)
qed

section \<open>Following the links\<close>

text \<open>The offsets a client comes to from \<open>offset\<close> by following the links to the next page while they lead on.\<close>

definition page :: "nat \<Rightarrow> nat \<Rightarrow> 'a list \<Rightarrow> 'a list" where
  "page limit offset xs = take limit (drop offset xs)"

function walk :: "nat \<Rightarrow> nat \<Rightarrow> nat \<Rightarrow> nat list" where
  "walk limit final offset =
     (let following = next_offset limit offset final
      in if following \<le> offset then [offset] else offset # walk limit final following)"
  by pat_completeness auto

termination
  by (relation "measure (\<lambda>(limit, final, offset). final - offset)") (auto simp: next_offset_def Let_def split: if_splits)

declare walk.simps [simp del]

lemma next_offset_bound: "next_offset limit offset final \<le> final"
  by (simp add: next_offset_def Let_def)

lemma next_offset_exact:
  "offset + limit \<le> usize_max \<Longrightarrow> next_offset limit offset final = min (offset + limit) final"
  by (auto simp: next_offset_def Let_def)

lemma last_page:
  assumes "0 < limit" and "last_offset limit count = Some final"
  shows "final \<le> count" and "count \<le> final + limit" and "limit dvd final"
proof -
  show "final \<le> count"
  proof (cases "count = 0")
    case False
    have "(count - 1) div limit * limit \<le> count - 1" by (rule div_times_less_eq_dividend)
    with assms False show ?thesis by (auto simp: last_offset_def split: if_splits)
  qed (use assms in \<open>auto simp: last_offset_def\<close>)
  show "count \<le> final + limit"
  proof (cases "count = 0")
    case False
    have "count - 1 < (count - 1) div limit * limit + limit"
      using assms(1) dividend_less_div_times [of limit "count - 1"] by (simp add: algebra_simps)
    with assms False show ?thesis by (auto simp: last_offset_def split: if_splits)
  qed simp
  show "limit dvd final" using assms by (auto simp: last_offset_def split: if_splits)
qed

lemma page_drop: "page limit offset xs @ drop (offset + limit) xs = drop offset xs"
  by (simp add: page_def add.commute flip: drop_drop)

lemma walk_covers:
  assumes "0 < limit" and "last_offset limit (length xs) = Some final" and "length xs + limit \<le> usize_max"
    and "offset \<le> final" and "limit dvd offset"
  shows "concat (map (\<lambda>i. page limit i xs) (walk limit final offset)) = drop offset xs"
  using assms(4,5)
proof (induction "final - offset" arbitrary: offset rule: less_induct)
  case less
  note l = last_page [OF assms(1,2)]
  have following: "next_offset limit offset final = min (offset + limit) final"
    by (rule next_offset_exact) (use less.prems l assms(3) in simp)
  show ?case
  proof (cases "offset = final")
    case True
    with following l(2) assms(1) show ?thesis by (subst walk.simps) (simp add: page_def)
  next
    case False
    have "offset + limit \<le> final"
    proof -
      from l(3) less.prems(2) obtain a b where ab: "final = limit * a" "offset = limit * b" by (auto elim!: dvdE)
      with less.prems(1) False assms(1) have "b < a" by auto
      then have "limit * Suc b \<le> limit * a" by (intro mult_le_mono) simp_all
      with ab show ?thesis by simp
    qed
    with following have n: "next_offset limit offset final = offset + limit" by simp
    have "concat (map (\<lambda>i. page limit i xs) (walk limit final (offset + limit))) = drop (offset + limit) xs"
      by (rule less.hyps) (use \<open>offset + limit \<le> final\<close> assms(1) less.prems in auto)
    with n assms(1) page_drop [of limit offset xs] show ?thesis by (subst walk.simps) (simp add: Let_def)
  qed
qed

end
