(* ===== verification/Consensus.thy ===== *)
theory Consensus
  imports Splinter_Prelude "HOL-Library.List_Lexorder"
begin

text \<open>
  The consensus interface of \<^verbatim>\<open>libsplinter/src/consensus/mod.rs\<close> and its errors
  (\<^verbatim>\<open>consensus/error.rs\<close>): peer and proposal ids, proposals, the updates a proposal manager sends to
  an engine, consensus messages, and their conversions to and from the protobuf messages.

  An engine acts on its environment only by calling the proposal manager and the network sender,
  whose methods return \<open>Result<(), _>\<close>. A call is an \<open>effect\<close>; an environment is a function from the
  calls made so far, with their results, to the result of the next call.
\<close>

section \<open>Ids\<close>

datatype peer_id = PeerId (peer_id_bytes: bytes)
datatype proposal_id = ProposalId (proposal_id_bytes: bytes)

text \<open>\<open>impl Ord for PeerId\<close>: the order of the byte strings.\<close>

instantiation peer_id :: linorder
begin

definition less_eq_peer_id :: "peer_id \<Rightarrow> peer_id \<Rightarrow> bool" where
  "p \<le> q \<longleftrightarrow> peer_id_bytes p \<le> peer_id_bytes q"

definition less_peer_id :: "peer_id \<Rightarrow> peer_id \<Rightarrow> bool" where
  "p < q \<longleftrightarrow> peer_id_bytes p < peer_id_bytes q"

instance
  by standard
    (auto simp: less_eq_peer_id_def less_peer_id_def less_le_not_le intro: peer_id.expand)

end

definition default_peer_id :: peer_id where
  "default_peer_id = PeerId []"

section \<open>Proposals and their protobuf form\<close>

record proposal =
  prop_id :: proposal_id
  previous_id :: proposal_id
  proposal_height :: "64 word"
  summary :: bytes
  consensus_data :: bytes

record proposal_proto =
  pp_id :: bytes
  pp_previous_id :: bytes
  pp_proposal_height :: "64 word"
  pp_summary :: bytes
  pp_consensus_data :: bytes

text \<open>\<open>#[derive(Default)]\<close>.\<close>

definition proposal_default :: proposal where
  "proposal_default = \<lparr>prop_id = ProposalId [], previous_id = ProposalId [], proposal_height = 0,
     summary = [], consensus_data = []\<rparr>"

definition proposal_from_proto :: "proposal_proto \<Rightarrow> proposal" where
  "proposal_from_proto p =
     \<lparr>prop_id = ProposalId (pp_id p), previous_id = ProposalId (pp_previous_id p),
      proposal_height = pp_proposal_height p, summary = pp_summary p,
      consensus_data = pp_consensus_data p\<rparr>"

definition proposal_into_proto :: "proposal \<Rightarrow> proposal_proto" where
  "proposal_into_proto p =
     \<lparr>pp_id = proposal_id_bytes (prop_id p), pp_previous_id = proposal_id_bytes (previous_id p),
      pp_proposal_height = proposal_height p, pp_summary = summary p,
      pp_consensus_data = consensus_data p\<rparr>"

definition proposal_try_from :: "proposal_proto codec \<Rightarrow> bytes \<Rightarrow> (proposal, string) result" where
  "proposal_try_from c bs = map_result proposal_from_proto (parse_from_bytes c bs)"

definition proposal_try_into :: "proposal_proto codec \<Rightarrow> proposal \<Rightarrow> (bytes, string) result" where
  "proposal_try_into c p = write_to_bytes c (proposal_into_proto p)"

section \<open>Updates, messages and start-up state\<close>

datatype proposal_update =
  ProposalCreated "proposal option"
| ProposalReceived proposal peer_id
| ProposalValid proposal_id
| ProposalInvalid proposal_id
| ProposalAccepted proposal_id
| ProposalAcceptFailed proposal_id string
| Shutdown

record consensus_message =
  cm_message :: bytes
  origin_id :: peer_id

record consensus_message_proto =
  cmp_message :: bytes
  cmp_origin_id :: bytes

definition consensus_message_from_proto :: "consensus_message_proto \<Rightarrow> consensus_message" where
  "consensus_message_from_proto m =
     \<lparr>cm_message = cmp_message m, origin_id = PeerId (cmp_origin_id m)\<rparr>"

definition consensus_message_into_proto :: "consensus_message \<Rightarrow> consensus_message_proto" where
  "consensus_message_into_proto m =
     \<lparr>cmp_message = cm_message m, cmp_origin_id = peer_id_bytes (origin_id m)\<rparr>"

definition consensus_message_try_from ::
  "consensus_message_proto codec \<Rightarrow> bytes \<Rightarrow> (consensus_message, string) result" where
  "consensus_message_try_from c bs = map_result consensus_message_from_proto (parse_from_bytes c bs)"

definition consensus_message_try_into ::
  "consensus_message_proto codec \<Rightarrow> consensus_message \<Rightarrow> (bytes, string) result" where
  "consensus_message_try_into c m = write_to_bytes c (consensus_message_into_proto m)"

record startup_state =
  ss_id :: peer_id
  ss_peer_ids :: "peer_id list"
  ss_last_proposal :: "proposal option"

section \<open>Errors\<close>

datatype proposal_manager_error =
  PMInternal string | PMNotReady | PMUnknownProposal proposal_id | PMUpdateSendFailed

datatype consensus_send_error =
  CSInternal string | CSNotReady | CSUnknownPeer peer_id

datatype consensus_engine_error =
  EngineProtobufError string
| EngineProposalManagerError proposal_manager_error
| EngineSendError consensus_send_error

section \<open>The calls an engine makes\<close>

datatype effect =
  CreateProposal "proposal_id option" bytes
| CheckProposal proposal_id
| AcceptProposal proposal_id "bytes option"
| RejectProposal proposal_id
| SendTo peer_id bytes
| Broadcast bytes

text \<open>
  The environment answers a call to the proposal manager (\<open>pm_reply\<close>) or to the network sender
  (\<open>ns_reply\<close>) from the calls made before it.
\<close>

type_synonym effect_log = "(effect \<times> bool) list"

record environment =
  pm_reply :: "effect_log \<Rightarrow> effect \<Rightarrow> (unit, proposal_manager_error) result"
  ns_reply :: "effect_log \<Rightarrow> effect \<Rightarrow> (unit, consensus_send_error) result"

section \<open>Properties\<close>

lemma proposal_from_into [simp]: "proposal_from_proto (proposal_into_proto p) = p"
  by (simp add: proposal_from_proto_def proposal_into_proto_def)

lemma consensus_message_from_into [simp]:
  "consensus_message_from_proto (consensus_message_into_proto m) = m"
  by (simp add: consensus_message_from_proto_def consensus_message_into_proto_def)

lemma proposal_round_trip_aux:
  "round_trip c \<Longrightarrow> proposal_try_into c p = Ok bs \<Longrightarrow> proposal_try_from c bs = Ok p"
  by (simp add: proposal_try_into_def proposal_try_from_def round_tripD)

lemma consensus_message_round_trip_aux:
  "round_trip c \<Longrightarrow> consensus_message_try_into c m = Ok bs \<Longrightarrow>
   consensus_message_try_from c bs = Ok m"
  by (simp add: consensus_message_try_into_def consensus_message_try_from_def round_tripD)

end
