(* ===== verification/Two_Phase.thy ===== *)
theory Two_Phase
  imports Consensus
begin

text \<open>
  The two-phase commit engine of \<^verbatim>\<open>libsplinter/src/consensus/two_phase/mod.rs\<close> and its timer
  (\<^verbatim>\<open>two_phase/timing.rs\<close>), one definition per method.

  The engine state is the record \<open>engine_run\<close>: the fields of \<open>TwoPhaseEngine\<close> and the calls the
  engine has made to its proposal manager and network sender (\<open>calls\<close>, oldest first, with whether the
  call succeeded). The methods return a result and the state, so a mutation made before an error is
  propagated stays. Clock readings are arguments.
\<close>

section \<open>The coordinator timer\<close>

datatype timeout_state = TimerActive | TimerInactive | TimerExpired

record timeout =
  to_state :: timeout_state
  to_duration :: nat
  to_start :: nat

definition timeout_new :: "nat \<Rightarrow> nat \<Rightarrow> timeout" where
  "timeout_new duration now = \<lparr>to_state = TimerInactive, to_duration = duration, to_start = now\<rparr>"

definition timeout_check_expired :: "nat \<Rightarrow> timeout \<Rightarrow> bool \<times> timeout" where
  "timeout_check_expired now t =
     (let t' = (if to_state t = TimerActive \<and> now - to_start t > to_duration t
                then t\<lparr>to_state := TimerExpired\<rparr> else t)
      in (to_state t' = TimerExpired, t'))"

definition timeout_start :: "nat \<Rightarrow> timeout \<Rightarrow> timeout" where
  "timeout_start now t = t\<lparr>to_state := TimerActive, to_start := now\<rparr>"

definition timeout_stop :: "timeout \<Rightarrow> timeout" where
  "timeout_stop t = t\<lparr>to_state := TimerInactive\<rparr>"

section \<open>Messages\<close>

datatype tp_type =
  UNSET_TYPE | PROPOSAL_VERIFICATION_REQUEST | PROPOSAL_VERIFICATION_RESPONSE | PROPOSAL_RESULT

datatype tp_response = UNSET_VERIFICATION_RESPONSE | VERIFIED | FAILED

datatype tp_result = UNSET_RESULT | APPLY | REJECT

record two_phase_message =
  message_type :: tp_type
  msg_proposal_id :: bytes
  verification_response :: tp_response
  proposal_result :: tp_result

record required_verifiers_msg =
  verifiers_field :: "bytes list"

definition request_msg :: "proposal_id \<Rightarrow> two_phase_message" where
  "request_msg p = \<lparr>message_type = PROPOSAL_VERIFICATION_REQUEST,
     msg_proposal_id = proposal_id_bytes p, verification_response = UNSET_VERIFICATION_RESPONSE,
     proposal_result = UNSET_RESULT\<rparr>"

definition response_msg :: "proposal_id \<Rightarrow> tp_response \<Rightarrow> two_phase_message" where
  "response_msg p r = \<lparr>message_type = PROPOSAL_VERIFICATION_RESPONSE,
     msg_proposal_id = proposal_id_bytes p, verification_response = r,
     proposal_result = UNSET_RESULT\<rparr>"

definition result_msg :: "proposal_id \<Rightarrow> tp_result \<Rightarrow> two_phase_message" where
  "result_msg p r = \<lparr>message_type = PROPOSAL_RESULT,
     msg_proposal_id = proposal_id_bytes p, verification_response = UNSET_VERIFICATION_RESPONSE,
     proposal_result = r\<rparr>"

section \<open>Engine state\<close>

record two_phase_proposal =
  tpp_id :: proposal_id
  coordinator_id :: peer_id
  peers_verified :: "peer_id set"
  required_verifiers :: "peer_id set"

definition two_phase_proposal_new ::
  "proposal_id \<Rightarrow> peer_id \<Rightarrow> peer_id set \<Rightarrow> two_phase_proposal" where
  "two_phase_proposal_new p c vs =
     \<lparr>tpp_id = p, coordinator_id = c, peers_verified = {}, required_verifiers = vs\<rparr>"

definition add_verified_peer :: "peer_id \<Rightarrow> two_phase_proposal \<Rightarrow> two_phase_proposal" where
  "add_verified_peer p t = t\<lparr>peers_verified := insert p (peers_verified t)\<rparr>"

datatype tp_state = Idle | AwaitingProposal | EvaluatingProposal two_phase_proposal

record two_phase_engine =
  engine_id :: peer_id
  engine_peers :: "peer_id set"
  engine_state :: tp_state
  coordinator_timeout :: timeout
  proposal_backlog :: "two_phase_proposal list"
  verification_request_backlog :: "proposal_id list"

record engine_run = two_phase_engine +
  calls :: effect_log

type_synonym 'a engine_action = "(engine_run, 'a, consensus_engine_error) action"

record tp_env = environment +
  wire :: "two_phase_message codec"
  verifiers_wire :: "required_verifiers_msg codec"

definition engine_new :: "nat \<Rightarrow> nat \<Rightarrow> engine_run" where
  "engine_new duration now =
     \<lparr>engine_id = default_peer_id, engine_peers = {}, engine_state = Idle,
      coordinator_timeout = timeout_new duration now, proposal_backlog = [],
      verification_request_backlog = [], calls = []\<rparr>"

section \<open>Calls to the environment\<close>

definition call_pm :: "tp_env \<Rightarrow> effect \<Rightarrow> unit engine_action" where
  "call_pm env e s =
     (let r = pm_reply env (calls s) e
      in (map_err EngineProposalManagerError r, s\<lparr>calls := calls s @ [(e, is_ok r)]\<rparr>))"

definition call_ns :: "tp_env \<Rightarrow> effect \<Rightarrow> unit engine_action" where
  "call_ns env e s =
     (let r = ns_reply env (calls s) e
      in (map_err EngineSendError r, s\<lparr>calls := calls s @ [(e, is_ok r)]\<rparr>))"

text \<open>\<open>network_sender.broadcast(msg.write_to_bytes()?)?\<close> and the same for \<open>send_to\<close>.\<close>

definition broadcast_msg :: "tp_env \<Rightarrow> two_phase_message \<Rightarrow> unit engine_action" where
  "broadcast_msg env m =
     (case write_to_bytes (wire env) m of
        Err e \<Rightarrow> fail_act (EngineProtobufError e)
      | Ok b \<Rightarrow> call_ns env (Broadcast b))"

definition send_msg_to :: "tp_env \<Rightarrow> peer_id \<Rightarrow> two_phase_message \<Rightarrow> unit engine_action" where
  "send_msg_to env peer m =
     (case write_to_bytes (wire env) m of
        Err e \<Rightarrow> fail_act (EngineProtobufError e)
      | Ok b \<Rightarrow> call_ns env (SendTo peer b))"

section \<open>Coordination\<close>

definition evaluating_proposal :: "engine_run \<Rightarrow> proposal_id \<Rightarrow> bool" where
  "evaluating_proposal s p =
     (case engine_state s of EvaluatingProposal t \<Rightarrow> tpp_id t = p | _ \<Rightarrow> False)"

definition complete_coordination :: "tp_env \<Rightarrow> proposal_id \<Rightarrow> tp_result \<Rightarrow> unit engine_action" where
  "complete_coordination env p res =
     (let finish =
        bind_act (modify_act (\<lambda>s. s\<lparr>engine_state := Idle,
                    coordinator_timeout := timeout_stop (coordinator_timeout s)\<rparr>))
          (\<lambda>_. broadcast_msg env (result_msg p res))
      in case res of
           APPLY \<Rightarrow> bind_act (call_pm env (AcceptProposal p None)) (\<lambda>_. finish)
         | REJECT \<Rightarrow> bind_act (call_pm env (RejectProposal p)) (\<lambda>_. finish)
         | UNSET_RESULT \<Rightarrow> pure_act ())"

definition start_coordination ::
  "tp_env \<Rightarrow> nat \<Rightarrow> two_phase_proposal \<Rightarrow> unit engine_action" where
  "start_coordination env now t s =
     (case call_pm env (CheckProposal (tpp_id t)) s of
        (Ok _, s1) \<Rightarrow>
          (Ok (), s1\<lparr>engine_state := EvaluatingProposal t,
                     coordinator_timeout := timeout_start now (coordinator_timeout s1)\<rparr>)
      | (Err _, s1) \<Rightarrow> complete_coordination env (tpp_id t) REJECT s1)"

section \<open>Proposals\<close>

definition proposal_verifiers ::
  "tp_env \<Rightarrow> engine_run \<Rightarrow> proposal \<Rightarrow> (peer_id set, consensus_engine_error) result" where
  "proposal_verifiers env s prop =
     (if consensus_data prop \<noteq> [] then
        map_err EngineProtobufError
          (map_result (\<lambda>m. set (map PeerId (verifiers_field m)))
            (parse_from_bytes (verifiers_wire env) (consensus_data prop)))
      else Ok (insert (engine_id s) (engine_peers s)))"

definition min_verifier :: "peer_id set \<Rightarrow> peer_id option" where
  "min_verifier vs = (if vs = {} then None else Some (Min vs))"

definition push_proposal :: "two_phase_proposal \<Rightarrow> engine_run \<Rightarrow> engine_run" where
  "push_proposal t s = s\<lparr>proposal_backlog := proposal_backlog s @ [t]\<rparr>"

definition handle_proposal :: "tp_env \<Rightarrow> nat \<Rightarrow> proposal \<Rightarrow> unit engine_action" where
  "handle_proposal env now prop s =
     (if \<exists>t \<in> set (proposal_backlog s). tpp_id t = prop_id prop then (Ok (), s)
      else case proposal_verifiers env s prop of
        Err e \<Rightarrow> (Err e, s)
      | Ok verifiers \<Rightarrow>
          (case min_verifier verifiers of
             None \<Rightarrow>
               bind_act (call_pm env (RejectProposal (prop_id prop)))
                 (\<lambda>_. modify_act (\<lambda>s. s\<lparr>engine_state := Idle\<rparr>)) s
           | Some coordinator \<Rightarrow>
               let t = two_phase_proposal_new (prop_id prop) coordinator verifiers in
               (case engine_state s of
                  EvaluatingProposal current \<Rightarrow>
                    if tpp_id t = tpp_id current then (Ok (), s) else (Ok (), push_proposal t s)
                | _ \<Rightarrow>
                    if engine_id s = coordinator then start_coordination env now t s
                    else (Ok (), push_proposal t s))))"

section \<open>Consensus messages\<close>

definition handle_verification_request :: "tp_env \<Rightarrow> proposal_id \<Rightarrow> unit engine_action" where
  "handle_verification_request env p s =
     (let backlog_request =
            (Ok (), s\<lparr>verification_request_backlog := verification_request_backlog s @ [p]\<rparr>);
          look_in_backlog =
            (case position (\<lambda>t. tpp_id t = p) (proposal_backlog s) of
               Some idx \<Rightarrow>
                 bind_act (call_pm env (CheckProposal p))
                   (\<lambda>_. modify_act (\<lambda>s. s\<lparr>engine_state := EvaluatingProposal (proposal_backlog s ! idx),
                          proposal_backlog := remove_at idx (proposal_backlog s)\<rparr>)) s
             | None \<Rightarrow> backlog_request)
      in case engine_state s of
           EvaluatingProposal t \<Rightarrow> if tpp_id t \<noteq> p then backlog_request else look_in_backlog
         | _ \<Rightarrow> look_in_backlog)"

definition handle_verification_response ::
  "tp_env \<Rightarrow> proposal_id \<Rightarrow> tp_response \<Rightarrow> peer_id \<Rightarrow> unit engine_action" where
  "handle_verification_response env p resp origin s =
     (if \<not> evaluating_proposal s p then (Ok (), s)
      else case resp of
        VERIFIED \<Rightarrow>
          (case engine_state s of
             EvaluatingProposal t \<Rightarrow>
               let t' = add_verified_peer origin t;
                   s' = s\<lparr>engine_state := EvaluatingProposal t'\<rparr>
               in if peers_verified t' = required_verifiers t'
                  then complete_coordination env p APPLY s' else (Ok (), s')
           | _ \<Rightarrow> (Ok (), s))
      | FAILED \<Rightarrow> complete_coordination env p REJECT s
      | UNSET_VERIFICATION_RESPONSE \<Rightarrow> (Ok (), s))"

definition handle_proposal_result ::
  "tp_env \<Rightarrow> proposal_id \<Rightarrow> tp_result \<Rightarrow> unit engine_action" where
  "handle_proposal_result env p res s =
     (case res of
        APPLY \<Rightarrow>
          if evaluating_proposal s p
          then bind_act (call_pm env (AcceptProposal p None))
                 (\<lambda>_. modify_act (\<lambda>s. s\<lparr>engine_state := Idle\<rparr>)) s
          else (Ok (), s)
      | REJECT \<Rightarrow>
          bind_act (call_pm env (RejectProposal p))
            (\<lambda>_. modify_act (\<lambda>s. if evaluating_proposal s p then s\<lparr>engine_state := Idle\<rparr> else s)) s
      | UNSET_RESULT \<Rightarrow> (Ok (), s))"

definition handle_consensus_msg :: "tp_env \<Rightarrow> consensus_message \<Rightarrow> unit engine_action" where
  "handle_consensus_msg env cm s =
     (case parse_from_bytes (wire env) (cm_message cm) of
        Err e \<Rightarrow> (Err (EngineProtobufError e), s)
      | Ok m \<Rightarrow>
          let p = ProposalId (msg_proposal_id m) in
          (case message_type m of
             PROPOSAL_VERIFICATION_REQUEST \<Rightarrow> handle_verification_request env p s
           | PROPOSAL_VERIFICATION_RESPONSE \<Rightarrow>
               handle_verification_response env p (verification_response m) (origin_id cm) s
           | PROPOSAL_RESULT \<Rightarrow> handle_proposal_result env p (proposal_result m) s
           | UNSET_TYPE \<Rightarrow> (Ok (), s)))"

section \<open>Proposal updates\<close>

definition handle_proposal_valid :: "tp_env \<Rightarrow> proposal_id \<Rightarrow> unit engine_action" where
  "handle_proposal_valid env p s =
     (case engine_state s of
        EvaluatingProposal t \<Rightarrow>
          if tpp_id t = p then
            if engine_id s = coordinator_id t then
              broadcast_msg env (request_msg p)
                (s\<lparr>engine_state := EvaluatingProposal (add_verified_peer (engine_id s) t)\<rparr>)
            else send_msg_to env (coordinator_id t) (response_msg p VERIFIED) s
          else (Ok (), s)
      | _ \<Rightarrow> (Ok (), s))"

definition handle_proposal_invalid :: "tp_env \<Rightarrow> proposal_id \<Rightarrow> unit engine_action" where
  "handle_proposal_invalid env p s =
     (case engine_state s of
        EvaluatingProposal t \<Rightarrow>
          if tpp_id t = p then
            if engine_id s = coordinator_id t then complete_coordination env p REJECT s
            else send_msg_to env (coordinator_id t) (response_msg p FAILED) s
          else (Ok (), s)
      | _ \<Rightarrow> (Ok (), s))"

definition handle_proposal_update ::
  "tp_env \<Rightarrow> nat \<Rightarrow> proposal_update \<Rightarrow> unit engine_action" where
  "handle_proposal_update env now update s =
     (case update of
        ProposalCreated None \<Rightarrow>
          (Ok (), if engine_state s = AwaitingProposal then s\<lparr>engine_state := Idle\<rparr> else s)
      | ProposalCreated (Some prop) \<Rightarrow> handle_proposal env now prop s
      | ProposalReceived prop _ \<Rightarrow> handle_proposal env now prop s
      | ProposalValid p \<Rightarrow> handle_proposal_valid env p s
      | ProposalInvalid p \<Rightarrow> handle_proposal_invalid env p s
      | ProposalAccepted p \<Rightarrow> (Ok (), s)
      | ProposalAcceptFailed p err \<Rightarrow> (Ok (), s)
      | Shutdown \<Rightarrow> (Ok (), s))"

section \<open>Background work\<close>

definition abort_proposal_if_timed_out :: "tp_env \<Rightarrow> nat \<Rightarrow> unit engine_action" where
  "abort_proposal_if_timed_out env now s =
     (case engine_state s of
        EvaluatingProposal t \<Rightarrow>
          let (expired, timer) = timeout_check_expired now (coordinator_timeout s);
              s1 = s\<lparr>coordinator_timeout := timer\<rparr>
          in if expired then complete_coordination env (tpp_id t) REJECT s1 else (Ok (), s1)
      | _ \<Rightarrow> (Ok (), s))"

definition handle_backlogged_verification_request :: "tp_env \<Rightarrow> unit engine_action" where
  "handle_backlogged_verification_request env s =
     (if engine_state s \<noteq> Idle then (Ok (), s)
      else case position (\<lambda>p. \<exists>t \<in> set (proposal_backlog s). tpp_id t = p)
                  (verification_request_backlog s) of
        None \<Rightarrow> (Ok (), s)
      | Some idx \<Rightarrow>
          let p = verification_request_backlog s ! idx;
              s1 = s\<lparr>verification_request_backlog := remove_at idx (verification_request_backlog s)\<rparr>
          in (case position (\<lambda>t. tpp_id t = p) (proposal_backlog s1) of
                None \<Rightarrow> (Ok (), s1)
              | Some pidx \<Rightarrow>
                  let t = proposal_backlog s1 ! pidx;
                      s2 = s1\<lparr>proposal_backlog := remove_at pidx (proposal_backlog s1)\<rparr>
                  in bind_act (call_pm env (CheckProposal p))
                       (\<lambda>_. modify_act (\<lambda>s. s\<lparr>engine_state := EvaluatingProposal t\<rparr>)) s2))"

definition get_next_proposal :: "tp_env \<Rightarrow> nat \<Rightarrow> unit engine_action" where
  "get_next_proposal env now s =
     (if engine_state s \<noteq> Idle then (Ok (), s)
      else case position (\<lambda>t. coordinator_id t = engine_id s) (proposal_backlog s) of
        Some idx \<Rightarrow>
          (Ok (), ignore_err (start_coordination env now (proposal_backlog s ! idx))
                    (s\<lparr>proposal_backlog := remove_at idx (proposal_backlog s)\<rparr>))
      | None \<Rightarrow>
          (case call_pm env (CreateProposal None []) s of
             (Ok _, s1) \<Rightarrow> (Ok (), s1\<lparr>engine_state := AwaitingProposal\<rparr>)
           | (Err _, s1) \<Rightarrow> (Ok (), s1)))"

section \<open>The run loop\<close>

datatype 'a recv = Received 'a | RecvTimeout | RecvDisconnected

text \<open>What one iteration of the loop reads: the clock at its two uses before the messages, a
  consensus message, a proposal update, and the clock when the update is handled.\<close>

record tick =
  abort_now :: nat
  next_now :: nat
  tick_message :: "consensus_message recv"
  tick_update :: "proposal_update recv"
  update_now :: nat

datatype loop_status = Continue | Break

definition run_background :: "tp_env \<Rightarrow> tick \<Rightarrow> engine_run \<Rightarrow> engine_run" where
  "run_background env k s =
     ignore_err (get_next_proposal env (next_now k))
       (ignore_err (handle_backlogged_verification_request env)
         (ignore_err (abort_proposal_if_timed_out env (abort_now k)) s))"

definition run_update :: "tp_env \<Rightarrow> tick \<Rightarrow> engine_run \<Rightarrow> loop_status \<times> engine_run" where
  "run_update env k s =
     (case tick_update k of
        Received Shutdown \<Rightarrow> (Break, s)
      | Received update \<Rightarrow> (Continue, ignore_err (handle_proposal_update env (update_now k) update) s)
      | RecvTimeout \<Rightarrow> (Continue, s)
      | RecvDisconnected \<Rightarrow> (Break, s))"

definition run_iteration :: "tp_env \<Rightarrow> tick \<Rightarrow> engine_run \<Rightarrow> loop_status \<times> engine_run" where
  "run_iteration env k s =
     (let s1 = run_background env k s in
      case tick_message k of
        Received m \<Rightarrow> run_update env k (ignore_err (handle_consensus_msg env m) s1)
      | RecvTimeout \<Rightarrow> run_update env k s1
      | RecvDisconnected \<Rightarrow> (Break, s1))"

fun run_loop :: "tp_env \<Rightarrow> tick list \<Rightarrow> engine_run \<Rightarrow> loop_status \<times> engine_run" where
  "run_loop env [] s = (Continue, s)"
| "run_loop env (k # ks) s =
     (case run_iteration env k s of
        (Break, s') \<Rightarrow> (Break, s')
      | (Continue, s') \<Rightarrow> run_loop env ks s')"

definition engine_start :: "startup_state \<Rightarrow> engine_run \<Rightarrow> engine_run" where
  "engine_start st s =
     s\<lparr>engine_id := ss_id st, engine_peers := engine_peers s \<union> set (ss_peer_ids st)\<rparr>"

definition run_engine :: "tp_env \<Rightarrow> startup_state \<Rightarrow> tick list \<Rightarrow> engine_run \<Rightarrow> loop_status \<times> engine_run" where
  "run_engine env st ks s = run_loop env ks (engine_start st s)"

end
