(* ===== verification/Two_Phase_Node.thy ===== *)
theory Two_Phase_Node
  imports Two_Phase
begin

text \<open>
  An invariant of one two-phase commit engine, and that every method of the engine keeps it.

  The invariant is stated over a \<^emph>\<open>view\<close> of the engine (the proposal being evaluated, the backlog,
  whether the coordinator timer runs, the calls made so far). It refers to the other engines only
  through a setting: which peers must verify a proposal, which proposals the coordinator has applied
  or refused, and which peers have been told by their proposal manager that a proposal is valid. The
  first group of lemmas says how a view may change; the second group follows the methods of
  \<^verbatim>\<open>two_phase/mod.rs\<close> one by one.
\<close>

section \<open>Views\<close>

definition accepted :: "proposal_id \<Rightarrow> engine_run \<Rightarrow> bool" where
  "accepted p s \<longleftrightarrow> (AcceptProposal p None, True) \<in> set (calls s)"

definition rejected :: "proposal_id \<Rightarrow> engine_run \<Rightarrow> bool" where
  "rejected p s \<longleftrightarrow> (RejectProposal p, True) \<in> set (calls s)"

definition current_proposal :: "engine_run \<Rightarrow> two_phase_proposal option" where
  "current_proposal s = (case engine_state s of EvaluatingProposal t \<Rightarrow> Some t | _ \<Rightarrow> None)"

definition timer_running :: "engine_run \<Rightarrow> bool" where
  "timer_running s \<longleftrightarrow> to_state (coordinator_timeout s) \<noteq> TimerInactive"

record tp_setting =
  verifiers_of :: "proposal_id \<Rightarrow> peer_id set"
  wire_of :: "two_phase_message codec"
  applied :: "proposal_id \<Rightarrow> bool"
  refused :: "proposal_id \<Rightarrow> bool"
  validated :: "proposal_id \<Rightarrow> peer_id \<Rightarrow> bool"

definition coord :: "tp_setting \<Rightarrow> proposal_id \<Rightarrow> peer_id" where
  "coord c p = Min (verifiers_of c p)"

definition msg_pid :: "two_phase_message \<Rightarrow> proposal_id" where
  "msg_pid m = ProposalId (msg_proposal_id m)"

text \<open>What an engine \<open>n\<close> may have sent, given its successful calls \<open>L\<close>.\<close>

definition broadcast_ok :: "tp_setting \<Rightarrow> peer_id \<Rightarrow> (effect \<times> bool) set \<Rightarrow> bytes \<Rightarrow> bool" where
  "broadcast_ok c n L b \<longleftrightarrow>
     (\<forall>m. parse_from_bytes (wire_of c) b = Ok m \<longrightarrow>
        message_type m \<noteq> PROPOSAL_VERIFICATION_RESPONSE \<and>
        (message_type m = PROPOSAL_RESULT \<longrightarrow> coord c (msg_pid m) = n \<and>
          (proposal_result m = APPLY \<longrightarrow> (AcceptProposal (msg_pid m) None, True) \<in> L) \<and>
          (proposal_result m = REJECT \<longrightarrow> (RejectProposal (msg_pid m), True) \<in> L)))"

definition send_ok :: "tp_setting \<Rightarrow> peer_id \<Rightarrow> peer_id \<Rightarrow> bytes \<Rightarrow> bool" where
  "send_ok c n q b \<longleftrightarrow>
     (\<forall>m. parse_from_bytes (wire_of c) b = Ok m \<longrightarrow>
        message_type m = PROPOSAL_VERIFICATION_RESPONSE \<and> q = coord c (msg_pid m) \<and>
        (verification_response m = VERIFIED \<longrightarrow> validated c (msg_pid m) n))"

definition log_ok :: "tp_setting \<Rightarrow> peer_id \<Rightarrow> (effect \<times> bool) set \<Rightarrow> bool" where
  "log_ok c n L \<longleftrightarrow>
     (\<forall>b r. (Broadcast b, r) \<in> L \<longrightarrow> broadcast_ok c n L b) \<and>
     (\<forall>q b r. (SendTo q b, r) \<in> L \<longrightarrow> send_ok c n q b)"

definition known_of :: "two_phase_proposal option \<Rightarrow> two_phase_proposal list \<Rightarrow> two_phase_proposal set" where
  "known_of cur bl = set_option cur \<union> set bl"

definition tpp_ok :: "tp_setting \<Rightarrow> two_phase_proposal \<Rightarrow> bool" where
  "tpp_ok c t \<longleftrightarrow> coordinator_id t = coord c (tpp_id t) \<and>
     required_verifiers t = verifiers_of c (tpp_id t) \<and>
     (\<forall>v \<in> peers_verified t. validated c (tpp_id t) v)"

definition decisions_ok ::
  "tp_setting \<Rightarrow> peer_id \<Rightarrow> proposal_id set \<Rightarrow> proposal_id set \<Rightarrow> (effect \<times> bool) set \<Rightarrow> bool" where
  "decisions_ok c n seen known L \<longleftrightarrow>
     (\<forall>p. coord c p = n \<longrightarrow>
        ((AcceptProposal p None, True) \<in> L \<or> (RejectProposal p, True) \<in> L \<longrightarrow> p \<in> seen - known) \<and>
        \<not> ((AcceptProposal p None, True) \<in> L \<and> (RejectProposal p, True) \<in> L) \<and>
        ((AcceptProposal p None, True) \<in> L \<longrightarrow>
           (\<forall>v \<in> verifiers_of c p. validated c p v) \<and> verifiers_of c p \<noteq> {n})) \<and>
     (\<forall>p. coord c p \<noteq> n \<longrightarrow>
        ((AcceptProposal p None, True) \<in> L \<longrightarrow> applied c p) \<and>
        ((RejectProposal p, True) \<in> L \<longrightarrow> refused c p))"

definition view_inv ::
  "tp_setting \<Rightarrow> peer_id \<Rightarrow> proposal_id set \<Rightarrow> two_phase_proposal option \<Rightarrow> two_phase_proposal list \<Rightarrow>
   bool \<Rightarrow> (effect \<times> bool) set \<Rightarrow> bool" where
  "view_inv c n seen cur bl timer L \<longleftrightarrow>
     (\<forall>t \<in> known_of cur bl. tpp_ok c t \<and> tpp_id t \<in> seen) \<and>
     distinct (map tpp_id bl) \<and> (\<forall>t. cur = Some t \<longrightarrow> tpp_id t \<notin> tpp_id ` set bl) \<and>
     (timer \<longrightarrow> (\<exists>t. cur = Some t \<and> coordinator_id t = n)) \<and>
     decisions_ok c n seen (tpp_id ` known_of cur bl) L \<and>
     log_ok c n L"

definition node_inv :: "tp_setting \<Rightarrow> peer_id \<Rightarrow> proposal_id set \<Rightarrow> engine_run \<Rightarrow> bool" where
  "node_inv c n seen s \<longleftrightarrow> engine_id s = n \<and>
     view_inv c n seen (current_proposal s) (proposal_backlog s) (timer_running s) (set (calls s))"

section \<open>The view under the engine's elementary steps\<close>

text \<open>Calls that say nothing about decisions and send nothing.\<close>

definition silent_call :: "effect \<times> bool \<Rightarrow> bool" where
  "silent_call e \<longleftrightarrow> (case e of
     (CheckProposal _, _) \<Rightarrow> True | (CreateProposal _ _, _) \<Rightarrow> True
   | (AcceptProposal _ _, ok) \<Rightarrow> \<not> ok | (RejectProposal _, ok) \<Rightarrow> \<not> ok | _ \<Rightarrow> False)"

lemma silent_callD:
  assumes "silent_call e"
  shows "e \<noteq> (AcceptProposal p d, True)" and "e \<noteq> (RejectProposal p, True)"
    and "e \<noteq> (Broadcast b, r)" and "e \<noteq> (SendTo q b, r)"
  using assms by (auto simp: silent_call_def)

lemma broadcast_ok_insert: "broadcast_ok c n L b \<Longrightarrow> broadcast_ok c n (insert e L) b"
  by (auto simp: broadcast_ok_def)

lemma decisions_ok_mono:
  "decisions_ok c n seen known L \<Longrightarrow> seen \<subseteq> seen' \<Longrightarrow> known' \<subseteq> known \<Longrightarrow>
   decisions_ok c n seen' known' L"
  unfolding decisions_ok_def by blast

lemma view_silent:
  assumes "view_inv c n seen cur bl timer L" and "silent_call e"
  shows "view_inv c n seen cur bl timer (insert e L)"
proof -
  note e = silent_callD [OF assms(2)]
  have "decisions_ok c n seen (tpp_id ` known_of cur bl) (insert e L)"
    using assms(1) e(1,2) [symmetric] by (simp add: view_inv_def decisions_ok_def)
  moreover have "log_ok c n (insert e L)"
    using assms(1) e(3,4) [symmetric] by (simp add: view_inv_def log_ok_def broadcast_ok_insert)
  ultimately show ?thesis using assms(1) by (simp add: view_inv_def)
qed

lemma view_broadcast:
  assumes "view_inv c n seen cur bl timer L" and "broadcast_ok c n L b"
  shows "view_inv c n seen cur bl timer (insert (Broadcast b, r) L)"
  using assms by (auto simp: view_inv_def decisions_ok_def log_ok_def intro: broadcast_ok_insert)

lemma view_send:
  assumes "view_inv c n seen cur bl timer L" and "send_ok c n q b"
  shows "view_inv c n seen cur bl timer (insert (SendTo q b, r) L)"
  using assms by (auto simp: view_inv_def decisions_ok_def log_ok_def intro: broadcast_ok_insert)

lemma view_drop_current:
  assumes "view_inv c n seen cur bl timer L"
  shows "view_inv c n seen None bl False L"
  using assms by (auto simp: view_inv_def decisions_ok_def known_of_def)

lemma view_timer_off:
  "view_inv c n seen cur bl timer L \<Longrightarrow> view_inv c n seen cur bl False L"
  by (simp add: view_inv_def)

lemma view_no_timer: "view_inv c n seen None bl timer L \<Longrightarrow> \<not> timer"
  by (auto simp: view_inv_def)

lemma view_participant_no_timer:
  "view_inv c n seen (Some t) bl timer L \<Longrightarrow> coord c (tpp_id t) \<noteq> n \<Longrightarrow> \<not> timer"
  by (auto simp: view_inv_def known_of_def tpp_ok_def)

text \<open>A decision of the coordinator, taken when nothing is being evaluated any more.\<close>

lemma view_accept:
  assumes "view_inv c n seen None bl timer L" and "coord c p = n" and "p \<in> seen - tpp_id ` set bl"
    and "(RejectProposal p, True) \<notin> L"
    and "(\<forall>v \<in> verifiers_of c p. validated c p v) \<and> verifiers_of c p \<noteq> {n}"
  shows "view_inv c n seen None bl timer (insert (AcceptProposal p None, True) L)"
  using assms
  by (auto simp: view_inv_def decisions_ok_def known_of_def log_ok_def intro: broadcast_ok_insert)

lemma view_reject:
  assumes "view_inv c n seen None bl timer L" and "coord c p = n" and "p \<in> seen - tpp_id ` set bl"
    and "(AcceptProposal p None, True) \<notin> L"
  shows "view_inv c n seen None bl timer (insert (RejectProposal p, True) L)"
  using assms
  by (auto simp: view_inv_def decisions_ok_def known_of_def log_ok_def intro: broadcast_ok_insert)

text \<open>A decision a participant takes from the coordinator's result.\<close>

lemma view_follow_accept:
  assumes "view_inv c n seen cur bl timer L" and "coord c p \<noteq> n" and "applied c p"
  shows "view_inv c n seen cur bl timer (insert (AcceptProposal p None, True) L)"
  using assms by (auto simp: view_inv_def decisions_ok_def log_ok_def intro: broadcast_ok_insert)

lemma view_follow_reject:
  assumes "view_inv c n seen cur bl timer L" and "coord c p \<noteq> n" and "refused c p"
  shows "view_inv c n seen cur bl timer (insert (RejectProposal p, True) L)"
  using assms by (auto simp: view_inv_def decisions_ok_def log_ok_def intro: broadcast_ok_insert)

lemma view_undecided:
  assumes "view_inv c n seen cur bl timer L" and "t \<in> known_of cur bl" and "coord c (tpp_id t) = n"
  shows "(AcceptProposal (tpp_id t) None, True) \<notin> L" and "(RejectProposal (tpp_id t), True) \<notin> L"
  using assms by (auto simp: view_inv_def decisions_ok_def)

lemma view_unseen:
  assumes "view_inv c n seen cur bl timer L" and "p \<notin> seen" and "coord c p = n"
  shows "(AcceptProposal p None, True) \<notin> L" and "(RejectProposal p, True) \<notin> L"
  using assms by (auto simp: view_inv_def decisions_ok_def)

lemma view_see: "view_inv c n seen cur bl timer L \<Longrightarrow> view_inv c n (insert p seen) cur bl timer L"
  by (auto simp: view_inv_def decisions_ok_def)

lemma view_push:
  assumes "view_inv c n seen cur bl timer L" and "tpp_ok c t" and "tpp_id t \<notin> seen"
  shows "view_inv c n (insert (tpp_id t) seen) cur (bl @ [t]) timer L"
  using assms by (auto simp: view_inv_def decisions_ok_def known_of_def)

lemma view_start:
  assumes "view_inv c n seen None bl timer L" and "tpp_ok c t"
    and "tpp_id t \<in> seen - tpp_id ` set bl"
    and "coord c (tpp_id t) = n \<Longrightarrow>
      (AcceptProposal (tpp_id t) None, True) \<notin> L \<and> (RejectProposal (tpp_id t), True) \<notin> L"
    and "timer' \<Longrightarrow> coordinator_id t = n"
  shows "view_inv c n seen (Some t) bl timer' L"
  using assms by (auto simp: view_inv_def decisions_ok_def known_of_def)

lemma view_remove_at:
  assumes "view_inv c n seen cur bl timer L" and "i < length bl"
  shows "view_inv c n seen cur (remove_at i bl) timer L"
    and "tpp_id (bl ! i) \<notin> tpp_id ` set (remove_at i bl)"
proof -
  have "distinct (map tpp_id (remove_at i bl))"
    using assms(1) by (simp add: view_inv_def map_remove_at distinct_remove_at)
  moreover have sub: "known_of cur (remove_at i bl) \<subseteq> known_of cur bl"
    using set_remove_at_subset [of i bl] by (auto simp: known_of_def)
  moreover have "decisions_ok c n seen (tpp_id ` known_of cur (remove_at i bl)) L"
    using assms(1) decisions_ok_mono [OF _ subset_refl image_mono [OF sub], of c n seen tpp_id L]
    by (simp only: view_inv_def)
  ultimately show "view_inv c n seen cur (remove_at i bl) timer L"
    using assms(1) set_remove_at_subset [of i bl] unfolding view_inv_def by blast
  have "map tpp_id bl ! i \<notin> set (remove_at i (map tpp_id bl))"
    using assms by (intro distinct_remove_at_nth) (auto simp: view_inv_def)
  with assms(2) show "tpp_id (bl ! i) \<notin> tpp_id ` set (remove_at i bl)"
    by (simp add: map_remove_at [symmetric])
qed

lemma view_verify:
  assumes "view_inv c n seen (Some t) bl timer L" and "validated c (tpp_id t) v"
  shows "view_inv c n seen (Some (add_verified_peer v t)) bl timer L"
  using assms by (auto simp: view_inv_def decisions_ok_def known_of_def tpp_ok_def add_verified_peer_def)

section \<open>One engine keeps the invariant\<close>

lemma view_simps [simp]:
  "current_proposal (s\<lparr>calls := l\<rparr>) = current_proposal s"
  "current_proposal (s\<lparr>coordinator_timeout := k\<rparr>) = current_proposal s"
  "current_proposal (s\<lparr>proposal_backlog := bl\<rparr>) = current_proposal s"
  "current_proposal (s\<lparr>verification_request_backlog := rl\<rparr>) = current_proposal s"
  "current_proposal (s\<lparr>engine_state := Idle\<rparr>) = None"
  "current_proposal (s\<lparr>engine_state := AwaitingProposal\<rparr>) = None"
  "current_proposal (s\<lparr>engine_state := EvaluatingProposal t\<rparr>) = Some t"
  "timer_running (s\<lparr>calls := l\<rparr>) = timer_running s"
  "timer_running (s\<lparr>engine_state := st\<rparr>) = timer_running s"
  "timer_running (s\<lparr>proposal_backlog := bl\<rparr>) = timer_running s"
  "timer_running (s\<lparr>verification_request_backlog := rl\<rparr>) = timer_running s"
  "timer_running (s\<lparr>coordinator_timeout := timeout_stop k\<rparr>) = False"
  "timer_running (s\<lparr>coordinator_timeout := timeout_start now k\<rparr>) = True"
  by (simp_all add: current_proposal_def timer_running_def timeout_stop_def timeout_start_def)

lemma current_proposal_iff:
  "current_proposal s = Some t \<longleftrightarrow> engine_state s = EvaluatingProposal t"
  "current_proposal s = None \<longleftrightarrow> engine_state s = Idle \<or> engine_state s = AwaitingProposal"
  by (auto simp: current_proposal_def split: tp_state.splits)

lemma msg_pid_simps [simp]:
  "msg_pid (request_msg p) = p" "msg_pid (response_msg p r) = p" "msg_pid (result_msg p q) = p"
  "message_type (request_msg p) = PROPOSAL_VERIFICATION_REQUEST"
  "message_type (response_msg p r) = PROPOSAL_VERIFICATION_RESPONSE"
  "message_type (result_msg p q) = PROPOSAL_RESULT"
  "verification_response (response_msg p r) = r"
  "proposal_result (result_msg p q) = q"
  by (simp_all add: msg_pid_def request_msg_def response_msg_def result_msg_def)

lemma call_pm_cases:
  obtains (ok) "call_pm env e s = (Ok (), s\<lparr>calls := calls s @ [(e, True)]\<rparr>)"
  | (err) x where "call_pm env e s = (Err x, s\<lparr>calls := calls s @ [(e, False)]\<rparr>)"
  by (cases "pm_reply env (calls s) e") (auto simp: call_pm_def Let_def)

lemma call_ns_snd:
  obtains r where "snd (call_ns env e s) = s\<lparr>calls := calls s @ [(e, r)]\<rparr>"
  by (auto simp: call_ns_def Let_def)

lemma node_silent:
  assumes "node_inv c n seen s" and "silent_call (e, r)"
  shows "node_inv c n seen (s\<lparr>calls := calls s @ [(e, r)]\<rparr>)"
  using assms(1) view_silent [OF _ assms(2)] by (simp add: node_inv_def)

lemma silent_simps [simp]:
  "silent_call (CheckProposal p, r)" "silent_call (CreateProposal o' d, r)"
  "silent_call (AcceptProposal p d', False)" "silent_call (RejectProposal p, False)"
  by (simp_all add: silent_call_def)

definition env_ok :: "tp_setting \<Rightarrow> tp_env \<Rightarrow> bool" where
  "env_ok c env \<longleftrightarrow> wire env = wire_of c \<and> round_trip (wire_of c)"

lemma env_ok_parse:
  "env_ok c env \<Longrightarrow> write_to_bytes (wire env) m = Ok b \<Longrightarrow> parse_from_bytes (wire_of c) b = Ok m"
  by (simp add: env_ok_def round_tripD)

lemma node_broadcast:
  assumes "env_ok c env" and "node_inv c n seen s"
    and "message_type m \<noteq> PROPOSAL_VERIFICATION_RESPONSE"
    and "message_type m = PROPOSAL_RESULT \<Longrightarrow> coord c (msg_pid m) = n \<and>
          (proposal_result m = APPLY \<longrightarrow> accepted (msg_pid m) s) \<and>
          (proposal_result m = REJECT \<longrightarrow> rejected (msg_pid m) s)"
  shows "node_inv c n seen (snd (broadcast_msg env m s))"
proof (cases "write_to_bytes (wire env) m")
  case (Ok b)
  with assms(1) have "parse_from_bytes (wire_of c) b = Ok m" by (rule env_ok_parse)
  with assms(3,4) have "broadcast_ok c n (set (calls s)) b"
    by (auto simp: broadcast_ok_def accepted_def rejected_def)
  with assms(2) have "node_inv c n seen (s\<lparr>calls := calls s @ [(Broadcast b, r)]\<rparr>)" for r
    using view_broadcast [of c n seen _ _ _ "set (calls s)" b r] by (simp add: node_inv_def)
  moreover obtain x where "snd (call_ns env (Broadcast b) s) = s\<lparr>calls := calls s @ [(Broadcast b, x)]\<rparr>"
    by (rule call_ns_snd)
  ultimately show ?thesis using Ok by (simp add: broadcast_msg_def)
qed (use assms(2) in \<open>simp add: broadcast_msg_def rust_simps\<close>)

lemma node_send:
  assumes "env_ok c env" and "node_inv c n seen s" and "q = coord c p"
    and "r = VERIFIED \<Longrightarrow> validated c p n"
  shows "node_inv c n seen (snd (send_msg_to env q (response_msg p r) s))"
proof (cases "write_to_bytes (wire env) (response_msg p r)")
  case (Ok b)
  with assms(1) have "parse_from_bytes (wire_of c) b = Ok (response_msg p r)" by (rule env_ok_parse)
  with assms(3,4) have "send_ok c n q b" by (auto simp: send_ok_def)
  with assms(2) have "node_inv c n seen (s\<lparr>calls := calls s @ [(SendTo q b, x)]\<rparr>)" for x
    using view_send [of c n seen _ _ _ "set (calls s)" q b x] by (simp add: node_inv_def)
  moreover obtain x where "snd (call_ns env (SendTo q b) s) = s\<lparr>calls := calls s @ [(SendTo q b, x)]\<rparr>"
    by (rule call_ns_snd)
  ultimately show ?thesis using Ok by (simp add: send_msg_to_def)
qed (use assms(2) in \<open>simp add: send_msg_to_def rust_simps\<close>)

lemma bind_modify: "bind_act (modify_act f) g s = g () (f s)"
  by (simp add: bind_act_def modify_act_def)

definition decision_call :: "proposal_id \<Rightarrow> tp_result \<Rightarrow> effect" where
  "decision_call p res = (if res = APPLY then AcceptProposal p None else RejectProposal p)"

lemma complete_coordination_unset: "complete_coordination env p UNSET_RESULT s = (Ok (), s)"
  by (simp add: complete_coordination_def pure_act_def)

lemma complete_coordination_err:
  "res \<noteq> UNSET_RESULT \<Longrightarrow> call_pm env (decision_call p res) s = (Err x, s1) \<Longrightarrow>
   complete_coordination env p res s = (Err x, s1)"
  by (cases res) (simp_all add: complete_coordination_def decision_call_def)

lemma complete_coordination_ok:
  "res \<noteq> UNSET_RESULT \<Longrightarrow> call_pm env (decision_call p res) s = (Ok (), s1) \<Longrightarrow>
   complete_coordination env p res s =
     broadcast_msg env (result_msg p res)
       (s1\<lparr>engine_state := Idle, coordinator_timeout := timeout_stop (coordinator_timeout s1)\<rparr>)"
  by (cases res) (simp_all add: complete_coordination_def decision_call_def bind_modify)

text \<open>Once the proposal manager has taken the decision, the state is cleared and the result sent.\<close>

lemma node_complete:
  assumes env: "env_ok c env" and inv: "node_inv c n seen s"
    and p: "coord c p = n" "p \<in> seen" "p \<notin> tpp_id ` set (proposal_backlog s)"
    and undecided: "\<not> accepted p s" "\<not> rejected p s"
    and valid: "res = APPLY \<Longrightarrow>
      (\<forall>v \<in> verifiers_of c p. validated c p v) \<and> verifiers_of c p \<noteq> {n}"
  shows "node_inv c n seen (snd (complete_coordination env p res s))"
proof (cases "res = UNSET_RESULT")
  case True
  with inv show ?thesis by (simp add: complete_coordination_unset)
next
  case False
  show ?thesis
  proof (cases rule: call_pm_cases [of env "decision_call p res" s])
    case (err x)
    have "silent_call (decision_call p res, False)" by (simp add: decision_call_def)
    with inv show ?thesis by (simp add: complete_coordination_err [OF False err] node_silent)
  next
    case ok
    let ?idle = "s\<lparr>calls := calls s @ [(decision_call p res, True)], engine_state := Idle,
        coordinator_timeout := timeout_stop (coordinator_timeout s)\<rparr>"
    have base: "view_inv c n seen None (proposal_backlog s) False (set (calls s))"
      and id: "engine_id s = n"
      using inv view_drop_current by (auto simp: node_inv_def)
    have "node_inv c n seen ?idle"
    proof (cases "res = APPLY")
      case True
      with view_accept [OF base p(1)] p undecided valid id show ?thesis
        by (simp add: node_inv_def rejected_def decision_call_def)
    next
      case False
      with view_reject [OF base p(1)] p undecided id show ?thesis
        by (simp add: node_inv_def accepted_def decision_call_def)
    qed
    then have "node_inv c n seen (snd (broadcast_msg env (result_msg p res) ?idle))"
      by (rule node_broadcast [OF env])
        (simp_all add: p(1) accepted_def rejected_def decision_call_def)
    then show ?thesis by (simp add: complete_coordination_ok [OF False ok])
  qed
qed

lemma node_start:
  assumes env: "env_ok c env" and inv: "node_inv c n seen s" and none: "current_proposal s = None"
    and t: "tpp_ok c t" "coord c (tpp_id t) = n" "tpp_id t \<in> seen"
      "tpp_id t \<notin> tpp_id ` set (proposal_backlog s)"
    and undecided: "\<not> accepted (tpp_id t) s" "\<not> rejected (tpp_id t) s"
  shows "node_inv c n seen (snd (start_coordination env now t s))"
proof (cases rule: call_pm_cases [of env "CheckProposal (tpp_id t)" s])
  case ok
  let ?L = "insert (CheckProposal (tpp_id t), True) (set (calls s))"
  have "view_inv c n seen None (proposal_backlog s) (timer_running s) ?L"
    using inv none by (simp add: node_inv_def view_silent)
  then have "view_inv c n seen (Some t) (proposal_backlog s) True ?L"
    by (rule view_start)
      (use t undecided in \<open>auto simp: accepted_def rejected_def tpp_ok_def\<close>)
  with inv ok show ?thesis by (simp add: start_coordination_def node_inv_def)
next
  case (err x)
  let ?s = "s\<lparr>calls := calls s @ [(CheckProposal (tpp_id t), False)]\<rparr>"
  have "node_inv c n seen ?s" using inv by (simp add: node_silent)
  then have "node_inv c n seen (snd (complete_coordination env (tpp_id t) REJECT ?s))"
    by (rule node_complete [OF env]) (use t undecided in \<open>simp_all add: accepted_def rejected_def\<close>)
  with err show ?thesis by (simp add: start_coordination_def)
qed

lemma node_see: "node_inv c n seen s \<Longrightarrow> node_inv c n (insert p seen) s"
  by (simp add: node_inv_def view_see)

lemma node_push:
  assumes "node_inv c n seen s" and "tpp_ok c t" and "tpp_id t \<notin> seen"
  shows "node_inv c n (insert (tpp_id t) seen) (push_proposal t s)"
  using assms by (simp add: node_inv_def push_proposal_def view_push)

lemma node_undecided:
  assumes "node_inv c n seen s" and "t \<in> known_of (current_proposal s) (proposal_backlog s)"
    and "coord c (tpp_id t) = n"
  shows "\<not> accepted (tpp_id t) s" and "\<not> rejected (tpp_id t) s"
  using assms(1) view_undecided [OF _ assms(2,3), of seen "timer_running s" "set (calls s)"]
  by (simp_all add: node_inv_def accepted_def rejected_def)

lemma node_unseen:
  assumes "node_inv c n seen s" and "p \<notin> seen" and "coord c p = n"
  shows "\<not> accepted p s" and "\<not> rejected p s"
  using assms(1) view_unseen [OF _ assms(2,3), of _ _ "timer_running s" "set (calls s)"]
  by (auto simp: node_inv_def accepted_def rejected_def)

lemma node_backlog_seen:
  "node_inv c n seen s \<Longrightarrow> t \<in> set (proposal_backlog s) \<Longrightarrow> tpp_ok c t \<and> tpp_id t \<in> seen"
  by (auto simp: node_inv_def view_inv_def known_of_def)

lemma node_current:
  assumes "node_inv c n seen s" and "current_proposal s = Some t"
  shows "tpp_ok c t" and "tpp_id t \<in> seen" and "tpp_id t \<notin> tpp_id ` set (proposal_backlog s)"
  using assms by (auto simp: node_inv_def view_inv_def known_of_def)

lemma node_handle_proposal:
  assumes env: "env_ok c env" and inv: "node_inv c n seen s" and new: "prop_id prop \<notin> seen"
    and vs: "proposal_verifiers env s prop = Ok (verifiers_of c (prop_id prop))"
      "verifiers_of c (prop_id prop) \<noteq> {}"
  shows "node_inv c n (insert (prop_id prop) seen) (snd (handle_proposal env now prop s))"
proof (cases "\<exists>t \<in> set (proposal_backlog s). tpp_id t = prop_id prop")
  case True
  then obtain t where "t \<in> set (proposal_backlog s)" "tpp_id t = prop_id prop" by blast
  with node_backlog_seen [OF inv] new show ?thesis by force
next
  case False
  define t where "t = two_phase_proposal_new (prop_id prop) (coord c (prop_id prop))
    (verifiers_of c (prop_id prop))"
  have t: "tpp_ok c t" "tpp_id t = prop_id prop" "coordinator_id t = coord c (prop_id prop)"
    by (simp_all add: t_def tpp_ok_def two_phase_proposal_new_def)
  have push: "node_inv c n (insert (prop_id prop) seen) (push_proposal t s)"
    using node_push [OF inv t(1)] new t(2) by simp
  have eq: "handle_proposal env now prop s =
     (case engine_state s of
        EvaluatingProposal current \<Rightarrow>
          if tpp_id t = tpp_id current then (Ok (), s) else (Ok (), push_proposal t s)
      | _ \<Rightarrow> if engine_id s = coord c (prop_id prop) then start_coordination env now t s
             else (Ok (), push_proposal t s))"
    using False vs by (simp add: handle_proposal_def min_verifier_def t_def coord_def Let_def split: tp_state.split)
  show ?thesis
  proof (cases "current_proposal s")
    case (Some u)
    then show ?thesis using eq push node_see [OF inv] by (simp add: current_proposal_iff)
  next
    case None
    have "node_inv c n (insert (prop_id prop) seen) (snd (start_coordination env now t s))"
      if "coord c (prop_id prop) = n"
      using node_start [OF env node_see [OF inv] None t(1)] t(2) that False
        node_unseen [OF inv new that] by force
    moreover have "engine_id s = n" using inv by (simp add: node_inv_def)
    ultimately show ?thesis using eq push None by (auto simp: current_proposal_iff)
  qed
qed

lemma node_requests [simp]:
  "node_inv c n seen (s\<lparr>verification_request_backlog := l\<rparr>) = node_inv c n seen s"
  by (simp add: node_inv_def)

text \<open>Taking a proposal out of the backlog and evaluating it, as a verification request does.\<close>

lemma node_evaluate:
  assumes inv: "node_inv c n seen s" and none: "current_proposal s = None"
    and i: "i < length (proposal_backlog s)"
  shows "node_inv c n seen (s\<lparr>engine_state := EvaluatingProposal (proposal_backlog s ! i),
      proposal_backlog := remove_at i (proposal_backlog s)\<rparr>)"
proof -
  let ?t = "proposal_backlog s ! i"
  have v: "view_inv c n seen None (proposal_backlog s) (timer_running s) (set (calls s))"
    using inv none by (simp add: node_inv_def)
  have t: "?t \<in> set (proposal_backlog s)" using i by simp
  have "view_inv c n seen (Some ?t) (remove_at i (proposal_backlog s)) (timer_running s) (set (calls s))"
  proof (rule view_start [OF view_remove_at(1) [OF v i]])
    show "tpp_ok c ?t" using node_backlog_seen [OF inv t] by simp
    show "tpp_id ?t \<in> seen - tpp_id ` set (remove_at i (proposal_backlog s))"
      using node_backlog_seen [OF inv t] view_remove_at(2) [OF v i] by simp
    show "(AcceptProposal (tpp_id ?t) None, True) \<notin> set (calls s) \<and>
        (RejectProposal (tpp_id ?t), True) \<notin> set (calls s)" if "coord c (tpp_id ?t) = n"
      using node_undecided [OF inv _ that] t by (simp add: known_of_def accepted_def rejected_def)
    show "coordinator_id ?t = n" if "timer_running s" using that view_no_timer [OF v] by simp
  qed
  with inv show ?thesis by (simp add: node_inv_def)
qed

lemma node_verification_request:
  assumes inv: "node_inv c n seen s"
  shows "node_inv c n seen (snd (handle_verification_request env p s))"
proof (cases "position (\<lambda>t. tpp_id t = p) (proposal_backlog s)")
  case None
  with inv show ?thesis
    by (simp add: handle_verification_request_def Let_def split: tp_state.splits)
next
  case (Some i)
  note i = position_SomeD(1,2) [OF Some]
  show ?thesis
  proof (cases "current_proposal s")
    case (Some t)
    have "tpp_id t \<noteq> p" using node_current(3) [OF inv Some] i by auto
    with Some inv show ?thesis
      by (simp add: handle_verification_request_def Let_def current_proposal_iff)
  next
    case None
    have "node_inv c n seen (s\<lparr>calls := calls s @ [(CheckProposal p, True)],
        engine_state := EvaluatingProposal (proposal_backlog s ! i),
        proposal_backlog := remove_at i (proposal_backlog s)\<rparr>)"
      using node_evaluate [of c n seen "s\<lparr>calls := calls s @ [(CheckProposal p, True)]\<rparr>" i]
        node_silent [OF inv] None i(1) by simp
    then show ?thesis
      using None Some node_silent [OF inv]
      by (cases rule: call_pm_cases [of env "CheckProposal p" s])
        (auto simp: handle_verification_request_def Let_def current_proposal_iff modify_act_def)
  qed
qed

lemma node_decide_current:
  assumes env: "env_ok c env" and inv: "node_inv c n seen s"
    and cur: "engine_state s = EvaluatingProposal t" and n: "coord c (tpp_id t) = n"
    and valid: "res = APPLY \<Longrightarrow>
      (\<forall>v \<in> verifiers_of c (tpp_id t). validated c (tpp_id t) v) \<and> verifiers_of c (tpp_id t) \<noteq> {n}"
  shows "node_inv c n seen (snd (complete_coordination env (tpp_id t) res s))"
proof -
  have cur': "current_proposal s = Some t" using cur by (simp add: current_proposal_iff)
  then have "t \<in> known_of (current_proposal s) (proposal_backlog s)" by (simp add: known_of_def)
  from node_complete [OF env inv n node_current(2,3) [OF inv cur'] node_undecided [OF inv this n]] valid
  show ?thesis by blast
qed

lemma node_verification_response:
  assumes env: "env_ok c env" and inv: "node_inv c n seen s" and n: "coord c p = n"
    and valid: "resp = VERIFIED \<Longrightarrow> validated c p q" and q: "q \<noteq> n"
  shows "node_inv c n seen (snd (handle_verification_response env p resp q s))"
proof (cases "evaluating_proposal s p")
  case False
  with inv show ?thesis by (simp add: handle_verification_response_def)
next
  case True
  then obtain t where t: "engine_state s = EvaluatingProposal t" "tpp_id t = p"
    by (auto simp: evaluating_proposal_def split: tp_state.splits)
  let ?t = "add_verified_peer q t"
  let ?s = "s\<lparr>engine_state := EvaluatingProposal ?t\<rparr>"
  have t': "tpp_id ?t = p" "required_verifiers ?t = required_verifiers t"
    using t(2) by (simp_all add: add_verified_peer_def)
  have verify: "node_inv c n seen ?s" if "resp = VERIFIED"
    using inv t valid [OF that] view_verify by (simp add: node_inv_def current_proposal_def)
  have "node_inv c n seen (snd (complete_coordination env p APPLY ?s))"
    if "resp = VERIFIED" "peers_verified ?t = required_verifiers ?t"
  proof -
    have "tpp_ok c ?t"
      using node_current(1) [OF verify [OF that(1)], of ?t] by (simp add: current_proposal_def)
    then have "\<forall>v \<in> verifiers_of c p. validated c p v" using that(2) t' by (simp add: tpp_ok_def)
    moreover have "q \<in> verifiers_of c p"
      using \<open>tpp_ok c ?t\<close> that(2) t' by (auto simp: tpp_ok_def add_verified_peer_def)
    ultimately have "(\<forall>v \<in> verifiers_of c p. validated c p v) \<and> verifiers_of c p \<noteq> {n}"
      using q by auto
    with node_decide_current [OF env verify [OF that(1)], of ?t APPLY] t' n show ?thesis by simp
  qed
  moreover have "node_inv c n seen (snd (complete_coordination env p REJECT s))"
    using node_decide_current [OF env inv t(1), of REJECT] t(2) n by simp
  ultimately show ?thesis
    using True inv verify t
    by (cases resp) (auto simp: handle_verification_response_def Let_def)
qed

lemma node_idle:
  assumes "node_inv c n seen s" and "\<not> timer_running s"
  shows "node_inv c n seen (s\<lparr>engine_state := Idle\<rparr>)"
  using assms
    view_drop_current [of c n seen "current_proposal s" "proposal_backlog s" False "set (calls s)"]
  by (simp add: node_inv_def)

lemma node_no_timer:
  assumes "node_inv c n seen s" and "evaluating_proposal s p" and "coord c p \<noteq> n"
  shows "\<not> timer_running s"
proof -
  from assms(2) obtain t where "current_proposal s = Some t" "tpp_id t = p"
    by (auto simp: evaluating_proposal_def current_proposal_def split: tp_state.splits)
  with assms(1,3) show ?thesis
    using view_participant_no_timer [of c n seen t "proposal_backlog s" "timer_running s" "set (calls s)"]
    by (simp add: node_inv_def)
qed

lemma evaluating_calls [simp]: "evaluating_proposal (s\<lparr>calls := l\<rparr>) p = evaluating_proposal s p"
  by (simp add: evaluating_proposal_def)

lemma node_proposal_result:
  assumes inv: "node_inv c n seen s" and n: "coord c p \<noteq> n"
    and app: "res = APPLY \<Longrightarrow> applied c p" and rej: "res = REJECT \<Longrightarrow> refused c p"
  shows "node_inv c n seen (snd (handle_proposal_result env p res s))"
proof -
  have a: "node_inv c n seen (s\<lparr>calls := calls s @ [(AcceptProposal p None, True)]\<rparr>)" if "res = APPLY"
    using inv view_follow_accept [OF _ n app [OF that]] by (simp add: node_inv_def)
  have r: "node_inv c n seen (s\<lparr>calls := calls s @ [(RejectProposal p, True)]\<rparr>)" if "res = REJECT"
    using inv view_follow_reject [OF _ n rej [OF that]] by (simp add: node_inv_def)
  have idle: "node_inv c n seen (s\<lparr>calls := l, engine_state := Idle\<rparr>)"
    if "node_inv c n seen (s\<lparr>calls := l\<rparr>)" "evaluating_proposal s p" for l
    using node_idle [OF that(1)] node_no_timer [OF that(1) _ n] that(2) by simp
  show ?thesis
  proof (cases res)
    case UNSET_RESULT
    with inv show ?thesis by (simp add: handle_proposal_result_def)
  next
    case APPLY
    then show ?thesis
      using inv a idle node_silent [OF inv, of "AcceptProposal p None" False]
      by (cases rule: call_pm_cases [of env "AcceptProposal p None" s])
        (auto simp: handle_proposal_result_def modify_act_def)
  next
    case REJECT
    then show ?thesis
      using inv r idle node_silent [OF inv, of "RejectProposal p" False]
      by (cases rule: call_pm_cases [of env "RejectProposal p" s])
        (auto simp: handle_proposal_result_def modify_act_def)
  qed
qed

lemma node_proposal_valid:
  assumes env: "env_ok c env" and inv: "node_inv c n seen s" and valid: "validated c p n"
  shows "node_inv c n seen (snd (handle_proposal_valid env p s))"
proof (cases "evaluating_proposal s p")
  case False
  with inv show ?thesis
    by (auto simp: handle_proposal_valid_def evaluating_proposal_def split: tp_state.splits)
next
  case True
  then obtain t where t: "engine_state s = EvaluatingProposal t" "tpp_id t = p"
    by (auto simp: evaluating_proposal_def split: tp_state.splits)
  have id: "engine_id s = n" using inv by (simp add: node_inv_def)
  have c: "coordinator_id t = coord c p"
    using node_current(1) [OF inv, of t] t by (simp add: current_proposal_def tpp_ok_def)
  have "node_inv c n seen (s\<lparr>engine_state := EvaluatingProposal (add_verified_peer n t)\<rparr>)"
    using inv t valid view_verify by (simp add: node_inv_def current_proposal_def)
  then have "node_inv c n seen (snd (broadcast_msg env (request_msg p)
      (s\<lparr>engine_state := EvaluatingProposal (add_verified_peer n t)\<rparr>)))"
    by (rule node_broadcast [OF env]) simp_all
  moreover have "node_inv c n seen (snd (send_msg_to env (coordinator_id t) (response_msg p VERIFIED) s))"
    by (rule node_send [OF env inv c]) (rule valid)
  ultimately show ?thesis using t id by (auto simp: handle_proposal_valid_def)
qed

lemma node_proposal_invalid:
  assumes env: "env_ok c env" and inv: "node_inv c n seen s"
  shows "node_inv c n seen (snd (handle_proposal_invalid env p s))"
proof (cases "evaluating_proposal s p")
  case False
  with inv show ?thesis
    by (auto simp: handle_proposal_invalid_def evaluating_proposal_def split: tp_state.splits)
next
  case True
  then obtain t where t: "engine_state s = EvaluatingProposal t" "tpp_id t = p"
    by (auto simp: evaluating_proposal_def split: tp_state.splits)
  have id: "engine_id s = n" using inv by (simp add: node_inv_def)
  have c: "coordinator_id t = coord c p"
    using node_current(1) [OF inv, of t] t by (simp add: current_proposal_def tpp_ok_def)
  have "node_inv c n seen (snd (complete_coordination env p REJECT s))" if "coord c p = n"
    using node_decide_current [OF env inv t(1), of REJECT] t(2) that by simp
  moreover have "node_inv c n seen (snd (send_msg_to env (coordinator_id t) (response_msg p FAILED) s))"
    by (rule node_send [OF env inv c]) simp
  ultimately show ?thesis using t id c by (auto simp: handle_proposal_invalid_def)
qed

lemma node_abort:
  assumes env: "env_ok c env" and inv: "node_inv c n seen s"
  shows "node_inv c n seen (snd (abort_proposal_if_timed_out env now s))"
proof (cases "current_proposal s")
  case None
  with inv show ?thesis
    by (auto simp: abort_proposal_if_timed_out_def current_proposal_iff)
next
  case (Some t)
  obtain expired timer where chk: "timeout_check_expired now (coordinator_timeout s) = (expired, timer)"
    by fastforce
  then have run: "timer_running (s\<lparr>coordinator_timeout := timer\<rparr>) = timer_running s"
    and exp: "expired \<Longrightarrow> timer_running s"
    by (auto simp: timeout_check_expired_def timer_running_def Let_def split: if_splits)
  have inv': "node_inv c n seen (s\<lparr>coordinator_timeout := timer\<rparr>)"
    using inv run by (simp add: node_inv_def)
  have "coord c (tpp_id t) = n" if expired
    using inv Some exp [OF that] by (auto simp: node_inv_def view_inv_def known_of_def tpp_ok_def)
  then have "node_inv c n seen (snd (complete_coordination env (tpp_id t) REJECT
      (s\<lparr>coordinator_timeout := timer\<rparr>)))" if expired
    using node_decide_current [OF env inv', of t REJECT] Some that by (simp add: current_proposal_iff)
  with inv' Some chk show ?thesis
    by (simp add: abort_proposal_if_timed_out_def current_proposal_iff Let_def)
qed

lemma node_backlogged:
  assumes inv: "node_inv c n seen s"
  shows "node_inv c n seen (snd (handle_backlogged_verification_request env s))"
proof (cases "engine_state s = Idle")
  case False
  with inv show ?thesis by (simp add: handle_backlogged_verification_request_def)
next
  case idle: True
  then have none: "current_proposal s = None" by (simp add: current_proposal_iff)
  let ?inb = "\<lambda>p. \<exists>t \<in> set (proposal_backlog s). tpp_id t = p"
  show ?thesis
  proof (cases "position ?inb (verification_request_backlog s)")
    case None
    with inv idle show ?thesis by (simp add: handle_backlogged_verification_request_def)
  next
    case (Some idx)
    define p where "p = verification_request_backlog s ! idx"
    define s1 where "s1 = s\<lparr>verification_request_backlog := remove_at idx (verification_request_backlog s)\<rparr>"
    have s1: "node_inv c n seen s1" "current_proposal s1 = None" "proposal_backlog s1 = proposal_backlog s"
      using inv none by (simp_all add: s1_def)
    show ?thesis
    proof (cases "position (\<lambda>t. tpp_id t = p) (proposal_backlog s)")
      case None
      with Some idle s1 show ?thesis
        by (simp add: handle_backlogged_verification_request_def p_def s1_def Let_def)
    next
      case (Some pidx)
      note i = position_SomeD(1) [OF Some]
      let ?t = "proposal_backlog s ! pidx"
      let ?bl = "remove_at pidx (proposal_backlog s)"
      have dropped: "node_inv c n seen (s1\<lparr>proposal_backlog := ?bl\<rparr>)"
        using s1 view_remove_at(1) [of c n seen None "proposal_backlog s" "timer_running s1" "set (calls s1)"] i
        by (simp add: node_inv_def)
      have "node_inv c n seen (s1\<lparr>proposal_backlog := ?bl, calls := calls s1 @ [(CheckProposal p, False)]\<rparr>)"
        using node_silent [OF dropped, of "CheckProposal p" False] by simp
      moreover have "node_inv c n seen (s1\<lparr>proposal_backlog := ?bl,
          calls := calls s1 @ [(CheckProposal p, True)], engine_state := EvaluatingProposal ?t\<rparr>)"
        using node_evaluate [OF node_silent [OF s1(1), of "CheckProposal p" True], of pidx] s1 i
        by (simp add: node_inv_def)
      ultimately show ?thesis
        using Some idle \<open>position ?inb _ = Some idx\<close>
        by (cases rule: call_pm_cases [of env "CheckProposal p" "s1\<lparr>proposal_backlog := ?bl\<rparr>"])
          (simp_all add: handle_backlogged_verification_request_def p_def s1_def Let_def modify_act_def)
    qed
  qed
qed

lemma node_next:
  assumes env: "env_ok c env" and inv: "node_inv c n seen s"
  shows "node_inv c n seen (snd (get_next_proposal env now s))"
proof (cases "engine_state s = Idle")
  case False
  with inv show ?thesis by (simp add: get_next_proposal_def)
next
  case idle: True
  then have none: "current_proposal s = None" by (simp add: current_proposal_iff)
  have id: "engine_id s = n" using inv by (simp add: node_inv_def)
  show ?thesis
  proof (cases "position (\<lambda>t. coordinator_id t = engine_id s) (proposal_backlog s)")
    case None
    have "node_inv c n seen (s\<lparr>calls := l, engine_state := AwaitingProposal\<rparr>)"
      if "node_inv c n seen (s\<lparr>calls := l\<rparr>)" for l
      using that none by (simp add: node_inv_def)
    with None idle inv node_silent [OF inv] show ?thesis
      by (cases rule: call_pm_cases [of env "CreateProposal None []" s])
        (simp_all add: get_next_proposal_def)
  next
    case (Some idx)
    note i = position_SomeD(1,2) [OF Some]
    let ?t = "proposal_backlog s ! idx"
    let ?s = "s\<lparr>proposal_backlog := remove_at idx (proposal_backlog s)\<rparr>"
    have v: "view_inv c n seen None (proposal_backlog s) (timer_running s) (set (calls s))"
      using inv none by (simp add: node_inv_def)
    have t: "?t \<in> set (proposal_backlog s)" using i(1) by simp
    have tpp: "tpp_ok c ?t" "tpp_id ?t \<in> seen" using node_backlog_seen [OF inv t] by simp_all
    have n: "coord c (tpp_id ?t) = n" using tpp(1) i(2) id by (simp add: tpp_ok_def)
    have "node_inv c n seen ?s" "current_proposal ?s = None"
      using view_remove_at(1) [OF v i(1)] none id by (simp_all add: node_inv_def)
    then have "node_inv c n seen (snd (start_coordination env now ?t ?s))"
      by (rule node_start [OF env])
        (use tpp n view_remove_at(2) [OF v i(1)] node_undecided [OF inv _ n] t in
          \<open>simp_all add: known_of_def accepted_def rejected_def\<close>)
    with Some idle show ?thesis by (simp add: get_next_proposal_def ignore_err_def)
  qed
qed

end
