(* ===== verification/Two_Phase_Engine.thy ===== *)
theory Two_Phase_Engine
  imports Two_Phase_Node
begin

text \<open>
  Functional behaviour of one two-phase commit engine: when the coordinator decides, what a timeout
  does, when the run loop ends, and the two situations in which the engine loses track of a proposal.
\<close>

section \<open>Decisions of the coordinator\<close>

definition verified_by :: "peer_id \<Rightarrow> two_phase_proposal \<Rightarrow> peer_id set" where
  "verified_by q t = insert q (peers_verified t)"

lemma handle_response_verified:
  assumes "engine_state s = EvaluatingProposal t"
  shows "handle_verification_response env (tpp_id t) VERIFIED q s =
    (let s' = s\<lparr>engine_state := EvaluatingProposal (add_verified_peer q t)\<rparr> in
     if verified_by q t = required_verifiers t
     then complete_coordination env (tpp_id t) APPLY s' else (Ok (), s'))"
  using assms
  by (simp add: handle_verification_response_def evaluating_proposal_def Let_def verified_by_def
      add_verified_peer_def)

lemma complete_coordination_success:
  assumes "res \<noteq> UNSET_RESULT" and "pm_reply env (calls s) (decision_call p res) = Ok ()"
    and "write_to_bytes (wire env) (result_msg p res) = Ok b"
    and "ns_reply env (calls s @ [(decision_call p res, True)]) (Broadcast b) = Ok ()"
  shows "complete_coordination env p res s =
    (Ok (), s\<lparr>engine_state := Idle, coordinator_timeout := timeout_stop (coordinator_timeout s),
              calls := calls s @ [(decision_call p res, True), (Broadcast b, True)]\<rparr>)"
proof -
  have "call_pm env (decision_call p res) s =
      (Ok (), s\<lparr>calls := calls s @ [(decision_call p res, True)]\<rparr>)"
    using assms(2) by (simp add: call_pm_def)
  from complete_coordination_ok [OF assms(1) this] assms(3,4) show ?thesis
    by (simp add: broadcast_msg_def call_ns_def)
qed

section \<open>The run loop\<close>

fun tick_stops :: "tick \<Rightarrow> bool" where
  "tick_stops k = (tick_message k = RecvDisconnected \<or> tick_update k = RecvDisconnected \<or>
     tick_update k = Received Shutdown)"

lemma run_update_status:
  "fst (run_update env k s) =
     (if tick_update k = RecvDisconnected \<or> tick_update k = Received Shutdown then Break else Continue)"
  by (auto simp: run_update_def split: recv.split proposal_update.split)

lemma run_iteration_status: "fst (run_iteration env k s) = (if tick_stops k then Break else Continue)"
  by (auto simp: run_iteration_def Let_def run_update_status split: recv.split)

lemma run_loop_status: "fst (run_loop env ks s) = (if \<exists>k \<in> set ks. tick_stops k then Break else Continue)"
proof (induction ks arbitrary: s)
  case Nil
  show ?case by simp
next
  case (Cons k ks)
  then show ?case
    using run_iteration_status [of env k s]
    by (cases "run_iteration env k s"; cases "fst (run_iteration env k s)")
      (auto split: if_splits simp del: tick_stops.simps)
qed

section \<open>Properties\<close>

text \<open>When the response that completes the required set arrives and no call fails, the
  coordinator accepts the proposal, becomes idle, stops its timer and broadcasts the result; until
  then it only records the response.\<close>

theorem coordinator_applies_when_all_verified:
  assumes "engine_state s = EvaluatingProposal t"
    and "pm_reply env (calls s) (AcceptProposal (tpp_id t) None) = Ok ()"
    and "write_to_bytes (wire env) (result_msg (tpp_id t) APPLY) = Ok b"
    and "ns_reply env (calls s @ [(AcceptProposal (tpp_id t) None, True)]) (Broadcast b) = Ok ()"
  shows "handle_verification_response env (tpp_id t) VERIFIED q s =
    (Ok (), if insert q (peers_verified t) = required_verifiers t
       then s\<lparr>engine_state := Idle, coordinator_timeout := timeout_stop (coordinator_timeout s),
              calls := calls s @ [(AcceptProposal (tpp_id t) None, True), (Broadcast b, True)]\<rparr>
       else s\<lparr>engine_state := EvaluatingProposal (add_verified_peer q t)\<rparr>)"
  using assms complete_coordination_success [of APPLY env "s\<lparr>engine_state :=
      EvaluatingProposal (add_verified_peer q t)\<rparr>" "tpp_id t" b]
  by (simp add: handle_response_verified Let_def verified_by_def decision_call_def)

theorem coordinator_applies_when_all_verified_witness:
  "calls (snd (handle_verification_response
     \<lparr>pm_reply = (\<lambda>_ _. Ok ()), ns_reply = (\<lambda>_ _. Ok ()),
      wire = table_codec [result_msg (ProposalId [7]) APPLY], verifiers_wire = table_codec []\<rparr>
     (ProposalId [7]) VERIFIED (PeerId [2])
     ((engine_new 5000 0)\<lparr>engine_state := EvaluatingProposal
        \<lparr>tpp_id = ProposalId [7], coordinator_id = PeerId [1], peers_verified = {PeerId [1]},
         required_verifiers = {PeerId [1], PeerId [2]}\<rparr>\<rparr>))) =
   [(AcceptProposal (ProposalId [7]) None, True), (Broadcast [0], True)]"
proof -
  let ?env = "\<lparr>pm_reply = (\<lambda>_ _. Ok ()), ns_reply = (\<lambda>_ _. Ok ()),
      wire = table_codec [result_msg (ProposalId [7]) APPLY], verifiers_wire = table_codec []\<rparr>"
  let ?t = "\<lparr>tpp_id = ProposalId [7], coordinator_id = PeerId [1], peers_verified = {PeerId [1]},
      required_verifiers = {PeerId [1], PeerId [2]}\<rparr>"
  let ?s = "(engine_new 5000 0)\<lparr>engine_state := EvaluatingProposal ?t\<rparr>"
  have "write_to_bytes (wire ?env) (result_msg (tpp_id ?t) APPLY) = Ok [0]"
    by (simp add: table_codec_def)
  from coordinator_applies_when_all_verified [of ?s ?t ?env "[0]" "PeerId [2]"] this
  show ?thesis by (simp add: insert_commute engine_new_def)
qed

text \<open>A verified response from a peer that is not a required verifier makes the proposal
  impossible to accept: once such a peer is recorded, no further verified response is followed by an
  accept call, because the code compares the two sets for equality.\<close>

theorem foreign_verification_blocks_acceptance:
  assumes "engine_state s = EvaluatingProposal t" and "f \<in> peers_verified t" and "f \<notin> required_verifiers t"
  shows "handle_verification_response env (tpp_id t) VERIFIED q s =
    (Ok (), s\<lparr>engine_state := EvaluatingProposal (add_verified_peer q t)\<rparr>)"
proof -
  have "verified_by q t \<noteq> required_verifiers t" using assms(2,3) by (auto simp: verified_by_def)
  with assms(1) show ?thesis by (simp add: handle_response_verified Let_def)
qed

theorem foreign_verification_blocks_acceptance_witness:
  "handle_verification_response
     \<lparr>pm_reply = (\<lambda>_ _. Ok ()), ns_reply = (\<lambda>_ _. Ok ()), wire = table_codec [],
      verifiers_wire = table_codec []\<rparr> (ProposalId [7]) VERIFIED (PeerId [2])
     ((engine_new 5000 0)\<lparr>engine_state := EvaluatingProposal
        \<lparr>tpp_id = ProposalId [7], coordinator_id = PeerId [1], peers_verified = {PeerId [1], PeerId [3]},
         required_verifiers = {PeerId [1], PeerId [2]}\<rparr>\<rparr>) =
   (Ok (), (engine_new 5000 0)\<lparr>engine_state := EvaluatingProposal
        \<lparr>tpp_id = ProposalId [7], coordinator_id = PeerId [1],
         peers_verified = {PeerId [2], PeerId [1], PeerId [3]},
         required_verifiers = {PeerId [1], PeerId [2]}\<rparr>\<rparr>)"
  using foreign_verification_blocks_acceptance [of "(engine_new 5000 0)\<lparr>engine_state := EvaluatingProposal
        \<lparr>tpp_id = ProposalId [7], coordinator_id = PeerId [1], peers_verified = {PeerId [1], PeerId [3]},
         required_verifiers = {PeerId [1], PeerId [2]}\<rparr>\<rparr>"
      "\<lparr>tpp_id = ProposalId [7], coordinator_id = PeerId [1], peers_verified = {PeerId [1], PeerId [3]},
         required_verifiers = {PeerId [1], PeerId [2]}\<rparr>" "PeerId [3]"]
  by (simp add: add_verified_peer_def)

text \<open>C18. A proposal whose coordinator timer has run out is rejected at the next check: the proposal
  manager is told, the rejection is broadcast, and the engine is idle with its timer stopped.\<close>

theorem timed_out_proposal_is_rejected:
  assumes "engine_state s = EvaluatingProposal t" and "to_state (coordinator_timeout s) = TimerActive"
    and "now - to_start (coordinator_timeout s) > to_duration (coordinator_timeout s)"
    and "pm_reply env (calls s) (RejectProposal (tpp_id t)) = Ok ()"
    and "write_to_bytes (wire env) (result_msg (tpp_id t) REJECT) = Ok b"
    and "ns_reply env (calls s @ [(RejectProposal (tpp_id t), True)]) (Broadcast b) = Ok ()"
  shows "abort_proposal_if_timed_out env now s =
    (Ok (), s\<lparr>engine_state := Idle, coordinator_timeout := timeout_stop (coordinator_timeout s),
              calls := calls s @ [(RejectProposal (tpp_id t), True), (Broadcast b, True)]\<rparr>)"
proof -
  let ?timer = "(coordinator_timeout s)\<lparr>to_state := TimerExpired\<rparr>"
  have "timeout_check_expired now (coordinator_timeout s) = (True, ?timer)"
    using assms(2,3) by (simp add: timeout_check_expired_def Let_def)
  moreover have "timeout_stop ?timer = timeout_stop (coordinator_timeout s)"
    by (simp add: timeout_stop_def)
  ultimately show ?thesis
    using assms complete_coordination_success [of REJECT env "s\<lparr>coordinator_timeout := ?timer\<rparr>" "tpp_id t" b]
    by (simp add: abort_proposal_if_timed_out_def Let_def decision_call_def)
qed

theorem timed_out_proposal_is_rejected_witness:
  "calls (snd (abort_proposal_if_timed_out
     \<lparr>pm_reply = (\<lambda>_ _. Ok ()), ns_reply = (\<lambda>_ _. Ok ()),
      wire = table_codec [result_msg (ProposalId [7]) REJECT], verifiers_wire = table_codec []\<rparr> 9000
     ((engine_new 5000 0)\<lparr>engine_state := EvaluatingProposal (two_phase_proposal_new (ProposalId [7]) (PeerId [1]) {PeerId [1]}),
        coordinator_timeout := timeout_start 0 (timeout_new 5000 0)\<rparr>))) =
   [(RejectProposal (ProposalId [7]), True), (Broadcast [0], True)]"
proof -
  let ?env = "\<lparr>pm_reply = (\<lambda>_ _. Ok ()), ns_reply = (\<lambda>_ _. Ok ()),
      wire = table_codec [result_msg (ProposalId [7]) REJECT], verifiers_wire = table_codec []\<rparr>"
  let ?t = "two_phase_proposal_new (ProposalId [7]) (PeerId [1]) {PeerId [1]}"
  let ?s = "(engine_new 5000 0)\<lparr>engine_state := EvaluatingProposal ?t,
      coordinator_timeout := timeout_start 0 (timeout_new 5000 0)\<rparr>"
  have "write_to_bytes (wire ?env) (result_msg (tpp_id ?t) REJECT) = Ok [0]"
    by (simp add: table_codec_def two_phase_proposal_new_def)
  with timed_out_proposal_is_rejected [of ?s ?t 9000 ?env "[0]"] show ?thesis
    by (simp add: timeout_start_def timeout_new_def engine_new_def two_phase_proposal_new_def)
qed

text \<open>C19. The run loop ends exactly at the first iteration that receives the shutdown update or finds
  one of its channels closed; errors of the handlers never end it.\<close>

theorem run_loop_ends_iff:
  "fst (run_loop env ks s) = Break \<longleftrightarrow>
     (\<exists>k \<in> set ks. tick_message k = RecvDisconnected \<or> tick_update k = RecvDisconnected \<or>
        tick_update k = Received Shutdown)"
  by (simp add: run_loop_status)

text \<open>A proposal with an empty verifier list makes the engine forget the proposal it is
  evaluating: the state becomes idle while the coordinator timer keeps running.\<close>

theorem empty_verifiers_drop_current_proposal:
  assumes "engine_state s = EvaluatingProposal t"
    and "proposal_verifiers env s pr = Ok {}"
    and "\<forall>u \<in> set (proposal_backlog s). tpp_id u \<noteq> prop_id pr"
    and "pm_reply env (calls s) (RejectProposal (prop_id pr)) = Ok ()"
  shows "handle_proposal env now pr s =
    (Ok (), s\<lparr>engine_state := Idle, calls := calls s @ [(RejectProposal (prop_id pr), True)]\<rparr>)"
  using assms
  by (simp add: handle_proposal_def min_verifier_def bind_act_def call_pm_def modify_act_def)

theorem empty_verifiers_drop_current_proposal_witness:
  "engine_state (snd (handle_proposal
     \<lparr>pm_reply = (\<lambda>_ _. Ok ()), ns_reply = (\<lambda>_ _. Ok ()), wire = table_codec [],
      verifiers_wire = table_codec [\<lparr>verifiers_field = []\<rparr>]\<rparr> 10
     \<lparr>prop_id = ProposalId [8], previous_id = ProposalId [], proposal_height = 0, summary = [],
      consensus_data = [0]\<rparr>
     ((engine_new 5000 0)\<lparr>engine_state := EvaluatingProposal
        (two_phase_proposal_new (ProposalId [7]) (PeerId [1]) {PeerId [1], PeerId [2]})\<rparr>))) = Idle"
  by (subst empty_verifiers_drop_current_proposal)
    (simp_all add: proposal_verifiers_def table_codec_def engine_new_def)

end
