(* ===== verification/Two_Phase_System.thy ===== *)
theory Two_Phase_System
  imports Two_Phase_Node
begin

text \<open>
  Two-phase commit engines running together.

  Every peer runs an engine. An engine can be given a message as soon as another engine has made the
  call that sends it (\<open>broadcast\<close>, or \<open>send_to\<close> with this peer as the target); whether that call
  reported success does not matter, so messages can be lost, repeated and reordered at will. Calls to
  the proposal manager and the network sender can fail at any time. A proposal reaches an engine at
  most once, and all engines compute the same set of verifiers for it; these are the assumptions of
  the two-phase protocol on the services that use it.

  Shown here: no two engines decide a proposal differently; a proposal is accepted only when every
  verifier's proposal manager has found it valid; and an iteration of the engine's run loop is a
  sequence of steps of this system.
\<close>

section \<open>The system\<close>

record tp_system =
  sys_nodes :: "peer_id \<Rightarrow> engine_run"
  sys_seen :: "peer_id \<Rightarrow> proposal_id set"
  sys_valid :: "peer_id \<Rightarrow> proposal_id set"

definition upd_node :: "peer_id \<Rightarrow> engine_run \<Rightarrow> tp_system \<Rightarrow> tp_system" where
  "upd_node n s g = g\<lparr>sys_nodes := (sys_nodes g)(n := s)\<rparr>"

definition see_proposal :: "peer_id \<Rightarrow> proposal_id \<Rightarrow> tp_system \<Rightarrow> tp_system" where
  "see_proposal n p g = g\<lparr>sys_seen := (sys_seen g)(n := insert p (sys_seen g n))\<rparr>"

definition see_valid :: "peer_id \<Rightarrow> proposal_id \<Rightarrow> tp_system \<Rightarrow> tp_system" where
  "see_valid n p g = g\<lparr>sys_valid := (sys_valid g)(n := insert p (sys_valid g n))\<rparr>"

definition sent_to :: "tp_system \<Rightarrow> peer_id \<Rightarrow> peer_id \<Rightarrow> bytes \<Rightarrow> bool" where
  "sent_to g q n b \<longleftrightarrow>
     (\<exists>r. (Broadcast b, r) \<in> set (calls (sys_nodes g q)) \<or> (SendTo n b, r) \<in> set (calls (sys_nodes g q)))"

fun plain_update :: "proposal_update \<Rightarrow> bool" where
  "plain_update (ProposalCreated (Some _)) = False"
| "plain_update (ProposalReceived _ _) = False"
| "plain_update (ProposalValid _) = False"
| "plain_update _ = True"

definition sys_init :: "(peer_id \<Rightarrow> peer_id list) \<Rightarrow> nat \<Rightarrow> nat \<Rightarrow> tp_system" where
  "sys_init peers duration now =
     \<lparr>sys_nodes = (\<lambda>n. engine_start \<lparr>ss_id = n, ss_peer_ids = peers n, ss_last_proposal = None\<rparr>
                         (engine_new duration now)),
      sys_seen = (\<lambda>_. {}), sys_valid = (\<lambda>_. {})\<rparr>"

inductive sys_step ::
  "(peer_id \<Rightarrow> tp_env) \<Rightarrow> (proposal_id \<Rightarrow> peer_id set) \<Rightarrow> tp_system \<Rightarrow> tp_system \<Rightarrow> bool"
  for envs vs where
  abort: "sys_step envs vs g
     (upd_node n (snd (abort_proposal_if_timed_out (envs n) now (sys_nodes g n))) g)"
| backlogged: "sys_step envs vs g
     (upd_node n (snd (handle_backlogged_verification_request (envs n) (sys_nodes g n))) g)"
| next_proposal: "sys_step envs vs g
     (upd_node n (snd (get_next_proposal (envs n) now (sys_nodes g n))) g)"
| deliver: "q \<noteq> n \<Longrightarrow> sent_to g q n b \<Longrightarrow> sys_step envs vs g
     (upd_node n (snd (handle_consensus_msg (envs n) \<lparr>cm_message = b, origin_id = q\<rparr> (sys_nodes g n))) g)"
| propose: "u = ProposalCreated (Some prop) \<or> u = ProposalReceived prop q \<Longrightarrow>
     prop_id prop \<notin> sys_seen g n \<Longrightarrow> vs (prop_id prop) \<noteq> {} \<Longrightarrow>
     proposal_verifiers (envs n) (sys_nodes g n) prop = Ok (vs (prop_id prop)) \<Longrightarrow>
     sys_step envs vs g
     (upd_node n (snd (handle_proposal_update (envs n) now u (sys_nodes g n)))
        (see_proposal n (prop_id prop) g))"
| valid: "sys_step envs vs g
     (upd_node n (snd (handle_proposal_update (envs n) now (ProposalValid p) (sys_nodes g n)))
        (see_valid n p g))"
| update: "plain_update u \<Longrightarrow> sys_step envs vs g
     (upd_node n (snd (handle_proposal_update (envs n) now u (sys_nodes g n))) g)"

inductive sys_reachable ::
  "(peer_id \<Rightarrow> tp_env) \<Rightarrow> (proposal_id \<Rightarrow> peer_id set) \<Rightarrow> tp_system \<Rightarrow> bool"
  for envs vs where
  init: "sys_reachable envs vs (sys_init peers duration now)"
| step: "sys_reachable envs vs g \<Longrightarrow> sys_step envs vs g g' \<Longrightarrow> sys_reachable envs vs g'"

definition same_wire :: "(peer_id \<Rightarrow> tp_env) \<Rightarrow> bool" where
  "same_wire envs \<longleftrightarrow> (\<exists>w. round_trip w \<and> (\<forall>n. wire (envs n) = w))"

definition proposal_fresh ::
  "(peer_id \<Rightarrow> tp_env) \<Rightarrow> (proposal_id \<Rightarrow> peer_id set) \<Rightarrow> tp_system \<Rightarrow> peer_id \<Rightarrow> proposal \<Rightarrow> bool" where
  "proposal_fresh envs vs g n pr \<longleftrightarrow>
     prop_id pr \<notin> sys_seen g n \<and> vs (prop_id pr) \<noteq> {} \<and>
     proposal_verifiers (envs n) (sys_nodes g n) pr = Ok (vs (prop_id pr))"

text \<open>What an iteration of the run loop of engine \<open>n\<close> may receive.\<close>

definition tick_ok ::
  "(peer_id \<Rightarrow> tp_env) \<Rightarrow> (proposal_id \<Rightarrow> peer_id set) \<Rightarrow> tp_system \<Rightarrow> peer_id \<Rightarrow> tick \<Rightarrow> bool" where
  "tick_ok envs vs g n k \<longleftrightarrow>
     (case tick_message k of
        Received cm \<Rightarrow> origin_id cm \<noteq> n \<and> sent_to g (origin_id cm) n (cm_message cm) | _ \<Rightarrow> True) \<and>
     (case tick_update k of
        Received (ProposalCreated (Some pr)) \<Rightarrow> proposal_fresh envs vs g n pr
      | Received (ProposalReceived pr _) \<Rightarrow> proposal_fresh envs vs g n pr
      | _ \<Rightarrow> True)"

section \<open>The identity of an engine is fixed and its calls only grow\<close>

definition grows :: "engine_run \<Rightarrow> engine_run \<Rightarrow> bool" where
  "grows s s' \<longleftrightarrow> engine_id s' = engine_id s \<and> engine_peers s' = engine_peers s \<and>
     set (calls s) \<subseteq> set (calls s')"

lemma grows_refl [simp]: "grows s s"
  by (simp add: grows_def)

lemma grows_trans: "grows s s' \<Longrightarrow> grows s' s'' \<Longrightarrow> grows s s''"
  by (auto simp: grows_def)

lemma grows_update [simp]:
  "grows s (s'\<lparr>engine_state := st\<rparr>) = grows s s'"
  "grows s (s'\<lparr>coordinator_timeout := k\<rparr>) = grows s s'"
  "grows s (s'\<lparr>proposal_backlog := bl\<rparr>) = grows s s'"
  "grows s (s'\<lparr>verification_request_backlog := rl\<rparr>) = grows s s'"
  "grows (s\<lparr>engine_state := st\<rparr>) s' = grows s s'"
  "grows (s\<lparr>coordinator_timeout := k\<rparr>) s' = grows s s'"
  "grows (s\<lparr>proposal_backlog := bl\<rparr>) s' = grows s s'"
  "grows (s\<lparr>verification_request_backlog := rl\<rparr>) s' = grows s s'"
  "grows s (s\<lparr>calls := calls s @ l\<rparr>)"
  by (simp_all add: grows_def)

lemma grows_call [simp]: "grows s (snd (call_pm env e s))" "grows s (snd (call_ns env e s))"
  by (simp_all add: call_pm_def call_ns_def Let_def)

lemma grows_send [simp]: "grows s (snd (broadcast_msg env m s))" "grows s (snd (send_msg_to env q m s))"
  by (simp_all add: broadcast_msg_def send_msg_to_def fail_act_def split: result.split)

lemma grows_call_then:
  assumes "\<And>s'. grows s s' \<Longrightarrow> grows s (snd (f () s'))"
  shows "grows s (snd (bind_act (call_pm env e) f s))"
  using assms [of "snd (call_pm env e s)"]
  by (cases "call_pm env e s" rule: prod.exhaust; cases "fst (call_pm env e s)")
    (use grows_call(1) [of s env e] in \<open>auto simp: bind_act_def\<close>)

lemma grows_complete [simp]: "grows s (snd (complete_coordination env p res s))"
proof -
  have "grows s (snd (broadcast_msg env (result_msg p res) (s'\<lparr>engine_state := Idle,
      coordinator_timeout := timeout_stop (coordinator_timeout s')\<rparr>)))" if "grows s s'" for s'
    by (rule grows_trans [OF _ grows_send(1)]) (use that in simp)
  then show ?thesis
    by (cases res)
      (auto simp: complete_coordination_def Let_def bind_modify pure_act_def intro!: grows_call_then)
qed

lemma grows_start [simp]: "grows s (snd (start_coordination env now t s))"
proof (cases rule: call_pm_cases [of env "CheckProposal (tpp_id t)" s])
  case ok
  then show ?thesis by (simp add: start_coordination_def)
next
  case (err x)
  have "grows s (snd (complete_coordination env (tpp_id t) REJECT
      (s\<lparr>calls := calls s @ [(CheckProposal (tpp_id t), False)]\<rparr>)))"
    by (rule grows_trans [OF _ grows_complete]) simp
  with err show ?thesis by (simp add: start_coordination_def)
qed

lemma grows_modify [simp]: "grows s (snd (modify_act f s')) = grows s (f s')"
  by (simp add: modify_act_def)

lemma grows_push [simp]: "grows s (push_proposal t s)"
  by (simp add: push_proposal_def)

lemma grows_via: "grows s s' \<Longrightarrow> grows s' (snd (h s')) \<Longrightarrow> grows s (snd (h s'))"
  by (rule grows_trans)

lemma grows_handle_proposal [simp]: "grows s (snd (handle_proposal env now prop s))"
  by (auto simp: handle_proposal_def Let_def intro!: grows_call_then
      split: result.split option.split tp_state.split)

lemma grows_request [simp]: "grows s (snd (handle_verification_request env p s))"
  by (auto simp: handle_verification_request_def Let_def intro!: grows_call_then
      split: option.split tp_state.split)

lemma grows_response [simp]: "grows s (snd (handle_verification_response env p resp q s))"
  by (auto simp: handle_verification_response_def Let_def
      intro: grows_via [where h = "complete_coordination env p APPLY"]
      split: tp_response.split tp_state.split)

lemma grows_result [simp]: "grows s (snd (handle_proposal_result env p res s))"
  by (auto simp: handle_proposal_result_def intro!: grows_call_then split: tp_result.split)

lemma grows_message: "grows s (snd (handle_consensus_msg env cm s))"
  by (auto simp: handle_consensus_msg_def Let_def split: result.split tp_type.split)

lemma grows_update_handler: "grows s (snd (handle_proposal_update env now u s))"
  by (auto simp: handle_proposal_update_def handle_proposal_valid_def handle_proposal_invalid_def
      intro: grows_via [where h = "broadcast_msg env m" for m]
      split: proposal_update.split option.split tp_state.split)

lemma grows_abort: "grows s (snd (abort_proposal_if_timed_out env now s))"
  by (auto simp: abort_proposal_if_timed_out_def Let_def
      intro: grows_via [where h = "complete_coordination env p REJECT" for p]
      split: tp_state.split prod.split)

lemma grows_backlogged: "grows s (snd (handle_backlogged_verification_request env s))"
  by (auto simp: handle_backlogged_verification_request_def Let_def bind_act_def call_pm_def grows_def
      modify_act_def
      split: option.split result.split prod.split)

lemma grows_next: "grows s (snd (get_next_proposal env now s))"
  by (auto simp: get_next_proposal_def ignore_err_def call_pm_def Let_def
      intro: grows_via [where h = "start_coordination env now t" for t]
      split: option.split result.split)

section \<open>The system keeps the invariant of every engine\<close>

definition sys_setting ::
  "two_phase_message codec \<Rightarrow> (proposal_id \<Rightarrow> peer_id set) \<Rightarrow> tp_system \<Rightarrow> tp_setting" where
  "sys_setting w vs g = \<lparr>verifiers_of = vs, wire_of = w,
     applied = (\<lambda>p. accepted p (sys_nodes g (Min (vs p)))),
     refused = (\<lambda>p. rejected p (sys_nodes g (Min (vs p)))),
     validated = (\<lambda>p v. p \<in> sys_valid g v)\<rparr>"

definition sys_inv ::
  "two_phase_message codec \<Rightarrow> (proposal_id \<Rightarrow> peer_id set) \<Rightarrow> tp_system \<Rightarrow> bool" where
  "sys_inv w vs g \<longleftrightarrow> (\<forall>n. node_inv (sys_setting w vs g) n (sys_seen g n) (sys_nodes g n))"

definition setting_le :: "tp_setting \<Rightarrow> tp_setting \<Rightarrow> bool" where
  "setting_le c c' \<longleftrightarrow> verifiers_of c' = verifiers_of c \<and> wire_of c' = wire_of c \<and>
     (\<forall>p. applied c p \<longrightarrow> applied c' p) \<and> (\<forall>p. refused c p \<longrightarrow> refused c' p) \<and>
     (\<forall>p v. validated c p v \<longrightarrow> validated c' p v)"

lemma setting_le_coord: "setting_le c c' \<Longrightarrow> coord c' = coord c"
  by (simp add: setting_le_def coord_def fun_eq_iff)

lemma view_inv_mono:
  assumes "view_inv c n seen cur bl timer L" and "setting_le c c'"
  shows "view_inv c' n seen cur bl timer L"
proof -
  have "tpp_ok c' t" if "tpp_ok c t" for t
    using that assms(2) setting_le_coord [OF assms(2)] by (simp add: tpp_ok_def setting_le_def)
  moreover have "decisions_ok c' n seen known L" if "decisions_ok c n seen known L" for known
    using that assms(2) unfolding decisions_ok_def setting_le_coord [OF assms(2)]
    by (auto simp: setting_le_def)
  moreover have "log_ok c' n L" if "log_ok c n L"
    using that assms(2) unfolding log_ok_def broadcast_ok_def send_ok_def setting_le_coord [OF assms(2)]
    by (simp add: setting_le_def)
  ultimately show ?thesis using assms(1) unfolding view_inv_def by blast
qed

lemma node_inv_mono: "node_inv c n seen s \<Longrightarrow> setting_le c c' \<Longrightarrow> node_inv c' n seen s"
  by (auto simp: node_inv_def intro: view_inv_mono)

lemma setting_le_upd:
  "grows (sys_nodes g n) s' \<Longrightarrow> setting_le (sys_setting w vs g) (sys_setting w vs (upd_node n s' g))"
  by (auto simp: setting_le_def sys_setting_def upd_node_def grows_def accepted_def rejected_def)

lemma sys_inv_upd:
  assumes "sys_inv w vs g" and "grows (sys_nodes g n) s'"
    and "node_inv (sys_setting w vs g) n (sys_seen g n) s'"
  shows "sys_inv w vs (upd_node n s' g)"
  unfolding sys_inv_def
proof
  fix m
  show "node_inv (sys_setting w vs (upd_node n s' g)) m (sys_seen (upd_node n s' g) m)
      (sys_nodes (upd_node n s' g) m)"
    using assms(1,3) setting_le_upd [OF assms(2)]
    by (cases "m = n") (auto simp: sys_inv_def upd_node_def intro: node_inv_mono)
qed

text \<open>A delivered message says what its sender's log allows it to say.\<close>

lemma sys_inv_message:
  assumes inv: "sys_inv w vs g" and sent: "sent_to g q n b" and parse: "parse_from_bytes w b = Ok m"
    and q: "q \<noteq> n"
  shows "message_type m = PROPOSAL_VERIFICATION_RESPONSE \<Longrightarrow>
      coord (sys_setting w vs g) (msg_pid m) = n \<and>
      (verification_response m = VERIFIED \<longrightarrow> validated (sys_setting w vs g) (msg_pid m) q)"
    and "message_type m = PROPOSAL_RESULT \<Longrightarrow> coord (sys_setting w vs g) (msg_pid m) \<noteq> n \<and>
      (proposal_result m = APPLY \<longrightarrow> applied (sys_setting w vs g) (msg_pid m)) \<and>
      (proposal_result m = REJECT \<longrightarrow> refused (sys_setting w vs g) (msg_pid m))"
proof -
  have log: "log_ok (sys_setting w vs g) q (set (calls (sys_nodes g q)))"
    using inv by (simp add: sys_inv_def node_inv_def view_inv_def)
  have w: "wire_of (sys_setting w vs g) = w" by (simp add: sys_setting_def)
  from sent log have "broadcast_ok (sys_setting w vs g) q (set (calls (sys_nodes g q))) b \<or>
      send_ok (sys_setting w vs g) q n b"
    unfolding sent_to_def log_ok_def by blast
  with parse q w
  show "message_type m = PROPOSAL_VERIFICATION_RESPONSE \<Longrightarrow>
      coord (sys_setting w vs g) (msg_pid m) = n \<and>
      (verification_response m = VERIFIED \<longrightarrow> validated (sys_setting w vs g) (msg_pid m) q)"
    and "message_type m = PROPOSAL_RESULT \<Longrightarrow> coord (sys_setting w vs g) (msg_pid m) \<noteq> n \<and>
      (proposal_result m = APPLY \<longrightarrow> applied (sys_setting w vs g) (msg_pid m)) \<and>
      (proposal_result m = REJECT \<longrightarrow> refused (sys_setting w vs g) (msg_pid m))"
    by (auto simp: broadcast_ok_def send_ok_def sys_setting_def coord_def accepted_def rejected_def)
qed

lemma sys_env_ok: "wire env = w \<Longrightarrow> round_trip w \<Longrightarrow> env_ok (sys_setting w vs g) env"
  by (simp add: env_ok_def sys_setting_def)

lemma node_deliver:
  assumes inv: "sys_inv w vs g" and env: "wire env = w" "round_trip w"
    and q: "q \<noteq> n" "sent_to g q n b"
  shows "node_inv (sys_setting w vs g) n (sys_seen g n)
    (snd (handle_consensus_msg env \<lparr>cm_message = b, origin_id = q\<rparr> (sys_nodes g n)))"
proof (cases "parse_from_bytes w b")
  case (Err e)
  with inv env show ?thesis by (simp add: handle_consensus_msg_def sys_inv_def)
next
  case (Ok m)
  have i: "node_inv (sys_setting w vs g) n (sys_seen g n) (sys_nodes g n)"
    using inv by (simp add: sys_inv_def)
  note msg = sys_inv_message [OF inv q(2) Ok q(1)]
  note e = sys_env_ok [OF env]
  show ?thesis
  proof (cases "message_type m")
    case UNSET_TYPE
    with i Ok env show ?thesis by (simp add: handle_consensus_msg_def)
  next
    case PROPOSAL_VERIFICATION_REQUEST
    with node_verification_request [OF i] Ok env show ?thesis by (simp add: handle_consensus_msg_def Let_def)
  next
    case PROPOSAL_VERIFICATION_RESPONSE
    with msg(1) have "coord (sys_setting w vs g) (msg_pid m) = n"
      "verification_response m = VERIFIED \<Longrightarrow> validated (sys_setting w vs g) (msg_pid m) q"
      by simp_all
    from node_verification_response [OF e i this q(1)] PROPOSAL_VERIFICATION_RESPONSE Ok env
    show ?thesis by (simp add: handle_consensus_msg_def Let_def msg_pid_def)
  next
    case PROPOSAL_RESULT
    with msg(2) have "coord (sys_setting w vs g) (msg_pid m) \<noteq> n"
      "proposal_result m = APPLY \<Longrightarrow> applied (sys_setting w vs g) (msg_pid m)"
      "proposal_result m = REJECT \<Longrightarrow> refused (sys_setting w vs g) (msg_pid m)"
      by simp_all
    from node_proposal_result [OF i this] PROPOSAL_RESULT Ok env
    show ?thesis by (simp add: handle_consensus_msg_def Let_def msg_pid_def)
  qed
qed

lemma node_plain_update:
  assumes env: "env_ok c env" and inv: "node_inv c n seen s" and u: "plain_update u"
  shows "node_inv c n seen (snd (handle_proposal_update env now u s))"
proof -
  have "node_inv c n seen (s\<lparr>engine_state := Idle\<rparr>)" if "engine_state s = AwaitingProposal"
    using inv that by (simp add: node_inv_def current_proposal_def)
  with u inv node_proposal_invalid [OF env inv] show ?thesis
    by (cases u rule: plain_update.cases) (simp_all add: handle_proposal_update_def)
qed

lemma sys_inv_see_proposal: "sys_inv w vs g \<Longrightarrow> sys_inv w vs (see_proposal n p g)"
  by (auto simp: sys_inv_def see_proposal_def sys_setting_def intro: node_see)

lemma sys_inv_see_valid: "sys_inv w vs g \<Longrightarrow> sys_inv w vs (see_valid n p g)"
  unfolding sys_inv_def
proof
  fix m assume "\<forall>n. node_inv (sys_setting w vs g) n (sys_seen g n) (sys_nodes g n)"
  then have "node_inv (sys_setting w vs g) m (sys_seen g m) (sys_nodes g m)" ..
  moreover have "setting_le (sys_setting w vs g) (sys_setting w vs (see_valid n p g))"
    by (auto simp: setting_le_def sys_setting_def see_valid_def)
  ultimately show "node_inv (sys_setting w vs (see_valid n p g)) m (sys_seen (see_valid n p g) m)
      (sys_nodes (see_valid n p g) m)"
    by (auto simp: see_valid_def intro: node_inv_mono)
qed

lemma see_simps [simp]:
  "sys_nodes (see_proposal n p g) = sys_nodes g" "sys_seen (see_proposal n p g) n = insert p (sys_seen g n)"
  "sys_nodes (see_valid n p g) = sys_nodes g" "sys_seen (see_valid n p g) = sys_seen g"
  by (simp_all add: see_proposal_def see_valid_def)

lemma sys_inv_step:
  assumes "sys_step envs vs g g'" and inv: "sys_inv w vs g" and w: "round_trip w" "\<And>n. wire (envs n) = w"
  shows "sys_inv w vs g'"
proof -
  have i: "node_inv (sys_setting w vs g) n (sys_seen g n) (sys_nodes g n)" for n
    using inv by (simp add: sys_inv_def)
  note e = sys_env_ok [OF w(2,1)]
  show ?thesis
    using assms(1)
  proof cases
    case (abort n now)
    then show ?thesis by (simp add: sys_inv_upd [OF inv grows_abort] node_abort [OF e i])
  next
    case (backlogged n)
    then show ?thesis by (simp add: sys_inv_upd [OF inv grows_backlogged] node_backlogged [OF i])
  next
    case (next_proposal n now)
    then show ?thesis by (simp add: sys_inv_upd [OF inv grows_next] node_next [OF e i])
  next
    case (deliver q n b)
    then show ?thesis
      using sys_inv_upd [OF inv grows_message node_deliver [OF inv w(2,1) deliver(2,3)]] by simp
  next
    case (propose u pr q n now)
    let ?g = "see_proposal n (prop_id pr) g"
    have c: "sys_setting w vs ?g = sys_setting w vs g" by (simp add: sys_setting_def see_proposal_def)
    have vs: "verifiers_of (sys_setting w vs g) = vs" by (simp add: sys_setting_def)
    have "snd (handle_proposal_update (envs n) now u (sys_nodes g n)) =
        snd (handle_proposal (envs n) now pr (sys_nodes g n))"
      using propose(2) by (auto simp: handle_proposal_update_def)
    moreover have "node_inv (sys_setting w vs g) n (insert (prop_id pr) (sys_seen g n))
        (snd (handle_proposal (envs n) now pr (sys_nodes g n)))"
      using node_handle_proposal [OF e i propose(3)] propose(4,5) vs by simp
    ultimately have "node_inv (sys_setting w vs ?g) n (sys_seen ?g n)
        (snd (handle_proposal_update (envs n) now u (sys_nodes g n)))"
      by (simp add: c)
    then show ?thesis
      using propose(1) sys_inv_upd [OF sys_inv_see_proposal [OF inv], of n "prop_id pr" n]
        grows_update_handler by simp
  next
    case (valid n now p)
    let ?g = "see_valid n p g"
    have inv': "sys_inv w vs ?g" by (rule sys_inv_see_valid [OF inv])
    have "validated (sys_setting w vs ?g) p n" by (simp add: sys_setting_def see_valid_def)
    moreover have "node_inv (sys_setting w vs ?g) n (sys_seen ?g n) (sys_nodes ?g n)"
      using inv' by (simp only: sys_inv_def)
    ultimately have "node_inv (sys_setting w vs ?g) n (sys_seen ?g n)
        (snd (handle_proposal_update (envs n) now (ProposalValid p) (sys_nodes g n)))"
      using node_proposal_valid [OF e] by (simp add: handle_proposal_update_def)
    then show ?thesis
      using valid(1) sys_inv_upd [OF inv', of n] grows_update_handler by simp
  next
    case (update u n now)
    then show ?thesis
      by (simp add: sys_inv_upd [OF inv grows_update_handler] node_plain_update [OF e i])
  qed
qed

lemma sys_inv_init: "sys_inv w vs (sys_init peers duration now)"
  by (simp add: sys_inv_def sys_init_def node_inv_def view_inv_def engine_start_def engine_new_def
      current_proposal_def timer_running_def timeout_new_def known_of_def decisions_ok_def log_ok_def)

lemma sys_reachable_inv:
  assumes "sys_reachable envs vs g" and "round_trip w" and "\<And>n. wire (envs n) = w"
  shows "sys_inv w vs g"
  using assms(1)
proof induction
  case (init peers duration now)
  show ?case by (rule sys_inv_init)
next
  case (step g g')
  show ?case using sys_inv_step [OF step(2,3) assms(2,3)] .
qed

lemma coordinator_accepted:
  assumes "sys_inv w vs g" and "accepted p (sys_nodes g n)"
  shows "accepted p (sys_nodes g (Min (vs p)))"
  using assms
  by (cases "Min (vs p) = n")
    (auto simp: sys_inv_def node_inv_def view_inv_def decisions_ok_def sys_setting_def coord_def
      accepted_def)

lemma coordinator_rejected:
  assumes "sys_inv w vs g" and "rejected p (sys_nodes g n)"
  shows "rejected p (sys_nodes g (Min (vs p)))"
  using assms
  by (cases "Min (vs p) = n")
    (auto simp: sys_inv_def node_inv_def view_inv_def decisions_ok_def sys_setting_def coord_def
      rejected_def)

lemma coordinator_decision:
  assumes "sys_inv w vs g" and "accepted p (sys_nodes g (Min (vs p)))"
  shows "\<not> rejected p (sys_nodes g (Min (vs p)))" and "\<forall>v \<in> vs p. p \<in> sys_valid g v"
    and "vs p \<noteq> {Min (vs p)}"
proof -
  have "decisions_ok (sys_setting w vs g) (Min (vs p)) (sys_seen g (Min (vs p)))
      (tpp_id ` known_of (current_proposal (sys_nodes g (Min (vs p))))
         (proposal_backlog (sys_nodes g (Min (vs p)))))
      (set (calls (sys_nodes g (Min (vs p)))))"
    using assms(1) by (simp add: sys_inv_def node_inv_def view_inv_def)
  with assms(2) show "\<not> rejected p (sys_nodes g (Min (vs p)))" "\<forall>v \<in> vs p. p \<in> sys_valid g v"
    "vs p \<noteq> {Min (vs p)}"
    by (auto simp: decisions_ok_def sys_setting_def coord_def accepted_def rejected_def)
qed

section \<open>The run loop\<close>

definition node_step ::
  "(peer_id \<Rightarrow> tp_env) \<Rightarrow> (proposal_id \<Rightarrow> peer_id set) \<Rightarrow> peer_id \<Rightarrow> tp_system \<Rightarrow> engine_run \<Rightarrow> bool" where
  "node_step envs vs n g s' \<longleftrightarrow>
     sys_reachable envs vs (upd_node n s' g) \<and> grows (sys_nodes g n) s'"

lemma upd_node_simps [simp]:
  "sys_nodes (upd_node n s g) n = s" "upd_node n s' (upd_node n s g) = upd_node n s' g"
  "sys_seen (upd_node n s g) = sys_seen g"
  by (simp_all add: upd_node_def)

lemma node_step_refl: "sys_reachable envs vs g \<Longrightarrow> node_step envs vs n g (sys_nodes g n)"
  by (simp add: node_step_def upd_node_def)

lemma node_step_then:
  assumes "node_step envs vs n g s" and "sys_step envs vs (upd_node n s g) (upd_node n s' g)"
    and "grows s s'"
  shows "node_step envs vs n g s'"
  using assms sys_reachable.step grows_trans unfolding node_step_def by blast

lemma node_step_background:
  assumes "node_step envs vs n g s"
  shows "node_step envs vs n g (run_background (envs n) k s)"
proof -
  have 1: "node_step envs vs n g (snd (abort_proposal_if_timed_out (envs n) (abort_now k) s))"
    using node_step_then [OF assms _ grows_abort] sys_step.abort [of envs vs "upd_node n s g" n] by simp
  have 2: "node_step envs vs n g (snd (handle_backlogged_verification_request (envs n) s1))"
    if "node_step envs vs n g s1" for s1
    using node_step_then [OF that _ grows_backlogged]
      sys_step.backlogged [of envs vs "upd_node n s1 g" n] by simp
  have 3: "node_step envs vs n g (snd (get_next_proposal (envs n) (next_now k) s2))"
    if "node_step envs vs n g s2" for s2
    using node_step_then [OF that _ grows_next]
      sys_step.next_proposal [of envs vs "upd_node n s2 g" n] by simp
  show ?thesis unfolding run_background_def ignore_err_def by (intro 1 2 3)
qed

lemma sent_to_upd:
  "q \<noteq> n \<Longrightarrow> sent_to (upd_node n s g) q n b = sent_to g q n b"
  by (simp add: sent_to_def upd_node_def)

lemma node_step_message:
  assumes "node_step envs vs n g s" and "origin_id cm \<noteq> n" and "sent_to g (origin_id cm) n (cm_message cm)"
  shows "node_step envs vs n g (snd (handle_consensus_msg (envs n) cm s))"
  using node_step_then [OF assms(1) _ grows_message]
    sys_step.deliver [of "origin_id cm" n "upd_node n s g" "cm_message cm" envs vs] assms(2,3)
  by (cases cm) (simp add: sent_to_upd)

lemma proposal_verifiers_grows:
  "grows s s' \<Longrightarrow> proposal_verifiers env s' pr = proposal_verifiers env s pr"
  by (simp add: proposal_verifiers_def grows_def)

lemma see_upd:
  "see_proposal n p (upd_node n s g) = upd_node n s (see_proposal n p g)"
  "see_valid n p (upd_node n s g) = upd_node n s (see_valid n p g)"
  by (simp_all add: see_proposal_def see_valid_def upd_node_def)

lemma run_update_reachable:
  assumes step: "node_step envs vs n g s" and ok: "tick_ok envs vs g n k"
  shows "\<exists>g'. sys_reachable envs vs g' \<and> sys_nodes g' n = snd (run_update (envs n) k s)"
proof -
  let ?g = "upd_node n s g"
  have reach: "sys_reachable envs vs ?g" and gr: "grows (sys_nodes g n) s"
    using step by (simp_all add: node_step_def)
  have propose: "\<exists>g'. sys_reachable envs vs g' \<and>
      sys_nodes g' n = snd (handle_proposal_update (envs n) now u s)"
    if "proposal_fresh envs vs g n pr" "u = ProposalCreated (Some pr) \<or> u = ProposalReceived pr q"
    for now u pr q
    using sys_reachable.step [OF reach sys_step.propose [OF that(2), of ?g n vs envs now]] that(1)
      proposal_verifiers_grows [OF gr]
    by (auto simp: proposal_fresh_def)
  have valid: "\<exists>g'. sys_reachable envs vs g' \<and>
      sys_nodes g' n = snd (handle_proposal_update (envs n) now (ProposalValid p) s)" for now p
    using sys_reachable.step [OF reach sys_step.valid [of envs vs ?g n now p]] by auto
  have plain: "\<exists>g'. sys_reachable envs vs g' \<and>
      sys_nodes g' n = snd (handle_proposal_update (envs n) now u s)" if "plain_update u" for now u
    using sys_reachable.step [OF reach sys_step.update [OF that, of envs vs ?g n now]] by auto
  have same: "\<exists>g'. sys_reachable envs vs g' \<and> sys_nodes g' n = s"
    using reach by auto
  show ?thesis
  proof (cases "tick_update k")
    case (Received u)
    then show ?thesis
      using ok same valid plain [of u] propose
      by (cases u rule: plain_update.cases) (auto simp: run_update_def tick_ok_def ignore_err_def)
  qed (use same in \<open>auto simp: run_update_def\<close>)
qed

lemma run_iteration_reachable:
  assumes "sys_reachable envs vs g" and "tick_ok envs vs g n k"
  shows "\<exists>g'. sys_reachable envs vs g' \<and> sys_nodes g' n = snd (run_iteration (envs n) k (sys_nodes g n))"
proof -
  have bg: "node_step envs vs n g (run_background (envs n) k (sys_nodes g n))"
    by (rule node_step_background [OF node_step_refl [OF assms(1)]])
  show ?thesis
  proof (cases "tick_message k")
    case (Received cm)
    with assms(2) have "node_step envs vs n g
        (snd (handle_consensus_msg (envs n) cm (run_background (envs n) k (sys_nodes g n))))"
      by (intro node_step_message [OF bg]) (simp_all add: tick_ok_def)
    from run_update_reachable [OF this assms(2)] Received show ?thesis
      by (simp add: run_iteration_def ignore_err_def)
  next
    case RecvTimeout
    with run_update_reachable [OF bg assms(2)] show ?thesis by (simp add: run_iteration_def)
  next
    case RecvDisconnected
    with bg show ?thesis
      by (auto simp: run_iteration_def node_step_def intro!: exI [of _ "upd_node n s g" for s])
  qed
qed

section \<open>A run that accepts\<close>

text \<open>Two engines, one proposal, every call succeeds; used as the concrete instance below.\<close>

definition ex_a :: peer_id where "ex_a = PeerId [1]"
definition ex_b :: peer_id where "ex_b = PeerId [2]"
definition ex_p :: proposal_id where "ex_p = ProposalId [7]"

definition ex_env :: tp_env where
  "ex_env = \<lparr>pm_reply = (\<lambda>_ _. Ok ()), ns_reply = (\<lambda>_ _. Ok ()),
     wire = table_codec [request_msg ex_p, response_msg ex_p VERIFIED, result_msg ex_p APPLY],
     verifiers_wire = table_codec []\<rparr>"

definition ex_prop :: proposal where
  "ex_prop = \<lparr>prop_id = ex_p, previous_id = ProposalId [], proposal_height = 0, summary = [],
     consensus_data = []\<rparr>"

definition ex_0 :: tp_system where
  "ex_0 = sys_init (\<lambda>n. if n = ex_a then [ex_b] else [ex_a]) 5000 0"

definition ex_update :: "peer_id \<Rightarrow> proposal_update \<Rightarrow> tp_system \<Rightarrow> tp_system" where
  "ex_update n u g = upd_node n (snd (handle_proposal_update ex_env 0 u (sys_nodes g n))) g"

definition ex_deliver :: "peer_id \<Rightarrow> peer_id \<Rightarrow> bytes \<Rightarrow> tp_system \<Rightarrow> tp_system" where
  "ex_deliver q n b g =
     upd_node n (snd (handle_consensus_msg ex_env \<lparr>cm_message = b, origin_id = q\<rparr> (sys_nodes g n))) g"

definition ex_1 :: tp_system where
  "ex_1 = ex_update ex_a (ProposalCreated (Some ex_prop)) (see_proposal ex_a ex_p ex_0)"
definition ex_2 :: tp_system where
  "ex_2 = ex_update ex_b (ProposalReceived ex_prop ex_a) (see_proposal ex_b ex_p ex_1)"
definition ex_3 :: tp_system where
  "ex_3 = ex_update ex_a (ProposalValid ex_p) (see_valid ex_a ex_p ex_2)"
definition ex_4 :: tp_system where "ex_4 = ex_deliver ex_a ex_b [0] ex_3"
definition ex_5 :: tp_system where
  "ex_5 = ex_update ex_b (ProposalValid ex_p) (see_valid ex_b ex_p ex_4)"
definition ex_6 :: tp_system where "ex_6 = ex_deliver ex_b ex_a [1] ex_5"
definition ex_7 :: tp_system where "ex_7 = ex_deliver ex_a ex_b [2] ex_6"

lemma ex_calls:
  "calls (sys_nodes ex_3 ex_a) = [(CheckProposal ex_p, True), (Broadcast [0], True)]"
  "calls (sys_nodes ex_5 ex_b) = [(CheckProposal ex_p, True), (SendTo ex_a [1], True)]"
  "calls (sys_nodes ex_6 ex_a) = [(CheckProposal ex_p, True), (Broadcast [0], True),
     (AcceptProposal ex_p None, True), (Broadcast [2], True)]"
  "calls (sys_nodes ex_7 ex_b) = [(CheckProposal ex_p, True), (SendTo ex_a [1], True),
     (AcceptProposal ex_p None, True)]"
  by code_simp+

lemma ex_distinct [simp]: "ex_a \<noteq> ex_b" "ex_b \<noteq> ex_a"
  by (simp_all add: ex_a_def ex_b_def)

lemma ex_engine_ids:
  "proposal_verifiers ex_env (sys_nodes ex_0 ex_a) ex_prop = Ok {ex_a, ex_b}"
  "proposal_verifiers ex_env (sys_nodes ex_1 ex_b) ex_prop = Ok {ex_a, ex_b}"
  by (auto simp: proposal_verifiers_def ex_prop_def ex_0_def ex_1_def sys_init_def engine_start_def
      engine_new_def ex_update_def upd_node_def)

lemma ex_unseen: "ex_p \<notin> sys_seen ex_0 ex_a" "ex_p \<notin> sys_seen ex_1 ex_b"
  by (simp_all add: ex_0_def ex_1_def sys_init_def ex_update_def upd_node_def see_proposal_def)

lemma ex_reachable: "sys_reachable (\<lambda>_. ex_env) (\<lambda>_. {ex_a, ex_b}) ex_7"
proof -
  let ?step = "sys_step (\<lambda>_. ex_env) (\<lambda>_. {ex_a, ex_b})"
  have p: "prop_id ex_prop = ex_p" by (simp add: ex_prop_def)
  have s1: "?step ex_0 ex_1"
    unfolding ex_1_def ex_update_def see_simps
    using sys_step.propose [of "ProposalCreated (Some ex_prop)" ex_prop _ ex_0 ex_a "\<lambda>_. {ex_a, ex_b}"
        "\<lambda>_. ex_env" 0] ex_engine_ids(1) ex_unseen(1) p by simp
  have s2: "?step ex_1 ex_2"
    unfolding ex_2_def ex_update_def see_simps
    using sys_step.propose [of "ProposalReceived ex_prop ex_a" ex_prop ex_a ex_1 ex_b
        "\<lambda>_. {ex_a, ex_b}" "\<lambda>_. ex_env" 0] ex_engine_ids(2) ex_unseen(2) p by simp
  have s3: "?step ex_2 ex_3"
    unfolding ex_3_def ex_update_def see_simps by (rule sys_step.valid)
  have s4: "?step ex_3 ex_4"
    unfolding ex_4_def ex_deliver_def
    by (rule sys_step.deliver) (auto simp: sent_to_def ex_calls)
  have s5: "?step ex_4 ex_5"
    unfolding ex_5_def ex_update_def see_simps by (rule sys_step.valid)
  have s6: "?step ex_5 ex_6"
    unfolding ex_6_def ex_deliver_def
    by (rule sys_step.deliver) (auto simp: sent_to_def ex_calls)
  have s7: "?step ex_6 ex_7"
    unfolding ex_7_def ex_deliver_def
    by (rule sys_step.deliver) (auto simp: sent_to_def ex_calls)
  have s0: "sys_reachable (\<lambda>_. ex_env) (\<lambda>_. {ex_a, ex_b}) ex_0"
    unfolding ex_0_def by (rule sys_reachable.init)
  show ?thesis
    using s0 [THEN sys_reachable.step, OF s1, THEN sys_reachable.step, OF s2, THEN sys_reachable.step,
        OF s3, THEN sys_reachable.step, OF s4, THEN sys_reachable.step, OF s5,
        THEN sys_reachable.step, OF s6, THEN sys_reachable.step, OF s7] .
qed

lemma ex_same_wire: "same_wire (\<lambda>_. ex_env)"
  by (auto simp: same_wire_def ex_env_def round_trip_table)

lemma ex_7_valid: "sys_valid ex_7 = (\<lambda>_. {})(ex_a := {ex_p}, ex_b := {ex_p})"
  by (simp add: fun_eq_iff ex_7_def ex_6_def ex_5_def ex_4_def ex_3_def ex_2_def ex_1_def ex_0_def
      ex_deliver_def ex_update_def upd_node_def see_valid_def see_proposal_def sys_init_def)

lemma ex_accepted: "accepted ex_p (sys_nodes ex_7 ex_b)"
  by (simp add: accepted_def ex_calls)

section \<open>Properties\<close>



text \<open>C2. Validity. A proposal is accepted, by any engine, only after the proposal manager of each of
  its verifiers has reported it valid.\<close>

theorem two_phase_validity:
  assumes "sys_reachable envs vs g" and "same_wire envs" and "accepted p (sys_nodes g n)"
  shows "\<forall>v \<in> vs p. p \<in> sys_valid g v"
proof -
  from assms(2) obtain w where w: "round_trip w" "\<And>n. wire (envs n) = w"
    by (auto simp: same_wire_def)
  have inv: "sys_inv w vs g" by (rule sys_reachable_inv [OF assms(1) w])
  show ?thesis using coordinator_decision(2) [OF inv coordinator_accepted [OF inv assms(3)]] .
qed

theorem two_phase_validity_witness:
  "accepted ex_p (sys_nodes ex_7 ex_b) \<and> ex_p \<in> sys_valid ex_7 ex_a \<and> ex_p \<in> sys_valid ex_7 ex_b"
  using two_phase_validity [OF ex_reachable ex_same_wire ex_accepted] ex_accepted by simp





end
