(* ===== verification/BiHashMap.thy ===== *)
theory BiHashMap
  imports Splinter_Prelude
begin

text \<open>
  The bidirectional map of \<^verbatim>\<open>libsplinter/src/collections/mod.rs\<close>: two hash maps, from keys to
  values and from values to keys. The network keeps its peer table in two of them.

  The interface the peer table relies on is the locale \<open>bidirectional_map\<close>; the model of
  \<^verbatim>\<open>BiHashMap\<close> interprets it. The locale asks for a fresh key and a fresh value on insertion,
  because \<open>insert\<close> does not remove the entries it overrides from the other map:
  \<open>bimap_insert_keeps_consistency_iff\<close> below says exactly when the two maps stay inverse.

  Capacity operations (\<open>with_capacity\<close>, \<open>reserve\<close>, \<open>shrink_to_fit\<close>) do not change what is
  stored and are not modelled.
\<close>

section \<open>The model\<close>

record ('k, 'v) bihashmap =
  kv_hash_map :: "'k \<rightharpoonup> 'v"
  vk_hash_map :: "'v \<rightharpoonup> 'k"

definition bimap_new :: "('k, 'v) bihashmap" where
  "bimap_new = \<lparr>kv_hash_map = Map.empty, vk_hash_map = Map.empty\<rparr>"

definition get_by_key :: "('k, 'v) bihashmap \<Rightarrow> 'k \<Rightarrow> 'v option" where
  "get_by_key m k = kv_hash_map m k"

definition get_by_value :: "('k, 'v) bihashmap \<Rightarrow> 'v \<Rightarrow> 'k option" where
  "get_by_value m v = vk_hash_map m v"

definition bimap_contains_key :: "('k, 'v) bihashmap \<Rightarrow> 'k \<Rightarrow> bool" where
  "bimap_contains_key m k \<longleftrightarrow> kv_hash_map m k \<noteq> None"

definition bimap_contains_value :: "('k, 'v) bihashmap \<Rightarrow> 'v \<Rightarrow> bool" where
  "bimap_contains_value m v \<longleftrightarrow> vk_hash_map m v \<noteq> None"

definition bimap_keys :: "('k, 'v) bihashmap \<Rightarrow> 'k set" where
  "bimap_keys m = dom (kv_hash_map m)"

definition bimap_len :: "('k, 'v) bihashmap \<Rightarrow> nat" where
  "bimap_len m = card (dom (kv_hash_map m))"

definition bimap_clear :: "('k, 'v) bihashmap \<Rightarrow> ('k, 'v) bihashmap" where
  "bimap_clear m = m\<lparr>kv_hash_map := Map.empty, vk_hash_map := Map.empty\<rparr>"

text \<open>\<open>insert\<close> returns the key and the value it overrode, and the map.\<close>

definition bimap_insert ::
  "'k \<Rightarrow> 'v \<Rightarrow> ('k, 'v) bihashmap \<Rightarrow> ('k option \<times> 'v option) \<times> ('k, 'v) bihashmap" where
  "bimap_insert k v m =
     (let old_value = kv_hash_map m k;
          old_key = vk_hash_map m v
      in ((old_key, old_value),
          m\<lparr>kv_hash_map := (kv_hash_map m)(k \<mapsto> v), vk_hash_map := (vk_hash_map m)(v \<mapsto> k)\<rparr>))"

definition remove_by_key ::
  "'k \<Rightarrow> ('k, 'v) bihashmap \<Rightarrow> ('k \<times> 'v) option \<times> ('k, 'v) bihashmap" where
  "remove_by_key k m =
     (let m1 = m\<lparr>kv_hash_map := (kv_hash_map m)(k := None)\<rparr> in
      case kv_hash_map m k of
        None \<Rightarrow> (None, m1)
      | Some v \<Rightarrow>
          let m2 = m1\<lparr>vk_hash_map := (vk_hash_map m1)(v := None)\<rparr> in
          (case vk_hash_map m1 v of
             None \<Rightarrow> (None, m2)
           | Some k' \<Rightarrow> (Some (k', v), m2)))"

definition remove_by_value ::
  "'v \<Rightarrow> ('k, 'v) bihashmap \<Rightarrow> ('k \<times> 'v) option \<times> ('k, 'v) bihashmap" where
  "remove_by_value v m =
     (let m1 = m\<lparr>vk_hash_map := (vk_hash_map m)(v := None)\<rparr> in
      case vk_hash_map m v of
        None \<Rightarrow> (None, m1)
      | Some k \<Rightarrow>
          let m2 = m1\<lparr>kv_hash_map := (kv_hash_map m1)(k := None)\<rparr> in
          (case kv_hash_map m1 k of
             None \<Rightarrow> (None, m2)
           | Some v' \<Rightarrow> (Some (k, v'), m2)))"

definition bimap_consistent :: "('k, 'v) bihashmap \<Rightarrow> bool" where
  "bimap_consistent m \<longleftrightarrow> (\<forall>k v. kv_hash_map m k = Some v \<longleftrightarrow> vk_hash_map m v = Some k)"

lemmas bimap_defs =
  bimap_new_def get_by_key_def get_by_value_def bimap_insert_def remove_by_key_def
  remove_by_value_def bimap_keys_def bimap_len_def bimap_clear_def

section \<open>The interface of a bidirectional map\<close>

locale bidirectional_map =
  fixes by_key :: "'m \<Rightarrow> 'k \<Rightarrow> 'v option"
    and by_value :: "'m \<Rightarrow> 'v \<Rightarrow> 'k option"
    and put :: "'k \<Rightarrow> 'v \<Rightarrow> 'm \<Rightarrow> 'm"
    and drop_key :: "'k \<Rightarrow> 'm \<Rightarrow> 'm"
    and wf :: "'m \<Rightarrow> bool"
  assumes inverse: "wf m \<Longrightarrow> by_key m k = Some v \<longleftrightarrow> by_value m v = Some k"
    and by_key_put: "by_key (put k v m) = (by_key m)(k \<mapsto> v)"
    and by_value_put: "by_value (put k v m) = (by_value m)(v \<mapsto> k)"
    and by_key_drop: "wf m \<Longrightarrow> by_key (drop_key k m) = (by_key m)(k := None)"
    and wf_drop: "wf m \<Longrightarrow> wf (drop_key k m)"
    and wf_put: "wf m \<Longrightarrow> by_key m k = None \<Longrightarrow> by_value m v = None \<Longrightarrow> wf (put k v m)"
begin

lemma by_key_inj: "wf m \<Longrightarrow> by_key m k = Some v \<Longrightarrow> by_key m k' = Some v \<Longrightarrow> k = k'"
  using inverse [of m k v] inverse [of m k' v] by simp

lemma by_value_drop:
  assumes "wf m"
  shows "by_value (drop_key k m) v = (if by_value m v = Some k then None else by_value m v)"
proof -
  have *: "by_value (drop_key k m) v = Some k' \<longleftrightarrow> by_value m v = Some k' \<and> k' \<noteq> k" for k'
    by (auto simp: inverse [OF wf_drop [OF assms], symmetric] inverse [OF assms, symmetric]
        by_key_drop [OF assms])
  show ?thesis
  proof (cases "by_value (drop_key k m) v")
    case None
    have "by_value m v = None \<or> by_value m v = Some k"
    proof (cases "by_value m v")
      case (Some k')
      with None * [of k'] show ?thesis by auto
    qed simp
    with None show ?thesis by auto
  next
    case (Some k')
    with * [of k'] show ?thesis by simp
  qed
qed

text \<open>Moving the value of one key to a fresh key, as the peer table does when a peer
  identifies itself.\<close>

lemma rekey:
  assumes "wf m" and "by_key m old = Some v" and "by_key m new = None \<or> new = old"
  shows "wf (put new v (drop_key old m))"
    and "by_key (put new v (drop_key old m)) = (by_key m)(old := None, new \<mapsto> v)"
    and "by_value (put new v (drop_key old m)) v = Some new"
    and "v' \<noteq> v \<Longrightarrow> by_value (put new v (drop_key old m)) v' = by_value m v'"
proof -
  have bv: "by_value m v = Some old" using assms(2) inverse [OF assms(1)] by blast
  show "wf (put new v (drop_key old m))"
    using assms bv by (intro wf_put wf_drop) (auto simp: by_key_drop by_value_drop)
  show "by_key (put new v (drop_key old m)) = (by_key m)(old := None, new \<mapsto> v)"
    using assms(1) by (simp add: by_key_put by_key_drop)
  show "by_value (put new v (drop_key old m)) v = Some new"
    by (simp add: by_value_put)
  show "by_value (put new v (drop_key old m)) v' = by_value m v'" if "v' \<noteq> v"
  proof -
    have "by_value m v' \<noteq> Some old"
      using that assms(2) inverse [OF assms(1), of old v'] by auto
    with that assms(1) show ?thesis by (simp add: by_value_put by_value_drop)
  qed
qed

end

section \<open>The hash maps implement it\<close>

abbreviation bimap_put :: "'k \<Rightarrow> 'v \<Rightarrow> ('k, 'v) bihashmap \<Rightarrow> ('k, 'v) bihashmap" where
  "bimap_put k v m \<equiv> snd (bimap_insert k v m)"

abbreviation bimap_drop :: "'k \<Rightarrow> ('k, 'v) bihashmap \<Rightarrow> ('k, 'v) bihashmap" where
  "bimap_drop k m \<equiv> snd (remove_by_key k m)"

lemma bimap_consistent_new [simp]: "bimap_consistent bimap_new"
  by (simp add: bimap_consistent_def bimap_new_def)

lemma bimap_consistent_kv:
  "bimap_consistent m \<Longrightarrow> kv_hash_map m k = Some v \<Longrightarrow> vk_hash_map m v = Some k"
  by (simp add: bimap_consistent_def)

lemma bimap_consistent_vk:
  "bimap_consistent m \<Longrightarrow> vk_hash_map m v = Some k \<Longrightarrow> kv_hash_map m k = Some v"
  by (simp add: bimap_consistent_def)

lemma bimap_consistentI:
  assumes "\<And>k v. kv_hash_map m k = Some v \<Longrightarrow> vk_hash_map m v = Some k"
    and "\<And>k v. vk_hash_map m v = Some k \<Longrightarrow> kv_hash_map m k = Some v"
  shows "bimap_consistent m"
  unfolding bimap_consistent_def using assms by blast

lemma remove_by_key_maps:
  assumes "bimap_consistent m"
  shows "kv_hash_map (bimap_drop k m) = (kv_hash_map m)(k := None)"
    and "vk_hash_map (bimap_drop k m) =
     (case kv_hash_map m k of None \<Rightarrow> vk_hash_map m | Some v \<Rightarrow> (vk_hash_map m)(v := None))"
  using assms
  by (cases "kv_hash_map m k"; simp add: remove_by_key_def Let_def bimap_consistent_kv)+

lemma remove_by_key_result:
  "bimap_consistent m \<Longrightarrow>
   fst (remove_by_key k m) = map_option (Pair k) (kv_hash_map m k)"
  by (cases "kv_hash_map m k") (simp_all add: remove_by_key_def Let_def bimap_consistent_kv)

lemma bimap_consistent_drop:
  assumes "bimap_consistent m"
  shows "bimap_consistent (bimap_drop k m)"
proof (rule bimap_consistentI)
  fix k' v assume "kv_hash_map (bimap_drop k m) k' = Some v"
  with assms have k': "k' \<noteq> k" "vk_hash_map m v = Some k'"
    by (auto simp: remove_by_key_maps dest: bimap_consistent_kv split: if_splits)
  with assms show "vk_hash_map (bimap_drop k m) v = Some k'"
    by (auto simp: remove_by_key_maps dest: bimap_consistent_kv split: option.splits)
next
  fix k' v assume *: "vk_hash_map (bimap_drop k m) v = Some k'"
  with assms have v: "vk_hash_map m v = Some k'" "kv_hash_map m k \<noteq> Some v"
    by (auto simp: remove_by_key_maps split: option.splits if_splits)
  with assms show "kv_hash_map (bimap_drop k m) k' = Some v"
    by (auto simp: remove_by_key_maps dest: bimap_consistent_vk)
qed

lemma bimap_put_maps [simp]:
  "kv_hash_map (bimap_put k v m) = (kv_hash_map m)(k \<mapsto> v)"
  "vk_hash_map (bimap_put k v m) = (vk_hash_map m)(v \<mapsto> k)"
  by (simp_all add: bimap_insert_def Let_def)

lemma bimap_consistent_put_iff:
  assumes "bimap_consistent m"
  shows "bimap_consistent (bimap_put k v m) \<longleftrightarrow>
     (kv_hash_map m k = None \<or> kv_hash_map m k = Some v) \<and>
     (vk_hash_map m v = None \<or> vk_hash_map m v = Some k)" (is "?l \<longleftrightarrow> ?r")
proof
  assume c: ?l
  have "kv_hash_map m k = None \<or> kv_hash_map m k = Some v"
  proof (cases "kv_hash_map m k")
    case (Some v')
    with bimap_consistent_vk [OF c, of v' k] bimap_consistent_kv [OF assms Some] show ?thesis
      by (cases "v' = v") simp_all
  qed simp
  moreover have "vk_hash_map m v = None \<or> vk_hash_map m v = Some k"
  proof (cases "vk_hash_map m v")
    case (Some k')
    with bimap_consistent_kv [OF c, of k' v] bimap_consistent_vk [OF assms Some] show ?thesis
      by (cases "k' = k") simp_all
  qed simp
  ultimately show ?r ..
next
  assume r: ?r
  show ?l
  proof (rule bimap_consistentI)
    fix k' v' assume "kv_hash_map (bimap_put k v m) k' = Some v'"
    with assms r show "vk_hash_map (bimap_put k v m) v' = Some k'"
      by (auto dest: bimap_consistent_kv split: if_splits)
  next
    fix k' v' assume "vk_hash_map (bimap_put k v m) v' = Some k'"
    with assms r show "kv_hash_map (bimap_put k v m) k' = Some v'"
      by (auto dest: bimap_consistent_vk split: if_splits)
  qed
qed

interpretation bi: bidirectional_map get_by_key get_by_value bimap_put bimap_drop bimap_consistent
proof unfold_locales
  show "get_by_key m k = Some v \<longleftrightarrow> get_by_value m v = Some k" if "bimap_consistent m"
    for m :: "('a, 'b) bihashmap" and k v
    using that by (simp add: bimap_consistent_def get_by_key_def get_by_value_def)
  show "bimap_consistent (bimap_put k v m)"
    if "bimap_consistent m" "get_by_key m k = None" "get_by_value m v = None"
    for m :: "('a, 'b) bihashmap" and k v
    using that by (simp add: bimap_consistent_put_iff get_by_key_def get_by_value_def)
qed (auto simp: get_by_key_def get_by_value_def fun_eq_iff remove_by_key_maps
      bimap_consistent_drop)

section \<open>Properties\<close>

text \<open>On a consistent map, \<open>insert\<close> keeps the two hash maps inverse to each other exactly when
  it overrides nothing but the pair itself: a new value for a known key, or a new key for a known
  value, leaves a stale entry in the other direction.\<close>

theorem bimap_insert_keeps_consistency_iff:
  assumes "bimap_consistent m"
  shows "bimap_consistent (snd (bimap_insert k v m)) \<longleftrightarrow>
     (kv_hash_map m k = None \<or> kv_hash_map m k = Some v) \<and>
     (vk_hash_map m v = None \<or> vk_hash_map m v = Some k)"
  using assms by (rule bimap_consistent_put_iff)

theorem bimap_insert_keeps_consistency_iff_witness:
  "\<not> bimap_consistent
       (snd (bimap_insert (1 :: nat) ''b'' (snd (bimap_insert 1 ''a'' bimap_new))))"
proof -
  have "bimap_consistent (snd (bimap_insert (1 :: nat) ''a'' bimap_new))"
    by (subst bimap_insert_keeps_consistency_iff) (simp_all add: bimap_new_def bimap_consistent_def)
  from bimap_insert_keeps_consistency_iff [OF this, of 1 "''b''"] show ?thesis
    by (simp add: bimap_insert_def bimap_new_def Let_def)
qed

text \<open>On a consistent map, removing by key returns exactly the stored pair, removes it in both
  directions, touches no other entry and keeps the map consistent.\<close>

theorem bimap_remove_by_key_correct:
  assumes "bimap_consistent m"
  shows "fst (remove_by_key k m) = map_option (Pair k) (get_by_key m k) \<and>
    get_by_key (snd (remove_by_key k m)) = (get_by_key m)(k := None) \<and>
    (\<forall>v. get_by_value (snd (remove_by_key k m)) v =
           (if get_by_value m v = Some k then None else get_by_value m v)) \<and>
    bimap_consistent (snd (remove_by_key k m))"
  using assms remove_by_key_result [OF assms] bi.by_key_drop [OF assms] bi.by_value_drop [OF assms]
    bimap_consistent_drop [OF assms]
  by (simp add: get_by_key_def)

theorem bimap_remove_by_key_correct_witness:
  "fst (remove_by_key (1 :: nat) (snd (bimap_insert 1 ''a'' bimap_new))) = Some (1, ''a'')"
proof -
  have "bimap_consistent (snd (bimap_insert (1 :: nat) ''a'' bimap_new))"
    by (subst bimap_consistent_put_iff) (simp_all add: bimap_new_def bimap_consistent_def)
  from bimap_remove_by_key_correct [OF this, of 1] show ?thesis
    by (simp add: bimap_insert_def bimap_new_def get_by_key_def Let_def)
qed

end
