(* ===== verification/Network.thy ===== *)
theory Network
  imports BiHashMap
begin

text \<open>
  The peer table and the operations of \<^verbatim>\<open>libsplinter/src/network/mod.rs\<close>.

  A connection is known to the mesh by a number and to the rest of the system by a peer id. A peer
  id can be replaced by the identity the remote side declares (\<open>update\<close>); the old id keeps working
  through a redirect table. The mesh itself (\<^verbatim>\<open>libsplinter/src/mesh\<close>, sockets and threads) is a
  parameter: the outcome of \<open>mesh.add\<close>, \<open>mesh.remove\<close> and \<open>mesh.send\<close> is an argument of the
  operation that calls it, and the envelopes handed to the mesh are recorded in \<open>mesh_out\<close>. The
  only disconnect listener of the code base is the one of the authorization manager, which sends the
  peer id on a channel: \<open>disconnects\<close> is the content of that channel, oldest first.

  \<^verbatim>\<open>network/sender.rs\<close> (the thread that drains the send requests of the handlers),
  \<^verbatim>\<open>network/peer.rs\<close> (the peer connector) and the heartbeat round of \<open>Network::new\<close> are built on
  these operations.
\<close>

section \<open>The peer table\<close>

type_synonym mesh_id = nat
type_synonym peer_id_str = string

record peer_map =
  peers :: "(string, mesh_id) bihashmap"
  redirects :: "string \<rightharpoonup> string"
  endpoints :: "(string, string) bihashmap"

datatype peer_update_error = PeerUpdateError

definition peer_map_new :: peer_map where
  "peer_map_new = \<lparr>peers = bimap_new, redirects = Map.empty, endpoints = bimap_new\<rparr>"

definition peer_ids :: "peer_map \<Rightarrow> string set" where
  "peer_ids pm = bimap_keys (peers pm)"

definition peer_map_insert :: "string \<Rightarrow> mesh_id \<Rightarrow> string \<Rightarrow> peer_map \<Rightarrow> peer_map" where
  "peer_map_insert peer_id mesh_id endpoint pm =
     pm\<lparr>peers := snd (bimap_insert peer_id mesh_id (peers pm)),
        endpoints := snd (bimap_insert peer_id endpoint (endpoints pm))\<rparr>"

definition peer_map_remove :: "string \<Rightarrow> peer_map \<Rightarrow> mesh_id option \<times> peer_map" where
  "peer_map_remove peer_id pm =
     (let pm1 = pm\<lparr>redirects := (\<lambda>a. case redirects pm a of
                      Some target \<Rightarrow> if target \<noteq> peer_id then Some target else None
                    | None \<Rightarrow> None)\<rparr>;
          pm2 = pm1\<lparr>endpoints := snd (remove_by_key peer_id (endpoints pm1))\<rparr>;
          (removed, ps) = remove_by_key peer_id (peers pm2)
      in (map_option snd removed, pm2\<lparr>peers := ps\<rparr>))"

definition peer_map_update ::
  "string \<Rightarrow> string \<Rightarrow> (peer_map, unit, peer_update_error) action" where
  "peer_map_update old_peer_id new_peer_id pm =
     (let (removed, ps) = remove_by_key old_peer_id (peers pm);
          pm1 = pm\<lparr>peers := ps\<rparr>
      in case removed of
           None \<Rightarrow> (Err PeerUpdateError, pm1)
         | Some (_, mesh_id) \<Rightarrow>
             let pm2 = pm1\<lparr>peers := snd (bimap_insert new_peer_id mesh_id (peers pm1))\<rparr>;
                 (removed_ep, eps) = remove_by_key old_peer_id (endpoints pm2);
                 pm3 = pm2\<lparr>endpoints := (case removed_ep of
                          None \<Rightarrow> eps
                        | Some (_, endpoint) \<Rightarrow> snd (bimap_insert new_peer_id endpoint eps))\<rparr>;
                 pm4 = pm3\<lparr>redirects := (\<lambda>a. case redirects pm3 a of
                          Some v \<Rightarrow> Some (if v = old_peer_id then new_peer_id else v)
                        | None \<Rightarrow> None)\<rparr>
             in (Ok (), pm4\<lparr>redirects := (redirects pm4)(old_peer_id \<mapsto> new_peer_id)\<rparr>))"

definition get_mesh_id :: "peer_map \<Rightarrow> string \<Rightarrow> mesh_id option" where
  "get_mesh_id pm peer_id =
     (case Option.bind (redirects pm peer_id) (get_by_key (peers pm)) of
        Some m \<Rightarrow> Some m
      | None \<Rightarrow> get_by_key (peers pm) peer_id)"

definition get_peer_id :: "peer_map \<Rightarrow> mesh_id \<Rightarrow> string option" where
  "get_peer_id pm mesh_id = get_by_value (peers pm) mesh_id"

definition get_peer_endpoint :: "peer_map \<Rightarrow> string \<Rightarrow> string option" where
  "get_peer_endpoint pm peer_id =
     (case Option.bind (redirects pm peer_id) (get_by_key (endpoints pm)) of
        Some e \<Rightarrow> Some e
      | None \<Rightarrow> get_by_key (endpoints pm) peer_id)"

definition get_peer_by_endpoint :: "peer_map \<Rightarrow> string \<Rightarrow> string option" where
  "get_peer_by_endpoint pm endpoint = get_by_value (endpoints pm) endpoint"

section \<open>The network\<close>

record network =
  net_peers :: peer_map
  mesh_out :: "(mesh_id \<times> bytes) list"
  disconnects :: "string list"

datatype connection_error = AddError | RemoveError
datatype mesh_send_error = MeshDisconnected | MeshFull
datatype net_send_error = NoPeerError string | MeshError mesh_send_error
datatype net_recv_error = RecvNoPeerError mesh_id | RecvMeshError

definition network_new :: network where
  "network_new = \<lparr>net_peers = peer_map_new, mesh_out = [], disconnects = []\<rparr>"

definition notify_disconnect_listeners :: "string \<Rightarrow> network \<Rightarrow> network" where
  "notify_disconnect_listeners peer_id net = net\<lparr>disconnects := disconnects net @ [peer_id]\<rparr>"

text \<open>\<open>uuid\<close> is the fresh v4 UUID, \<open>added\<close> the outcome of \<open>mesh.add\<close>.\<close>

definition add_connection ::
  "string \<Rightarrow> (mesh_id, unit) result \<Rightarrow> string \<Rightarrow> (network, string, connection_error) action" where
  "add_connection uuid added endpoint net =
     (case added of
        Err _ \<Rightarrow> (Err AddError, net)
      | Ok mesh_id \<Rightarrow>
          let peer_id = ''temp-'' @ uuid in
          (Ok peer_id, net\<lparr>net_peers := peer_map_insert peer_id mesh_id endpoint (net_peers net)\<rparr>))"

definition add_peer ::
  "string \<Rightarrow> (mesh_id, unit) result \<Rightarrow> string \<Rightarrow> (network, unit, connection_error) action" where
  "add_peer peer_id added endpoint net =
     (case added of
        Err _ \<Rightarrow> (Err AddError, net)
      | Ok mesh_id \<Rightarrow>
          (Ok (), net\<lparr>net_peers := peer_map_insert peer_id mesh_id endpoint (net_peers net)\<rparr>))"

text \<open>\<open>mesh_remove\<close> is the outcome of removing a mesh id; a failing disconnect of the connection is
  only logged.\<close>

definition remove_connection ::
  "(mesh_id \<Rightarrow> (unit, unit) result) \<Rightarrow> string \<Rightarrow> (network, unit, connection_error) action" where
  "remove_connection mesh_remove peer_id net =
     (let (removed, pm) = peer_map_remove peer_id (net_peers net);
          net1 = net\<lparr>net_peers := pm\<rparr>
      in case removed of
           None \<Rightarrow> (Ok (), net1)
         | Some mesh_id \<Rightarrow>
             (case mesh_remove mesh_id of
                Err _ \<Rightarrow> (Err RemoveError, net1)
              | Ok _ \<Rightarrow> (Ok (), notify_disconnect_listeners peer_id net1)))"

definition update_peer_id ::
  "string \<Rightarrow> string \<Rightarrow> (network, unit, peer_update_error) action" where
  "update_peer_id old_id new_id net =
     (let (r, pm) = peer_map_update old_id new_id (net_peers net)
      in (r, net\<lparr>net_peers := pm\<rparr>))"

definition network_send ::
  "(mesh_id \<Rightarrow> bytes \<Rightarrow> (unit, mesh_send_error) result) \<Rightarrow> string \<Rightarrow> bytes \<Rightarrow>
   (network, unit, net_send_error) action" where
  "network_send mesh_send peer_id msg net =
     (case get_mesh_id (net_peers net) peer_id of
        None \<Rightarrow> (Err (NoPeerError (''Send Error: No peer with peer_id '' @ peer_id @ '' found'')), net)
      | Some mesh_id \<Rightarrow>
          (case mesh_send mesh_id msg of
             Ok _ \<Rightarrow> (Ok (), net\<lparr>mesh_out := mesh_out net @ [(mesh_id, msg)]\<rparr>)
           | Err MeshDisconnected \<Rightarrow>
               (Err (MeshError MeshDisconnected),
                notify_disconnect_listeners peer_id
                  (net\<lparr>net_peers := snd (peer_map_remove peer_id (net_peers net))\<rparr>))
           | Err e \<Rightarrow> (Err (MeshError e), net)))"

definition network_recv ::
  "(mesh_id \<times> bytes, unit) result \<Rightarrow> network \<Rightarrow> (string \<times> bytes, net_recv_error) result" where
  "network_recv received net =
     (case received of
        Err _ \<Rightarrow> Err RecvMeshError
      | Ok envelope \<Rightarrow>
          (case get_peer_id (net_peers net) (fst envelope) of
             Some peer_id \<Rightarrow> Ok (peer_id, snd envelope)
           | None \<Rightarrow> Err (RecvNoPeerError (fst envelope))))"

text \<open>One round of the heartbeat thread: \<open>ps\<close> is the list of peer ids in the order the hash map
  yields them; a failing send is only logged.\<close>

definition heartbeat_round ::
  "(mesh_id \<Rightarrow> bytes \<Rightarrow> (unit, mesh_send_error) result) \<Rightarrow> bytes \<Rightarrow> string list \<Rightarrow> network \<Rightarrow> network" where
  "heartbeat_round mesh_send heartbeat_bytes ps net =
     foldl (\<lambda>n peer. snd (network_send mesh_send peer heartbeat_bytes n)) net ps"

section \<open>The message sender\<close>

record send_request =
  recipient :: string
  req_payload :: bytes

text \<open>
  What one turn of the loop sees: the \<open>running\<close> flag and the outcome of \<open>recv_timeout\<close>. When the
  flag is down the requests still queued are drained with \<open>try_recv\<close>.
\<close>

datatype sender_event = Request send_request | SenderTimeout | SenderDisconnected

datatype sender_error = SenderRecvTimeoutError string

definition sender_send ::
  "(mesh_id \<Rightarrow> bytes \<Rightarrow> (unit, mesh_send_error) result) \<Rightarrow> send_request \<Rightarrow> network \<Rightarrow> network" where
  "sender_send mesh_send r net = snd (network_send mesh_send (recipient r) (req_payload r) net)"

fun sender_run ::
  "(mesh_id \<Rightarrow> bytes \<Rightarrow> (unit, mesh_send_error) result) \<Rightarrow> sender_event list \<Rightarrow> send_request list \<Rightarrow>
   (network, unit, sender_error) action" where
  "sender_run mesh_send [] queued net = (Ok (), foldl (\<lambda>n r. sender_send mesh_send r n) net queued)"
| "sender_run mesh_send (SenderTimeout # es) queued net = sender_run mesh_send es queued net"
| "sender_run mesh_send (SenderDisconnected # es) queued net =
     (Err (SenderRecvTimeoutError ''Received Disconnected Error from receiver''), net)"
| "sender_run mesh_send (Request r # es) queued net =
     sender_run mesh_send es queued (sender_send mesh_send r net)"

section \<open>The peer connector\<close>

datatype peer_connector_error = ConnectionFailed string | AddPeerFailed string

text \<open>\<open>connect\<close> is the transport: it yields the remote endpoint of the new connection; \<open>request\<close> is
  the outcome of \<open>create_connect_request\<close>.\<close>

definition connect_peer ::
  "(string \<Rightarrow> (string, unit) result) \<Rightarrow> (mesh_id, unit) result \<Rightarrow> (bytes, unit) result \<Rightarrow>
   (mesh_id \<Rightarrow> bytes \<Rightarrow> (unit, mesh_send_error) result) \<Rightarrow> string \<Rightarrow> string \<Rightarrow>
   (network, unit, peer_connector_error) action" where
  "connect_peer connect added request mesh_send node_id endpoint net =
     (if get_peer_by_endpoint (net_peers net) endpoint \<noteq> None then (Ok (), net)
      else case connect endpoint of
        Err _ \<Rightarrow> (Err (ConnectionFailed node_id), net)
      | Ok remote_endpoint \<Rightarrow>
          (case add_peer node_id added remote_endpoint net of
             (Err _, net1) \<Rightarrow> (Err (AddPeerFailed node_id), net1)
           | (Ok _, net1) \<Rightarrow>
               (case request of
                  Err _ \<Rightarrow> (Err (ConnectionFailed node_id), net1)
                | Ok msg \<Rightarrow>
                    (case network_send mesh_send node_id msg net1 of
                       (Err _, net2) \<Rightarrow> (Err (ConnectionFailed node_id), net2)
                     | (Ok _, net2) \<Rightarrow> (Ok (), net2)))))"

definition connect_unidentified_peer ::
  "(string \<Rightarrow> (string, unit) result) \<Rightarrow> string \<Rightarrow> (mesh_id, unit) result \<Rightarrow> (bytes, unit) result \<Rightarrow>
   (mesh_id \<Rightarrow> bytes \<Rightarrow> (unit, mesh_send_error) result) \<Rightarrow> string \<Rightarrow>
   (network, unit, peer_connector_error) action" where
  "connect_unidentified_peer connect uuid added request mesh_send endpoint net =
     (if get_peer_by_endpoint (net_peers net) endpoint \<noteq> None then (Ok (), net)
      else case connect endpoint of
        Err _ \<Rightarrow> (Err (ConnectionFailed endpoint), net)
      | Ok remote_endpoint \<Rightarrow>
          (case add_connection uuid added remote_endpoint net of
             (Err _, net1) \<Rightarrow> (Err (AddPeerFailed endpoint), net1)
           | (Ok temp_peer_id, net1) \<Rightarrow>
               (case request of
                  Err _ \<Rightarrow> (Err (ConnectionFailed endpoint), net1)
                | Ok msg \<Rightarrow>
                    (case network_send mesh_send temp_peer_id msg net1 of
                       (Err _, net2) \<Rightarrow> (Err (ConnectionFailed endpoint), net2)
                     | (Ok _, net2) \<Rightarrow> (Ok (), net2)))))"

section \<open>Well-formed peer tables\<close>

text \<open>
  Both maps are consistent; an endpoint is recorded exactly for the current peers; a redirect leads
  to a current peer, and one that starts at a current peer leads to that peer itself.
\<close>

definition peer_map_wf :: "peer_map \<Rightarrow> bool" where
  "peer_map_wf pm \<longleftrightarrow>
     bimap_consistent (peers pm) \<and> bimap_consistent (endpoints pm) \<and>
     bimap_keys (endpoints pm) = bimap_keys (peers pm) \<and>
     (\<forall>a b. redirects pm a = Some b \<longrightarrow>
        b \<in> bimap_keys (peers pm) \<and> (a \<in> bimap_keys (peers pm) \<longrightarrow> a = b))"

lemma bimap_keys_iff: "k \<in> bimap_keys m \<longleftrightarrow> get_by_key m k \<noteq> None"
  by (auto simp: bimap_keys_def get_by_key_def)

lemma bimap_keys_none: "k \<notin> bimap_keys m \<longleftrightarrow> get_by_key m k = None"
  by (simp add: bimap_keys_iff)

lemma bimap_keys_put [simp]: "bimap_keys (bimap_put k v m) = insert k (bimap_keys m)"
  by (auto simp: bimap_keys_def)

lemma bimap_keys_drop [simp]:
  "bimap_consistent m \<Longrightarrow> bimap_keys (bimap_drop k m) = bimap_keys m - {k}"
  by (auto simp: bimap_keys_def remove_by_key_maps split: if_splits)

lemma peer_map_wf_new [simp]: "peer_map_wf peer_map_new"
  by (simp add: peer_map_wf_def peer_map_new_def bimap_keys_def bimap_new_def bimap_consistent_def)

lemma peer_map_wf_insert:
  assumes "peer_map_wf pm"
    and "peer_id \<notin> peer_ids pm" and "redirects pm peer_id = None"
    and "get_peer_id pm mesh_id = None" and "get_peer_by_endpoint pm endpoint = None"
  shows "peer_map_wf (peer_map_insert peer_id mesh_id endpoint pm)"
proof -
  from assms have "get_by_key (peers pm) peer_id = None" "get_by_key (endpoints pm) peer_id = None"
    by (auto simp: peer_map_wf_def peer_ids_def simp flip: bimap_keys_none)
  with assms show ?thesis
    by (auto simp: peer_map_wf_def peer_map_insert_def peer_ids_def get_peer_id_def
        get_peer_by_endpoint_def bi.by_key_put intro!: bi.wf_put)
qed

lemma peer_map_remove_simps:
  assumes "peer_map_wf pm"
  shows "fst (peer_map_remove p pm) = get_by_key (peers pm) p"
    and "peers (snd (peer_map_remove p pm)) = bimap_drop p (peers pm)"
    and "endpoints (snd (peer_map_remove p pm)) = bimap_drop p (endpoints pm)"
    and "redirects (snd (peer_map_remove p pm)) a =
           (if redirects pm a = Some p then None else redirects pm a)"
  using assms remove_by_key_result [of "peers pm" p]
  by (auto simp: peer_map_wf_def peer_map_remove_def Let_def get_by_key_def
      option.map_comp comp_def option.map_ident split: prod.splits option.splits)

lemma peer_map_wf_remove:
  assumes "peer_map_wf pm"
  shows "peer_map_wf (snd (peer_map_remove p pm))"
  using assms
  by (auto simp: peer_map_wf_def peer_map_remove_simps [OF assms] bi.wf_drop split: if_splits)


lemma peer_map_update_ok:
  assumes "peer_map_wf pm" and "get_by_key (peers pm) old = Some m"
  obtains e where "get_by_key (endpoints pm) old = Some e"
    and "peer_map_update old new pm =
      (Ok (), \<lparr>peers = bimap_put new m (bimap_drop old (peers pm)),
               redirects = (\<lambda>a. map_option (\<lambda>v. if v = old then new else v) (redirects pm a))
                             (old \<mapsto> new),
               endpoints = bimap_put new e (bimap_drop old (endpoints pm))\<rparr>)"
proof -
  from assms have "old \<in> bimap_keys (endpoints pm)"
    by (simp add: peer_map_wf_def bimap_keys_iff)
  then obtain e where e: "get_by_key (endpoints pm) old = Some e"
    by (auto simp: bimap_keys_iff)
  obtain ps eps where rm: "remove_by_key old (peers pm) = (Some (old, m), ps)"
    "remove_by_key old (endpoints pm) = (Some (old, e), eps)"
    using assms e remove_by_key_result [of "peers pm" old] remove_by_key_result [of "endpoints pm" old]
    by (cases "remove_by_key old (peers pm)"; cases "remove_by_key old (endpoints pm)")
      (simp add: peer_map_wf_def get_by_key_def)
  show thesis
    by (rule that [OF e]) (simp add: peer_map_update_def rm Let_def map_option_case fun_eq_iff)
qed

lemma peer_map_update_err:
  "get_by_key (peers pm) old = None \<Longrightarrow> peer_map_update old new pm = (Err PeerUpdateError, pm)"
  by (cases pm) (simp add: peer_map_update_def remove_by_key_def get_by_key_def Let_def
      fun_upd_idem_iff)

lemma peer_map_wf_update:
  assumes "peer_map_wf pm" and "new = old \<or> (new \<notin> peer_ids pm \<and> redirects pm new = None)"
  shows "peer_map_wf (snd (peer_map_update old new pm))"
proof (cases "get_by_key (peers pm) old")
  case None
  with assms(1) show ?thesis by (simp add: peer_map_update_err)
next
  case (Some m)
  obtain e where e: "get_by_key (endpoints pm) old = Some e"
    and upd: "peer_map_update old new pm =
      (Ok (), \<lparr>peers = bimap_put new m (bimap_drop old (peers pm)),
               redirects = (\<lambda>a. map_option (\<lambda>v. if v = old then new else v) (redirects pm a))
                             (old \<mapsto> new),
               endpoints = bimap_put new e (bimap_drop old (endpoints pm))\<rparr>)"
    by (rule peer_map_update_ok [OF assms(1) Some])
  have c: "bimap_consistent (peers pm)" "bimap_consistent (endpoints pm)"
    and ks: "bimap_keys (endpoints pm) = bimap_keys (peers pm)"
    using assms(1) by (simp_all add: peer_map_wf_def)
  have new: "get_by_key (peers pm) new = None \<or> new = old"
    "get_by_key (endpoints pm) new = None \<or> new = old"
    using assms(2) ks by (auto simp: peer_ids_def simp flip: bimap_keys_none)
  have "bimap_consistent (bimap_put new m (bimap_drop old (peers pm)))"
    "bimap_consistent (bimap_put new e (bimap_drop old (endpoints pm)))"
    using bi.rekey(1) [OF c(1) Some new(1)] bi.rekey(1) [OF c(2) e new(2)] by simp_all
  moreover have "old \<in> bimap_keys (peers pm)" using Some by (simp add: bimap_keys_iff)
  ultimately show ?thesis
    using assms c ks unfolding upd peer_map_wf_def by (auto simp: peer_ids_def)
qed

lemma get_mesh_id_wf:
  "peer_map_wf pm \<Longrightarrow>
   get_mesh_id pm p = get_by_key (peers pm) (case redirects pm p of Some t \<Rightarrow> t | None \<Rightarrow> p)"
  by (cases "redirects pm p"; cases "get_by_key (peers pm) (the (redirects pm p))")
    (force simp: get_mesh_id_def peer_map_wf_def bimap_keys_iff)+

lemma get_mesh_id_current:
  assumes "peer_map_wf pm" and "p \<in> peer_ids pm"
  shows "get_mesh_id pm p = get_by_key (peers pm) p"
  using assms by (auto simp: get_mesh_id_wf peer_ids_def peer_map_wf_def split: option.splits)

lemma get_mesh_id_update:
  assumes wf: "peer_map_wf pm" and old: "old \<in> peer_ids pm"
    and new: "new = old \<or> (new \<notin> peer_ids pm \<and> redirects pm new = None)"
  shows "get_mesh_id (snd (peer_map_update old new pm)) q =
           (if q = new then get_mesh_id pm old else get_mesh_id pm q)"
proof -
  from old obtain m where m: "get_by_key (peers pm) old = Some m"
    by (auto simp: peer_ids_def bimap_keys_iff)
  obtain e where upd: "peer_map_update old new pm =
      (Ok (), \<lparr>peers = bimap_put new m (bimap_drop old (peers pm)),
               redirects = (\<lambda>a. map_option (\<lambda>v. if v = old then new else v) (redirects pm a))
                             (old \<mapsto> new),
               endpoints = bimap_put new e (bimap_drop old (endpoints pm))\<rparr>)"
    by (rule peer_map_update_ok [OF wf m])
  have c: "bimap_consistent (peers pm)" using wf by (simp add: peer_map_wf_def)
  have key: "get_by_key (bimap_put new m (bimap_drop old (peers pm))) =
      (get_by_key (peers pm))(old := None, new \<mapsto> m)"
    by (simp add: bi.by_key_put bi.by_key_drop [OF c])
  have tgt: "redirects pm q = Some t \<Longrightarrow> t \<in> peer_ids pm \<and> (q \<in> peer_ids pm \<longrightarrow> q = t)" for t
    using wf by (auto simp: peer_map_wf_def peer_ids_def)
  have wf': "peer_map_wf (snd (peer_map_update old new pm))"
    using peer_map_wf_update [OF wf new] .
  have after: "get_mesh_id (snd (peer_map_update old new pm)) q =
      ((get_by_key (peers pm))(old := None, new \<mapsto> m))
        (if q = old then new
         else case redirects pm q of None \<Rightarrow> q | Some v \<Rightarrow> if v = old then new else v)"
    unfolding get_mesh_id_wf [OF wf'] by (cases "redirects pm q"; cases "q = old"; simp add: upd key)
  show ?thesis
  proof (cases "redirects pm q")
    case None
    then show ?thesis
      unfolding after get_mesh_id_wf [OF wf, of q] get_mesh_id_current [OF wf old] using m new by auto
  next
    case (Some t)
    with tgt have t: "t \<in> peer_ids pm" "q \<in> peer_ids pm \<longrightarrow> q = t" by blast+
    show ?thesis
    proof (cases "t = old")
      case True
      with Some m show ?thesis
        unfolding after get_mesh_id_wf [OF wf, of q] get_mesh_id_current [OF wf old] by simp
    next
      case False
      with t new old Some have "q \<noteq> new" "t \<noteq> new" "q \<noteq> old" by auto
      with False Some show ?thesis
        unfolding after get_mesh_id_wf [OF wf, of q] by simp
    qed
  qed
qed

section \<open>Histories of a peer table\<close>

text \<open>
  The states of the peer table under every sequence of calls, where a new peer uses an id, a mesh id
  and an endpoint that are not in use, and a peer never takes over an id that is in use or that an
  old redirect starts from.
\<close>

inductive peer_map_reachable :: "peer_map \<Rightarrow> bool" where
  empty: "peer_map_reachable peer_map_new"
| insert: "peer_map_reachable pm \<Longrightarrow> p \<notin> peer_ids pm \<Longrightarrow> redirects pm p = None \<Longrightarrow>
     get_peer_id pm m = None \<Longrightarrow> get_peer_by_endpoint pm e = None \<Longrightarrow>
     peer_map_reachable (peer_map_insert p m e pm)"
| remove: "peer_map_reachable pm \<Longrightarrow> peer_map_reachable (snd (peer_map_remove p pm))"
| update: "peer_map_reachable pm \<Longrightarrow>
     new = old \<or> (new \<notin> peer_ids pm \<and> redirects pm new = None) \<Longrightarrow>
     peer_map_reachable (snd (peer_map_update old new pm))"

lemma peer_map_reachable_wf_aux: "peer_map_reachable pm \<Longrightarrow> peer_map_wf pm"
  by (induction rule: peer_map_reachable.induct)
    (auto intro: peer_map_wf_insert peer_map_wf_remove peer_map_wf_update)

lemma get_peer_by_endpoint_insert:
  "get_peer_by_endpoint (peer_map_insert p m e pm) e = Some p"
  by (simp add: get_peer_by_endpoint_def peer_map_insert_def bi.by_value_put)

lemma network_send_ok_peers:
  "network_send mesh_send p msg net = (Ok (), net') \<Longrightarrow> net_peers net' = net_peers net"
  by (auto simp: network_send_def split: option.splits result.splits mesh_send_error.splits)

lemma connect_peer_connected:
  assumes "connect_peer connect added request mesh_send p e net = (Ok (), net')"
    and "connect e = Ok e"
  shows "get_peer_by_endpoint (net_peers net') e \<noteq> None"
  using assms
  by (auto simp: connect_peer_def add_peer_def get_peer_by_endpoint_insert
      split: if_splits result.splits prod.splits dest!: network_send_ok_peers)

lemma sender_run_drains:
  "SenderDisconnected \<notin> set es \<Longrightarrow>
   sender_run mesh_send es queued net =
     (Ok (), foldl (\<lambda>n r. sender_send mesh_send r n) net
        ([r. Request r \<leftarrow> es] @ queued))"
  by (induction mesh_send es queued net rule: sender_run.induct) auto

lemmas peer_map_eval =
  peer_map_new_def peer_ids_def peer_map_insert_def peer_map_remove_def peer_map_update_def
  get_mesh_id_def get_peer_id_def get_peer_endpoint_def get_peer_by_endpoint_def bimap_defs Let_def

section \<open>Properties\<close>



text \<open>When a peer is given its declared id, the new id resolves to the mesh id of the old one and
  every other id, the old one and all the ids redirected to it included, resolves as before: no
  queued reply to an earlier id of the connection is lost or sent to another connection.\<close>

theorem peer_update_keeps_resolution:
  assumes "peer_map_wf pm" and "old \<in> peer_ids pm"
    and "new = old \<or> (new \<notin> peer_ids pm \<and> redirects pm new = None)"
  shows "fst (peer_map_update old new pm) = Ok () \<and>
    get_mesh_id (snd (peer_map_update old new pm)) = (get_mesh_id pm)(new := get_mesh_id pm old)"
proof -
  from assms(2) obtain m where "get_by_key (peers pm) old = Some m"
    by (auto simp: peer_ids_def bimap_keys_iff)
  then have "fst (peer_map_update old new pm) = Ok ()"
    by (rule peer_map_update_ok [OF assms(1), where new = new]) simp
  with get_mesh_id_update [OF assms] show ?thesis by (auto simp: fun_eq_iff)
qed

theorem peer_update_keeps_resolution_witness:
  "get_mesh_id (snd (peer_map_update ''temp-1'' ''alpha''
      (peer_map_insert ''temp-1'' 7 ''tcp://a'' peer_map_new))) =
   [''temp-1'' \<mapsto> 7, ''alpha'' \<mapsto> 7]"
proof -
  let ?pm = "peer_map_insert ''temp-1'' 7 ''tcp://a'' peer_map_new"
  have "peer_map_wf ?pm"
    by (rule peer_map_wf_insert [OF peer_map_wf_new]) (simp_all add: peer_map_eval)
  from peer_update_keeps_resolution [OF this, of "''temp-1''" "''alpha''"]
  have "get_mesh_id (snd (peer_map_update ''temp-1'' ''alpha'' ?pm)) =
      (get_mesh_id ?pm)(''alpha'' := get_mesh_id ?pm ''temp-1'')"
    by (simp add: peer_map_eval)
  moreover have "get_mesh_id ?pm = [''temp-1'' \<mapsto> 7]"
    by (auto simp: fun_eq_iff peer_map_eval)
  ultimately show ?thesis by simp
qed

text \<open>The redirect table hides a current peer: when a connection that was added under an id has
  identified itself under another one, and a second connection is then added under the first id, a
  message sent to that current peer goes to the other connection.\<close>

theorem redirect_hides_current_peer:
  "let pm = peer_map_insert ''alpha'' 2 ''tcp://b''
              (snd (peer_map_update ''alpha'' ''beta''
                 (peer_map_insert ''alpha'' 1 ''tcp://a'' peer_map_new)))
   in get_by_key (peers pm) ''alpha'' = Some 2 \<and> get_peer_id pm 2 = Some ''alpha'' \<and>
      get_mesh_id pm ''alpha'' = Some 1"
  by (simp add: peer_map_eval)

text \<open>Connecting to an endpoint twice adds one peer: once a connection has been made, a second
  call for the same endpoint succeeds and changes nothing, whatever node id it names.\<close>

theorem connect_peer_idempotent:
  assumes "connect endpoint = Ok endpoint"
    and "connect_peer connect added request mesh_send node_id endpoint net = (Ok (), net')"
  shows "connect_peer connect added' request' mesh_send' node_id' endpoint net' = (Ok (), net')"
  using connect_peer_connected [OF assms(2,1)] by (simp add: connect_peer_def)

theorem connect_peer_idempotent_witness:
  "let net' = snd (connect_peer Ok (Ok 3) (Ok [1]) (\<lambda>_ _. Ok ()) ''alpha'' ''tcp://a'' network_new)
   in connect_peer Ok (Ok 4) (Ok [1]) (\<lambda>_ _. Ok ()) ''beta'' ''tcp://a'' net' = (Ok (), net')"
proof -
  let ?net' = "snd (connect_peer Ok (Ok 3) (Ok [1]) (\<lambda>_ _. Ok ()) ''alpha'' ''tcp://a'' network_new)"
  have "connect_peer Ok (Ok 3) (Ok [1]) (\<lambda>_ _. Ok ()) ''alpha'' ''tcp://a'' network_new = (Ok (), ?net')"
    by (simp add: connect_peer_def add_peer_def network_send_def network_new_def peer_map_eval)
  from connect_peer_idempotent [OF _ this, of "Ok 4" "Ok [1]" "\<lambda>_ _. Ok ()" "''beta''"]
  show ?thesis by (simp add: Let_def)
qed

end
