(* ===== verification/Dispatch.thy ===== *)
theory Dispatch
  imports Network
begin

text \<open>
  Message dispatch: \<^verbatim>\<open>libsplinter/src/network/dispatch.rs\<close> (dispatcher and dispatch loop),
  \<^verbatim>\<open>network/dispatch_proto.rs\<close> and the echo and heartbeat handlers of \<^verbatim>\<open>network/handlers.rs\<close>.

  A handler is an action on the state \<open>'s\<close> of the node it runs in. The sender a handler is given is
  part of that state.
\<close>

section \<open>Handlers and dispatchers\<close>

record 'mt message_context =
  source_peer_id :: string
  ctx_message_type :: 'mt
  message_bytes :: bytes

text \<open>\<open>Panicked\<close> stands for a call of \<open>panic!\<close> in a handler.\<close>

datatype dispatch_error =
  DeserializationError string
| SerializationError string
| UnknownMessageType
| NetworkSendError
| HandleError string
| Panicked

type_synonym ('mt, 's) inner_handler =
  "bytes \<Rightarrow> 'mt message_context \<Rightarrow> ('s, unit, dispatch_error) action"

type_synonym ('mt, 's) dispatcher = "'mt \<rightharpoonup> ('mt, 's) inner_handler"

definition from_message_bytes :: "'m codec \<Rightarrow> bytes \<Rightarrow> ('m, dispatch_error) result" where
  "from_message_bytes c bs = map_err DeserializationError (parse_from_bytes c bs)"

definition dispatcher_new :: "('mt, 's) dispatcher" where
  "dispatcher_new = Map.empty"

definition set_handler ::
  "'mt \<Rightarrow> 'm codec \<Rightarrow> ('m \<Rightarrow> 'mt message_context \<Rightarrow> ('s, unit, dispatch_error) action) \<Rightarrow>
   ('mt, 's) dispatcher \<Rightarrow> ('mt, 's) dispatcher" where
  "set_handler mt c handler d =
     d(mt \<mapsto> (\<lambda>bs ctx s. case from_message_bytes c bs of
                 Err e \<Rightarrow> (Err e, s)
               | Ok m \<Rightarrow> handler m ctx s))"

definition dispatch ::
  "('mt, 's) dispatcher \<Rightarrow> string \<Rightarrow> 'mt \<Rightarrow> bytes \<Rightarrow> ('s, unit, dispatch_error) action" where
  "dispatch d source mt bs s =
     (let ctx = \<lparr>source_peer_id = source, ctx_message_type = mt, message_bytes = bs\<rparr> in
      case d mt of
        None \<Rightarrow> (Err UnknownMessageType, s)
      | Some handler \<Rightarrow> handler (message_bytes ctx) ctx s)"

record 'mt dispatch_message =
  dm_type :: 'mt
  dm_bytes :: bytes
  dm_source :: string

datatype dispatch_loop_error = DispatchLoopError string

datatype 'mt dispatch_event = DispatchMsg "'mt dispatch_message" | DispatchTimeout | DispatchDisconnected

definition dispatch_one :: "('mt, 's) dispatcher \<Rightarrow> 'mt dispatch_message \<Rightarrow> 's \<Rightarrow> 's" where
  "dispatch_one d m s = snd (dispatch d (dm_source m) (dm_type m) (dm_bytes m) s)"

text \<open>The events are what \<open>recv_timeout\<close> yields while the running flag is up; the queued messages
  are drained with \<open>try_recv\<close> when it is down.\<close>

fun dispatch_loop ::
  "('mt, 's) dispatcher \<Rightarrow> 'mt dispatch_event list \<Rightarrow> 'mt dispatch_message list \<Rightarrow>
   ('s, unit, dispatch_loop_error) action" where
  "dispatch_loop d [] queued s = (Ok (), foldl (\<lambda>t m. dispatch_one d m t) s queued)"
| "dispatch_loop d (DispatchTimeout # es) queued s = dispatch_loop d es queued s"
| "dispatch_loop d (DispatchDisconnected # es) queued s =
     (Err (DispatchLoopError ''Received Disconnected Error from receiver''), s)"
| "dispatch_loop d (DispatchMsg m # es) queued s = dispatch_loop d es queued (dispatch_one d m s)"

section \<open>Network messages\<close>

datatype network_message_type =
  UNSET_NETWORK_MESSAGE_TYPE | NETWORK_ECHO | NETWORK_HEARTBEAT | CIRCUIT | AUTHORIZATION

record network_message =
  nm_type :: network_message_type
  nm_payload :: bytes

record network_echo =
  echo_payload :: bytes
  echo_recipient :: string
  time_to_live :: "32 word"

text \<open>\<open>sender.send(request)?\<close> on the channel to the network message sender.\<close>

definition send_request_act :: "send_request \<Rightarrow> (send_request channel, unit, dispatch_error) action" where
  "send_request_act r c =
     (case chan_send r c of (Ok _, c') \<Rightarrow> (Ok (), c') | (Err _, c') \<Rightarrow> (Err NetworkSendError, c'))"

text \<open>
  The echo handler: \<open>i32\<close> arithmetic. In a release build \<open>- 1\<close> wraps at the smallest value; a debug
  build panics there. The two \<open>write_to_bytes().unwrap()\<close> panic when the message cannot be written.
\<close>

definition echo_handle ::
  "network_echo codec \<Rightarrow> network_message codec \<Rightarrow> node_id \<Rightarrow> network_echo \<Rightarrow>
   network_message_type message_context \<Rightarrow> (send_request channel, unit, dispatch_error) action" where
  "echo_handle echo_codec net_codec node_id msg ctx c =
     (let target = (if echo_recipient msg = node_id then source_peer_id ctx else echo_recipient msg);
          msg' = msg\<lparr>time_to_live := time_to_live msg - 1\<rparr>
      in if sint (time_to_live msg') \<le> 0 then (Ok (), c)
         else case write_to_bytes echo_codec msg' of
           Err _ \<Rightarrow> (Err Panicked, c)
         | Ok echo_bytes \<Rightarrow>
             (case write_to_bytes net_codec \<lparr>nm_type = NETWORK_ECHO, nm_payload = echo_bytes\<rparr> of
                Err _ \<Rightarrow> (Err Panicked, c)
              | Ok bs \<Rightarrow> send_request_act \<lparr>recipient = target, req_payload = bs\<rparr> c))"

definition heartbeat_handle ::
  "'m \<Rightarrow> network_message_type message_context \<Rightarrow> (send_request channel, unit, dispatch_error) action" where
  "heartbeat_handle msg ctx = pure_act ()"

section \<open>Lemmas\<close>

lemma dispatch_set_handler:
  "dispatch (set_handler mt c handler d) source mt bs s =
     (case from_message_bytes c bs of
        Err e \<Rightarrow> (Err e, s)
      | Ok m \<Rightarrow> handler m \<lparr>source_peer_id = source, ctx_message_type = mt, message_bytes = bs\<rparr> s)"
  by (simp add: dispatch_def set_handler_def)

lemma dispatch_set_other:
  "mt' \<noteq> mt \<Longrightarrow> dispatch (set_handler mt c handler d) source mt' bs s = dispatch d source mt' bs s"
  by (simp add: dispatch_def set_handler_def)

text \<open>An invariant kept by every handler of a dispatcher is kept by the loop.\<close>

definition dispatcher_keeps :: "('s \<Rightarrow> bool) \<Rightarrow> ('mt, 's) dispatcher \<Rightarrow> bool" where
  "dispatcher_keeps P d \<longleftrightarrow> (\<forall>mt h bs ctx. d mt = Some h \<longrightarrow> keeps P (h bs ctx))"

lemma keeps_dispatch [keeps_intros]: "dispatcher_keeps P d \<Longrightarrow> keeps P (dispatch d source mt bs)"
  by (auto simp: keeps_def dispatch_def dispatcher_keeps_def Let_def split: option.split)

lemma dispatcher_keeps_new: "dispatcher_keeps P dispatcher_new"
  by (simp add: dispatcher_keeps_def dispatcher_new_def)

lemma dispatcher_keeps_set:
  assumes "dispatcher_keeps P d" and "\<And>m ctx. keeps P (handler m ctx)"
  shows "dispatcher_keeps P (set_handler mt c handler d)"
  using assms by (auto simp: dispatcher_keeps_def set_handler_def keeps_def split: result.split)

lemma dispatch_one_keeps: "dispatcher_keeps P d \<Longrightarrow> P s \<Longrightarrow> P (dispatch_one d m s)"
  by (simp add: dispatch_one_def keepsD [OF keeps_dispatch])

lemma dispatch_all_keeps:
  "dispatcher_keeps P d \<Longrightarrow> P s \<Longrightarrow> P (foldl (\<lambda>t m. dispatch_one d m t) s queued)"
  by (induction queued arbitrary: s) (simp_all add: dispatch_one_keeps)

lemma dispatch_loop_keeps:
  "dispatcher_keeps P d \<Longrightarrow> P s \<Longrightarrow> P (snd (dispatch_loop d es queued s))"
  by (induction d es queued s rule: dispatch_loop.induct)
    (simp_all add: dispatch_all_keeps dispatch_one_keeps)

end
