(* ===== verification/Auth.thy ===== *)
theory Auth
  imports Dispatch
begin

text \<open>
  Connection authorization: the state machine of \<^verbatim>\<open>libsplinter/src/network/auth/mod.rs\<close> and the
  message handlers of \<^verbatim>\<open>network/auth/handlers.rs\<close>.

  The record \<open>auth_node\<close> holds what the authorization manager shares with the rest of the node: the
  states of the connections, the callbacks' notifications, the network, and the channel to the
  network message sender. The channel on which the manager hears of disconnected peers is the
  \<open>disconnects\<close> field of the network. \<open>mesh_remove\<close> is the outcome of \<open>mesh.remove\<close>.
\<close>

section \<open>The state machine\<close>

datatype authorization_state = AuthUnknown | AuthConnecting | Authorized | Unauthorized | Internal

datatype authorization_action = Connecting | TrustIdentifying string | Unauthorizing

datatype authorization_action_error =
  AlreadyConnecting
| InvalidMessageOrder authorization_state authorization_action
| ConnectionLost

datatype peer_authorization_state = PeerAuthorized | PeerUnauthorized

record auth_node =
  auth_states :: "string \<rightharpoonup> authorization_state"
  auth_notified :: "(string \<times> peer_authorization_state) list"
  auth_network :: network
  auth_identity :: string
  auth_out :: "send_request channel"

definition notify_callbacks :: "string \<Rightarrow> peer_authorization_state \<Rightarrow> auth_node \<Rightarrow> auth_node" where
  "notify_callbacks p st a = a\<lparr>auth_notified := auth_notified a @ [(p, st)]\<rparr>"

definition set_auth_state :: "string \<Rightarrow> authorization_state \<Rightarrow> auth_node \<Rightarrow> auth_node" where
  "set_auth_state p st a = a\<lparr>auth_states := (auth_states a)(p \<mapsto> st)\<rparr>"

definition forget_auth_state :: "string \<Rightarrow> auth_node \<Rightarrow> auth_node" where
  "forget_auth_state p a = a\<lparr>auth_states := (auth_states a)(p := None)\<rparr>"

definition drain_removals :: "'z auth_node_scheme \<Rightarrow> 'z auth_node_scheme" where
  "drain_removals a =
     (let removals = disconnects (auth_network a)
      in a\<lparr>auth_network := (auth_network a)\<lparr>disconnects := []\<rparr>,
            auth_states := (\<lambda>p. if p \<in> set removals then None else auth_states a p)\<rparr>)"

definition auth_remove_connection ::
  "(mesh_id \<Rightarrow> (unit, unit) result) \<Rightarrow> string \<Rightarrow> (auth_node, unit, authorization_action_error) action" where
  "auth_remove_connection mesh_remove p a =
     (let (r, net) = remove_connection mesh_remove p (auth_network a)
      in (map_err (\<lambda>_. ConnectionLost) r, a\<lparr>auth_network := net\<rparr>))"

definition auth_update_peer_id ::
  "string \<Rightarrow> string \<Rightarrow> (auth_node, unit, authorization_action_error) action" where
  "auth_update_peer_id old_id new_id a =
     (let (r, net) = update_peer_id old_id new_id (auth_network a)
      in (map_err (\<lambda>_. ConnectionLost) r, a\<lparr>auth_network := net\<rparr>))"

definition unauthorize ::
  "(mesh_id \<Rightarrow> (unit, unit) result) \<Rightarrow> string \<Rightarrow>
   (auth_node, authorization_state, authorization_action_error) action" where
  "unauthorize mesh_remove p =
     bind_act (modify_act (forget_auth_state p))
       (\<lambda>_. bind_act (auth_remove_connection mesh_remove p)
         (\<lambda>_. bind_act (modify_act (notify_callbacks p PeerUnauthorized))
           (\<lambda>_. pure_act Unauthorized)))"

definition next_state_drained ::
  "(mesh_id \<Rightarrow> (unit, unit) result) \<Rightarrow> string \<Rightarrow> authorization_action \<Rightarrow>
   (auth_node, authorization_state, authorization_action_error) action" where
  "next_state_drained mesh_remove p act a =
     (let cur = (case auth_states a p of Some st \<Rightarrow> st | None \<Rightarrow> AuthUnknown) in
      case cur of
        AuthUnknown \<Rightarrow>
          (case act of
             Connecting \<Rightarrow>
               (case get_peer_endpoint (net_peers (auth_network a)) p of
                  Some endpoint \<Rightarrow>
                    if contains_str ''inproc'' endpoint
                    then (Ok Internal, notify_callbacks p PeerAuthorized (set_auth_state p Internal a))
                    else (Ok AuthConnecting, set_auth_state p AuthConnecting a)
                | None \<Rightarrow> (Ok AuthConnecting, set_auth_state p AuthConnecting a))
           | Unauthorizing \<Rightarrow>
               bind_act (auth_remove_connection mesh_remove p) (\<lambda>_. pure_act Unauthorized) a
           | _ \<Rightarrow> (Err (InvalidMessageOrder AuthUnknown act), a))
      | AuthConnecting \<Rightarrow>
          (case act of
             Connecting \<Rightarrow> (Err AlreadyConnecting, a)
           | TrustIdentifying new_id \<Rightarrow>
               bind_act (modify_act (forget_auth_state p))
                 (\<lambda>_. bind_act (auth_update_peer_id p new_id)
                   (\<lambda>_. bind_act (modify_act (set_auth_state new_id Authorized))
                     (\<lambda>_. bind_act (modify_act (notify_callbacks new_id PeerAuthorized))
                       (\<lambda>_. pure_act Authorized)))) a
           | Unauthorizing \<Rightarrow> unauthorize mesh_remove p a)
      | Authorized \<Rightarrow>
          (case act of
             Unauthorizing \<Rightarrow> unauthorize mesh_remove p a
           | _ \<Rightarrow> (Err (InvalidMessageOrder Authorized act), a))
      | _ \<Rightarrow> (Err (InvalidMessageOrder cur act), a))"

definition next_state ::
  "(mesh_id \<Rightarrow> (unit, unit) result) \<Rightarrow> string \<Rightarrow> authorization_action \<Rightarrow>
   (auth_node, authorization_state, authorization_action_error) action" where
  "next_state mesh_remove p act a = next_state_drained mesh_remove p act (drain_removals a)"

definition is_authorized :: "string \<Rightarrow> 'z auth_node_scheme \<Rightarrow> bool \<times> 'z auth_node_scheme" where
  "is_authorized p a =
     (let a' = drain_removals a
      in (auth_states a' p = Some Authorized \<or> auth_states a' p = Some Internal, a'))"

section \<open>The messages\<close>

datatype auth_message_type =
  UNSET_AUTHORIZATION_MESSAGE_TYPE | CONNECT_REQUEST | CONNECT_RESPONSE | AUTHORIZE
| AUTHORIZATION_ERROR | TRUST_REQUEST

datatype handshake_mode = UNSET_HANDSHAKE_MODE | UNIDIRECTIONAL | BIDIRECTIONAL
datatype auth_type = UNSET_AUTHORIZATION_TYPE | TRUST

record authorization_message =
  am_type :: auth_message_type
  am_payload :: bytes

datatype auth_error_type = UNSET_AUTHORIZATION_ERROR_TYPE | AUTHORIZATION_REJECTED

record authorization_error =
  ae_type :: auth_error_type
  ae_message :: string

text \<open>The codecs of the authorization messages; a message with one field is that field.\<close>

record auth_codecs =
  connect_request_c :: "handshake_mode codec"
  connect_response_c :: "auth_type list codec"
  trust_request_c :: "string codec"
  authorized_c :: "unit codec"
  authorization_error_c :: "authorization_error codec"
  authorization_message_c :: "authorization_message codec"
  network_message_c :: "network_message codec"

definition wrap_in_network_auth_envelopes ::
  "auth_codecs \<Rightarrow> auth_message_type \<Rightarrow> (bytes, string) result \<Rightarrow> (bytes, dispatch_error) result" where
  "wrap_in_network_auth_envelopes cs mt msg =
     map_err SerializationError
       (bind_result msg (\<lambda>payload.
          bind_result (write_to_bytes (authorization_message_c cs) \<lparr>am_type = mt, am_payload = payload\<rparr>)
            (\<lambda>auth_bytes. write_to_bytes (network_message_c cs)
               \<lparr>nm_type = AUTHORIZATION, nm_payload = auth_bytes\<rparr>)))"

definition create_connect_request :: "auth_codecs \<Rightarrow> (bytes, string) result" where
  "create_connect_request cs =
     bind_result (write_to_bytes (connect_request_c cs) BIDIRECTIONAL)
       (\<lambda>payload. bind_result (write_to_bytes (authorization_message_c cs)
            \<lparr>am_type = CONNECT_REQUEST, am_payload = payload\<rparr>)
          (\<lambda>auth_bytes. write_to_bytes (network_message_c cs)
             \<lparr>nm_type = AUTHORIZATION, nm_payload = auth_bytes\<rparr>))"

definition auth_send ::
  "string \<Rightarrow> (bytes, dispatch_error) result \<Rightarrow> (auth_node, unit, dispatch_error) action" where
  "auth_send to msg a =
     (case msg of
        Err e \<Rightarrow> (Err e, a)
      | Ok bs \<Rightarrow>
          (let (r, out) = send_request_act \<lparr>recipient = to, req_payload = bs\<rparr> (auth_out a)
           in (r, a\<lparr>auth_out := out\<rparr>)))"

section \<open>The handlers\<close>

definition network_auth_guard ::
  "('m \<Rightarrow> network_message_type message_context \<Rightarrow> ('z auth_node_scheme, unit, dispatch_error) action) \<Rightarrow>
   'm \<Rightarrow> network_message_type message_context \<Rightarrow> ('z auth_node_scheme, unit, dispatch_error) action" where
  "network_auth_guard handler msg ctx a =
     (let (ok, a') = is_authorized (source_peer_id ctx) a
      in if ok then handler msg ctx a' else (Ok (), a'))"

definition connect_request_handle ::
  "auth_codecs \<Rightarrow> (mesh_id \<Rightarrow> (unit, unit) result) \<Rightarrow> handshake_mode \<Rightarrow>
   auth_message_type message_context \<Rightarrow> (auth_node, unit, dispatch_error) action" where
  "connect_request_handle cs mesh_remove mode ctx a =
     (case next_state mesh_remove (source_peer_id ctx) Connecting a of
        (Err _, a1) \<Rightarrow> (Ok (), a1)
      | (Ok AuthConnecting, a1) \<Rightarrow>
          bind_act
            (if mode = BIDIRECTIONAL
             then auth_send (source_peer_id ctx) (wrap_in_network_auth_envelopes cs CONNECT_REQUEST
                    (write_to_bytes (connect_request_c cs) UNIDIRECTIONAL))
             else pure_act ())
            (\<lambda>_. auth_send (source_peer_id ctx) (wrap_in_network_auth_envelopes cs CONNECT_RESPONSE
                   (write_to_bytes (connect_response_c cs) [TRUST]))) a1
      | (Ok Internal, a1) \<Rightarrow>
          auth_send (source_peer_id ctx)
            (wrap_in_network_auth_envelopes cs AUTHORIZE (write_to_bytes (authorized_c cs) ())) a1
      | (Ok _, a1) \<Rightarrow> (Err Panicked, a1))"

definition connect_response_handle ::
  "auth_codecs \<Rightarrow> auth_type list \<Rightarrow> auth_message_type message_context \<Rightarrow>
   (auth_node, unit, dispatch_error) action" where
  "connect_response_handle cs accepted ctx a =
     (if TRUST \<in> set accepted
      then auth_send (source_peer_id ctx) (wrap_in_network_auth_envelopes cs TRUST_REQUEST
             (write_to_bytes (trust_request_c cs) (auth_identity a))) a
      else (Ok (), a))"

definition trust_request_handle ::
  "auth_codecs \<Rightarrow> (mesh_id \<Rightarrow> (unit, unit) result) \<Rightarrow> string \<Rightarrow>
   auth_message_type message_context \<Rightarrow> (auth_node, unit, dispatch_error) action" where
  "trust_request_handle cs mesh_remove identity ctx a =
     (case next_state mesh_remove (source_peer_id ctx) (TrustIdentifying identity) a of
        (Err _, a1) \<Rightarrow> (Ok (), a1)
      | (Ok Authorized, a1) \<Rightarrow>
          auth_send identity
            (wrap_in_network_auth_envelopes cs AUTHORIZE (write_to_bytes (authorized_c cs) ())) a1
      | (Ok _, a1) \<Rightarrow> (Err Panicked, a1))"

definition authorized_handle ::
  "unit \<Rightarrow> auth_message_type message_context \<Rightarrow> (auth_node, unit, dispatch_error) action" where
  "authorized_handle msg ctx = pure_act ()"

definition authorization_error_handle ::
  "(mesh_id \<Rightarrow> (unit, unit) result) \<Rightarrow> authorization_error \<Rightarrow> auth_message_type message_context \<Rightarrow>
   (auth_node, unit, dispatch_error) action" where
  "authorization_error_handle mesh_remove msg ctx a =
     (case next_state mesh_remove (source_peer_id ctx) Unauthorizing a of
        (Ok Unauthorized, a1) \<Rightarrow> (Ok (), a1)
      | (Err _, a1) \<Rightarrow> (Ok (), a1)
      | (Ok _, a1) \<Rightarrow> (Err Panicked, a1))"

definition create_authorization_dispatcher ::
  "auth_codecs \<Rightarrow> (mesh_id \<Rightarrow> (unit, unit) result) \<Rightarrow> (auth_message_type, auth_node) dispatcher" where
  "create_authorization_dispatcher cs mesh_remove =
     set_handler AUTHORIZATION_ERROR (authorization_error_c cs) (authorization_error_handle mesh_remove)
       (set_handler AUTHORIZE (authorized_c cs) authorized_handle
         (set_handler TRUST_REQUEST (trust_request_c cs) (trust_request_handle cs mesh_remove)
           (set_handler CONNECT_RESPONSE (connect_response_c cs) (connect_response_handle cs)
             (set_handler CONNECT_REQUEST (connect_request_c cs) (connect_request_handle cs mesh_remove)
               dispatcher_new))))"

section \<open>Lemmas\<close>

lemmas auth_update_defs = notify_callbacks_def set_auth_state_def forget_auth_state_def

lemma drain_removals_simps [simp]:
  "net_peers (auth_network (drain_removals a)) = net_peers (auth_network a)"
  "disconnects (auth_network (drain_removals a)) = []"
  "auth_states (drain_removals a) p =
     (if p \<in> set (disconnects (auth_network a)) then None else auth_states a p)"
  "auth_out (drain_removals a) = auth_out a"
  "auth_identity (drain_removals a) = auth_identity a"
  by (simp_all add: drain_removals_def Let_def)

lemma is_authorized_iff:
  "fst (is_authorized p a) \<longleftrightarrow>
     p \<notin> set (disconnects (auth_network a)) \<and>
     (auth_states a p = Some Authorized \<or> auth_states a p = Some Internal)"
  by (auto simp: is_authorized_def Let_def)

lemma auth_remove_connection_states:
  "auth_states (snd (auth_remove_connection mr p a)) = auth_states a"
  by (simp add: auth_remove_connection_def Let_def split: prod.split)

lemma remove_connection_disconnects:
  "set (disconnects net) \<subseteq> set (disconnects (snd (remove_connection mr p net)))"
  by (auto simp: remove_connection_def Let_def notify_disconnect_listeners_def
      split: prod.split option.split result.split)

lemma auth_update_peer_id_cases:
  obtains (ok) "p \<in> peer_ids (net_peers (auth_network a))"
      "fst (auth_update_peer_id p q a) = Ok ()" | (err) "fst (auth_update_peer_id p q a) = Err ConnectionLost"
proof (cases "get_by_key (peers (net_peers (auth_network a))) p")
  case None
  then show ?thesis
    by (intro err) (simp add: auth_update_peer_id_def update_peer_id_def peer_map_update_err)
next
  case (Some m)
  show ?thesis
  proof (cases "fst (auth_update_peer_id p q a)")
    case (Ok u)
    with Some show ?thesis by (intro ok) (auto simp: peer_ids_def bimap_keys_iff)
  next
    case (Err e)
    then show ?thesis
      by (intro err) (auto simp: auth_update_peer_id_def Let_def rust_simps split: prod.splits)
  qed
qed

lemma auth_update_peer_id_states:
  "auth_states (snd (auth_update_peer_id p q a)) = auth_states a"
  "disconnects (auth_network (snd (auth_update_peer_id p q a))) = disconnects (auth_network a)"
  by (simp_all add: auth_update_peer_id_def update_peer_id_def Let_def split: prod.split)

lemma unauthorize_states:
  "auth_states (snd (unauthorize mr p a)) = (auth_states a)(p := None)"
  by (auto simp: unauthorize_def bind_act_def modify_act_def pure_act_def auth_update_defs
      auth_remove_connection_def Let_def split: prod.split result.split)

lemma next_state_result:
  "fst (next_state mr p Connecting a) = Ok st \<Longrightarrow> st = AuthConnecting \<or> st = Internal"
  "fst (next_state mr p (TrustIdentifying i) a) = Ok st \<Longrightarrow> st = Authorized"
  "fst (next_state mr p Unauthorizing a) = Ok st \<Longrightarrow> st = Unauthorized"
  by (auto simp: next_state_def next_state_drained_def unauthorize_def Let_def bind_act_def
      modify_act_def pure_act_def split: option.splits authorization_state.splits if_splits
        prod.splits result.splits)

text \<open>The states a step can leave a peer in.\<close>

lemma next_state_states:
  assumes "auth_states (snd (next_state mr p act a)) q = Some st"
  shows "(q \<notin> set (disconnects (auth_network a)) \<and> auth_states a q = Some st) \<or>
    (q = p \<and> act = Connecting \<and> st = AuthConnecting) \<or>
    (q = p \<and> act = Connecting \<and> st = Internal \<and>
       (\<exists>e. get_peer_endpoint (net_peers (auth_network a)) p = Some e \<and> contains_str ''inproc'' e)) \<or>
    (act = TrustIdentifying q \<and> st = Authorized \<and> p \<notin> set (disconnects (auth_network a)) \<and>
       auth_states a p = Some AuthConnecting \<and> p \<in> peer_ids (net_peers (auth_network a)))"
proof -
  define b where "b = drain_removals a"
  have b: "auth_states b r = (if r \<in> set (disconnects (auth_network a)) then None else auth_states a r)"
    "net_peers (auth_network b) = net_peers (auth_network a)" for r
    by (simp_all add: b_def)
  have asm: "auth_states (snd (next_state_drained mr p act b)) q = Some st"
    using assms by (simp add: next_state_def b_def)
  have unauth: "auth_states b q = Some st" if "auth_states (snd (unauthorize mr p b)) q = Some st"
    using that by (simp add: unauthorize_states split: if_splits)
  show ?thesis
  proof (cases act)
    case Connecting
    with asm show ?thesis
      by (auto simp: next_state_drained_def Let_def auth_update_defs b
          split: option.splits authorization_state.splits if_splits)
  next
    case Unauthorizing
    with asm unauth show ?thesis
      by (auto simp: next_state_drained_def Let_def bind_act_def pure_act_def b
          split: option.splits authorization_state.splits if_splits prod.splits result.splits)
         (use b auth_remove_connection_states [of mr p b] in \<open>auto split: if_splits\<close>)
  next
    case (TrustIdentifying i)
    show ?thesis
    proof (cases "auth_states b p = Some AuthConnecting")
      case False
      with asm TrustIdentifying show ?thesis
        by (auto simp: next_state_drained_def Let_def b
            split: option.splits authorization_state.splits if_splits)
    next
      case True
      let ?f = "forget_auth_state p b"
      have net: "net_peers (auth_network ?f) = net_peers (auth_network a)"
        by (simp add: forget_auth_state_def b)
      have "auth_states (snd (next_state_drained mr p act b)) q =
          (case fst (auth_update_peer_id p i ?f) of
             Ok _ \<Rightarrow> ((auth_states b)(p := None, i \<mapsto> Authorized)) q
           | Err _ \<Rightarrow> ((auth_states b)(p := None)) q)"
        using True TrustIdentifying auth_update_peer_id_states(1) [of p i ?f]
        by (cases "auth_update_peer_id p i ?f")
          (simp add: next_state_drained_def Let_def bind_act_def modify_act_def pure_act_def
            auth_update_defs split: result.split)
      then show ?thesis
        using asm True TrustIdentifying b(1) net
        by (cases rule: auth_update_peer_id_cases [of p ?f i]) (auto split: if_splits)
    qed
  qed
qed

lemma wrap_not_panicked: "wrap_in_network_auth_envelopes cs mt m \<noteq> Err Panicked"
  by (auto simp: wrap_in_network_auth_envelopes_def rust_simps)

lemma auth_send_not_panicked: "m \<noteq> Err Panicked \<Longrightarrow> fst (auth_send p m a) \<noteq> Err Panicked"
  by (auto simp: auth_send_def send_request_act_def Let_def split: result.split prod.split)

lemma connect_request_not_panicked: "fst (connect_request_handle cs mr mode ctx a) \<noteq> Err Panicked"
proof (cases "next_state mr (source_peer_id ctx) Connecting a")
  case (Pair r a1)
  have send: "fst (bind_act (if mode = BIDIRECTIONAL then auth_send q m1 else pure_act ())
      (\<lambda>_. auth_send q m2) a1) \<noteq> Err Panicked"
    if "m1 \<noteq> Err Panicked" "m2 \<noteq> Err Panicked" for q m1 m2
    using auth_send_not_panicked [OF that(1), of q] auth_send_not_panicked [OF that(2), of q]
    by (auto simp: bind_act_def pure_act_def split: prod.split result.split) (metis fst_conv)+
  show ?thesis
    using Pair next_state_result(1) [of mr "source_peer_id ctx" a] auth_send_not_panicked
      wrap_not_panicked send [OF wrap_not_panicked wrap_not_panicked]
    by (cases r) (auto simp: connect_request_handle_def split: authorization_state.split)
qed

lemma trust_request_not_panicked: "fst (trust_request_handle cs mr i ctx a) \<noteq> Err Panicked"
proof (cases "next_state mr (source_peer_id ctx) (TrustIdentifying i) a")
  case (Pair r a1)
  then show ?thesis
    using next_state_result(2) [of mr "source_peer_id ctx" i a]
      auth_send_not_panicked [OF wrap_not_panicked]
    by (cases r) (auto simp: trust_request_handle_def)
qed

lemma authorization_error_not_panicked: "fst (authorization_error_handle mr m ctx a) \<noteq> Err Panicked"
proof (cases "next_state mr (source_peer_id ctx) Unauthorizing a")
  case (Pair r a1)
  then show ?thesis
    using next_state_result(3) [of mr "source_peer_id ctx" a]
    by (cases r) (auto simp: authorization_error_handle_def)
qed

lemma remove_connection_peers:
  assumes "peer_map_wf (net_peers net)"
  shows "p \<notin> peer_ids (net_peers (snd (remove_connection mr p net)))"
proof -
  have "net_peers (snd (remove_connection mr p net)) = snd (peer_map_remove p (net_peers net))"
    by (auto simp: remove_connection_def Let_def notify_disconnect_listeners_def
        split: prod.split option.split result.split)
  with assms show ?thesis
    by (simp add: peer_ids_def peer_map_remove_simps peer_map_wf_def)
qed

lemma unauthorizing_removes:
  assumes "peer_map_wf (net_peers (auth_network a))" and "fst (next_state mr p Unauthorizing a) = Ok st"
  shows "p \<notin> peer_ids (net_peers (auth_network (snd (next_state mr p Unauthorizing a))))"
    and "auth_states (snd (next_state mr p Unauthorizing a)) p \<noteq> Some Authorized"
    and "auth_states (snd (next_state mr p Unauthorizing a)) p \<noteq> Some Internal"
proof -
  define b where "b = drain_removals a"
  have wf: "peer_map_wf (net_peers (auth_network b))" using assms(1) by (simp add: b_def)
  have rm: "p \<notin> peer_ids (net_peers (auth_network (snd (auth_remove_connection mr p c))))"
    if "net_peers (auth_network c) = net_peers (auth_network b)" for c
    using remove_connection_peers [of "auth_network c" p mr] wf that
    by (cases "remove_connection mr p (auth_network c)") (simp add: auth_remove_connection_def Let_def)
  have un: "p \<notin> peer_ids (net_peers (auth_network (snd (unauthorize mr p b))))"
    using rm [of "forget_auth_state p b"]
    by (auto simp: unauthorize_def bind_act_def modify_act_def pure_act_def auth_update_defs
        split: prod.split result.split)
  have "p \<notin> peer_ids (net_peers (auth_network (snd (next_state_drained mr p Unauthorizing b)))) \<and>
      auth_states (snd (next_state_drained mr p Unauthorizing b)) p \<noteq> Some Authorized \<and>
      auth_states (snd (next_state_drained mr p Unauthorizing b)) p \<noteq> Some Internal"
    using assms(2) un rm [of b] unauthorize_states [of mr p b] auth_remove_connection_states [of mr p b]
    unfolding next_state_def b_def [symmetric]
    by (cases "auth_states b p"; cases "the (auth_states b p)")
      (auto simp: next_state_drained_def Let_def bind_act_def pure_act_def split: prod.splits result.splits)
  then show "p \<notin> peer_ids (net_peers (auth_network (snd (next_state mr p Unauthorizing a))))"
    "auth_states (snd (next_state mr p Unauthorizing a)) p \<noteq> Some Authorized"
    "auth_states (snd (next_state mr p Unauthorizing a)) p \<noteq> Some Internal"
    by (simp_all add: next_state_def b_def)
qed

section \<open>Properties\<close>

text \<open>C21. A peer becomes authorized in two ways only: a connection whose endpoint is in-process asks
  to connect, or a connection that is known to the network and has begun the handshake declares this
  identity. No other message of the state machine authorizes anyone.\<close>

theorem authorization_requires_handshake:
  assumes "\<not> fst (is_authorized q a)" and "fst (is_authorized q (snd (next_state mr p act a)))"
  shows "(act = Connecting \<and> q = p \<and>
      (\<exists>e. get_peer_endpoint (net_peers (auth_network a)) p = Some e \<and> contains_str ''inproc'' e)) \<or>
    (act = TrustIdentifying q \<and> auth_states a p = Some AuthConnecting \<and>
      p \<in> peer_ids (net_peers (auth_network a)))"
proof -
  from assms(2) obtain st where "auth_states (snd (next_state mr p act a)) q = Some st"
    "st = Authorized \<or> st = Internal"
    by (auto simp: is_authorized_iff)
  with next_state_states [OF this(1)] assms(1) show ?thesis by (auto simp: is_authorized_iff)
qed

definition ex_auth :: auth_node where
  "ex_auth = \<lparr>auth_states = [''temp-1'' \<mapsto> AuthConnecting], auth_notified = [],
     auth_network = network_new\<lparr>net_peers := peer_map_insert ''temp-1'' 1 ''tcp://a'' peer_map_new\<rparr>,
     auth_identity = ''me'', auth_out = \<lparr>chan_open = True, chan_queue = []\<rparr>\<rparr>"

lemmas ex_auth_eval =
  ex_auth_def next_state_def next_state_drained_def drain_removals_def auth_update_peer_id_def
  update_peer_id_def auth_update_defs network_new_def peer_map_eval bind_act_def modify_act_def
  pure_act_def is_authorized_def

theorem authorization_requires_handshake_witness:
  "fst (is_authorized ''alpha'' (snd (next_state (\<lambda>_. Ok ()) ''temp-1'' (TrustIdentifying ''alpha'') ex_auth))) \<and>
   ''temp-1'' \<in> peer_ids (net_peers (auth_network ex_auth))"
proof -
  have "fst (is_authorized ''alpha'' (snd (next_state (\<lambda>_. Ok ()) ''temp-1'' (TrustIdentifying ''alpha'') ex_auth)))"
    by (simp add: ex_auth_eval)
  moreover have "\<not> fst (is_authorized ''alpha'' ex_auth)" by (simp add: ex_auth_eval)
  ultimately show ?thesis
    using authorization_requires_handshake [of "''alpha''" ex_auth "\<lambda>_. Ok ()" "''temp-1''"
        "TrustIdentifying ''alpha''"] by simp
qed

text \<open>A message from a peer that is not authorized never reaches the guarded handler: the guard
  answers \<open>Ok\<close> and changes nothing but the bookkeeping of disconnected peers.\<close>

theorem guard_ignores_unauthorized:
  assumes "\<not> fst (is_authorized (source_peer_id ctx) a)"
  shows "network_auth_guard handler msg ctx a = (Ok (), drain_removals a)"
  using assms by (simp add: network_auth_guard_def is_authorized_def Let_def)

theorem guard_ignores_unauthorized_witness:
  "network_auth_guard (\<lambda>_ _ a. (Err Panicked, a)) ()
     \<lparr>source_peer_id = ''temp-1'', ctx_message_type = CIRCUIT, message_bytes = []\<rparr> ex_auth =
   (Ok (), drain_removals ex_auth)"
  by (rule guard_ignores_unauthorized) (simp add: ex_auth_eval)

text \<open>C22. No authorization message makes a handler panic: the state machine never returns a state that
  the handlers do not expect.\<close>

theorem auth_dispatch_never_panics:
  "fst (dispatch (create_authorization_dispatcher cs mr) source mt bs a) \<noteq> Err Panicked"
  using connect_request_not_panicked trust_request_not_panicked authorization_error_not_panicked
    auth_send_not_panicked [OF wrap_not_panicked]
  by (cases mt)
    (auto simp: create_authorization_dispatcher_def dispatch_def set_handler_def dispatcher_new_def
      from_message_bytes_def connect_response_handle_def authorized_handle_def pure_act_def rust_simps
      split: result.split)

text \<open>A peer that reports an authorization error is cut off: when the step succeeds, its
  connection is gone from the peer table and it is not authorized any more.\<close>

theorem unauthorizing_cuts_off:
  assumes "peer_map_wf (net_peers (auth_network a))"
    and "fst (next_state mr p Unauthorizing a) = Ok st"
  shows "p \<notin> peer_ids (net_peers (auth_network (snd (next_state mr p Unauthorizing a)))) \<and>
    \<not> fst (is_authorized p (snd (next_state mr p Unauthorizing a)))"
  using unauthorizing_removes [OF assms] by (simp add: is_authorized_iff)

theorem unauthorizing_cuts_off_witness:
  "''temp-1'' \<notin> peer_ids (net_peers (auth_network (snd (next_state (\<lambda>_. Ok ()) ''temp-1'' Unauthorizing ex_auth))))"
proof -
  have "peer_map_wf (net_peers (auth_network ex_auth))"
    using peer_map_wf_insert [OF peer_map_wf_new, of "''temp-1''" 1 "''tcp://a''"]
    by (simp add: ex_auth_def peer_map_eval)
  moreover have "fst (next_state (\<lambda>_. Ok ()) ''temp-1'' Unauthorizing ex_auth) = Ok Unauthorized"
    by (simp add: ex_auth_eval unauthorize_def auth_remove_connection_def remove_connection_def)
  ultimately show ?thesis
    using unauthorizing_cuts_off [of ex_auth "\<lambda>_. Ok ()" "''temp-1''" Unauthorized] by simp
qed

text \<open>A second connection can take over the identity of an authorized peer: the trust request is
  accepted, messages for that identity go to the new connection, and messages that arrive on the old
  one are still attributed to it.\<close>

theorem trust_identity_can_be_taken_over:
  "let net = network_new\<lparr>net_peers := peer_map_insert ''temp-2'' 2 ''tcp://b''
               (snd (peer_map_update ''temp-1'' ''alpha''
                  (peer_map_insert ''temp-1'' 1 ''tcp://a'' peer_map_new)))\<rparr>;
       a = ex_auth\<lparr>auth_network := net,
             auth_states := [''alpha'' \<mapsto> Authorized, ''temp-2'' \<mapsto> AuthConnecting]\<rparr>;
       (r, a') = next_state mr ''temp-2'' (TrustIdentifying ''alpha'') a
   in r = Ok Authorized \<and> get_mesh_id (net_peers (auth_network a')) ''alpha'' = Some 2 \<and>
      get_peer_id (net_peers (auth_network a')) 1 = Some ''alpha''"
  by (simp add: ex_auth_eval)

end
