(* ===== verification/Circuit.thy ===== *)
theory Circuit
  imports Splinter_Prelude
begin

text \<open>
  Circuits, the circuit directory and the node's Splinter state:
  \<^verbatim>\<open>libsplinter/src/circuit/mod.rs\<close>, \<^verbatim>\<open>circuit/directory.rs\<close> and \<^verbatim>\<open>circuit/service.rs\<close>.

  \<open>SplinterState\<close> writes the circuit directory to its storage after every change. The storage
  (\<^verbatim>\<open>storage::get_storage\<close>, a file) is the field \<open>stored_directory\<close>; whether it can be opened is an
  argument of the operations that write.
\<close>

section \<open>Circuits\<close>

datatype auth_kind = Trust
datatype persistence_kind = AnyPersistence
datatype durability_kind = NoDurability
datatype route_kind = AnyRoute

record service_definition =
  sd_service_id :: string
  sd_service_type :: string
  sd_allowed_nodes :: "string list"
  sd_arguments :: "string \<rightharpoonup> string"

datatype roster = StandardRoster "service_definition list" | AdminRoster

record circuit =
  circuit_id :: string
  circuit_auth :: auth_kind
  circuit_members :: "string list"
  circuit_roster :: roster
  circuit_persistence :: persistence_kind
  circuit_durability :: durability_kind
  circuit_routes :: route_kind
  circuit_management_type :: string

definition circuit_new_admin :: circuit where
  "circuit_new_admin = \<lparr>circuit_id = ''admin'', circuit_auth = Trust, circuit_members = [],
     circuit_roster = AdminRoster, circuit_persistence = AnyPersistence,
     circuit_durability = NoDurability, circuit_routes = AnyRoute, circuit_management_type = ''''\<rparr>"

fun roster_contains :: "roster \<Rightarrow> string \<Rightarrow> bool" where
  "roster_contains (StandardRoster ds) service_name = (\<exists>d \<in> set ds. sd_service_id d = service_name)"
| "roster_contains AdminRoster service_name = starts_with ''admin::'' service_name"

fun roster_to_vec :: "roster \<Rightarrow> service_definition list" where
  "roster_to_vec (StandardRoster ds) = ds"
| "roster_to_vec AdminRoster = []"

definition members_contains :: "circuit \<Rightarrow> string \<Rightarrow> bool" where
  "members_contains c node_id = (\<exists>m \<in> set (circuit_members c). m = node_id)"

definition service_definition_build ::
  "string \<Rightarrow> string \<Rightarrow> string list \<Rightarrow> (string \<times> string) list \<Rightarrow> service_definition" where
  "service_definition_build service_id service_type allowed_nodes arguments =
     \<lparr>sd_service_id = service_id, sd_service_type = service_type, sd_allowed_nodes = allowed_nodes,
      sd_arguments = foldl (\<lambda>m (k, v). m(k \<mapsto> v)) Map.empty arguments\<rparr>"

record circuit_builder =
  cb_id :: "string option"
  cb_auth :: "auth_kind option"
  cb_members :: "string list"
  cb_roster :: "service_definition list"
  cb_persistence :: "persistence_kind option"
  cb_durability :: "durability_kind option"
  cb_routes :: "route_kind option"
  cb_management_type :: "string option"

datatype circuit_build_error = CircuitBuildError string

definition circuit_builder_build :: "circuit_builder \<Rightarrow> (circuit, circuit_build_error) result" where
  "circuit_builder_build b =
     guard_err (cb_members b = []) (CircuitBuildError ''Circuit requires at least one member'')
       (bind_result (ok_or (CircuitBuildError ''Circuit requires an id'') (cb_id b)) (\<lambda>i.
        bind_result (ok_or (CircuitBuildError ''Circuit requires an auth configuration'') (cb_auth b)) (\<lambda>a.
        bind_result (ok_or (CircuitBuildError ''Circuit requires a persistence setting'') (cb_persistence b)) (\<lambda>p.
        bind_result (ok_or (CircuitBuildError ''Circuit requires a routes setting'') (cb_routes b)) (\<lambda>r.
        bind_result (ok_or (CircuitBuildError ''Circuit requires a durability setting'') (cb_durability b)) (\<lambda>d.
        Ok \<lparr>circuit_id = i, circuit_auth = a, circuit_members = cb_members b,
            circuit_roster = StandardRoster (cb_roster b), circuit_persistence = p,
            circuit_durability = d, circuit_routes = r,
            circuit_management_type =
              (case cb_management_type b of Some t \<Rightarrow> t | None \<Rightarrow> ''default'')\<rparr>))))))"

section \<open>Services and nodes\<close>

record splinter_node =
  node_id_of :: string
  node_endpoints :: "string list"

record service =
  svc_service_id :: string
  svc_peer_id :: "string option"
  svc_node :: splinter_node

text \<open>\<open>ServiceId\<close>: circuit name and service id, and how it is printed.\<close>

type_synonym service_key = "string \<times> string"

definition service_key_display :: "service_key \<Rightarrow> string" where
  "service_key_display k = fst k @ ''::'' @ snd k"

section \<open>The circuit directory\<close>

record circuit_directory =
  cd_nodes :: "string \<rightharpoonup> splinter_node"
  cd_circuits :: "string \<rightharpoonup> circuit"
  cd_admin_circuit :: circuit

definition directory_new :: circuit_directory where
  "directory_new = \<lparr>cd_nodes = Map.empty, cd_circuits = Map.empty, cd_admin_circuit = circuit_new_admin\<rparr>"

definition directory_add_node :: "string \<Rightarrow> splinter_node \<Rightarrow> circuit_directory \<Rightarrow> circuit_directory" where
  "directory_add_node i n d = d\<lparr>cd_nodes := (cd_nodes d)(i \<mapsto> n)\<rparr>"

definition directory_add_circuit :: "string \<Rightarrow> circuit \<Rightarrow> circuit_directory \<Rightarrow> circuit_directory" where
  "directory_add_circuit name c d = d\<lparr>cd_circuits := (cd_circuits d)(name \<mapsto> c)\<rparr>"

definition directory_remove_node :: "string \<Rightarrow> circuit_directory \<Rightarrow> circuit_directory" where
  "directory_remove_node i d = d\<lparr>cd_nodes := (cd_nodes d)(i := None)\<rparr>"

definition directory_remove_circuit :: "string \<Rightarrow> circuit_directory \<Rightarrow> circuit_directory" where
  "directory_remove_circuit name d = d\<lparr>cd_circuits := (cd_circuits d)(name := None)\<rparr>"

definition directory_circuit :: "circuit_directory \<Rightarrow> string \<Rightarrow> circuit option" where
  "directory_circuit d name =
     (if name = circuit_id (cd_admin_circuit d) then Some (cd_admin_circuit d)
      else cd_circuits d name)"

definition directory_has_circuit :: "circuit_directory \<Rightarrow> string \<Rightarrow> bool" where
  "directory_has_circuit d name = (cd_circuits d name \<noteq> None)"

section \<open>Splinter state\<close>

record splinter_state =
  stored_directory :: circuit_directory
  circuit_dir :: circuit_directory
  service_dir :: "service_key \<rightharpoonup> service"

datatype write_error = GetStorageError string

definition splinter_state_new :: "circuit_directory \<Rightarrow> splinter_state" where
  "splinter_state_new d = \<lparr>stored_directory = d, circuit_dir = d, service_dir = Map.empty\<rparr>"

definition write_circuit_directory ::
  "(unit, string) result \<Rightarrow> (splinter_state, unit, write_error) action" where
  "write_circuit_directory storage s =
     (case storage of
        Err e \<Rightarrow> (Err (GetStorageError e), s)
      | Ok _ \<Rightarrow> (Ok (), s\<lparr>stored_directory := circuit_dir s\<rparr>))"

definition state_add_service :: "service_key \<Rightarrow> service \<Rightarrow> splinter_state \<Rightarrow> splinter_state" where
  "state_add_service k v s = s\<lparr>service_dir := (service_dir s)(k \<mapsto> v)\<rparr>"

definition state_remove_service :: "service_key \<Rightarrow> splinter_state \<Rightarrow> splinter_state" where
  "state_remove_service k s = s\<lparr>service_dir := (service_dir s)(k := None)\<rparr>"

definition state_add_node ::
  "(unit, string) result \<Rightarrow> string \<Rightarrow> splinter_node \<Rightarrow> (splinter_state, unit, write_error) action" where
  "state_add_node storage i n =
     bind_act (modify_act (\<lambda>s. s\<lparr>circuit_dir := directory_add_node i n (circuit_dir s)\<rparr>))
       (\<lambda>_. write_circuit_directory storage)"

definition state_add_circuit ::
  "(unit, string) result \<Rightarrow> string \<Rightarrow> circuit \<Rightarrow> (splinter_state, unit, write_error) action" where
  "state_add_circuit storage name c =
     bind_act (modify_act (\<lambda>s. s\<lparr>circuit_dir := directory_add_circuit name c (circuit_dir s)\<rparr>))
       (\<lambda>_. write_circuit_directory storage)"

definition state_remove_node ::
  "(unit, string) result \<Rightarrow> string \<Rightarrow> (splinter_state, unit, write_error) action" where
  "state_remove_node storage i =
     bind_act (modify_act (\<lambda>s. s\<lparr>circuit_dir := directory_remove_node i (circuit_dir s)\<rparr>))
       (\<lambda>_. write_circuit_directory storage)"

definition state_remove_circuit ::
  "(unit, string) result \<Rightarrow> string \<Rightarrow> (splinter_state, unit, write_error) action" where
  "state_remove_circuit storage name =
     bind_act (modify_act (\<lambda>s. s\<lparr>circuit_dir := directory_remove_circuit name (circuit_dir s)\<rparr>))
       (\<lambda>_. write_circuit_directory storage)"

definition state_circuit :: "splinter_state \<Rightarrow> string \<Rightarrow> circuit option" where
  "state_circuit s = directory_circuit (circuit_dir s)"

definition state_has_circuit :: "splinter_state \<Rightarrow> string \<Rightarrow> bool" where
  "state_has_circuit s = directory_has_circuit (circuit_dir s)"

definition state_node :: "splinter_state \<Rightarrow> string \<Rightarrow> splinter_node option" where
  "state_node s i = cd_nodes (circuit_dir s) i"

section \<open>Lemmas\<close>

lemma circuit_builder_build_Ok_iff:
  "circuit_builder_build b = Ok c \<longleftrightarrow>
     cb_members b \<noteq> [] \<and>
     (\<exists>i a p r d. cb_id b = Some i \<and> cb_auth b = Some a \<and> cb_persistence b = Some p \<and>
        cb_routes b = Some r \<and> cb_durability b = Some d \<and>
        c = \<lparr>circuit_id = i, circuit_auth = a, circuit_members = cb_members b,
             circuit_roster = StandardRoster (cb_roster b), circuit_persistence = p,
             circuit_durability = d, circuit_routes = r,
             circuit_management_type =
               (case cb_management_type b of Some t \<Rightarrow> t | None \<Rightarrow> ''default'')\<rparr>)"
  by (auto simp: circuit_builder_build_def rust_simps)

text \<open>The admin circuit never changes and every other name is answered by the table.\<close>

definition directory_wf :: "circuit_directory \<Rightarrow> bool" where
  "directory_wf d \<longleftrightarrow> cd_admin_circuit d = circuit_new_admin"

lemma directory_wf_ops [simp]:
  "directory_wf directory_new"
  "directory_wf (directory_add_node i n d) = directory_wf d"
  "directory_wf (directory_add_circuit name c d) = directory_wf d"
  "directory_wf (directory_remove_node i d) = directory_wf d"
  "directory_wf (directory_remove_circuit name d) = directory_wf d"
  by (simp_all add: directory_wf_def directory_new_def directory_add_node_def directory_add_circuit_def
      directory_remove_node_def directory_remove_circuit_def)

lemma directory_circuit_add:
  "directory_wf d \<Longrightarrow> name \<noteq> ''admin'' \<Longrightarrow>
   directory_circuit (directory_add_circuit name c d) = (directory_circuit d)(name \<mapsto> c)"
  by (auto simp: directory_circuit_def directory_add_circuit_def directory_wf_def circuit_new_admin_def
      fun_eq_iff)

lemma directory_circuit_admin:
  "directory_wf d \<Longrightarrow> directory_circuit d ''admin'' = Some circuit_new_admin"
  by (simp add: directory_circuit_def directory_wf_def circuit_new_admin_def)

text \<open>A change of the circuit directory that reports success is the state of the storage; one that
  reports an error leaves the storage as it was although the directory in memory has changed.\<close>

lemma directory_changes_are_stored:
  "state_add_circuit storage name c s =
     (case storage of
        Ok _ \<Rightarrow> (Ok (), s\<lparr>circuit_dir := directory_add_circuit name c (circuit_dir s),
                          stored_directory := directory_add_circuit name c (circuit_dir s)\<rparr>)
      | Err e \<Rightarrow> (Err (GetStorageError e), s\<lparr>circuit_dir := directory_add_circuit name c (circuit_dir s)\<rparr>))"
  by (simp add: state_add_circuit_def bind_act_def modify_act_def write_circuit_directory_def
      split: result.split)

section \<open>Properties\<close>

text \<open>A circuit that is stored under the name of the admin circuit is unreachable: it is reported
  as present, but looking the name up gives the admin circuit, whose roster is open to every service
  whose name begins with the admin prefix.\<close>

theorem circuit_named_admin_is_shadowed:
  assumes "directory_wf d"
  shows "directory_has_circuit (directory_add_circuit ''admin'' c d) ''admin'' \<and>
    directory_circuit (directory_add_circuit ''admin'' c d) ''admin'' = Some circuit_new_admin"
  using assms directory_circuit_admin [of "directory_add_circuit ''admin'' c d"]
  by (simp add: directory_has_circuit_def directory_add_circuit_def directory_wf_def)

theorem circuit_named_admin_is_shadowed_witness:
  "directory_circuit (directory_add_circuit ''admin'' (circuit_new_admin\<lparr>circuit_members := [''n'']\<rparr>)
     directory_new) ''admin'' = Some circuit_new_admin"
  using circuit_named_admin_is_shadowed [of directory_new] by simp

end
