(* ===== verification/Circuit_Handlers.thy ===== *)
theory Circuit_Handlers
  imports Circuit Dispatch
begin

text \<open>
  The circuit message handlers of \<^verbatim>\<open>libsplinter/src/circuit/handlers\<close>: service connect and
  disconnect requests, direct messages between services, admin messages and circuit errors. The state
  of the handlers is the Splinter state of the node and the channel to the network message sender.
\<close>

section \<open>Messages\<close>

datatype circuit_message_type =
  UNSET_CIRCUIT_MESSAGE_TYPE | CIRCUIT_ERROR_MESSAGE | NETWORK_ERROR_MESSAGE | CIRCUIT_DIRECT_MESSAGE
| SERVICE_CONNECT_REQUEST | SERVICE_CONNECT_RESPONSE | SERVICE_DISCONNECT_REQUEST
| SERVICE_DISCONNECT_RESPONSE | ADMIN_DIRECT_MESSAGE

record circuit_message =
  cmsg_type :: circuit_message_type
  cmsg_payload :: bytes

datatype circuit_error_kind =
  UNSET_ERROR | ERROR_CIRCUIT_DOES_NOT_EXIST | ERROR_RECIPIENT_NOT_IN_CIRCUIT_ROSTER
| ERROR_SENDER_NOT_IN_CIRCUIT_ROSTER | ERROR_RECIPIENT_NOT_IN_DIRECTORY | ERROR_SENDER_NOT_IN_DIRECTORY

record circuit_error =
  ce_correlation_id :: string
  ce_service_id :: string
  ce_circuit_name :: string
  ce_error :: circuit_error_kind
  ce_error_message :: string

text \<open>\<open>CircuitDirectMessage\<close> and \<open>AdminDirectMessage\<close> have the same fields.\<close>

record direct_message =
  dmsg_circuit :: string
  dmsg_sender :: string
  dmsg_recipient :: string
  dmsg_payload :: bytes
  dmsg_correlation_id :: string

record service_request =
  sr_circuit :: string
  sr_service_id :: string
  sr_correlation_id :: string

datatype service_status =
  UNSET_STATUS | STATUS_OK | STATUS_CIRCUIT_DOES_NOT_EXIST | STATUS_SERVICE_NOT_IN_CIRCUIT_REGISTRY
| STATUS_SERVICE_ALREADY_REGISTERED | STATUS_NOT_AN_ALLOWED_NODE | STATUS_SERVICE_NOT_REGISTERED
| STATUS_QUEUE_FULL

record service_response =
  resp_circuit :: string
  resp_service_id :: string
  resp_status :: service_status
  resp_error_message :: string
  resp_correlation_id :: string

record circuit_codecs =
  circuit_message_c :: "circuit_message codec"
  circuit_network_c :: "network_message codec"
  circuit_error_c :: "circuit_error codec"
  connect_response_codec :: "service_response codec"
  disconnect_response_codec :: "service_response codec"

record circuit_node =
  cn_node_id :: string
  cn_endpoint :: string
  cn_state :: splinter_state
  cn_out :: "send_request channel"

definition create_message ::
  "circuit_codecs \<Rightarrow> bytes \<Rightarrow> circuit_message_type \<Rightarrow> (bytes, string) result" where
  "create_message cs payload mt =
     bind_result (write_to_bytes (circuit_message_c cs) \<lparr>cmsg_type = mt, cmsg_payload = payload\<rparr>)
       (\<lambda>circuit_bytes. write_to_bytes (circuit_network_c cs)
          \<lparr>nm_type = CIRCUIT, nm_payload = circuit_bytes\<rparr>)"

text \<open>The bytes of a reply, with \<open>From<ProtobufError> for DispatchError\<close>.\<close>

definition message_bytes_of ::
  "circuit_codecs \<Rightarrow> (bytes, string) result \<Rightarrow> circuit_message_type \<Rightarrow> (bytes, dispatch_error) result" where
  "message_bytes_of cs payload mt =
     map_err SerializationError (bind_result payload (\<lambda>p. create_message cs p mt))"

definition circuit_send :: "string \<Rightarrow> bytes \<Rightarrow> (circuit_node, unit, dispatch_error) action" where
  "circuit_send to bs n =
     (let (r, out) = send_request_act \<lparr>recipient = to, req_payload = bs\<rparr> (cn_out n)
      in (r, n\<lparr>cn_out := out\<rparr>))"

definition circuit_reply ::
  "string \<Rightarrow> (bytes, dispatch_error) result \<Rightarrow> (circuit_node, unit, dispatch_error) action" where
  "circuit_reply to msg n = (case msg of Err e \<Rightarrow> (Err e, n) | Ok bs \<Rightarrow> circuit_send to bs n)"

section \<open>Service connect and disconnect\<close>

definition response_for ::
  "service_request \<Rightarrow> service_status \<Rightarrow> string \<Rightarrow> service_response" where
  "response_for msg st err = \<lparr>resp_circuit = sr_circuit msg, resp_service_id = sr_service_id msg,
     resp_status = st, resp_error_message = err, resp_correlation_id = sr_correlation_id msg\<rparr>"

text \<open>The definition a connecting service is checked against; \<open>None\<close> is the failing \<open>expect\<close>.\<close>

definition connect_definition :: "string \<Rightarrow> circuit \<Rightarrow> string \<Rightarrow> service_definition option" where
  "connect_definition node_id c service_id =
     (if \<not> starts_with ''admin::'' service_id
      then List.find (\<lambda>d. sd_service_id d = service_id) (roster_to_vec (circuit_roster c))
      else Some (service_definition_build service_id ''admin'' [node_id] []))"

definition connect_decide ::
  "string \<Rightarrow> string \<Rightarrow> string \<Rightarrow> service_request \<Rightarrow> splinter_state \<Rightarrow>
   (service_response \<times> splinter_state) option" where
  "connect_decide node_id endpoint source msg s =
     (let key = (sr_circuit msg, sr_service_id msg) in
      case state_circuit s (sr_circuit msg) of
        Some c \<Rightarrow>
          if roster_contains (circuit_roster c) (sr_service_id msg) \<and> service_dir s key = None then
            (case connect_definition node_id c (sr_service_id msg) of
               None \<Rightarrow> None
             | Some d \<Rightarrow>
                 if node_id \<notin> set (sd_allowed_nodes d)
                 then Some (response_for msg STATUS_NOT_AN_ALLOWED_NODE
                              (service_key_display key @ '' is not allowed on this node''), s)
                 else Some (response_for msg STATUS_OK '''',
                        state_add_service key
                          \<lparr>svc_service_id = sr_service_id msg, svc_peer_id = Some source,
                           svc_node = \<lparr>node_id_of = node_id, node_endpoints = [endpoint]\<rparr>\<rparr> s))
          else if roster_contains (circuit_roster c) (sr_service_id msg) \<and> service_dir s key \<noteq> None then
            Some (response_for msg STATUS_SERVICE_ALREADY_REGISTERED
                    (''Service is already registered: '' @ sr_service_id msg), s)
          else
            Some (response_for msg STATUS_SERVICE_NOT_IN_CIRCUIT_REGISTRY
                    (''Service is not allowed in the circuit: '' @ sr_circuit msg @ '':'' @ sr_service_id msg), s)
      | None \<Rightarrow>
          Some (response_for msg STATUS_CIRCUIT_DOES_NOT_EXIST
                  (''Circuit does not exist: '' @ sr_circuit msg), s))"

definition service_connect_handle ::
  "circuit_codecs \<Rightarrow> service_request \<Rightarrow> circuit_message_type message_context \<Rightarrow>
   (circuit_node, unit, dispatch_error) action" where
  "service_connect_handle cs msg ctx n =
     (case connect_decide (cn_node_id n) (cn_endpoint n) (source_peer_id ctx) msg (cn_state n) of
        None \<Rightarrow> (Err Panicked, n)
      | Some (resp, s) \<Rightarrow>
          circuit_reply (source_peer_id ctx)
            (message_bytes_of cs (write_to_bytes (connect_response_codec cs) resp) SERVICE_CONNECT_RESPONSE)
            (n\<lparr>cn_state := s\<rparr>))"

definition disconnect_decide ::
  "service_request \<Rightarrow> splinter_state \<Rightarrow> service_response \<times> splinter_state" where
  "disconnect_decide msg s =
     (let key = (sr_circuit msg, sr_service_id msg) in
      case state_circuit s (sr_circuit msg) of
        Some c \<Rightarrow>
          if roster_contains (circuit_roster c) (sr_service_id msg) \<and> service_dir s key \<noteq> None then
            (response_for msg STATUS_OK '''', state_remove_service key s)
          else if roster_contains (circuit_roster c) (sr_service_id msg) \<and> service_dir s key = None then
            (response_for msg STATUS_SERVICE_NOT_REGISTERED
               (''Service is not registered: '' @ sr_service_id msg), s)
          else
            (response_for msg STATUS_SERVICE_NOT_IN_CIRCUIT_REGISTRY
               (''Service is not allowed in the circuit: '' @ sr_circuit msg @ '':'' @ sr_service_id msg), s)
      | None \<Rightarrow>
          (response_for msg STATUS_CIRCUIT_DOES_NOT_EXIST
             (''Circuit does not exist: '' @ sr_circuit msg), s))"

definition service_disconnect_handle ::
  "circuit_codecs \<Rightarrow> service_request \<Rightarrow> circuit_message_type message_context \<Rightarrow>
   (circuit_node, unit, dispatch_error) action" where
  "service_disconnect_handle cs msg ctx n =
     (let (resp, s) = disconnect_decide msg (cn_state n)
      in circuit_reply (source_peer_id ctx)
           (message_bytes_of cs (write_to_bytes (disconnect_response_codec cs) resp)
              SERVICE_DISCONNECT_RESPONSE)
           (n\<lparr>cn_state := s\<rparr>))"

section \<open>Direct messages\<close>

definition direct_error ::
  "direct_message \<Rightarrow> circuit_error_kind \<Rightarrow> string \<Rightarrow> circuit_error" where
  "direct_error msg kind text = \<lparr>ce_correlation_id = dmsg_correlation_id msg,
     ce_service_id = dmsg_sender msg, ce_circuit_name = dmsg_circuit msg, ce_error = kind,
     ce_error_message = text\<rparr>"

text \<open>What the handler does with a direct message: forward the original bytes to a peer, answer the
  source with an error, or drop it.\<close>

datatype routing = Forward string | Reject circuit_error | Drop

definition route_to_service :: "string \<Rightarrow> service \<Rightarrow> routing" where
  "route_to_service node_id svc =
     (if node_id_of (svc_node svc) \<noteq> node_id then Forward (node_id_of (svc_node svc))
      else case svc_peer_id svc of Some peer \<Rightarrow> Forward peer | None \<Rightarrow> Drop)"

definition route_direct :: "string \<Rightarrow> direct_message \<Rightarrow> splinter_state \<Rightarrow> routing" where
  "route_direct node_id msg s =
     (case state_circuit s (dmsg_circuit msg) of
        None \<Rightarrow> Reject (direct_error msg ERROR_CIRCUIT_DOES_NOT_EXIST
                          (''Circuit does not exist: '' @ dmsg_circuit msg))
      | Some c \<Rightarrow>
          if \<not> roster_contains (circuit_roster c) (dmsg_sender msg) then
            Reject (direct_error msg ERROR_SENDER_NOT_IN_CIRCUIT_ROSTER
                      (''Sender is not allowed in the Circuit: '' @ dmsg_sender msg))
          else if service_dir s (dmsg_circuit msg, dmsg_sender msg) = None then
            Reject (direct_error msg ERROR_SENDER_NOT_IN_DIRECTORY
                      (''Sender is not in the service directory: '' @ dmsg_recipient msg))
          else if roster_contains (circuit_roster c) (dmsg_recipient msg) then
            (case service_dir s (dmsg_circuit msg, dmsg_recipient msg) of
               Some svc \<Rightarrow> route_to_service node_id svc
             | None \<Rightarrow> Reject (direct_error msg ERROR_RECIPIENT_NOT_IN_DIRECTORY
                                 (''Recipient is not in the service directory: '' @ dmsg_recipient msg)))
          else
            Reject (direct_error msg ERROR_RECIPIENT_NOT_IN_CIRCUIT_ROSTER
                      (''Recipient is not allowed in the Circuit: '' @ dmsg_recipient msg)))"

definition perform_routing ::
  "circuit_codecs \<Rightarrow> circuit_message_type \<Rightarrow> routing \<Rightarrow> circuit_message_type message_context \<Rightarrow>
   (circuit_node, unit, dispatch_error) action" where
  "perform_routing cs forward_type r ctx n =
     (case r of
        Forward peer \<Rightarrow> circuit_reply peer (message_bytes_of cs (Ok (message_bytes ctx)) forward_type) n
      | Reject err \<Rightarrow>
          circuit_reply (source_peer_id ctx)
            (message_bytes_of cs (write_to_bytes (circuit_error_c cs) err) CIRCUIT_ERROR_MESSAGE) n
      | Drop \<Rightarrow>
          (case message_bytes_of cs (Ok (message_bytes ctx)) forward_type of
             Err e \<Rightarrow> (Err e, n) | Ok _ \<Rightarrow> (Ok (), n)))"

definition direct_message_handle ::
  "circuit_codecs \<Rightarrow> direct_message \<Rightarrow> circuit_message_type message_context \<Rightarrow>
   (circuit_node, unit, dispatch_error) action" where
  "direct_message_handle cs msg ctx n =
     perform_routing cs CIRCUIT_DIRECT_MESSAGE (route_direct (cn_node_id n) msg (cn_state n)) ctx n"

section \<open>Admin messages\<close>

definition is_admin_service_id :: "string \<Rightarrow> bool" where
  "is_admin_service_id service_id = starts_with ''admin::'' service_id"

definition route_admin :: "string \<Rightarrow> direct_message \<Rightarrow> splinter_state \<Rightarrow> routing" where
  "route_admin node_id msg s =
     (if \<not> is_admin_service_id (dmsg_sender msg) then
        Reject (direct_error msg ERROR_SENDER_NOT_IN_CIRCUIT_ROSTER
                  (''Sender is not allowed to send admin messages: '' @ dmsg_sender msg))
      else if \<not> is_admin_service_id (dmsg_recipient msg) then
        Reject (direct_error msg ERROR_RECIPIENT_NOT_IN_CIRCUIT_ROSTER
                  (''Recipient is not allowed to receive admin messages: '' @ dmsg_recipient msg))
      else if state_circuit s (dmsg_circuit msg) \<noteq> None then
        (let target = drop (length ''admin::'') (dmsg_recipient msg)
         in Forward (if target \<noteq> node_id then target else dmsg_recipient msg))
      else
        Reject (direct_error msg ERROR_CIRCUIT_DOES_NOT_EXIST
                  (''Circuit does not exist: '' @ dmsg_circuit msg)))"

definition admin_message_handle ::
  "circuit_codecs \<Rightarrow> direct_message \<Rightarrow> circuit_message_type message_context \<Rightarrow>
   (circuit_node, unit, dispatch_error) action" where
  "admin_message_handle cs msg ctx n =
     perform_routing cs ADMIN_DIRECT_MESSAGE (route_admin (cn_node_id n) msg (cn_state n)) ctx n"

section \<open>Circuit errors\<close>

definition route_error :: "string \<Rightarrow> circuit_error \<Rightarrow> splinter_state \<Rightarrow> string option" where
  "route_error node_id msg s =
     (case service_dir s (ce_circuit_name msg, ce_service_id msg) of
        Some svc \<Rightarrow>
          if node_id_of (svc_node svc) = node_id then svc_peer_id svc else Some (node_id_of (svc_node svc))
      | None \<Rightarrow> None)"

definition circuit_error_handle ::
  "circuit_codecs \<Rightarrow> circuit_error \<Rightarrow> circuit_message_type message_context \<Rightarrow>
   (circuit_node, unit, dispatch_error) action" where
  "circuit_error_handle cs msg ctx n =
     (case route_error (cn_node_id n) msg (cn_state n) of
        None \<Rightarrow> (Ok (), n)
      | Some peer \<Rightarrow>
          circuit_reply peer (message_bytes_of cs (Ok (message_bytes ctx)) CIRCUIT_ERROR_MESSAGE) n)"

text \<open>The network-level handler of circuit messages queues the payload for the circuit dispatcher.\<close>

definition circuit_message_handle ::
  "circuit_message \<Rightarrow> network_message_type message_context \<Rightarrow>
   (circuit_message_type dispatch_message channel, unit, dispatch_error) action" where
  "circuit_message_handle msg ctx c =
     (case chan_send \<lparr>dm_type = cmsg_type msg, dm_bytes = cmsg_payload msg, dm_source = source_peer_id ctx\<rparr> c of
        (Ok _, c') \<Rightarrow> (Ok (), c')
      | (Err _, c') \<Rightarrow> (Err NetworkSendError, c'))"

section \<open>The circuit dispatcher\<close>

text \<open>\<^verbatim>\<open>set_up_circuit_dispatcher\<close> of \<^verbatim>\<open>splinterd/src/daemon.rs\<close>; the codecs read the requests.\<close>

record request_codecs =
  connect_request_codec :: "service_request codec"
  disconnect_request_codec :: "service_request codec"
  direct_message_codec :: "direct_message codec"
  admin_message_codec :: "direct_message codec"

definition set_up_circuit_dispatcher ::
  "request_codecs \<Rightarrow> circuit_codecs \<Rightarrow> (circuit_message_type, circuit_node) dispatcher" where
  "set_up_circuit_dispatcher rs cs =
     set_handler ADMIN_DIRECT_MESSAGE (admin_message_codec rs) (admin_message_handle cs)
       (set_handler CIRCUIT_ERROR_MESSAGE (circuit_error_c cs) (circuit_error_handle cs)
         (set_handler CIRCUIT_DIRECT_MESSAGE (direct_message_codec rs) (direct_message_handle cs)
           (set_handler SERVICE_DISCONNECT_REQUEST (disconnect_request_codec rs) (service_disconnect_handle cs)
             (set_handler SERVICE_CONNECT_REQUEST (connect_request_codec rs) (service_connect_handle cs)
               dispatcher_new))))"

section \<open>Lemmas\<close>

lemma circuit_reply_state [simp]: "cn_state (snd (circuit_reply p m n)) = cn_state n"
  "cn_node_id (snd (circuit_reply p m n)) = cn_node_id n"
  by (simp_all add: circuit_reply_def circuit_send_def Let_def split: result.split prod.split)

lemma circuit_reply_queue:
  "chan_queue (cn_out (snd (circuit_reply p m n))) =
     chan_queue (cn_out n) @
       (case m of Ok bs \<Rightarrow> if chan_open (cn_out n) then [\<lparr>recipient = p, req_payload = bs\<rparr>] else []
        | Err _ \<Rightarrow> [])"
  by (simp add: circuit_reply_def circuit_send_def send_request_act_def chan_send_def
      split: result.split)

lemma perform_routing_state [simp]:
  "cn_state (snd (perform_routing cs t r ctx n)) = cn_state n"
  "cn_node_id (snd (perform_routing cs t r ctx n)) = cn_node_id n"
  by (simp_all add: perform_routing_def split: routing.split result.split)

lemma route_direct_Forward:
  assumes "route_direct node_id msg s = Forward p"
  obtains c svc where "state_circuit s (dmsg_circuit msg) = Some c"
    and "roster_contains (circuit_roster c) (dmsg_sender msg)"
    and "roster_contains (circuit_roster c) (dmsg_recipient msg)"
    and "service_dir s (dmsg_circuit msg, dmsg_sender msg) \<noteq> None"
    and "service_dir s (dmsg_circuit msg, dmsg_recipient msg) = Some svc"
    and "route_to_service node_id svc = Forward p"
  using assms by (auto simp: route_direct_def split: option.splits if_splits)

text \<open>A service on the local node has a peer.\<close>

definition local_services_have_peer :: "string \<Rightarrow> splinter_state \<Rightarrow> bool" where
  "local_services_have_peer node_id s \<longleftrightarrow>
     (\<forall>k svc. service_dir s k = Some svc \<and> node_id_of (svc_node svc) = node_id \<longrightarrow> svc_peer_id svc \<noteq> None)"

lemma local_services_add:
  "local_services_have_peer node_id s \<Longrightarrow> svc_peer_id v \<noteq> None \<Longrightarrow>
   local_services_have_peer node_id (state_add_service k v s)"
  unfolding local_services_have_peer_def state_add_service_def by auto

lemma local_services_connect:
  assumes "local_services_have_peer node_id s" and "connect_decide node_id e source msg s = Some (r, s')"
  shows "local_services_have_peer node_id s'"
  using assms
  by (auto simp: connect_decide_def Let_def local_services_add split: option.splits if_splits)

lemma local_services_disconnect:
  assumes "local_services_have_peer node_id s"
  shows "local_services_have_peer node_id (snd (disconnect_decide msg s))"
  using assms
  by (auto simp: disconnect_decide_def local_services_have_peer_def state_remove_service_def Let_def
      split: option.splits if_splits)

definition circuit_node_inv :: "circuit_node \<Rightarrow> bool" where
  "circuit_node_inv n \<longleftrightarrow> local_services_have_peer (cn_node_id n) (cn_state n)"

lemma keeps_circuit_handlers [keeps_intros]:
  "keeps circuit_node_inv (service_connect_handle cs sr ctx)"
  "keeps circuit_node_inv (service_disconnect_handle cs sr ctx)"
  "keeps circuit_node_inv (direct_message_handle cs dm ctx)"
  "keeps circuit_node_inv (admin_message_handle cs dm ctx)"
  "keeps circuit_node_inv (circuit_error_handle cs ce ctx)"
proof -
  show "keeps circuit_node_inv (service_connect_handle cs sr ctx)"
  proof (rule keepsI)
    fix n assume "circuit_node_inv n"
    then show "circuit_node_inv (snd (service_connect_handle cs sr ctx n))"
      by (cases "connect_decide (cn_node_id n) (cn_endpoint n) (source_peer_id ctx) sr (cn_state n)")
        (auto simp: circuit_node_inv_def service_connect_handle_def dest: local_services_connect)
  qed
  show "keeps circuit_node_inv (service_disconnect_handle cs sr ctx)"
    using local_services_disconnect
    by (auto simp: keeps_def circuit_node_inv_def service_disconnect_handle_def Let_def split: prod.split)
      (metis snd_conv)
  show "keeps circuit_node_inv (direct_message_handle cs dm ctx)"
    "keeps circuit_node_inv (admin_message_handle cs dm ctx)"
    "keeps circuit_node_inv (circuit_error_handle cs ce ctx)"
    by (auto simp: keeps_def circuit_node_inv_def direct_message_handle_def admin_message_handle_def
        circuit_error_handle_def split: option.split)
qed

lemma circuit_dispatcher_keeps: "dispatcher_keeps circuit_node_inv (set_up_circuit_dispatcher rs cs)"
  unfolding set_up_circuit_dispatcher_def
  by (intro dispatcher_keeps_set dispatcher_keeps_new keeps_circuit_handlers)

lemma route_direct_not_Drop:
  assumes "local_services_have_peer node_id s"
  shows "route_direct node_id msg s \<noteq> Drop"
proof
  assume "route_direct node_id msg s = Drop"
  then obtain svc where "service_dir s (dmsg_circuit msg, dmsg_recipient msg) = Some svc"
    "node_id_of (svc_node svc) = node_id" "svc_peer_id svc = None"
    by (auto simp: route_direct_def route_to_service_def split: option.splits if_splits)
  with assms show False unfolding local_services_have_peer_def by blast
qed

lemma connect_definition_exists:
  assumes "roster_contains (circuit_roster c) service_id"
  shows "connect_definition node_id c service_id \<noteq> None"
proof (cases "circuit_roster c")
  case (StandardRoster ds)
  with assms find_None_iff [of "\<lambda>d. sd_service_id d = service_id" ds] show ?thesis
    by (auto simp: connect_definition_def simp del: not_None_eq)
next
  case AdminRoster
  with assms show ?thesis by (simp add: connect_definition_def)
qed

lemma connect_decide_total: "connect_decide node_id e source msg s \<noteq> None"
proof (cases "state_circuit s (sr_circuit msg)")
  case (Some c)
  then show ?thesis
    using connect_definition_exists [of c "sr_service_id msg" node_id]
    by (cases "connect_definition node_id c (sr_service_id msg)")
      (auto simp: connect_decide_def Let_def)
qed (simp add: connect_decide_def)

section \<open>Properties\<close>


text \<open>A node with one circuit of two services, one local and one on another node.\<close>

definition ex_node :: circuit_node where
  "ex_node = \<lparr>cn_node_id = ''n1'', cn_endpoint = ''tcp://n1'',
     cn_state = \<lparr>stored_directory = directory_new,
       circuit_dir = directory_add_circuit ''alpha''
         (circuit_new_admin\<lparr>circuit_id := ''alpha'', circuit_members := [''n1'', ''n2''],
            circuit_roster := StandardRoster [service_definition_build ''a'' ''t'' [''n1''] [],
              service_definition_build ''b'' ''t'' [''n2''] []]\<rparr>) directory_new,
       service_dir = [(''alpha'', ''a'') \<mapsto> \<lparr>svc_service_id = ''a'', svc_peer_id = Some ''p'',
           svc_node = \<lparr>node_id_of = ''n1'', node_endpoints = []\<rparr>\<rparr>,
         (''alpha'', ''b'') \<mapsto> \<lparr>svc_service_id = ''b'', svc_peer_id = None,
           svc_node = \<lparr>node_id_of = ''n2'', node_endpoints = []\<rparr>\<rparr>]\<rparr>,
     cn_out = \<lparr>chan_open = True, chan_queue = []\<rparr>\<rparr>"

definition ex_codecs :: circuit_codecs where
  "ex_codecs = \<lparr>circuit_message_c = table_codec [\<lparr>cmsg_type = CIRCUIT_DIRECT_MESSAGE, cmsg_payload = [9]\<rparr>],
     circuit_network_c = table_codec [\<lparr>nm_type = CIRCUIT, nm_payload = [0]\<rparr>],
     circuit_error_c = table_codec [], connect_response_codec = table_codec [],
     disconnect_response_codec = table_codec []\<rparr>"

definition ex_message :: direct_message where
  "ex_message = \<lparr>dmsg_circuit = ''alpha'', dmsg_sender = ''a'', dmsg_recipient = ''b'',
     dmsg_payload = [], dmsg_correlation_id = ''1''\<rparr>"

lemmas ex_node_eval =
  ex_node_def ex_codecs_def ex_message_def direct_message_handle_def route_direct_def
  perform_routing_def circuit_reply_def circuit_send_def send_request_act_def chan_send_def
  message_bytes_of_def create_message_def table_codec_def state_circuit_def directory_circuit_def
  directory_add_circuit_def directory_new_def circuit_new_admin_def service_definition_build_def
  route_to_service_def Let_def


text \<open>C25. The situation the handlers comment as one that should never happen does not happen: after any
  sequence of circuit messages, starting from a state in which every local service has a peer, no
  direct message is dropped.\<close>

theorem direct_messages_never_dropped:
  assumes "circuit_node_inv n"
  shows "let n' = snd (dispatch_loop (set_up_circuit_dispatcher rs cs) es queued n)
    in route_direct (cn_node_id n') msg (cn_state n') \<noteq> Drop"
proof -
  have "circuit_node_inv (snd (dispatch_loop (set_up_circuit_dispatcher rs cs) es queued n))"
    by (rule dispatch_loop_keeps [where P = circuit_node_inv, OF circuit_dispatcher_keeps assms])
  then show ?thesis by (simp add: circuit_node_inv_def route_direct_not_Drop Let_def)
qed

theorem direct_messages_never_dropped_witness:
  "route_direct ''n1'' ex_message (cn_state ex_node) \<noteq> Drop"
proof -
  have "circuit_node_inv ex_node"
    by (simp add: circuit_node_inv_def local_services_have_peer_def ex_node_def)
  from direct_messages_never_dropped [OF this, of _ _ "[]" "[]" ex_message] show ?thesis
    by (simp add: ex_node_def)
qed


text \<open>A disconnect request is carried out whoever sends it: any peer can remove a service that
  another peer has registered.\<close>

theorem any_peer_can_disconnect_a_service:
  assumes "state_circuit (cn_state n) (sr_circuit msg) = Some c"
    and "roster_contains (circuit_roster c) (sr_service_id msg)"
    and "service_dir (cn_state n) (sr_circuit msg, sr_service_id msg) = Some svc"
    and "svc_peer_id svc \<noteq> Some (source_peer_id ctx)"
  shows "service_dir (cn_state (snd (service_disconnect_handle cs msg ctx n))) =
    (service_dir (cn_state n))((sr_circuit msg, sr_service_id msg) := None)"
  using assms
  by (simp add: service_disconnect_handle_def disconnect_decide_def state_remove_service_def Let_def)

theorem any_peer_can_disconnect_a_service_witness:
  "service_dir (cn_state (snd (service_disconnect_handle ex_codecs
     \<lparr>sr_circuit = ''alpha'', sr_service_id = ''a'', sr_correlation_id = ''1''\<rparr>
     \<lparr>source_peer_id = ''evil'', ctx_message_type = SERVICE_DISCONNECT_REQUEST, message_bytes = []\<rparr> ex_node)))
     (''alpha'', ''a'') = None"
proof -
  let ?m = "\<lparr>sr_circuit = ''alpha'', sr_service_id = ''a'', sr_correlation_id = ''1''\<rparr>"
  let ?ctx = "\<lparr>source_peer_id = ''evil'', ctx_message_type = SERVICE_DISCONNECT_REQUEST, message_bytes = []\<rparr>"
  obtain c where "state_circuit (cn_state ex_node) ''alpha'' = Some c" "roster_contains (circuit_roster c) ''a''"
    by (simp add: ex_node_eval)
  then show ?thesis
    using any_peer_can_disconnect_a_service [of ex_node ?m c _ ?ctx ex_codecs]
    by (simp add: ex_node_def)
qed

text \<open>A service of an ordinary circuit whose name begins with the admin prefix is allowed on every
  node: it is checked against a made-up definition instead of the one in the roster.\<close>

theorem admin_prefix_bypasses_allowed_nodes:
  assumes "starts_with ''admin::'' (sd_service_id d)" and "circuit_roster c = StandardRoster ds"
    and "d \<in> set ds" and "node_id \<notin> set (sd_allowed_nodes d)"
    and "state_circuit s (sr_circuit msg) = Some c" and "sr_service_id msg = sd_service_id d"
    and "service_dir s (sr_circuit msg, sd_service_id d) = None"
  shows "\<exists>resp s'. connect_decide node_id endpoint source msg s = Some (resp, s') \<and>
    resp_status resp = STATUS_OK"
proof -
  have "roster_contains (circuit_roster c) (sd_service_id d)" using assms(2,3) by auto
  moreover have "connect_definition node_id c (sd_service_id d) =
      Some (service_definition_build (sd_service_id d) ''admin'' [node_id] [])"
    using assms(1) by (simp add: connect_definition_def)
  ultimately show ?thesis
    using assms by (simp add: connect_decide_def service_definition_build_def response_for_def Let_def)
qed

theorem admin_prefix_bypasses_allowed_nodes_witness:
  "\<exists>resp s'. connect_decide ''n1'' ''e'' ''p''
     \<lparr>sr_circuit = ''beta'', sr_service_id = ''admin::x'', sr_correlation_id = ''1''\<rparr>
     (splinter_state_new (directory_add_circuit ''beta''
        (circuit_new_admin\<lparr>circuit_roster :=
           StandardRoster [service_definition_build ''admin::x'' ''t'' [''n2''] []]\<rparr>) directory_new)) =
     Some (resp, s') \<and> resp_status resp = STATUS_OK"
  by (rule admin_prefix_bypasses_allowed_nodes
      [where d = "service_definition_build ''admin::x'' ''t'' [''n2''] []"
         and ds = "[service_definition_build ''admin::x'' ''t'' [''n2''] []]"
         and c = "circuit_new_admin\<lparr>circuit_roster :=
           StandardRoster [service_definition_build ''admin::x'' ''t'' [''n2''] []]\<rparr>"])
    (simp_all add: splinter_state_new_def ex_node_eval starts_with_def)

end
