(* ===== verification/Daemon.thy ===== *)
theory Daemon
  imports Auth Circuit_Handlers
begin

text \<open>
  The message path of the daemon, \<^verbatim>\<open>splinterd/src/daemon.rs\<close>: the main loop that reads the network,
  the three dispatch loops with the dispatchers \<open>start\<close> sets up, the network message sender and the
  threads that accept connections.

  The threads share one state, the record \<open>daemon\<close>; each turn of a thread's loop is one event, and a
  run is a list of events in any order. The daemon's channels hold at most five messages and block
  their senders; the model does not block, so its runs include those of the program.
\<close>

section \<open>State\<close>

datatype main_loop_status = MainRunning | MainStopped | MainPanicked

record daemon = auth_node +
  dn_endpoint :: string
  dn_state :: splinter_state
  dn_network_queue :: "network_message_type dispatch_message channel"
  dn_circuit_queue :: "circuit_message_type dispatch_message channel"
  dn_auth_queue :: "auth_message_type dispatch_message channel"
  dn_main_loop :: main_loop_status

text \<open>An action on a part of the state.\<close>

definition via :: "('s \<Rightarrow> 't) \<Rightarrow> ('t \<Rightarrow> 's \<Rightarrow> 's) \<Rightarrow> ('t, 'a, 'e) action \<Rightarrow> ('s, 'a, 'e) action" where
  "via get put m s = (let (r, t) = m (get s) in (r, put t s))"

definition auth_part :: "daemon \<Rightarrow> auth_node" where
  "auth_part d = \<lparr>auth_states = auth_states d, auth_notified = auth_notified d,
     auth_network = auth_network d, auth_identity = auth_identity d, auth_out = auth_out d\<rparr>"

definition put_auth_part :: "auth_node \<Rightarrow> daemon \<Rightarrow> daemon" where
  "put_auth_part a d = d\<lparr>auth_states := auth_states a, auth_notified := auth_notified a,
     auth_network := auth_network a, auth_identity := auth_identity a, auth_out := auth_out a\<rparr>"

text \<open>The circuit handlers are given the node's id, its network endpoint, the Splinter state and a clone
  of the channel to the message sender.\<close>

definition circuit_part :: "daemon \<Rightarrow> circuit_node" where
  "circuit_part d = \<lparr>cn_node_id = auth_identity d, cn_endpoint = dn_endpoint d,
     cn_state = dn_state d, cn_out = auth_out d\<rparr>"

definition put_circuit_part :: "circuit_node \<Rightarrow> daemon \<Rightarrow> daemon" where
  "put_circuit_part n d = d\<lparr>dn_state := cn_state n, auth_out := cn_out n\<rparr>"

section \<open>The network dispatcher\<close>

record daemon_codecs =
  dc_network :: "network_message codec"
  dc_echo :: "network_echo codec"
  dc_heartbeat :: "unit codec"
  dc_circuit :: "circuit_message codec"
  dc_authorization :: "authorization_message codec"
  dc_requests :: request_codecs
  dc_circuit_messages :: circuit_codecs
  dc_auth_messages :: auth_codecs

definition authorization_message_handle ::
  "authorization_message \<Rightarrow> network_message_type message_context \<Rightarrow>
   (auth_message_type dispatch_message channel, unit, dispatch_error) action" where
  "authorization_message_handle msg ctx c =
     (case chan_send \<lparr>dm_type = am_type msg, dm_bytes = am_payload msg, dm_source = source_peer_id ctx\<rparr> c of
        (Ok _, c') \<Rightarrow> (Ok (), c')
      | (Err _, c') \<Rightarrow> (Err NetworkSendError, c'))"

definition set_up_network_dispatcher ::
  "daemon_codecs \<Rightarrow> string \<Rightarrow> (network_message_type, daemon) dispatcher" where
  "set_up_network_dispatcher cs node_id =
     set_handler AUTHORIZATION (dc_authorization cs)
       (\<lambda>msg ctx. via dn_auth_queue (\<lambda>c d. d\<lparr>dn_auth_queue := c\<rparr>) (authorization_message_handle msg ctx))
     (set_handler CIRCUIT (dc_circuit cs)
       (network_auth_guard (\<lambda>msg ctx.
          via dn_circuit_queue (\<lambda>c d. d\<lparr>dn_circuit_queue := c\<rparr>) (circuit_message_handle msg ctx)))
     (set_handler NETWORK_HEARTBEAT (dc_heartbeat cs)
       (\<lambda>msg ctx. via auth_out (\<lambda>c d. d\<lparr>auth_out := c\<rparr>) (heartbeat_handle msg ctx))
     (set_handler NETWORK_ECHO (dc_echo cs)
       (network_auth_guard (\<lambda>msg ctx.
          via auth_out (\<lambda>c d. d\<lparr>auth_out := c\<rparr>)
            (echo_handle (dc_echo cs) (dc_network cs) node_id msg ctx)))
       dispatcher_new)))"

section \<open>The loops\<close>

text \<open>What \<open>recv_timeout\<close> finds in the mesh: an envelope, nothing in time, or a closed mesh.\<close>

datatype mesh_event = MeshEnvelope mesh_id bytes | MeshTimeout | MeshClosed

text \<open>One turn of the main loop. The \<open>unwrap\<close> of the parsed message panics on bytes that are no
  network message; a failing send to the dispatch loop is only logged.\<close>

definition main_loop_turn :: "daemon_codecs \<Rightarrow> mesh_event \<Rightarrow> daemon \<Rightarrow> daemon" where
  "main_loop_turn cs ev d =
     (if dn_main_loop d \<noteq> MainRunning then d
      else case ev of
        MeshClosed \<Rightarrow> d\<lparr>dn_main_loop := MainStopped\<rparr>
      | MeshTimeout \<Rightarrow> d
      | MeshEnvelope i payload \<Rightarrow>
          (case network_recv (Ok (i, payload)) (auth_network d) of
             Err _ \<Rightarrow> d
           | Ok (peer, bs) \<Rightarrow>
               (case parse_from_bytes (dc_network cs) bs of
                  Err _ \<Rightarrow> d\<lparr>dn_main_loop := MainPanicked\<rparr>
                | Ok msg \<Rightarrow>
                    d\<lparr>dn_network_queue := snd (chan_send \<lparr>dm_type = nm_type msg,
                        dm_bytes = nm_payload msg, dm_source = peer\<rparr> (dn_network_queue d))\<rparr>)))"

text \<open>One turn of a dispatch loop: the oldest queued message is dispatched.\<close>

definition network_turn :: "daemon_codecs \<Rightarrow> daemon \<Rightarrow> daemon" where
  "network_turn cs d =
     (case chan_queue (dn_network_queue d) of
        [] \<Rightarrow> d
      | m # ms \<Rightarrow>
          dispatch_one (set_up_network_dispatcher cs (auth_identity d)) m
            (d\<lparr>dn_network_queue := (dn_network_queue d)\<lparr>chan_queue := ms\<rparr>\<rparr>))"

definition circuit_turn :: "daemon_codecs \<Rightarrow> daemon \<Rightarrow> daemon" where
  "circuit_turn cs d =
     (case chan_queue (dn_circuit_queue d) of
        [] \<Rightarrow> d
      | m # ms \<Rightarrow>
          (let d1 = d\<lparr>dn_circuit_queue := (dn_circuit_queue d)\<lparr>chan_queue := ms\<rparr>\<rparr>
           in put_circuit_part
                (dispatch_one (set_up_circuit_dispatcher (dc_requests cs) (dc_circuit_messages cs)) m
                   (circuit_part d1)) d1))"

definition auth_turn :: "daemon_codecs \<Rightarrow> (mesh_id \<Rightarrow> (unit, unit) result) \<Rightarrow> daemon \<Rightarrow> daemon" where
  "auth_turn cs mesh_remove d =
     (case chan_queue (dn_auth_queue d) of
        [] \<Rightarrow> d
      | m # ms \<Rightarrow>
          (let d1 = d\<lparr>dn_auth_queue := (dn_auth_queue d)\<lparr>chan_queue := ms\<rparr>\<rparr>
           in put_auth_part
                (dispatch_one (create_authorization_dispatcher (dc_auth_messages cs) mesh_remove) m
                   (auth_part d1)) d1))"

definition sender_turn ::
  "(mesh_id \<Rightarrow> bytes \<Rightarrow> (unit, mesh_send_error) result) \<Rightarrow> daemon \<Rightarrow> daemon" where
  "sender_turn mesh_send d =
     (case chan_queue (auth_out d) of
        [] \<Rightarrow> d
      | r # rs \<Rightarrow> d\<lparr>auth_out := (auth_out d)\<lparr>chan_queue := rs\<rparr>,
                    auth_network := sender_send mesh_send r (auth_network d)\<rparr>)"

text \<open>The threads that listen: a connection of a peer or of an external service gets a temporary id, the
  first two internal connections the ids of the orchestrator and of the admin service.\<close>

definition accept_connection :: "string \<Rightarrow> (mesh_id, unit) result \<Rightarrow> string \<Rightarrow> daemon \<Rightarrow> daemon" where
  "accept_connection uuid added endpoint d =
     d\<lparr>auth_network := snd (add_connection uuid added endpoint (auth_network d))\<rparr>"

definition accept_internal_service :: "string \<Rightarrow> (mesh_id, unit) result \<Rightarrow> string \<Rightarrow> daemon \<Rightarrow> daemon" where
  "accept_internal_service peer_id added endpoint d =
     d\<lparr>auth_network := snd (add_peer peer_id added endpoint (auth_network d))\<rparr>"

datatype daemon_event =
  MainLoop mesh_event
| NetworkLoop
| CircuitLoop
| AuthLoop "mesh_id \<Rightarrow> (unit, unit) result"
| SenderLoop "mesh_id \<Rightarrow> bytes \<Rightarrow> (unit, mesh_send_error) result"
| Accepted string "(mesh_id, unit) result" string
| AcceptedInternal string "(mesh_id, unit) result" string

fun daemon_step :: "daemon_codecs \<Rightarrow> daemon_event \<Rightarrow> daemon \<Rightarrow> daemon" where
  "daemon_step cs (MainLoop ev) d = main_loop_turn cs ev d"
| "daemon_step cs NetworkLoop d = network_turn cs d"
| "daemon_step cs CircuitLoop d = circuit_turn cs d"
| "daemon_step cs (AuthLoop mesh_remove) d = auth_turn cs mesh_remove d"
| "daemon_step cs (SenderLoop mesh_send) d = sender_turn mesh_send d"
| "daemon_step cs (Accepted uuid added endpoint) d = accept_connection uuid added endpoint d"
| "daemon_step cs (AcceptedInternal peer_id added endpoint) d =
     accept_internal_service peer_id added endpoint d"

definition daemon_run :: "daemon_codecs \<Rightarrow> daemon_event list \<Rightarrow> daemon \<Rightarrow> daemon" where
  "daemon_run cs es d = foldl (\<lambda>d e. daemon_step cs e d) d es"

section \<open>Lemmas\<close>

lemma daemon_run_simps [simp]:
  "daemon_run cs [] d = d"
  "daemon_run cs (e # es) d = daemon_run cs es (daemon_step cs e d)"
  by (simp_all add: daemon_run_def)

text \<open>What a peer has reached beyond the guard: a message waiting for the circuit dispatcher, or a
  service registered with it.\<close>

definition no_trace_of :: "string \<Rightarrow> daemon \<Rightarrow> bool" where
  "no_trace_of p d \<longleftrightarrow>
     (\<forall>m \<in> set (chan_queue (dn_circuit_queue d)). dm_source m \<noteq> p) \<and>
     (\<forall>k svc. service_dir (dn_state d) k = Some svc \<longrightarrow> svc_peer_id svc \<noteq> Some p)"

lemma no_trace_of_same:
  "no_trace_of p d \<Longrightarrow> dn_circuit_queue d' = dn_circuit_queue d \<Longrightarrow> dn_state d' = dn_state d \<Longrightarrow>
   no_trace_of p d'"
  by (simp add: no_trace_of_def)

lemma put_auth_part_simps [simp]:
  "dn_circuit_queue (put_auth_part a d) = dn_circuit_queue d"
  "dn_state (put_auth_part a d) = dn_state d"
  "dn_main_loop (put_auth_part a d) = dn_main_loop d"
  "dn_network_queue (put_auth_part a d) = dn_network_queue d"
  by (simp_all add: put_auth_part_def)

lemma put_circuit_part_simps [simp]:
  "dn_circuit_queue (put_circuit_part n d) = dn_circuit_queue d"
  "dn_state (put_circuit_part n d) = cn_state n"
  "dn_main_loop (put_circuit_part n d) = dn_main_loop d"
  "dn_network_queue (put_circuit_part n d) = dn_network_queue d"
  by (simp_all add: put_circuit_part_def)

lemma drain_removals_daemon [simp]:
  "dn_circuit_queue (drain_removals d) = dn_circuit_queue d"
  "dn_state (drain_removals d) = dn_state d"
  "dn_main_loop (drain_removals d) = dn_main_loop d"
  "dn_network_queue (drain_removals d) = dn_network_queue d"
  by (simp_all add: drain_removals_def Let_def)

text \<open>What holds of a step that fails and of every handler holds of a dispatcher.\<close>

lemma dispatch_set_rule:
  assumes "\<And>m. P (handler m \<lparr>source_peer_id = source, ctx_message_type = mt, message_bytes = bs\<rparr> s)"
    and "P (dispatch d source mt' bs s)" and "\<And>e. P (Err e, s)"
  shows "P (dispatch (set_handler mt c handler d) source mt' bs s)"
  using assms by (cases "mt' = mt") (simp_all add: dispatch_set_handler dispatch_set_other split: result.split)

lemma dispatch_new_rule: "(\<And>e. P (Err e, s)) \<Longrightarrow> P (dispatch dispatcher_new source mt bs s)"
  by (simp add: dispatch_def dispatcher_new_def)

text \<open>The services after a step are the ones before it and at most one registered with the source.\<close>

definition registers_only :: "string \<Rightarrow> splinter_state \<Rightarrow> splinter_state \<Rightarrow> bool" where
  "registers_only source s s' \<longleftrightarrow> (\<forall>k svc. service_dir s' k = Some svc \<longrightarrow>
     service_dir s k = Some svc \<or> svc_peer_id svc = Some source)"

lemma registers_only_refl [simp]: "registers_only source s s"
  by (simp add: registers_only_def)

lemma registers_only_connect:
  assumes "connect_decide i e source msg s = Some (r, s')"
  shows "registers_only source s s'"
  using assms
  by (auto simp: registers_only_def connect_decide_def Let_def state_add_service_def
      split: option.splits if_splits)

lemma registers_only_disconnect: "registers_only source s (snd (disconnect_decide msg s))"
  by (auto simp: registers_only_def disconnect_decide_def Let_def state_remove_service_def
      split: option.splits if_splits)

lemma registers_only_handlers:
  "registers_only (source_peer_id ctx) (cn_state n) (cn_state (snd (service_connect_handle cs sr ctx n)))"
  "registers_only (source_peer_id ctx) (cn_state n) (cn_state (snd (service_disconnect_handle cs sr ctx n)))"
  "registers_only (source_peer_id ctx) (cn_state n) (cn_state (snd (direct_message_handle cs dm ctx n)))"
  "registers_only (source_peer_id ctx) (cn_state n) (cn_state (snd (admin_message_handle cs dm ctx n)))"
  "registers_only (source_peer_id ctx) (cn_state n) (cn_state (snd (circuit_error_handle cs ce ctx n)))"
proof -
  show "registers_only (source_peer_id ctx) (cn_state n) (cn_state (snd (service_connect_handle cs sr ctx n)))"
    by (cases "connect_decide (cn_node_id n) (cn_endpoint n) (source_peer_id ctx) sr (cn_state n)")
      (auto simp: service_connect_handle_def intro: registers_only_connect)
  show "registers_only (source_peer_id ctx) (cn_state n) (cn_state (snd (service_disconnect_handle cs sr ctx n)))"
    using registers_only_disconnect [of "source_peer_id ctx" "cn_state n" sr]
    by (cases "disconnect_decide sr (cn_state n)") (simp add: service_disconnect_handle_def)
qed (simp_all add: direct_message_handle_def admin_message_handle_def circuit_error_handle_def
  split: option.split)

lemma circuit_dispatch_services:
  "registers_only (dm_source m) (cn_state n)
     (cn_state (dispatch_one (set_up_circuit_dispatcher rs cs) m n))"
proof -
  let ?ctx = "\<lambda>mt. \<lparr>source_peer_id = dm_source m, ctx_message_type = mt, message_bytes = dm_bytes m\<rparr>"
  show ?thesis
    unfolding dispatch_one_def set_up_circuit_dispatcher_def
    by (intro dispatch_set_rule [where P = "\<lambda>r. registers_only (dm_source m) (cn_state n) (cn_state (snd r))"]
        dispatch_new_rule [where P = "\<lambda>r. registers_only (dm_source m) (cn_state n) (cn_state (snd r))"])
      (use registers_only_handlers [where ctx = "?ctx _"] in simp_all)
qed

lemma registers_only_peer:
  assumes "registers_only source s s'" and "source \<noteq> p"
    and "\<And>k svc. service_dir s k = Some svc \<Longrightarrow> svc_peer_id svc \<noteq> Some p"
    and "service_dir s' k = Some svc"
  shows "svc_peer_id svc \<noteq> Some p"
  using assms unfolding registers_only_def by (metis option.inject)

lemma no_trace_ofI:
  assumes "\<And>m. m \<in> set (chan_queue (dn_circuit_queue d)) \<Longrightarrow> dm_source m \<noteq> p"
    and "\<And>k svc. service_dir (dn_state d) k = Some svc \<Longrightarrow> svc_peer_id svc \<noteq> Some p"
  shows "no_trace_of p d"
  using assms unfolding no_trace_of_def by blast

lemma no_trace_ofD:
  assumes "no_trace_of p d"
  shows "m \<in> set (chan_queue (dn_circuit_queue d)) \<Longrightarrow> dm_source m \<noteq> p"
    and "service_dir (dn_state d) k = Some svc \<Longrightarrow> svc_peer_id svc \<noteq> Some p"
  using assms unfolding no_trace_of_def by blast+

lemma circuit_turn_no_trace:
  assumes "no_trace_of p d"
  shows "no_trace_of p (circuit_turn cs d)"
proof (cases "chan_queue (dn_circuit_queue d)")
  case Nil
  with assms show ?thesis by (simp add: circuit_turn_def)
next
  case (Cons m ms)
  let ?d = "d\<lparr>dn_circuit_queue := (dn_circuit_queue d)\<lparr>chan_queue := ms\<rparr>\<rparr>"
  let ?n = "dispatch_one (set_up_circuit_dispatcher (dc_requests cs) (dc_circuit_messages cs)) m (circuit_part ?d)"
  have turn: "circuit_turn cs d = put_circuit_part ?n ?d" using Cons by (simp add: circuit_turn_def Let_def)
  have m: "dm_source m \<noteq> p" by (rule no_trace_ofD(1) [OF assms]) (simp add: Cons)
  have ms: "dm_source m' \<noteq> p" if "m' \<in> set ms" for m'
    by (rule no_trace_ofD(1) [OF assms]) (simp add: Cons that)
  have "cn_state (circuit_part ?d) = dn_state d" by (simp add: circuit_part_def)
  then have "registers_only (dm_source m) (dn_state d) (cn_state ?n)"
    using circuit_dispatch_services [of m "circuit_part ?d"] by simp
  from registers_only_peer [OF this m no_trace_ofD(2) [OF assms]] show ?thesis
    unfolding turn by (intro no_trace_ofI) (simp_all add: ms)
qed

lemma via_circuit_queue_no_trace:
  assumes "no_trace_of p d" and "source_peer_id ctx \<noteq> p"
  shows "no_trace_of p (snd (via dn_circuit_queue (\<lambda>c d. d\<lparr>dn_circuit_queue := c\<rparr>)
    (circuit_message_handle msg ctx) d))"
proof (rule no_trace_ofI)
  let ?d' = "snd (via dn_circuit_queue (\<lambda>c d. d\<lparr>dn_circuit_queue := c\<rparr>)
    (circuit_message_handle msg ctx) d)"
  show "dm_source m \<noteq> p" if "m \<in> set (chan_queue (dn_circuit_queue ?d'))" for m
    using that assms(2) no_trace_ofD(1) [OF assms(1), of m]
    by (auto simp: via_def circuit_message_handle_def chan_send_def split: if_splits)
  show "svc_peer_id svc \<noteq> Some p" if "service_dir (dn_state ?d') k = Some svc" for k svc
    using that no_trace_ofD(2) [OF assms(1), of k svc] by (simp add: via_def split: prod.splits)
qed

lemma guarded_no_trace:
  assumes "no_trace_of p d" and "source_peer_id ctx = p \<Longrightarrow> \<not> fst (is_authorized p d)"
    and "\<And>d'. no_trace_of p d' \<Longrightarrow> source_peer_id ctx \<noteq> p \<Longrightarrow> no_trace_of p (snd (handler msg ctx d'))"
  shows "no_trace_of p (snd (network_auth_guard handler msg ctx d))"
proof -
  have "no_trace_of p (drain_removals d)" by (rule no_trace_of_same [OF assms(1)]) simp_all
  with assms(2,3) show ?thesis
    by (cases "source_peer_id ctx = p")
      (simp_all add: network_auth_guard_def is_authorized_def Let_def)
qed

lemma network_dispatch_no_trace:
  assumes "no_trace_of p d" and "dm_source m = p \<Longrightarrow> \<not> fst (is_authorized p d)"
  shows "no_trace_of p (dispatch_one (set_up_network_dispatcher cs i) m d)"
proof -
  have other: "no_trace_of p (snd (via auth_out (\<lambda>c d. d\<lparr>auth_out := c\<rparr>) h d'))"
    "no_trace_of p (snd (via dn_auth_queue (\<lambda>c d. d\<lparr>dn_auth_queue := c\<rparr>) h' d'))"
    if "no_trace_of p d'" for d'
    and h :: "(send_request channel, unit, dispatch_error) action"
    and h' :: "(auth_message_type dispatch_message channel, unit, dispatch_error) action"
    by (rule no_trace_of_same [OF that]; simp add: via_def split: prod.split)+
  show ?thesis
    unfolding dispatch_one_def set_up_network_dispatcher_def
    by (intro dispatch_set_rule [where P = "\<lambda>r. no_trace_of p (snd r)"]
        dispatch_new_rule [where P = "\<lambda>r. no_trace_of p (snd r)"])
      (use assms other via_circuit_queue_no_trace in \<open>auto intro!: guarded_no_trace\<close>)
qed

lemma network_turn_no_trace:
  assumes "no_trace_of p d" and "\<not> fst (is_authorized p d)"
  shows "no_trace_of p (network_turn cs d)"
proof (cases "chan_queue (dn_network_queue d)")
  case Nil
  with assms show ?thesis by (simp add: network_turn_def)
next
  case (Cons m ms)
  let ?d = "d\<lparr>dn_network_queue := (dn_network_queue d)\<lparr>chan_queue := ms\<rparr>\<rparr>"
  have "no_trace_of p ?d" using assms(1) by (simp add: no_trace_of_def)
  moreover have "\<not> fst (is_authorized p ?d)" using assms(2) by (simp add: is_authorized_iff)
  ultimately show ?thesis
    using Cons by (simp add: network_turn_def network_dispatch_no_trace)
qed

lemma daemon_step_no_trace:
  assumes "no_trace_of p d" and "\<not> fst (is_authorized p d)"
  shows "no_trace_of p (daemon_step cs e d)"
proof (cases e)
  case (MainLoop ev)
  have "dn_circuit_queue (main_loop_turn cs ev d) = dn_circuit_queue d"
    "dn_state (main_loop_turn cs ev d) = dn_state d"
    by (simp_all add: main_loop_turn_def split: mesh_event.split result.split)
  with MainLoop no_trace_of_same [OF assms(1)] show ?thesis by simp
next
  case (AuthLoop mesh_remove)
  have "dn_circuit_queue (auth_turn cs mesh_remove d) = dn_circuit_queue d"
    "dn_state (auth_turn cs mesh_remove d) = dn_state d"
    by (simp_all add: auth_turn_def Let_def split: list.split)
  with AuthLoop no_trace_of_same [OF assms(1)] show ?thesis by simp
next
  case (SenderLoop mesh_send)
  have "dn_circuit_queue (sender_turn mesh_send d) = dn_circuit_queue d"
    "dn_state (sender_turn mesh_send d) = dn_state d"
    by (simp_all add: sender_turn_def split: list.split)
  with SenderLoop no_trace_of_same [OF assms(1)] show ?thesis by simp
qed (simp_all add: network_turn_no_trace circuit_turn_no_trace assms no_trace_of_same [OF assms(1)]
  accept_connection_def accept_internal_service_def)

lemma main_loop_dead:
  assumes "dn_main_loop d \<noteq> MainRunning"
  shows "dn_main_loop (daemon_step cs e d) = dn_main_loop d"
    and "set (chan_queue (dn_network_queue (daemon_step cs e d))) \<subseteq> set (chan_queue (dn_network_queue d))"
proof -
  have keep: "dn_main_loop (dispatch_one (set_up_network_dispatcher cs i) m d') = dn_main_loop d' \<and>
      dn_network_queue (dispatch_one (set_up_network_dispatcher cs i) m d') = dn_network_queue d'" for i m d'
    unfolding dispatch_one_def set_up_network_dispatcher_def
    by (intro dispatch_set_rule [where P = "\<lambda>r. dn_main_loop (snd r) = dn_main_loop d' \<and>
          dn_network_queue (snd r) = dn_network_queue d'"]
        dispatch_new_rule [where P = "\<lambda>r. dn_main_loop (snd r) = dn_main_loop d' \<and>
          dn_network_queue (snd r) = dn_network_queue d'"])
      (simp_all add: via_def network_auth_guard_def is_authorized_def Let_def split: prod.split)
  show "dn_main_loop (daemon_step cs e d) = dn_main_loop d"
    using assms
    by (cases e) (simp_all add: main_loop_turn_def network_turn_def circuit_turn_def auth_turn_def
        sender_turn_def accept_connection_def accept_internal_service_def keep Let_def split: list.split)
  show "set (chan_queue (dn_network_queue (daemon_step cs e d))) \<subseteq> set (chan_queue (dn_network_queue d))"
    using assms
    by (cases e) (auto simp: main_loop_turn_def network_turn_def circuit_turn_def auth_turn_def
        sender_turn_def accept_connection_def accept_internal_service_def keep Let_def split: list.split)
qed

lemma main_loop_dead_run:
  assumes "dn_main_loop d \<noteq> MainRunning"
  shows "dn_main_loop (daemon_run cs es d) = dn_main_loop d \<and>
    set (chan_queue (dn_network_queue (daemon_run cs es d))) \<subseteq> set (chan_queue (dn_network_queue d))"
  using assms
proof (induction es arbitrary: d)
  case Nil
  show ?case by simp
next
  case (Cons e es)
  note step = main_loop_dead [OF Cons.prems, of cs e]
  have "dn_main_loop (daemon_step cs e d) \<noteq> MainRunning" using step(1) Cons.prems by simp
  from Cons.IH [OF this] step show ?case by auto
qed

section \<open>Properties\<close>


definition ex_daemon_codecs :: daemon_codecs where
  "ex_daemon_codecs = \<lparr>dc_network = table_codec [\<lparr>nm_type = CIRCUIT, nm_payload = [0]\<rparr>],
     dc_echo = table_codec [], dc_heartbeat = table_codec [],
     dc_circuit = table_codec [\<lparr>cmsg_type = SERVICE_CONNECT_REQUEST, cmsg_payload = [0]\<rparr>],
     dc_authorization = table_codec [],
     dc_requests = \<lparr>connect_request_codec = table_codec [\<lparr>sr_circuit = ''alpha'',
         sr_service_id = ''a'', sr_correlation_id = ''1''\<rparr>],
       disconnect_request_codec = table_codec [], direct_message_codec = table_codec [],
       admin_message_codec = table_codec []\<rparr>,
     dc_circuit_messages = ex_codecs,
     dc_auth_messages = \<lparr>connect_request_c = table_codec [], connect_response_c = table_codec [],
       trust_request_c = table_codec [], authorized_c = table_codec [],
       authorization_error_c = table_codec [], authorization_message_c = table_codec [],
       network_message_c = table_codec []\<rparr>\<rparr>"

text \<open>A node with the connection \<open>p\<close>, which is in the authorization state \<open>st\<close>.\<close>

definition ex_daemon :: "authorization_state \<Rightarrow> daemon" where
  "ex_daemon st = \<lparr>auth_states = [''p'' \<mapsto> st], auth_notified = [],
     auth_network = network_new\<lparr>net_peers := peer_map_insert ''p'' 1 ''tcp://a'' peer_map_new\<rparr>,
     auth_identity = ''n1'', auth_out = \<lparr>chan_open = True, chan_queue = []\<rparr>,
     dn_endpoint = ''tcp://n1'', dn_state = (cn_state ex_node)\<lparr>service_dir := Map.empty\<rparr>,
     dn_network_queue = \<lparr>chan_open = True, chan_queue = []\<rparr>,
     dn_circuit_queue = \<lparr>chan_open = True, chan_queue = []\<rparr>,
     dn_auth_queue = \<lparr>chan_open = True, chan_queue = []\<rparr>, dn_main_loop = MainRunning\<rparr>"

definition ex_events :: "daemon_event list" where
  "ex_events = [MainLoop (MeshEnvelope 1 [0]), NetworkLoop, CircuitLoop]"

lemmas ex_daemon_eval =
  ex_daemon_codecs_def ex_daemon_def ex_events_def main_loop_turn_def network_recv_def get_peer_id_def
  network_turn_def circuit_turn_def dispatch_one_def dispatch_def set_up_network_dispatcher_def
  set_up_circuit_dispatcher_def set_handler_def from_message_bytes_def network_auth_guard_def
  is_authorized_def drain_removals_def via_def circuit_message_handle_def chan_send_def
  network_new_def peer_map_eval table_codec_def circuit_part_def put_circuit_part_def
  service_connect_handle_def connect_decide_def connect_definition_def ex_node_eval starts_with_def
  state_add_service_def


text \<open>One malformed message stops the daemon: when any connected peer, authorized or not, sends
  bytes that are not a network message, the main loop panics, and whatever happens afterwards it never
  runs again and no further message is queued for dispatch.\<close>

theorem malformed_message_stops_main_loop:
  assumes "dn_main_loop d = MainRunning" and "get_peer_id (net_peers (auth_network d)) i = Some p"
    and "parse_from_bytes (dc_network cs) bs = Err e"
  shows "let d' = daemon_run cs (MainLoop (MeshEnvelope i bs) # es) d
    in dn_main_loop d' = MainPanicked \<and>
       set (chan_queue (dn_network_queue d')) \<subseteq> set (chan_queue (dn_network_queue d))"
proof -
  have "daemon_step cs (MainLoop (MeshEnvelope i bs)) d = d\<lparr>dn_main_loop := MainPanicked\<rparr>"
    using assms by (simp add: main_loop_turn_def network_recv_def)
  then show ?thesis
    using main_loop_dead_run [of "d\<lparr>dn_main_loop := MainPanicked\<rparr>" cs es] by (simp add: Let_def)
qed

theorem malformed_message_stops_main_loop_witness:
  "dn_main_loop (daemon_run ex_daemon_codecs
     (MainLoop (MeshEnvelope 1 [7]) # ex_events) (ex_daemon AuthConnecting)) = MainPanicked"
proof -
  have "get_peer_id (net_peers (auth_network (ex_daemon AuthConnecting))) 1 = Some ''p''"
    by (simp add: ex_daemon_eval)
  moreover have "parse_from_bytes (dc_network ex_daemon_codecs) [7] = Err ''no message''"
    by (simp add: ex_daemon_codecs_def table_codec_def)
  moreover have "dn_main_loop (ex_daemon AuthConnecting) = MainRunning" by (simp add: ex_daemon_def)
  ultimately show ?thesis
    using malformed_message_stops_main_loop [of "ex_daemon AuthConnecting" 1 _ ex_daemon_codecs "[7]" _ ex_events]
    by (auto simp: Let_def)
qed

end
