(* ===== verification/Durable_Set.thy ===== *)
theory Durable_Set
  imports Splinter_Prelude
begin

text \<open>
  Durable sets: the traits of \<^verbatim>\<open>libsplinter/src/storage/sets/mod.rs\<close> as locales, and the in-memory sets
  of \<^verbatim>\<open>storage/sets/mem.rs\<close> that implement them.

  \<open>BTreeSet<V>\<close> is a list of values in ascending order of \<open>key\<close>, where \<open>key\<close> is what the \<open>Ord\<close> instance
  of \<open>V\<close> compares (and what \<open>Borrow<Index>\<close> returns). The locks are not modelled: a poisoned lock is the
  only source of a \<open>DurableSetError\<close> in these sets.
\<close>

section \<open>Ranges\<close>

datatype 'i bound = Included 'i | Excluded 'i | Unbounded

record 'i durable_range =
  range_start :: "'i bound"
  range_end :: "'i bound"

definition range_half_open :: "'i \<Rightarrow> 'i \<Rightarrow> 'i durable_range" where
  "range_half_open a b = \<lparr>range_start = Included a, range_end = Excluded b\<rparr>"

definition range_inclusive :: "'i \<Rightarrow> 'i \<Rightarrow> 'i durable_range" where
  "range_inclusive a b = \<lparr>range_start = Included a, range_end = Included b\<rparr>"

definition range_full :: "'i durable_range" where
  "range_full = \<lparr>range_start = Unbounded, range_end = Unbounded\<rparr>"

definition range_from :: "'i \<Rightarrow> 'i durable_range" where
  "range_from a = \<lparr>range_start = Included a, range_end = Unbounded\<rparr>"

definition range_to :: "'i \<Rightarrow> 'i durable_range" where
  "range_to b = \<lparr>range_start = Unbounded, range_end = Excluded b\<rparr>"

definition range_to_inclusive :: "'i \<Rightarrow> 'i durable_range" where
  "range_to_inclusive b = \<lparr>range_start = Unbounded, range_end = Included b\<rparr>"

definition range_of_bounds :: "'i bound \<Rightarrow> 'i bound \<Rightarrow> 'i durable_range" where
  "range_of_bounds a b = \<lparr>range_start = a, range_end = b\<rparr>"

fun above :: "('i :: linorder) bound \<Rightarrow> 'i \<Rightarrow> bool" where
  "above (Included a) x = (a \<le> x)"
| "above (Excluded a) x = (a < x)"
| "above Unbounded x = True"

fun below :: "('i :: linorder) bound \<Rightarrow> 'i \<Rightarrow> bool" where
  "below (Included b) x = (x \<le> b)"
| "below (Excluded b) x = (x < b)"
| "below Unbounded x = True"

definition in_range :: "('i :: linorder) durable_range \<Rightarrow> 'i \<Rightarrow> bool" where
  "in_range r x \<longleftrightarrow> above (range_start r) x \<and> below (range_end r) x"

text \<open>\<open>BTreeSet::range\<close> panics when the start is greater than the end, or both are excluded and equal.\<close>

fun range_panics :: "('i :: linorder) bound \<Rightarrow> 'i bound \<Rightarrow> bool" where
  "range_panics (Excluded a) (Excluded b) = (b \<le> a)"
| "range_panics (Included a) (Included b) = (b < a)"
| "range_panics (Included a) (Excluded b) = (b < a)"
| "range_panics (Excluded a) (Included b) = (b < a)"
| "range_panics _ _ = False"

section \<open>The sets of the standard library\<close>

fun bset_insert :: "('v \<Rightarrow> 'k :: linorder) \<Rightarrow> 'v \<Rightarrow> 'v list \<Rightarrow> 'v list" where
  "bset_insert key x [] = [x]"
| "bset_insert key x (y # ys) =
     (if key x < key y then x # y # ys
      else if key x = key y then y # ys
      else y # bset_insert key x ys)"

definition bset_get :: "('v \<Rightarrow> 'k :: linorder) \<Rightarrow> 'k \<Rightarrow> 'v list \<Rightarrow> 'v option" where
  "bset_get key k xs = List.find (\<lambda>x. key x = k) xs"

definition bset_take :: "('v \<Rightarrow> 'k :: linorder) \<Rightarrow> 'k \<Rightarrow> 'v list \<Rightarrow> 'v option \<times> 'v list" where
  "bset_take key k xs = (bset_get key k xs, filter (\<lambda>x. key x \<noteq> k) xs)"

definition bset_range :: "('v \<Rightarrow> 'k :: linorder) \<Rightarrow> 'k durable_range \<Rightarrow> 'v list \<Rightarrow> 'v list option" where
  "bset_range key r xs =
     (if range_panics (range_start r) (range_end r) then None
      else Some (filter (\<lambda>x. in_range r (key x)) xs))"

section \<open>DurableHashSet\<close>

definition hash_set_add :: "'v \<Rightarrow> 'v set \<Rightarrow> 'v set" where
  "hash_set_add x s = insert x s"

definition hash_set_remove :: "'v \<Rightarrow> 'v set \<Rightarrow> 'v option \<times> 'v set" where
  "hash_set_remove x s = (if x \<in> s then Some x else None, s - {x})"

definition hash_set_contains :: "'v set \<Rightarrow> 'v \<Rightarrow> bool" where
  "hash_set_contains s x = (x \<in> s)"

definition hash_set_len :: "'v set \<Rightarrow> nat" where
  "hash_set_len s = card s"

section \<open>DurableBTreeSet\<close>

record 'v btree_set =
  bt_inner :: "'v list"
  bt_bound :: nat

definition btree_new_boxed :: "'v btree_set" where
  "btree_new_boxed = \<lparr>bt_inner = [], bt_bound = usize_max\<rparr>"

definition btree_new_with_bound :: "nat \<Rightarrow> 'v btree_set" where
  "btree_new_with_bound bound = \<lparr>bt_inner = [], bt_bound = bound\<rparr>"

text \<open>\<open>unwrap\<close> panics on an empty set, that is, only for the bound 0, which the type \<open>NonZeroUsize\<close>
  excludes; the result is then \<open>None\<close>.\<close>

definition btree_add :: "('v \<Rightarrow> 'k :: linorder) \<Rightarrow> 'v \<Rightarrow> 'v btree_set \<Rightarrow> 'v btree_set option" where
  "btree_add key x s =
     (if length (bt_inner s) = bt_bound s then
        (case bt_inner s of
           [] \<Rightarrow> None
         | rm_lowest # _ \<Rightarrow>
             Some (s\<lparr>bt_inner := bset_insert key x (snd (bset_take key (key rm_lowest) (bt_inner s)))\<rparr>))
      else Some (s\<lparr>bt_inner := bset_insert key x (bt_inner s)\<rparr>))"

definition btree_remove :: "('v \<Rightarrow> 'k :: linorder) \<Rightarrow> 'v \<Rightarrow> 'v btree_set \<Rightarrow> 'v option \<times> 'v btree_set" where
  "btree_remove key x s =
     (let (r, xs) = bset_take key (key x) (bt_inner s) in (r, s\<lparr>bt_inner := xs\<rparr>))"

definition btree_iter :: "'v btree_set \<Rightarrow> 'v list" where
  "btree_iter s = bt_inner s"

definition btree_contains :: "('v \<Rightarrow> 'k :: linorder) \<Rightarrow> 'v btree_set \<Rightarrow> 'v \<Rightarrow> bool" where
  "btree_contains key s x = (bset_get key (key x) (bt_inner s) \<noteq> None)"

definition btree_len :: "'v btree_set \<Rightarrow> nat" where
  "btree_len s = length (bt_inner s)"

definition btree_get_by_index :: "('v \<Rightarrow> 'k :: linorder) \<Rightarrow> 'k \<Rightarrow> 'v btree_set \<Rightarrow> 'v option" where
  "btree_get_by_index key k s = bset_get key k (bt_inner s)"

definition btree_contains_by_index :: "('v \<Rightarrow> 'k :: linorder) \<Rightarrow> 'k \<Rightarrow> 'v btree_set \<Rightarrow> bool" where
  "btree_contains_by_index key k s = (bset_get key k (bt_inner s) \<noteq> None)"

definition btree_range_iter ::
  "('v \<Rightarrow> 'k :: linorder) \<Rightarrow> 'k durable_range \<Rightarrow> 'v btree_set \<Rightarrow> 'v list option" where
  "btree_range_iter key r s = bset_range key r (bt_inner s)"

definition btree_first :: "'v btree_set \<Rightarrow> 'v option" where
  "btree_first s = (case bt_inner s of [] \<Rightarrow> None | x # _ \<Rightarrow> Some x)"

definition btree_last :: "'v btree_set \<Rightarrow> 'v option" where
  "btree_last s = (if bt_inner s = [] then None else Some (last (bt_inner s)))"

section \<open>The traits\<close>

text \<open>
  \<open>DurableSet\<close>. An implementation has a set of values, no two with the same key. \<open>add\<close> gives \<open>None\<close> when
  it panics. The law of \<open>add\<close> is for a set with room; what a full set does is up to the implementation.
\<close>

locale durable_set =
  fixes key :: "'v \<Rightarrow> 'k"
    and inv :: "'s \<Rightarrow> bool"
    and elems :: "'s \<Rightarrow> 'v set"
    and has_room :: "'s \<Rightarrow> bool"
    and add :: "'v \<Rightarrow> 's \<Rightarrow> 's option"
    and remove :: "'v \<Rightarrow> 's \<Rightarrow> 'v option \<times> 's"
    and contains :: "'s \<Rightarrow> 'v \<Rightarrow> bool"
    and len :: "'s \<Rightarrow> nat"
  assumes finite_elems: "inv s \<Longrightarrow> finite (elems s)"
    and inj_key: "inv s \<Longrightarrow> inj_on key (elems s)"
    and contains_iff: "inv s \<Longrightarrow> contains s x \<longleftrightarrow> key x \<in> key ` elems s"
    and len_card: "inv s \<Longrightarrow> len s = card (elems s)"
    and add_room: "inv s \<Longrightarrow> has_room s \<Longrightarrow>
      \<exists>s'. add x s = Some s' \<and> inv s' \<and>
        elems s' = (if contains s x then elems s else insert x (elems s))"
    and remove_elems: "inv s \<Longrightarrow> elems (snd (remove x s)) = {y \<in> elems s. key y \<noteq> key x}"
    and remove_inv: "inv s \<Longrightarrow> inv (snd (remove x s))"
    and remove_some: "inv s \<Longrightarrow> y \<in> elems s \<Longrightarrow> key y = key x \<Longrightarrow> fst (remove x s) = Some y"
    and remove_none: "inv s \<Longrightarrow> \<not> contains s x \<Longrightarrow> fst (remove x s) = None"
begin

lemma contains_after_add:
  assumes "inv s" and "has_room s"
  shows "\<exists>s'. add x s = Some s' \<and> inv s' \<and> contains s' x \<and> (\<forall>y. contains s y \<longrightarrow> contains s' y)"
proof -
  from add_room [OF assms, of x] obtain s' where s': "add x s = Some s'" "inv s'"
    "elems s' = (if contains s x then elems s else insert x (elems s))" by blast
  have "contains s' x"
    using s' contains_iff [OF s'(2), of x] contains_iff [OF assms(1), of x] by (simp split: if_splits)
  moreover have "contains s' y" if "contains s y" for y
    using that s' contains_iff [OF s'(2), of y] contains_iff [OF assms(1), of y] by (auto split: if_splits)
  ultimately show ?thesis using s' by blast
qed

lemma not_contains_after_remove:
  assumes "inv s"
  shows "\<not> contains (snd (remove x s)) x"
  using contains_iff [OF remove_inv [OF assms]] remove_elems [OF assms] by auto

lemma remove_returns_added:
  assumes "inv s" and "has_room s" and "\<not> contains s x"
  shows "\<exists>s'. add x s = Some s' \<and> fst (remove x s') = Some x \<and> elems (snd (remove x s')) = elems s"
proof -
  from add_room [OF assms(1,2), of x] assms(3) obtain s' where s': "add x s = Some s'" "inv s'"
    "elems s' = insert x (elems s)" by auto
  have "key y \<noteq> key x" if "y \<in> elems s" for y
    using that assms(3) contains_iff [OF assms(1), of x] by (metis imageI)
  with s' remove_elems [OF s'(2), of x] have "elems (snd (remove x s')) = elems s" by auto
  with s' remove_some [OF s'(2), of x x] show ?thesis by simp
qed

lemma len_zero_iff: "inv s \<Longrightarrow> len s = 0 \<longleftrightarrow> elems s = {}"
  using finite_elems len_card by auto

end

text \<open>\<open>DurableOrderedSet\<close>: the values can be listed in ascending order of their keys.\<close>

locale durable_ordered_set = durable_set key inv elems has_room add remove contains len
  for key :: "'v \<Rightarrow> 'k :: linorder"
    and inv :: "'s \<Rightarrow> bool" and elems :: "'s \<Rightarrow> 'v set" and has_room :: "'s \<Rightarrow> bool"
    and add :: "'v \<Rightarrow> 's \<Rightarrow> 's option" and remove :: "'v \<Rightarrow> 's \<Rightarrow> 'v option \<times> 's"
    and contains :: "'s \<Rightarrow> 'v \<Rightarrow> bool" and len :: "'s \<Rightarrow> nat" +
  fixes get_by_index :: "'k \<Rightarrow> 's \<Rightarrow> 'v option"
    and range_iter :: "'k durable_range \<Rightarrow> 's \<Rightarrow> 'v list option"
    and first :: "'s \<Rightarrow> 'v option"
    and last_item :: "'s \<Rightarrow> 'v option"
  assumes get_by_index_iff: "inv s \<Longrightarrow> get_by_index k s = Some x \<longleftrightarrow> x \<in> elems s \<and> key x = k"
    and range_iter_panics: "inv s \<Longrightarrow> range_iter r s = None \<longleftrightarrow> range_panics (range_start r) (range_end r)"
    and range_iter_elems: "inv s \<Longrightarrow> range_iter r s = Some xs \<Longrightarrow>
      set xs = {x \<in> elems s. in_range r (key x)} \<and> sorted_wrt (<) (map key xs)"
    and first_least: "inv s \<Longrightarrow> first s = Some x \<longleftrightarrow> x \<in> elems s \<and> (\<forall>y \<in> elems s. key x \<le> key y)"
    and last_greatest: "inv s \<Longrightarrow> last_item s = Some x \<longleftrightarrow> x \<in> elems s \<and> (\<forall>y \<in> elems s. key y \<le> key x)"
begin

lemma range_iter_unique:
  assumes "inv s" and "range_iter r s = Some xs" and "sorted_wrt (<) (map key ys)"
    and "set ys = {x \<in> elems s. in_range r (key x)}"
  shows "xs = ys"
proof -
  note xs = range_iter_elems [OF assms(1,2)]
  have "map key xs = map key ys"
    using xs assms(3,4) by (metis list.set_map strict_sorted_equal)
  moreover have "inj_on key (set xs \<union> set ys)"
    using inj_key [OF assms(1)] xs assms(4) by (auto simp: inj_on_def)
  ultimately show ?thesis by (rule map_inj_on)
qed

end

section \<open>Lemmas on the sets\<close>

definition bset_ok :: "('v \<Rightarrow> 'k :: linorder) \<Rightarrow> 'v list \<Rightarrow> bool" where
  "bset_ok key xs \<longleftrightarrow> sorted_wrt (<) (map key xs)"

lemma bset_ok_simps [simp]:
  "bset_ok key []"
  "bset_ok key (x # xs) \<longleftrightarrow> (\<forall>y \<in> set xs. key x < key y) \<and> bset_ok key xs"
  by (simp_all add: bset_ok_def)

lemma bset_ok_filter: "bset_ok key xs \<Longrightarrow> bset_ok key (filter P xs)"
  by (induction xs) auto

lemma bset_ok_append:
  "bset_ok key (xs @ ys) \<longleftrightarrow> bset_ok key xs \<and> bset_ok key ys \<and> (\<forall>x \<in> set xs. \<forall>y \<in> set ys. key x < key y)"
  by (induction xs) auto

lemma bset_ok_inj:
  assumes "bset_ok key xs"
  shows "inj_on key (set xs)"
proof -
  have "distinct (map key xs)" using assms by (simp add: bset_ok_def strict_sorted_iff)
  then show ?thesis by (simp add: distinct_map)
qed

lemma bset_ok_distinct: "bset_ok key xs \<Longrightarrow> distinct xs"
  by (induction xs) auto

lemma set_bset_insert:
  "bset_ok key xs \<Longrightarrow>
   set (bset_insert key x xs) = (if key x \<in> key ` set xs then set xs else insert x (set xs))"
proof (induction xs)
  case Nil
  show ?case by simp
next
  case (Cons y ys)
  consider "key x < key y" | "key x = key y" | "key y < key x" by (rule linorder_cases)
  then show ?case
  proof cases
    case 1
    with Cons.prems have "key x \<notin> key ` set (y # ys)" by (auto dest: less_trans)
    with 1 show ?thesis by auto
  next
    case 3
    with Cons show ?thesis by auto
  qed simp
qed

lemma bset_ok_insert: "bset_ok key xs \<Longrightarrow> bset_ok key (bset_insert key x xs)"
  by (induction xs) (auto simp: set_bset_insert dest: less_trans)

lemma length_bset_insert:
  "bset_ok key xs \<Longrightarrow>
   length (bset_insert key x xs) = (if key x \<in> key ` set xs then length xs else Suc (length xs))"
proof (induction xs)
  case Nil
  show ?case by simp
next
  case (Cons y ys)
  have "key x \<notin> key ` set ys" if "key x < key y" using that Cons.prems by (auto dest: less_trans)
  with Cons show ?case by auto
qed

lemma bset_insert_last:
  "\<forall>y \<in> set xs. key y < key x \<Longrightarrow> bset_insert key x xs = xs @ [x]"
  by (induction xs) (auto simp: less_not_sym)

lemma bset_get_iff:
  assumes "bset_ok key xs"
  shows "bset_get key k xs = Some x \<longleftrightarrow> x \<in> set xs \<and> key x = k"
proof
  assume "bset_get key k xs = Some x"
  then show "x \<in> set xs \<and> key x = k"
    by (auto simp: bset_get_def find_Some_iff)
next
  assume x: "x \<in> set xs \<and> key x = k"
  then obtain y where y: "bset_get key k xs = Some y"
    by (cases "bset_get key k xs") (auto simp: bset_get_def find_None_iff)
  then have "y \<in> set xs \<and> key y = k" by (auto simp: bset_get_def find_Some_iff)
  with x bset_ok_inj [OF assms] y show "bset_get key k xs = Some x" by (auto simp: inj_on_def)
qed

lemma bset_get_None: "bset_get key k xs = None \<longleftrightarrow> k \<notin> key ` set xs"
  by (auto simp: bset_get_def find_None_iff)

lemma bset_take_lowest:
  "bset_ok key (y # ys) \<Longrightarrow> snd (bset_take key (key y) (y # ys)) = ys"
  by (auto simp: bset_take_def filter_id_conv)

section \<open>The in-memory sets implement the traits\<close>

interpretation hs: durable_set "\<lambda>x. x" finite "\<lambda>s. s" "\<lambda>_. True" "\<lambda>x s. Some (hash_set_add x s)"
  hash_set_remove hash_set_contains hash_set_len
  by unfold_locales
    (auto simp: hash_set_add_def hash_set_remove_def hash_set_contains_def hash_set_len_def)

definition btree_inv :: "('v \<Rightarrow> 'k :: linorder) \<Rightarrow> 'v btree_set \<Rightarrow> bool" where
  "btree_inv key s \<longleftrightarrow> bset_ok key (bt_inner s) \<and> length (bt_inner s) \<le> bt_bound s \<and> 0 < bt_bound s"

definition btree_has_room :: "'v btree_set \<Rightarrow> bool" where
  "btree_has_room s \<longleftrightarrow> length (bt_inner s) \<noteq> bt_bound s"

lemma btree_inv_new:
  "btree_inv key btree_new_boxed" "0 < b \<Longrightarrow> btree_inv key (btree_new_with_bound b)"
  by (simp_all add: btree_inv_def btree_new_boxed_def btree_new_with_bound_def usize_max_def)

lemma btree_add_cases:
  assumes "btree_inv key s"
  shows "btree_add key x s =
    Some (s\<lparr>bt_inner := bset_insert key x
      (if btree_has_room s then bt_inner s else tl (bt_inner s))\<rparr>)"
proof (cases "bt_inner s")
  case Nil
  with assms show ?thesis by (simp add: btree_add_def btree_has_room_def btree_inv_def)
next
  case (Cons y ys)
  with assms have "bset_ok key (y # ys)" by (simp add: btree_inv_def)
  with Cons show ?thesis by (auto simp: btree_add_def btree_has_room_def bset_take_lowest)
qed

lemma btree_inv_add:
  assumes "btree_inv key s" and "btree_add key x s = Some s'"
  shows "btree_inv key s'" and "bt_bound s' = bt_bound s"
proof -
  let ?xs = "if btree_has_room s then bt_inner s else tl (bt_inner s)"
  have s': "s' = s\<lparr>bt_inner := bset_insert key x ?xs\<rparr>" using assms by (simp add: btree_add_cases)
  have ok: "bset_ok key ?xs" and "length ?xs < bt_bound s"
    using assms(1) by (cases "bt_inner s"; auto simp: btree_inv_def btree_has_room_def)+
  with s' assms(1) length_bset_insert [OF ok, of x] bset_ok_insert [OF ok, of x]
  show "btree_inv key s'" by (simp add: btree_inv_def split: if_splits)
  show "bt_bound s' = bt_bound s" using s' by simp
qed

interpretation bt: durable_ordered_set key "btree_inv key" "\<lambda>s. set (bt_inner s)" btree_has_room
  "btree_add key" "btree_remove key" "btree_contains key" btree_len "btree_get_by_index key"
  "btree_range_iter key" btree_first btree_last
  for key :: "'v \<Rightarrow> 'k :: linorder"
proof unfold_locales
  fix s :: "'v btree_set" and x y :: 'v and k :: 'k and r :: "'k durable_range" and xs :: "'v list"
  assume inv: "btree_inv key s"
  then have ok: "bset_ok key (bt_inner s)" by (simp add: btree_inv_def)
  show "finite (set (bt_inner s))" by simp
  show "inj_on key (set (bt_inner s))" using ok by (rule bset_ok_inj)
  show contains: "btree_contains key s x \<longleftrightarrow> key x \<in> key ` set (bt_inner s)"
    by (simp add: btree_contains_def bset_get_None del: not_None_eq)
  show "btree_len s = card (set (bt_inner s))"
    using bset_ok_distinct [OF ok] by (simp add: btree_len_def distinct_card)
  show "\<exists>s'. btree_add key x s = Some s' \<and> btree_inv key s' \<and>
      set (bt_inner s') = (if btree_contains key s x then set (bt_inner s) else insert x (set (bt_inner s)))"
    if "btree_has_room s"
    using that btree_inv_add(1) [OF inv, of x] ok contains
    by (simp add: btree_add_cases [OF inv] set_bset_insert)
  show "set (bt_inner (snd (btree_remove key x s))) = {y \<in> set (bt_inner s). key y \<noteq> key x}"
    by (auto simp: btree_remove_def bset_take_def)
  show "btree_inv key (snd (btree_remove key x s))"
    using inv by (auto simp: btree_remove_def bset_take_def btree_inv_def bset_ok_filter
        intro: le_trans [OF length_filter_le])
  show "fst (btree_remove key x s) = Some y" if "y \<in> set (bt_inner s)" "key y = key x"
    using that bset_get_iff [OF ok] by (simp add: btree_remove_def bset_take_def)
  show "fst (btree_remove key x s) = None" if "\<not> btree_contains key s x"
    using that contains by (simp add: btree_remove_def bset_take_def bset_get_None)
  show "btree_get_by_index key k s = Some x \<longleftrightarrow> x \<in> set (bt_inner s) \<and> key x = k"
    using bset_get_iff [OF ok] by (simp add: btree_get_by_index_def)
  show "btree_range_iter key r s = None \<longleftrightarrow> range_panics (range_start r) (range_end r)"
    by (simp add: btree_range_iter_def bset_range_def)
  show "set xs = {x \<in> set (bt_inner s). in_range r (key x)} \<and> sorted_wrt (<) (map key xs)"
    if "btree_range_iter key r s = Some xs"
    using that bset_ok_filter [OF ok] unfolding bset_ok_def
    by (auto simp: btree_range_iter_def bset_range_def split: if_splits)
  show "btree_first s = Some x \<longleftrightarrow> x \<in> set (bt_inner s) \<and> (\<forall>y \<in> set (bt_inner s). key x \<le> key y)"
    using ok by (cases "bt_inner s") (auto simp: btree_first_def)
  show "btree_last s = Some x \<longleftrightarrow> x \<in> set (bt_inner s) \<and> (\<forall>y \<in> set (bt_inner s). key y \<le> key x)"
    using ok
    by (cases "bt_inner s" rule: rev_cases) (auto simp: btree_last_def bset_ok_append less_imp_le)
qed

section \<open>Properties\<close>

text \<open>The values added in order, from an empty set.\<close>

fun btree_add_all :: "('v \<Rightarrow> 'k :: linorder) \<Rightarrow> 'v list \<Rightarrow> 'v btree_set \<Rightarrow> 'v btree_set option" where
  "btree_add_all key [] s = Some s"
| "btree_add_all key (x # xs) s = Option.bind (btree_add key x s) (btree_add_all key xs)"

lemma btree_add_ascending:
  assumes "btree_inv key s" and "bset_ok key (bt_inner s @ xs)"
  shows "\<exists>s'. btree_add_all key xs s = Some s' \<and>
    bt_inner s' = drop (length (bt_inner s) + length xs - bt_bound s) (bt_inner s @ xs)"
  using assms
proof (induction xs arbitrary: s)
  case Nil
  then show ?case by (simp add: btree_inv_def)
next
  case (Cons x xs)
  define ys where "ys = (if btree_has_room s then bt_inner s else tl (bt_inner s))"
  let ?s = "s\<lparr>bt_inner := bset_insert key x ys\<rparr>"
  have add: "btree_add key x s = Some ?s"
    using Cons.prems(1) by (simp add: btree_add_cases ys_def)
  have sub: "set ys \<subseteq> set (bt_inner s)" by (cases "bt_inner s") (auto simp: ys_def)
  then have ins: "bset_insert key x ys = ys @ [x]"
    using Cons.prems(2) by (intro bset_insert_last) (auto simp: bset_ok_append)
  have inv: "btree_inv key ?s" using btree_inv_add(1) [OF Cons.prems(1) add] .
  have tl: "bset_ok key (tl (bt_inner s) @ x # xs)"
    using Cons.prems(2) by (cases "bt_inner s") (auto simp: bset_ok_append)
  have "bset_ok key (bt_inner ?s @ xs)"
    using Cons.prems(2) tl ins by (simp add: ys_def split: if_splits)
  from Cons.IH [OF inv this] obtain s' where s': "btree_add_all key xs ?s = Some s'"
    "bt_inner s' = drop (length ys + 1 + length xs - bt_bound s) (ys @ x # xs)"
    using ins by auto
  have "drop (length ys + 1 + length xs - bt_bound s) (ys @ x # xs) =
      drop (length (bt_inner s) + length (x # xs) - bt_bound s) (bt_inner s @ x # xs)"
  proof (cases "btree_has_room s")
    case True
    then show ?thesis by (simp add: ys_def)
  next
    case False
    then have full: "length (bt_inner s) = bt_bound s" by (simp add: btree_has_room_def)
    with Cons.prems(1) obtain z zs where "bt_inner s = z # zs"
      by (cases "bt_inner s") (auto simp: btree_inv_def)
    with False full show ?thesis by (simp add: ys_def)
  qed
  with s' add show ?case by auto
qed



text \<open>A full set that is given a value equal to one it holds loses its lowest value and gains
  nothing: it shrinks below its bound and the new value is dropped although \<open>add\<close> succeeds.\<close>

theorem btree_full_add_of_equal_shrinks:
  assumes "btree_inv key s" and "bt_inner s = y # ys" and "length (bt_inner s) = bt_bound s"
    and "key x \<in> key ` set ys" and "x \<notin> set ys"
  shows "\<exists>s'. btree_add key x s = Some s' \<and> btree_iter s' = ys \<and> Suc (btree_len s') = bt_bound s \<and>
    x \<notin> set (btree_iter s')"
proof -
  have ok: "bset_ok key ys" using assms(1,2) by (simp add: btree_inv_def)
  have "bset_insert key x ys = ys"
    using ok assms(4)
  proof (induction ys)
    case (Cons z zs)
    then show ?case by (auto dest: less_not_sym)
  qed simp
  then show ?thesis
    using assms btree_add_cases [OF assms(1), of x]
    by (simp add: btree_has_room_def btree_iter_def btree_len_def)
qed

theorem btree_full_add_of_equal_shrinks_witness:
  "\<exists>s'. btree_add fst (2, 9) \<lparr>bt_inner = [(1, 7), (2, 8 :: nat)], bt_bound = 2\<rparr> = Some s' \<and>
     btree_iter s' = [(2 :: nat, 8)]"
  using btree_full_add_of_equal_shrinks
    [of fst "\<lparr>bt_inner = [(1 :: nat, 7), (2, 8 :: nat)], bt_bound = 2\<rparr>" "(1, 7)" "[(2, 8)]" "(2, 9)"]
  by (auto simp: btree_inv_def)

end
