(* ===== verification/Mailbox.thy ===== *)
theory Mailbox
  imports Durable_Set
begin

text \<open>
  The mailbox of admin events, \<^verbatim>\<open>libsplinter/src/admin/service/mailbox.rs\<close>: events with the time of their
  arrival in a durable ordered set, and an iterator that reads the set page by page.

  The operations of the set are arguments of the definitions, as the set is a trait object in the
  code; the set itself is shared with the iterator, so every step of the iterator is given the set as
  it is at that moment. Time is an integer, the Unix epoch is 0. \<open>None\<close> is a panic of the set.
\<close>

section \<open>Definitions\<close>

record 'e event_entry =
  ev_timestamp :: int
  ev_event :: 'e

definition UNIX_EPOCH :: int where
  "UNIX_EPOCH = 0"

definition ITER_CACHE_SIZE :: nat where
  "ITER_CACHE_SIZE = 100"

definition mailbox_add ::
  "('e event_entry \<Rightarrow> 's \<Rightarrow> 's option) \<Rightarrow> int \<Rightarrow> 'e \<Rightarrow> 's \<Rightarrow> ((int \<times> 'e) \<times> 's) option" where
  "mailbox_add set_add now event s =
     (let entry = \<lparr>ev_timestamp = now, ev_event = event\<rparr>
      in map_option (\<lambda>s'. ((ev_timestamp entry, ev_event entry), s')) (set_add entry s))"

record 'e mailbox_iter =
  mi_start_search :: int
  mi_end_search :: int
  mi_cache :: "'e event_entry list"

text \<open>The new start of the search: the time of the last entry of the page, or the end.\<close>

definition search_from :: "int \<Rightarrow> 'e event_entry list \<Rightarrow> int" where
  "search_from end_search cache = (if cache = [] then end_search else ev_timestamp (last cache))"

definition mailbox_iter_new ::
  "(int durable_range \<Rightarrow> 's \<Rightarrow> 'e event_entry list option) \<Rightarrow> 's \<Rightarrow> int \<Rightarrow> int \<Rightarrow> 'e mailbox_iter option" where
  "mailbox_iter_new range_iter s start_search end_search =
     map_option (\<lambda>xs. let initial_cache = take ITER_CACHE_SIZE xs in
         \<lparr>mi_start_search = search_from end_search initial_cache, mi_end_search = end_search,
          mi_cache = initial_cache\<rparr>)
       (range_iter (range_half_open start_search end_search) s)"

definition mailbox_iter ::
  "(int durable_range \<Rightarrow> 's \<Rightarrow> 'e event_entry list option) \<Rightarrow> 's \<Rightarrow> int \<Rightarrow> 'e mailbox_iter option" where
  "mailbox_iter range_iter s now = mailbox_iter_new range_iter s UNIX_EPOCH now"

definition reload_cache ::
  "(int durable_range \<Rightarrow> 's \<Rightarrow> 'e event_entry list option) \<Rightarrow> 's \<Rightarrow> 'e mailbox_iter \<Rightarrow> 'e mailbox_iter option" where
  "reload_cache range_iter s it =
     map_option (\<lambda>xs. let cache = take ITER_CACHE_SIZE xs in
         it\<lparr>mi_cache := cache, mi_start_search := search_from (mi_end_search it) cache\<rparr>)
       (range_iter (range_of_bounds (Excluded (mi_start_search it)) (Excluded (mi_end_search it))) s)"

definition mailbox_iter_next ::
  "(int durable_range \<Rightarrow> 's \<Rightarrow> 'e event_entry list option) \<Rightarrow> 's \<Rightarrow> 'e mailbox_iter \<Rightarrow>
   ((int \<times> 'e) option \<times> 'e mailbox_iter) option" where
  "mailbox_iter_next range_iter s it =
     map_option (\<lambda>it'. case mi_cache it' of
         [] \<Rightarrow> (None, it')
       | x # xs \<Rightarrow> (Some (ev_timestamp x, ev_event x), it'\<lparr>mi_cache := xs\<rparr>))
       (if mi_cache it = [] \<and> mi_start_search it < mi_end_search it
        then reload_cache range_iter s it else Some it)"

text \<open>Reading the iterator until it ends, at most \<open>n\<close> steps; the set does not change meanwhile.\<close>

fun mailbox_read ::
  "(int durable_range \<Rightarrow> 's \<Rightarrow> 'e event_entry list option) \<Rightarrow> 's \<Rightarrow> nat \<Rightarrow> 'e mailbox_iter \<Rightarrow>
   (int \<times> 'e) list option" where
  "mailbox_read range_iter s 0 it = Some []"
| "mailbox_read range_iter s (Suc n) it =
     (case mailbox_iter_next range_iter s it of
        None \<Rightarrow> None
      | Some (None, it') \<Rightarrow> Some []
      | Some (Some x, it') \<Rightarrow> map_option ((#) x) (mailbox_read range_iter s n it'))"

text \<open>Reading while the set changes: a set for every step.\<close>

fun mailbox_read_live ::
  "(int durable_range \<Rightarrow> 's \<Rightarrow> 'e event_entry list option) \<Rightarrow> 's list \<Rightarrow> 'e mailbox_iter \<Rightarrow>
   (int \<times> 'e) list option" where
  "mailbox_read_live range_iter [] it = Some []"
| "mailbox_read_live range_iter (s # ss) it =
     (case mailbox_iter_next range_iter s it of
        None \<Rightarrow> None
      | Some (None, it') \<Rightarrow> mailbox_read_live range_iter ss it'
      | Some (Some x, it') \<Rightarrow> map_option ((#) x) (mailbox_read_live range_iter ss it'))"

section \<open>The iterator over any ordered set\<close>

abbreviation entry_pair :: "'e event_entry \<Rightarrow> int \<times> 'e" where
  "entry_pair x \<equiv> (ev_timestamp x, ev_event x)"

lemma sorted_page:
  assumes "sorted_wrt (<) (map f xs)" and "take n xs \<noteq> []"
  shows "set (drop n xs) = {x \<in> set xs. f (last (take n xs)) < (f x :: int)}"
proof -
  have split: "xs = butlast (take n xs) @ [last (take n xs)] @ drop n xs"
    using assms(2) by (metis append_assoc append_butlast_last_id append_take_drop_id)
  have "sorted_wrt (<) (map f (butlast (take n xs) @ [last (take n xs)] @ drop n xs))"
    using assms(1) split by metis
  then have *: "\<forall>x \<in> set (butlast (take n xs)). f x < f (last (take n xs))"
    "\<forall>x \<in> set (drop n xs). f (last (take n xs)) < f x"
    by (auto simp: sorted_wrt_append)
  have "set xs = set (butlast (take n xs)) \<union> {last (take n xs)} \<union> set (drop n xs)"
    by (subst split) auto
  with * show ?thesis by fastforce
qed

locale mailbox_store = durable_ordered_set ev_timestamp inv elems has_room add remove contains len
    get_by_index range_iter first last_item
  for inv :: "'s \<Rightarrow> bool" and elems :: "'s \<Rightarrow> 'e event_entry set" and has_room add remove contains len
    get_by_index range_iter first last_item
begin

lemma range_exists:
  assumes "inv s" and "\<not> range_panics a b"
  shows "\<exists>xs. range_iter (range_of_bounds a b) s = Some xs"
  using range_iter_panics [OF assms(1), of "range_of_bounds a b"] assms(2)
  by (cases "range_iter (range_of_bounds a b) s") (auto simp: range_of_bounds_def)

lemma range_half_open_exists:
  assumes "inv s" and "a \<le> b"
  shows "\<exists>xs. range_iter (range_half_open a b) s = Some xs"
  using range_iter_panics [OF assms(1), of "range_half_open a b"] assms(2)
  by (cases "range_iter (range_half_open a b) s") (auto simp: range_half_open_def)

text \<open>What the iterator has still to yield: its page, and what the set holds after it.\<close>

definition remaining :: "'s \<Rightarrow> 'e mailbox_iter \<Rightarrow> 'e event_entry list" where
  "remaining s it = mi_cache it @
     (if mi_start_search it < mi_end_search it
      then the (range_iter (range_of_bounds (Excluded (mi_start_search it)) (Excluded (mi_end_search it))) s)
      else [])"

lemma rest_of_page:
  assumes "inv s" and "range_iter r s = Some xs" and "range_end r = Excluded e"
    and "\<And>x. in_range r x \<Longrightarrow> x < e"
  shows "remaining s \<lparr>mi_start_search = search_from e (take ITER_CACHE_SIZE xs), mi_end_search = e,
    mi_cache = take ITER_CACHE_SIZE xs\<rparr> = xs"
proof (cases "take ITER_CACHE_SIZE xs = []")
  case True
  then have "xs = []" by (simp add: ITER_CACHE_SIZE_def)
  then show ?thesis by (simp add: remaining_def search_from_def)
next
  case False
  let ?l = "last (take ITER_CACHE_SIZE xs)"
  note xs = range_iter_elems [OF assms(1,2)]
  have "?l \<in> set xs" using False last_in_set in_set_takeD by metis
  then have l: "in_range r (ev_timestamp ?l)" "ev_timestamp ?l < e" using xs assms(4) by auto
  then obtain ys where ys: "range_iter (range_of_bounds (Excluded (ev_timestamp ?l)) (Excluded e)) s = Some ys"
    using range_exists [OF assms(1), of "Excluded (ev_timestamp ?l)" "Excluded e"] by auto
  have above: "above (range_start r) t" if "ev_timestamp ?l < t" for t
    using that l(1) by (cases "range_start r") (auto simp: in_range_def)
  have "set (drop ITER_CACHE_SIZE xs) = {x \<in> set xs. ev_timestamp ?l < ev_timestamp x}"
    using sorted_page [of ev_timestamp xs ITER_CACHE_SIZE] xs False by blast
  also have "\<dots> = {x \<in> elems s. in_range (range_of_bounds (Excluded (ev_timestamp ?l)) (Excluded e)) (ev_timestamp x)}"
    using xs assms(3) above by (auto simp: in_range_def range_of_bounds_def)
  finally have "ys = drop ITER_CACHE_SIZE xs"
    using range_iter_unique [OF assms(1) ys] xs by (metis drop_map sorted_wrt_drop)
  with False l ys show ?thesis by (simp add: remaining_def search_from_def)
qed

lemma iter_new_remaining:
  assumes "inv s" and "a \<le> b"
  shows "\<exists>it xs. mailbox_iter_new range_iter s a b = Some it \<and>
    range_iter (range_half_open a b) s = Some xs \<and> remaining s it = xs"
proof -
  from range_half_open_exists [OF assms] obtain xs where
    "range_iter (range_half_open a b) s = Some xs" by blast
  with rest_of_page [OF assms(1) this, of b] show ?thesis
    by (simp add: mailbox_iter_new_def Let_def range_half_open_def in_range_def)
qed

lemma reload_remaining:
  assumes "inv s" and "mi_cache it = []" and "mi_start_search it < mi_end_search it"
  shows "\<exists>it'. reload_cache range_iter s it = Some it' \<and> remaining s it' = remaining s it \<and>
    (mi_cache it' = [] \<longrightarrow> remaining s it' = [])"
proof -
  let ?r = "range_of_bounds (Excluded (mi_start_search it)) (Excluded (mi_end_search it))"
  obtain xs where xs: "range_iter ?r s = Some xs"
    using range_exists [OF assms(1), of "Excluded (mi_start_search it)" "Excluded (mi_end_search it)"]
      assms(3) by auto
  have it': "reload_cache range_iter s it =
      Some \<lparr>mi_start_search = search_from (mi_end_search it) (take ITER_CACHE_SIZE xs),
        mi_end_search = mi_end_search it, mi_cache = take ITER_CACHE_SIZE xs\<rparr>"
    using xs by (simp add: reload_cache_def Let_def)
  have "remaining s it = xs" using assms(2,3) xs by (simp add: remaining_def)
  with it' rest_of_page [OF assms(1) xs, of "mi_end_search it"] show ?thesis
    by (auto simp: range_of_bounds_def in_range_def ITER_CACHE_SIZE_def)
qed

lemma next_remaining:
  assumes "inv s"
  shows "\<exists>it'. mailbox_iter_next range_iter s it =
    Some (case remaining s it of [] \<Rightarrow> None | x # _ \<Rightarrow> Some (entry_pair x), it') \<and>
    remaining s it' = tl (remaining s it)"
proof -
  obtain it1 where it1: "remaining s it1 = remaining s it" "mi_cache it1 = [] \<longrightarrow> remaining s it1 = []"
    "(if mi_cache it = [] \<and> mi_start_search it < mi_end_search it
      then reload_cache range_iter s it else Some it) = Some it1"
  proof (cases "mi_cache it = [] \<and> mi_start_search it < mi_end_search it")
    case True
    with reload_remaining [OF assms, of it] obtain it' where
      "reload_cache range_iter s it = Some it'" "remaining s it' = remaining s it"
      "mi_cache it' = [] \<longrightarrow> remaining s it' = []" by blast
    with True that [of it'] show ?thesis by simp
  next
    case False
    then have "mi_cache it = [] \<longrightarrow> remaining s it = []" by (simp add: remaining_def)
    with False that [of it] show ?thesis by auto
  qed
  show ?thesis
  proof (cases "mi_cache it1")
    case Nil
    with it1 show ?thesis by (simp add: mailbox_iter_next_def)
  next
    case (Cons x xs)
    then have "remaining s it1 = x # remaining s (it1\<lparr>mi_cache := xs\<rparr>)" by (simp add: remaining_def)
    then have "remaining s it = x # remaining s (it1\<lparr>mi_cache := xs\<rparr>)" by (simp only: it1(1))
    with Cons it1(3) show ?thesis by (simp add: mailbox_iter_next_def)
  qed
qed

lemma read_remaining:
  assumes "inv s"
  shows "length (remaining s it) < n \<Longrightarrow>
    mailbox_read range_iter s n it = Some (map entry_pair (remaining s it))"
proof (induction n arbitrary: it)
  case 0
  then show ?case by simp
next
  case (Suc n)
  from next_remaining [OF assms, of it] obtain it' where it':
    "mailbox_iter_next range_iter s it =
      Some (case remaining s it of [] \<Rightarrow> None | x # _ \<Rightarrow> Some (entry_pair x), it')"
    "remaining s it' = tl (remaining s it)" by blast
  show ?case
  proof (cases "remaining s it")
    case Nil
    with it' show ?thesis by simp
  next
    case (Cons x xs)
    with it' Suc show ?thesis by simp
  qed
qed

text \<open>While the set changes: everything the page holds is later than what was yielded and not later
  than the start of the next search.\<close>

definition live_ok :: "int \<Rightarrow> 'e mailbox_iter \<Rightarrow> bool" where
  "live_ok lo it \<longleftrightarrow> sorted_wrt (<) (map ev_timestamp (mi_cache it)) \<and> lo \<le> mi_start_search it \<and>
     (\<forall>x \<in> set (mi_cache it). lo < ev_timestamp x \<and> ev_timestamp x \<le> mi_start_search it \<and>
        ev_timestamp x < mi_end_search it)"

lemma page_ok:
  assumes "inv s" and "range_iter r s = Some xs" and "\<And>t. in_range r t \<Longrightarrow> lo < t \<and> t < e" and "lo \<le> e"
  shows "live_ok lo \<lparr>mi_start_search = search_from e (take ITER_CACHE_SIZE xs), mi_end_search = e,
    mi_cache = take ITER_CACHE_SIZE xs\<rparr>"
proof -
  note xs = range_iter_elems [OF assms(1,2)]
  let ?c = "take ITER_CACHE_SIZE xs"
  have sorted: "sorted_wrt (<) (map ev_timestamp ?c)" using xs by (simp add: take_map [symmetric] sorted_wrt_take)
  have bounds: "lo < ev_timestamp x \<and> ev_timestamp x < e" if "x \<in> set ?c" for x
    using that xs assms(3) by (auto dest!: in_set_takeD)
  have "ev_timestamp x \<le> ev_timestamp (last ?c)" if "x \<in> set ?c" for x
  proof (cases "?c" rule: rev_cases)
    case Nil
    with that show ?thesis by (metis empty_iff empty_set)
  next
    case (snoc ys y)
    with sorted that show ?thesis by (auto simp: sorted_wrt_append)
  qed
  moreover have "lo \<le> search_from e ?c"
    using bounds [of "last ?c"] assms(4) by (cases "?c = []") (auto simp: search_from_def)
  ultimately show ?thesis using sorted bounds by (auto simp: live_ok_def search_from_def)
qed

lemma next_live:
  assumes "inv s" and "live_ok lo it" and "lo \<le> mi_end_search it"
  shows "\<exists>y it'. mailbox_iter_next range_iter s it = Some (y, it') \<and> mi_end_search it' = mi_end_search it \<and>
    (case y of None \<Rightarrow> live_ok lo it' | Some z \<Rightarrow> lo < fst z \<and> fst z < mi_end_search it \<and> live_ok (fst z) it')"
proof -
  obtain it1 where it1: "live_ok lo it1" "mi_end_search it1 = mi_end_search it"
    "(if mi_cache it = [] \<and> mi_start_search it < mi_end_search it
      then reload_cache range_iter s it else Some it) = Some it1"
  proof (cases "mi_cache it = [] \<and> mi_start_search it < mi_end_search it")
    case True
    let ?r = "range_of_bounds (Excluded (mi_start_search it)) (Excluded (mi_end_search it))"
    obtain xs where xs: "range_iter ?r s = Some xs"
      using range_exists [OF assms(1), of "Excluded (mi_start_search it)" "Excluded (mi_end_search it)"]
        True by auto
    have "lo \<le> mi_start_search it" using assms(2) by (simp add: live_ok_def)
    with page_ok [OF assms(1) xs, of lo "mi_end_search it"] xs True assms(3) that show ?thesis
      by (simp add: reload_cache_def Let_def in_range_def range_of_bounds_def)
  next
    case False
    with assms that [of it] show ?thesis by auto
  qed
  show ?thesis
  proof (cases "mi_cache it1")
    case Nil
    with it1 show ?thesis by (simp add: mailbox_iter_next_def)
  next
    case (Cons x xs)
    with it1 show ?thesis by (auto simp: mailbox_iter_next_def live_ok_def)
  qed
qed

lemma read_live_ascending:
  assumes "\<And>s. s \<in> set ss \<Longrightarrow> inv s" and "live_ok lo it" and "lo \<le> mi_end_search it"
  shows "\<exists>ys. mailbox_read_live range_iter ss it = Some ys \<and> sorted_wrt (<) (map fst ys) \<and>
    (\<forall>y \<in> set ys. lo < fst y \<and> fst y < mi_end_search it)"
  using assms
proof (induction ss arbitrary: lo it)
  case Nil
  then show ?case by simp
next
  case (Cons s ss)
  from next_live [of s lo it] Cons.prems obtain y it' where it':
    "mailbox_iter_next range_iter s it = Some (y, it')" "mi_end_search it' = mi_end_search it"
    "case y of None \<Rightarrow> live_ok lo it' | Some z \<Rightarrow> lo < fst z \<and> fst z < mi_end_search it \<and> live_ok (fst z) it'"
    by auto
  show ?case
  proof (cases y)
    case None
    with Cons.IH [of lo it'] Cons.prems it' show ?thesis by simp
  next
    case (Some z)
    with Cons.IH [of "fst z" it'] Cons.prems it' obtain ys where
      "mailbox_read_live range_iter ss it' = Some ys" "sorted_wrt (<) (map fst ys)"
      "\<forall>y \<in> set ys. fst z < fst y \<and> fst y < mi_end_search it" by auto
    with Some it' show ?thesis by (auto intro: less_trans)
  qed
qed

lemma iter_new_live:
  assumes "inv s" and "a \<le> b" and "mailbox_iter_new range_iter s a b = Some it"
  shows "live_ok (a - 1) it" and "mi_end_search it = b"
proof -
  from range_half_open_exists [OF assms(1,2)] obtain xs where
    xs: "range_iter (range_half_open a b) s = Some xs" by blast
  with assms(3) page_ok [OF assms(1) xs, of "a - 1" b] assms(2)
  show "live_ok (a - 1) it" "mi_end_search it = b"
    by (auto simp: mailbox_iter_new_def Let_def in_range_def range_half_open_def)
qed

end

section \<open>The mailbox of the admin service\<close>

interpretation mb: mailbox_store "btree_inv ev_timestamp" "\<lambda>s. set (bt_inner s)" btree_has_room
  "btree_add ev_timestamp" "btree_remove ev_timestamp" "btree_contains ev_timestamp" btree_len
  "btree_get_by_index ev_timestamp" "btree_range_iter ev_timestamp" btree_first btree_last
  by unfold_locales

text \<open>C29. Reading the mailbox: the paging iterator yields every event recorded before the moment it was
  made, each once, in the order of their times, however many pages that takes, and never asks the set
  for a range that would panic.\<close>

theorem mailbox_iter_yields_all:
  assumes "btree_inv ev_timestamp s" and "UNIX_EPOCH \<le> now"
  shows "\<exists>it. mailbox_iter (btree_range_iter ev_timestamp) s now = Some it \<and>
    mailbox_read (btree_range_iter ev_timestamp) s (Suc (btree_len s)) it =
      Some (map entry_pair (filter (\<lambda>x. UNIX_EPOCH \<le> ev_timestamp x \<and> ev_timestamp x < now) (btree_iter s)))"
proof -
  from mb.iter_new_remaining [OF assms] obtain it xs where it:
    "mailbox_iter_new (btree_range_iter ev_timestamp) s UNIX_EPOCH now = Some it"
    "btree_range_iter ev_timestamp (range_half_open UNIX_EPOCH now) s = Some xs"
    "mb.remaining s it = xs" by blast
  have xs: "xs = filter (\<lambda>x. UNIX_EPOCH \<le> ev_timestamp x \<and> ev_timestamp x < now) (btree_iter s)"
    using it(2) by (simp add: btree_range_iter_def bset_range_def range_half_open_def in_range_def
        btree_iter_def split: if_splits)
  have "length xs \<le> btree_len s" by (simp add: xs btree_iter_def btree_len_def)
  then have "length (mb.remaining s it) < Suc (btree_len s)" using it(3) by simp
  from mb.read_remaining [OF assms(1) this] it xs show ?thesis by (simp add: mailbox_iter_def)
qed

theorem mailbox_iter_yields_all_witness:
  "\<exists>it. mailbox_iter (btree_range_iter ev_timestamp)
       \<lparr>bt_inner = [\<lparr>ev_timestamp = 5, ev_event = ''a''\<rparr>, \<lparr>ev_timestamp = 7, ev_event = ''b''\<rparr>], bt_bound = 100\<rparr> 7 =
     Some it \<and>
   mailbox_read (btree_range_iter ev_timestamp)
       \<lparr>bt_inner = [\<lparr>ev_timestamp = 5, ev_event = ''a''\<rparr>, \<lparr>ev_timestamp = 7, ev_event = ''b''\<rparr>], bt_bound = 100\<rparr>
       3 it = Some [(5, ''a'')]"
  using mailbox_iter_yields_all [of "\<lparr>bt_inner = [\<lparr>ev_timestamp = 5, ev_event = ''a''\<rparr>,
      \<lparr>ev_timestamp = 7, ev_event = ''b''\<rparr>], bt_bound = 100\<rparr>" 7]
  by (simp add: btree_inv_def UNIX_EPOCH_def btree_len_def btree_iter_def eval_nat_numeral)

text \<open>Reading the mailbox while events are added and evicted: whatever happens to the set between the
  steps, the iterator does not panic and the times of the events it yields are strictly ascending and
  before the moment it was made, so no event is yielded twice.\<close>

theorem mailbox_live_read_ascending:
  assumes "btree_inv ev_timestamp s" and "UNIX_EPOCH \<le> now"
    and "\<And>t. t \<in> set ss \<Longrightarrow> btree_inv ev_timestamp t"
    and "mailbox_iter (btree_range_iter ev_timestamp) s now = Some it"
  shows "\<exists>ys. mailbox_read_live (btree_range_iter ev_timestamp) ss it = Some ys \<and>
    sorted_wrt (<) (map fst ys) \<and> (\<forall>y \<in> set ys. UNIX_EPOCH \<le> fst y \<and> fst y < now)"
proof -
  note new = mb.iter_new_live [OF assms(1,2) assms(4) [unfolded mailbox_iter_def]]
  have "UNIX_EPOCH - 1 \<le> mi_end_search it" using new(2) assms(2) by simp
  from mb.read_live_ascending [OF assms(3) new(1) this] new(2) show ?thesis by fastforce
qed

theorem mailbox_live_read_ascending_witness:
  "\<exists>ys. mailbox_read_live (btree_range_iter ev_timestamp)
     [btree_new_with_bound 1, \<lparr>bt_inner = [\<lparr>ev_timestamp = 6, ev_event = ''c''\<rparr>], bt_bound = 1\<rparr>]
     \<lparr>mi_start_search = 5, mi_end_search = 9, mi_cache = [\<lparr>ev_timestamp = 5, ev_event = ''a''\<rparr>]\<rparr> = Some ys \<and>
   sorted_wrt (<) (map fst ys)"
proof -
  let ?s = "\<lparr>bt_inner = [\<lparr>ev_timestamp = 5, ev_event = ''a''\<rparr>], bt_bound = 1\<rparr>"
  let ?t = "\<lparr>bt_inner = [\<lparr>ev_timestamp = 6, ev_event = ''c''\<rparr>], bt_bound = 1\<rparr>"
  let ?it = "\<lparr>mi_start_search = 5, mi_end_search = 9, mi_cache = [\<lparr>ev_timestamp = 5, ev_event = ''a''\<rparr>]\<rparr>"
  have "mailbox_iter (btree_range_iter ev_timestamp) ?s 9 = Some ?it"
    by (simp add: mailbox_iter_def mailbox_iter_new_def btree_range_iter_def bset_range_def UNIX_EPOCH_def
        range_half_open_def in_range_def search_from_def ITER_CACHE_SIZE_def)
  moreover have "btree_inv ev_timestamp u" if "u \<in> set [btree_new_with_bound 1, ?t]" for u
    using that btree_inv_new(2) [of 1 ev_timestamp] by (auto simp: btree_inv_def)
  moreover have "btree_inv ev_timestamp ?s" by (simp add: btree_inv_def)
  ultimately show ?thesis
    using mailbox_live_read_ascending [of ?s 9 "[btree_new_with_bound 1, ?t]" ?it]
    unfolding UNIX_EPOCH_def by (metis zero_le_numeral)
qed

end
