(* ===== verification/BTreeMap.thy ===== *)
theory BTreeMap
  imports Splinter_Prelude
begin

text \<open>
  \<open>std::collections::BTreeMap\<close>: a list of pairs in ascending order of the keys. The code relies on the
  order when it iterates. The locale \<open>ordered_map\<close> is what its users rely on.
\<close>

fun bmap_insert :: "'k :: linorder \<Rightarrow> 'v \<Rightarrow> ('k \<times> 'v) list \<Rightarrow> ('k \<times> 'v) list" where
  "bmap_insert k v [] = [(k, v)]"
| "bmap_insert k v ((k', v') # m) =
     (if k < k' then (k, v) # (k', v') # m
      else if k = k' then (k, v) # m
      else (k', v') # bmap_insert k v m)"

definition bmap_get :: "('k \<times> 'v) list \<Rightarrow> 'k \<Rightarrow> 'v option" where
  "bmap_get m k = map_of m k"

definition bmap_remove :: "'k \<Rightarrow> ('k \<times> 'v) list \<Rightarrow> ('k \<times> 'v) list" where
  "bmap_remove k m = filter (\<lambda>p. fst p \<noteq> k) m"

definition bmap_contains_key :: "('k \<times> 'v) list \<Rightarrow> 'k \<Rightarrow> bool" where
  "bmap_contains_key m k = (map_of m k \<noteq> None)"

definition bmap_ok :: "('k :: linorder \<times> 'v) list \<Rightarrow> bool" where
  "bmap_ok m \<longleftrightarrow> sorted_wrt (<) (map fst m)"

section \<open>The contract\<close>

locale ordered_map =
  fixes inv :: "'m \<Rightarrow> bool"
    and get :: "'m \<Rightarrow> 'k :: linorder \<Rightarrow> 'v option"
    and insert :: "'k \<Rightarrow> 'v \<Rightarrow> 'm \<Rightarrow> 'm"
    and remove :: "'k \<Rightarrow> 'm \<Rightarrow> 'm"
    and entries :: "'m \<Rightarrow> ('k \<times> 'v) list"
  assumes insert_inv: "inv m \<Longrightarrow> inv (insert k v m)"
    and remove_inv: "inv m \<Longrightarrow> inv (remove k m)"
    and get_insert: "inv m \<Longrightarrow> get (insert k v m) = (get m)(k \<mapsto> v)"
    and get_remove: "inv m \<Longrightarrow> get (remove k m) = (get m)(k := None)"
    and get_entries: "inv m \<Longrightarrow> get m k = Some v \<longleftrightarrow> (k, v) \<in> set (entries m)"
    and entries_sorted: "inv m \<Longrightarrow> sorted_wrt (<) (map fst (entries m))"
begin

lemma insert_then_get: "inv m \<Longrightarrow> get (insert k v m) k = Some v"
  by (simp add: get_insert)

lemma remove_after_insert:
  "inv m \<Longrightarrow> get m k = None \<Longrightarrow> get (remove k (insert k v m)) = get m"
  by (auto simp: get_insert get_remove insert_inv fun_eq_iff)

lemma entries_distinct: "inv m \<Longrightarrow> distinct (map fst (entries m))"
  using entries_sorted [of m] by (simp add: strict_sorted_iff)

lemma entries_determined:
  assumes "inv m" and "inv m'" and "get m = get m'"
  shows "entries m = entries m'"
proof -
  have eq: "set (entries m) = set (entries m')"
    using get_entries [OF assms(1)] get_entries [OF assms(2)] assms(3) by auto
  then have "map fst (entries m) = map fst (entries m')"
    using entries_sorted [OF assms(1)] entries_sorted [OF assms(2)]
    by (metis list.set_map strict_sorted_equal)
  moreover have "inj_on fst (set (entries m) \<union> set (entries m'))"
    using entries_distinct [OF assms(1)] eq by (simp add: distinct_map)
  ultimately show ?thesis by (rule map_inj_on)
qed

end

section \<open>The map implements it\<close>

lemma bmap_ok_simps [simp]:
  "bmap_ok []"
  "bmap_ok (p # m) \<longleftrightarrow> (\<forall>q \<in> set m. fst p < fst q) \<and> bmap_ok m"
  by (simp_all add: bmap_ok_def)

lemma set_bmap_insert: "set (bmap_insert k v m) \<subseteq> insert (k, v) (set m)"
  by (induction m) (auto split: if_splits)

lemma bmap_ok_insert: "bmap_ok m \<Longrightarrow> bmap_ok (bmap_insert k v m)"
  by (induction m) (fastforce dest: set_bmap_insert [THEN subsetD] intro: less_trans)+

lemma map_of_bmap_insert: "bmap_ok m \<Longrightarrow> map_of (bmap_insert k v m) = (map_of m)(k \<mapsto> v)"
  by (induction m) (auto simp: fun_eq_iff)

lemma map_of_bmap_remove: "map_of (bmap_remove k m) = (map_of m)(k := None)"
  by (induction m) (auto simp: bmap_remove_def fun_eq_iff)

lemma bmap_ok_remove: "bmap_ok m \<Longrightarrow> bmap_ok (bmap_remove k m)"
  by (induction m) (auto simp: bmap_remove_def)

lemma bmap_ok_distinct: "bmap_ok m \<Longrightarrow> distinct (map fst m)"
  by (simp add: bmap_ok_def strict_sorted_iff)

interpretation bm: ordered_map bmap_ok bmap_get bmap_insert bmap_remove "\<lambda>m. m"
proof unfold_locales
  fix m :: "('a :: linorder \<times> 'b) list" and k v
  assume ok: "bmap_ok m"
  show "bmap_ok (bmap_insert k v m)" using ok by (rule bmap_ok_insert)
  show "bmap_ok (bmap_remove k m)" using ok by (rule bmap_ok_remove)
  show "bmap_get (bmap_insert k v m) = (bmap_get m)(k \<mapsto> v)"
    using map_of_bmap_insert [OF ok] by (simp add: bmap_get_def fun_eq_iff)
  show "bmap_get (bmap_remove k m) = (bmap_get m)(k := None)"
    by (simp add: bmap_get_def map_of_bmap_remove fun_eq_iff)
  show "bmap_get m k = Some v \<longleftrightarrow> (k, v) \<in> set m"
    using bmap_ok_distinct [OF ok] by (simp add: bmap_get_def)
  show "sorted_wrt (<) (map fst m)" using ok by (simp add: bmap_ok_def)
qed

end
