(* ===== verification/Keys.thy ===== *)
theory Keys
  imports BTreeMap Hex "HOL-Library.List_Lexorder" "HOL-Library.Char_ord"
begin

text \<open>
  The key registry: \<^verbatim>\<open>libsplinter/src/keys/mod.rs\<close>, the registry kept in storage
  (\<^verbatim>\<open>keys/storage.rs\<close>) and the permission manager of \<^verbatim>\<open>keys/insecure.rs\<close>.

  The registry maps the hexadecimal form of a public key to a record of strings, in a \<open>BTreeMap\<close>; strings
  are ordered as byte strings, which is the order of \<open>List_Lexorder\<close>. The argument \<open>storage\<close> is the outcome
  of opening the storage; what was written last is the field \<open>kr_stored\<close>. The locks are not modelled.
  A stored key that cannot be read is an error; the panic of the parser on a stored key with a multi-byte character
  is not told apart from it, as the registry only stores what \<open>to_hex\<close> returns.
\<close>

section \<open>Definitions\<close>

record key_info =
  ki_public_key :: bytes
  ki_associated_node_id :: string
  ki_metadata :: "string \<rightharpoonup> string"

definition key_info_builder :: "bytes \<Rightarrow> string \<Rightarrow> key_info" where
  "key_info_builder public_key node_id =
     \<lparr>ki_public_key = public_key, ki_associated_node_id = node_id, ki_metadata = Map.empty\<rparr>"

definition with_metadata :: "string \<Rightarrow> string \<Rightarrow> key_info \<Rightarrow> key_info" where
  "with_metadata key value b = b\<lparr>ki_metadata := (ki_metadata b)(key \<mapsto> value)\<rparr>"

datatype key_registry_error = KeyRegistryError string

record persisted_key_info =
  pk_public_key :: string
  pk_associated_node_id :: string
  pk_metadata :: "string \<rightharpoonup> string"

type_synonym persisted_key_registry = "(string \<times> persisted_key_info) list"

record key_registry =
  kr_keys :: persisted_key_registry
  kr_stored :: persisted_key_registry

definition persisted_add_key :: "key_info \<Rightarrow> persisted_key_registry \<Rightarrow> persisted_key_registry" where
  "persisted_add_key ki keys =
     (let hex_key = to_hex (ki_public_key ki)
      in bmap_insert hex_key \<lparr>pk_public_key = hex_key, pk_associated_node_id = ki_associated_node_id ki,
           pk_metadata = ki_metadata ki\<rparr> keys)"

text \<open>The metadata is copied entry by entry into an empty map, which gives the same map.\<close>

definition persisted_try_into :: "persisted_key_info \<Rightarrow> (key_info, key_registry_error) result" where
  "persisted_try_into p =
     (case parse_hex (pk_public_key p) of
        Err _ \<Rightarrow> Err (KeyRegistryError (''Unable to parse public key: '' @ pk_public_key p))
      | Ok public_key \<Rightarrow>
          Ok ((key_info_builder public_key (pk_associated_node_id p))\<lparr>ki_metadata := pk_metadata p\<rparr>))"

definition key_registry_new ::
  "(persisted_key_registry, string) result \<Rightarrow> (key_registry, key_registry_error) result" where
  "key_registry_new storage =
     (case storage of
        Err e \<Rightarrow> Err (KeyRegistryError (''unable to load storage: '' @ e))
      | Ok keys \<Rightarrow> Ok \<lparr>kr_keys = keys, kr_stored = keys\<rparr>)"

definition write_key_registry :: "(unit, string) result \<Rightarrow> (key_registry, unit, key_registry_error) action" where
  "write_key_registry storage r =
     (case storage of
        Err e \<Rightarrow> (Err (KeyRegistryError (''unable to load key registry: '' @ e)), r)
      | Ok _ \<Rightarrow> (Ok (), r\<lparr>kr_stored := kr_keys r\<rparr>))"

definition save_key ::
  "(unit, string) result \<Rightarrow> key_info \<Rightarrow> (key_registry, unit, key_registry_error) action" where
  "save_key storage ki =
     bind_act (modify_act (\<lambda>r. r\<lparr>kr_keys := persisted_add_key ki (kr_keys r)\<rparr>))
       (\<lambda>_. write_key_registry storage)"

definition save_keys ::
  "(unit, string) result \<Rightarrow> key_info list \<Rightarrow> (key_registry, unit, key_registry_error) action" where
  "save_keys storage kis =
     bind_act (modify_act (\<lambda>r. r\<lparr>kr_keys := fold persisted_add_key kis (kr_keys r)\<rparr>))
       (\<lambda>_. write_key_registry storage)"

definition delete_key :: "bytes \<Rightarrow> (key_registry, key_info option, key_registry_error) action" where
  "delete_key public_key = fail_act (KeyRegistryError ''Operation not supported'')"

definition get_key :: "key_registry \<Rightarrow> bytes \<Rightarrow> (key_info option, key_registry_error) result" where
  "get_key r public_key =
     (case bmap_get (kr_keys r) (to_hex public_key) of
        None \<Rightarrow> Ok None
      | Some p \<Rightarrow> map_result Some (persisted_try_into p))"

definition key_count :: "key_registry \<Rightarrow> nat" where
  "key_count r = length (kr_keys r)"

text \<open>\<open>KeyRegistryIter::next\<close>: the index of the next entry; entries that cannot be read are skipped.\<close>

function key_iter_next :: "persisted_key_registry \<Rightarrow> nat \<Rightarrow> key_info option \<times> nat" where
  "key_iter_next keys i =
     (if i < length keys then
        (case persisted_try_into (snd (keys ! i)) of
           Ok ki \<Rightarrow> (Some ki, Suc i)
         | Err _ \<Rightarrow> key_iter_next keys (Suc i))
      else (None, i))"
  by auto
termination by (relation "measure (\<lambda>(keys, i). length keys - i)") auto

declare key_iter_next.simps [simp del]

text \<open>The whole iteration, started at an index.\<close>

lemma key_iter_next_index: "key_iter_next keys i = (Some ki, j) \<Longrightarrow> i < j \<and> j \<le> length keys"
proof (induction keys i rule: key_iter_next.induct)
  case (1 keys i)
  from 1(2) show ?case
    by (subst (asm) key_iter_next.simps)
      (auto split: if_splits result.splits dest: "1.IH")
qed

function keys_from :: "persisted_key_registry \<Rightarrow> nat \<Rightarrow> key_info list" where
  "keys_from keys i =
     (case key_iter_next keys i of
        (None, j) \<Rightarrow> []
      | (Some ki, j) \<Rightarrow> ki # keys_from keys j)"
  by auto
termination
  by (relation "measure (\<lambda>(keys, i). length keys - i)") (auto dest!: key_iter_next_index [OF sym])

declare keys_from.simps [simp del]

definition registry_keys :: "key_registry \<Rightarrow> key_info list" where
  "registry_keys r = keys_from (kr_keys r) 0"

definition allow_all_is_permitted :: "bytes \<Rightarrow> string \<Rightarrow> (bool, string) result" where
  "allow_all_is_permitted public_key role = Ok True"

section \<open>Lemmas\<close>

lemma keys_from_eq:
  "keys_from keys i = List.map_filter (\<lambda>p. case persisted_try_into (snd p) of Ok k \<Rightarrow> Some k | Err _ \<Rightarrow> None)
     (drop i keys)"
proof (induction "length keys - i" arbitrary: i rule: less_induct)
  case less
  show ?case
  proof (cases "i < length keys")
    case False
    then show ?thesis
      by (simp add: keys_from.simps [of keys i] key_iter_next.simps [of keys i] List.map_filter_def)
  next
    case True
    then have drop: "drop i keys = keys ! i # drop (Suc i) keys" by (rule Cons_nth_drop_Suc [symmetric])
    have IH: "keys_from keys (Suc i) =
        List.map_filter (\<lambda>p. case persisted_try_into (snd p) of Ok k \<Rightarrow> Some k | Err _ \<Rightarrow> None)
          (drop (Suc i) keys)"
      using True less.hyps [of "Suc i"] by simp
    show ?thesis
    proof (cases "persisted_try_into (snd (keys ! i))")
      case (Ok ki)
      with True have "key_iter_next keys i = (Some ki, Suc i)" by (simp add: key_iter_next.simps [of keys i])
      with Ok IH drop show ?thesis
        by (simp add: keys_from.simps [of keys i] List.map_filter_def)
    next
      case (Err e)
      with True have "key_iter_next keys i = key_iter_next keys (Suc i)"
        by (simp add: key_iter_next.simps [of keys i])
      then have "keys_from keys i = keys_from keys (Suc i)"
        by (simp add: keys_from.simps [of keys i] keys_from.simps [of keys "Suc i"])
      with Err IH drop show ?thesis by (simp add: List.map_filter_def)
    qed
  qed
qed

text \<open>Registries built by \<open>save_key\<close>: every entry is stored under the hexadecimal form of its key.\<close>

definition registry_wf :: "persisted_key_registry \<Rightarrow> bool" where
  "registry_wf keys \<longleftrightarrow> bmap_ok keys \<and>
     (\<forall>(k, p) \<in> set keys. pk_public_key p = k \<and> (\<exists>b. k = to_hex b))"

lemma registry_wf_empty [simp]: "registry_wf []"
  by (simp add: registry_wf_def)

lemma registry_wf_add:
  assumes "registry_wf keys"
  shows "registry_wf (persisted_add_key ki keys)"
proof -
  let ?h = "to_hex (ki_public_key ki)"
  let ?p = "\<lparr>pk_public_key = ?h, pk_associated_node_id = ki_associated_node_id ki,
    pk_metadata = ki_metadata ki\<rparr>"
  have "pk_public_key p = k \<and> (\<exists>b. k = to_hex b)" if "(k, p) \<in> set (bmap_insert ?h ?p keys)" for k p
    using subsetD [OF set_bmap_insert that] assms by (auto simp: registry_wf_def)
  with assms show ?thesis
    by (auto simp: registry_wf_def persisted_add_key_def Let_def bmap_ok_insert)
qed

lemma registry_wf_add_all: "registry_wf keys \<Longrightarrow> registry_wf (fold persisted_add_key kis keys)"
  by (induction kis arbitrary: keys) (simp_all add: registry_wf_add)

definition registry_lookup :: "persisted_key_registry \<Rightarrow> bytes \<Rightarrow> key_info option" where
  "registry_lookup keys public_key =
     (case bmap_get keys (to_hex public_key) of
        None \<Rightarrow> None
      | Some p \<Rightarrow> Some \<lparr>ki_public_key = public_key, ki_associated_node_id = pk_associated_node_id p,
                      ki_metadata = pk_metadata p\<rparr>)"

lemma get_key_lookup:
  assumes "registry_wf (kr_keys r)"
  shows "get_key r public_key = Ok (registry_lookup (kr_keys r) public_key)"
proof (cases "bmap_get (kr_keys r) (to_hex public_key)")
  case None
  then show ?thesis by (simp add: get_key_def registry_lookup_def)
next
  case (Some p)
  with assms have "pk_public_key p = to_hex public_key"
    by (auto simp: registry_wf_def bmap_get_def dest!: map_of_SomeD)
  with Some show ?thesis
    by (simp add: get_key_def registry_lookup_def persisted_try_into_def parse_hex_to_hex key_info_builder_def)
qed

lemma registry_lookup_add:
  assumes "bmap_ok keys"
  shows "registry_lookup (persisted_add_key ki keys) = (registry_lookup keys)(ki_public_key ki \<mapsto> ki)"
  using bm.get_insert [OF assms, of "to_hex (ki_public_key ki)"]
  by (auto simp: registry_lookup_def persisted_add_key_def Let_def fun_eq_iff)

section \<open>Properties\<close>

text \<open>The registry is a map from public keys to their information: after saving any list of keys, the
  information found for a public key is what was saved last for it, no two keys are confused by the
  hexadecimal form they are stored under, and no lookup fails.\<close>

theorem saved_keys_are_found:
  "get_key (snd (save_keys storage kis \<lparr>kr_keys = [], kr_stored = st\<rparr>)) public_key =
     Ok (map_of (rev (map (\<lambda>ki. (ki_public_key ki, ki)) kis)) public_key)"
proof -
  have *: "registry_lookup (fold persisted_add_key kis keys) =
      registry_lookup keys ++ map_of (rev (map (\<lambda>ki. (ki_public_key ki, ki)) kis))"
    if "registry_wf keys" for keys
    using that
  proof (induction kis arbitrary: keys)
    case Nil
    then show ?case by simp
  next
    case (Cons ki kis)
    then have "bmap_ok keys" by (simp add: registry_wf_def)
    with Cons show ?case by (simp add: registry_wf_add registry_lookup_add map_add_upd_left)
        (simp add: map_add_def fun_eq_iff split: option.split)
  qed
  have keys: "kr_keys (snd (save_keys storage kis \<lparr>kr_keys = [], kr_stored = st\<rparr>)) = fold persisted_add_key kis []"
    by (simp add: save_keys_def bind_act_def modify_act_def write_key_registry_def split: result.split)
  have "registry_lookup [] = Map.empty"
    by (simp add: registry_lookup_def bmap_get_def fun_eq_iff)
  with keys * [of "[]"] show ?thesis by (simp add: get_key_lookup registry_wf_add_all)
qed

text \<open>Iterating over the registry yields the information of every registered key, in the order of the
  hexadecimal forms, and as many as \<open>count\<close> says.\<close>

theorem registry_iteration_complete:
  assumes "registry_wf (kr_keys r)"
  shows "map (\<lambda>ki. to_hex (ki_public_key ki)) (registry_keys r) = map fst (kr_keys r) \<and>
    length (registry_keys r) = key_count r \<and>
    (\<forall>ki \<in> set (registry_keys r). get_key r (ki_public_key ki) = Ok (Some ki))"
proof -
  let ?f = "\<lambda>p. case persisted_try_into (snd p) of Ok k \<Rightarrow> Some k | Err _ \<Rightarrow> None"
  let ?ks = "kr_keys r"
  have read: "\<exists>ki. ?f kp = Some ki \<and> to_hex (ki_public_key ki) = fst kp \<and>
      get_key r (ki_public_key ki) = Ok (Some ki)" if "kp \<in> set ?ks" for kp
  proof -
    obtain k p where kp: "kp = (k, p)" by (cases kp)
    with that assms obtain b where b: "k = to_hex b" "pk_public_key p = to_hex b"
      by (auto simp: registry_wf_def)
    let ?ki = "\<lparr>ki_public_key = b, ki_associated_node_id = pk_associated_node_id p, ki_metadata = pk_metadata p\<rparr>"
    have "bmap_get ?ks k = Some p"
      using that kp assms bmap_ok_distinct [of ?ks] by (simp add: bmap_get_def registry_wf_def)
    then have "get_key r b = Ok (Some ?ki)"
      using b assms by (simp add: get_key_lookup registry_lookup_def)
    with b kp show ?thesis by (simp add: persisted_try_into_def parse_hex_to_hex key_info_builder_def)
  qed
  have "map (\<lambda>ki. to_hex (ki_public_key ki)) (List.map_filter ?f kps) = map fst kps \<and>
      (\<forall>ki \<in> set (List.map_filter ?f kps). get_key r (ki_public_key ki) = Ok (Some ki))"
    if "set kps \<subseteq> set ?ks" for kps
    using that
  proof (induction kps)
    case Nil
    show ?case by (simp add: List.map_filter_def)
  next
    case (Cons kp kps)
    with read [of kp] show ?case by (auto simp: List.map_filter_def)
  qed
  from this [OF subset_refl]
  have *: "map (\<lambda>ki. to_hex (ki_public_key ki)) (registry_keys r) = map fst ?ks"
    "\<forall>ki \<in> set (registry_keys r). get_key r (ki_public_key ki) = Ok (Some ki)"
    by (simp_all add: registry_keys_def keys_from_eq)
  moreover from *(1) have "length (registry_keys r) = key_count r"
    unfolding key_count_def by (metis length_map)
  ultimately show ?thesis by simp
qed

theorem registry_iteration_complete_witness:
  "length (registry_keys (snd (save_keys (Ok ()) [key_info_builder [1] ''a'', key_info_builder [2] ''b'']
     \<lparr>kr_keys = [], kr_stored = []\<rparr>))) = 2"
proof -
  let ?r = "snd (save_keys (Ok ()) [key_info_builder [1] ''a'', key_info_builder [2] ''b'']
     \<lparr>kr_keys = [], kr_stored = []\<rparr>)"
  have r: "kr_keys ?r = fold persisted_add_key [key_info_builder [1] ''a'', key_info_builder [2] ''b''] []"
    by (simp add: save_keys_def bind_act_def modify_act_def write_key_registry_def)
  then have "registry_wf (kr_keys ?r)" by (simp only: registry_wf_add_all registry_wf_empty)
  moreover have "key_count ?r = 2"
    unfolding key_count_def r by code_simp
  ultimately show ?thesis using registry_iteration_complete [of ?r] by simp
qed

end
