(* ===== verification/Admin_Messages.thy ===== *)
theory Admin_Messages
  imports Splinter_Prelude
begin

text \<open>
  The messages of circuit management: the protobuf messages of \<^verbatim>\<open>protos/admin.proto\<close>, the types the
  service works with (\<^verbatim>\<open>libsplinter/src/admin/service/messages.rs\<close>) and the conversions between them.

  A protobuf enum has an unset value, which the native types do not have; \<open>from_proto\<close> refuses it. The
  map of the arguments of a service is a repeated message and stays a list of pairs.
\<close>

section \<open>Protobuf messages\<close>

datatype proto_auth_type = UNSET_AUTH_TYPE | TRUST_AUTHORIZATION
datatype proto_persistence = UNSET_PERSISTENCE_TYPE | ANY_PERSISTENCE
datatype proto_durability = UNSET_DURABILITY_TYPE | NO_DURABILITY
datatype proto_route = UNSET_ROUTE_TYPE | ANY_ROUTE
datatype proto_proposal_type =
  UNSET_PROPOSAL_TYPE | CREATE | UPDATE_ROSTER | ADD_NODE | REMOVE_NODE | DESTROY
datatype proto_vote = UNSET_VOTE | ACCEPT | REJECT

record proto_node =
  pn_node_id :: string
  pn_endpoint :: string

record proto_service =
  ps_service_id :: string
  ps_service_type :: string
  ps_allowed_nodes :: "string list"
  ps_arguments :: "(string \<times> string) list"

record proto_circuit =
  pc_circuit_id :: string
  pc_roster :: "proto_service list"
  pc_members :: "proto_node list"
  pc_authorization_type :: proto_auth_type
  pc_persistence :: proto_persistence
  pc_durability :: proto_durability
  pc_routes :: proto_route
  pc_circuit_management_type :: string
  pc_application_metadata :: bytes

record proto_vote_record =
  pv_public_key :: bytes
  pv_vote :: proto_vote
  pv_voter_node_id :: string

record proto_proposal =
  pp_proposal_type :: proto_proposal_type
  pp_circuit_id :: string
  pp_circuit_hash :: string
  pp_circuit_proposal :: proto_circuit
  pp_votes :: "proto_vote_record list"
  pp_requester :: bytes
  pp_requester_node_id :: string

record proto_proposal_vote =
  pv_circuit_id :: string
  pv_circuit_hash :: string
  pv_ballot :: proto_vote

datatype management_action =
  ACTION_UNSET | CIRCUIT_PROPOSAL_VOTE | CIRCUIT_CREATE_REQUEST | CIRCUIT_UPDATE_ROSTER_REQUEST
| CIRCUIT_UPDATE_ADD_NODE | CIRCUIT_UPDATE_REMOVE_NODE | CIRCUIT_UPDATE_APPLICATION_METADATA_REQUEST
| CIRCUIT_JOIN_REQUEST | CIRCUIT_DESTROY_REQUEST | CIRCUIT_ABANDON

record payload_header =
  hd_action :: management_action
  hd_requester :: bytes
  hd_payload_sha512 :: bytes
  hd_requester_node_id :: string

text \<open>The parts of the payload the service reads; the requests it does not support are left out. A
  create request holds nothing but the circuit.\<close>

record management_payload =
  mp_header :: bytes
  mp_signature :: bytes
  mp_proposal_vote :: proto_proposal_vote
  mp_create_circuit :: proto_circuit

record proposed_circuit =
  prc_circuit_payload :: management_payload
  prc_expected_hash :: bytes
  prc_required_verifiers :: bytes

record member_ready =
  mr_circuit_id :: string
  mr_member_node_id :: string

text \<open>\<open>AdminMessage\<close>: its type says which field is set.\<close>

datatype admin_message =
  AdminUnset
| AdminConsensusMessage bytes
| AdminProposedCircuit proposed_circuit
| AdminMemberReady member_ready

section \<open>The types of the service\<close>

datatype marshalling_error = UnsetField string | ProtobufError string

datatype authorization_type = AuthTrust
datatype persistence_type = PersistAny
datatype durability_type = DurabilityNone
datatype route_type = RouteAny

record msg_node =
  mn_node_id :: string
  mn_endpoint :: string

record msg_service =
  ms_service_id :: string
  ms_service_type :: string
  ms_allowed_nodes :: "string list"
  ms_arguments :: "(string \<times> string) list"

record create_circuit =
  cc_circuit_id :: string
  cc_roster :: "msg_service list"
  cc_members :: "msg_node list"
  cc_authorization_type :: authorization_type
  cc_persistence :: persistence_type
  cc_durability :: durability_type
  cc_routes :: route_type
  cc_circuit_management_type :: string
  cc_application_metadata :: bytes

datatype proposal_type = CreateProposal | UpdateRoster | AddNode | RemoveNode | DestroyProposal

datatype vote = Accept | Reject

record vote_record =
  vr_public_key :: bytes
  vr_vote :: vote
  vr_voter_node_id :: string

record circuit_proposal =
  cp_proposal_type :: proposal_type
  cp_circuit_id :: string
  cp_circuit_hash :: string
  cp_circuit :: create_circuit
  cp_votes :: "vote_record list"
  cp_requester :: bytes
  cp_requester_node_id :: string

record circuit_proposal_vote =
  cv_circuit_id :: string
  cv_circuit_hash :: string
  cv_vote :: vote

datatype admin_service_event =
  ProposalSubmitted circuit_proposal
| ProposalVote circuit_proposal bytes
| ProposalAccepted circuit_proposal bytes
| ProposalRejected circuit_proposal bytes
| CircuitReady circuit_proposal

fun event_proposal :: "admin_service_event \<Rightarrow> circuit_proposal" where
  "event_proposal (ProposalSubmitted p) = p"
| "event_proposal (ProposalVote p _) = p"
| "event_proposal (ProposalAccepted p _) = p"
| "event_proposal (ProposalRejected p _) = p"
| "event_proposal (CircuitReady p) = p"

section \<open>Conversions\<close>

definition node_into_proto :: "msg_node \<Rightarrow> proto_node" where
  "node_into_proto n = \<lparr>pn_node_id = mn_node_id n, pn_endpoint = mn_endpoint n\<rparr>"

definition node_from_proto :: "proto_node \<Rightarrow> (msg_node, marshalling_error) result" where
  "node_from_proto n = Ok \<lparr>mn_node_id = pn_node_id n, mn_endpoint = pn_endpoint n\<rparr>"

definition service_into_proto :: "msg_service \<Rightarrow> proto_service" where
  "service_into_proto s = \<lparr>ps_service_id = ms_service_id s, ps_service_type = ms_service_type s,
     ps_allowed_nodes = ms_allowed_nodes s, ps_arguments = map (\<lambda>(k, v). (k, v)) (ms_arguments s)\<rparr>"

definition service_from_proto :: "proto_service \<Rightarrow> (msg_service, marshalling_error) result" where
  "service_from_proto s = Ok \<lparr>ms_service_id = ps_service_id s, ms_service_type = ps_service_type s,
     ms_allowed_nodes = ps_allowed_nodes s,
     ms_arguments = map (\<lambda>argument. (fst argument, snd argument)) (ps_arguments s)\<rparr>"

fun auth_type_from_proto :: "proto_auth_type \<Rightarrow> (authorization_type, marshalling_error) result" where
  "auth_type_from_proto TRUST_AUTHORIZATION = Ok AuthTrust"
| "auth_type_from_proto UNSET_AUTH_TYPE = Err (UnsetField ''Unset authorization type'')"

fun persistence_from_proto :: "proto_persistence \<Rightarrow> (persistence_type, marshalling_error) result" where
  "persistence_from_proto ANY_PERSISTENCE = Ok PersistAny"
| "persistence_from_proto UNSET_PERSISTENCE_TYPE = Err (UnsetField ''Unset persistence type'')"

fun durability_from_proto :: "proto_durability \<Rightarrow> (durability_type, marshalling_error) result" where
  "durability_from_proto NO_DURABILITY = Ok DurabilityNone"
| "durability_from_proto UNSET_DURABILITY_TYPE = Err (UnsetField ''Unset durability type'')"

fun route_from_proto :: "proto_route \<Rightarrow> (route_type, marshalling_error) result" where
  "route_from_proto ANY_ROUTE = Ok RouteAny"
| "route_from_proto UNSET_ROUTE_TYPE = Err (UnsetField ''Unset route type'')"

definition circuit_from_proto :: "proto_circuit \<Rightarrow> (create_circuit, marshalling_error) result" where
  "circuit_from_proto p =
     bind_result (auth_type_from_proto (pc_authorization_type p)) (\<lambda>auth.
     bind_result (persistence_from_proto (pc_persistence p)) (\<lambda>persistence.
     bind_result (durability_from_proto (pc_durability p)) (\<lambda>durability.
     bind_result (route_from_proto (pc_routes p)) (\<lambda>routes.
     bind_result (collect_results (map service_from_proto (pc_roster p))) (\<lambda>roster.
     bind_result (collect_results (map node_from_proto (pc_members p))) (\<lambda>members.
       Ok \<lparr>cc_circuit_id = pc_circuit_id p, cc_roster = roster, cc_members = members,
           cc_authorization_type = auth, cc_persistence = persistence, cc_durability = durability,
           cc_routes = routes, cc_circuit_management_type = pc_circuit_management_type p,
           cc_application_metadata = pc_application_metadata p\<rparr>))))))"

definition circuit_into_proto :: "create_circuit \<Rightarrow> proto_circuit" where
  "circuit_into_proto c = \<lparr>pc_circuit_id = cc_circuit_id c,
     pc_roster = map service_into_proto (cc_roster c), pc_members = map node_into_proto (cc_members c),
     pc_authorization_type = (case cc_authorization_type c of AuthTrust \<Rightarrow> TRUST_AUTHORIZATION),
     pc_persistence = (case cc_persistence c of PersistAny \<Rightarrow> ANY_PERSISTENCE),
     pc_durability = (case cc_durability c of DurabilityNone \<Rightarrow> NO_DURABILITY),
     pc_routes = (case cc_routes c of RouteAny \<Rightarrow> ANY_ROUTE),
     pc_circuit_management_type = cc_circuit_management_type c,
     pc_application_metadata = cc_application_metadata c\<rparr>"

fun vote_from_proto :: "proto_vote \<Rightarrow> (vote, marshalling_error) result" where
  "vote_from_proto ACCEPT = Ok Accept"
| "vote_from_proto REJECT = Ok Reject"
| "vote_from_proto UNSET_VOTE = Err (UnsetField ''Unset vote'')"

fun vote_into_proto :: "vote \<Rightarrow> proto_vote" where
  "vote_into_proto Accept = ACCEPT"
| "vote_into_proto Reject = REJECT"

definition vote_record_from_proto :: "proto_vote_record \<Rightarrow> (vote_record, marshalling_error) result" where
  "vote_record_from_proto r =
     bind_result (vote_from_proto (pv_vote r)) (\<lambda>v.
       Ok \<lparr>vr_public_key = pv_public_key r, vr_vote = v, vr_voter_node_id = pv_voter_node_id r\<rparr>)"

definition vote_record_into_proto :: "vote_record \<Rightarrow> proto_vote_record" where
  "vote_record_into_proto r = \<lparr>pv_public_key = vr_public_key r, pv_vote = vote_into_proto (vr_vote r),
     pv_voter_node_id = vr_voter_node_id r\<rparr>"

definition proposal_vote_from_proto ::
  "proto_proposal_vote \<Rightarrow> (circuit_proposal_vote, marshalling_error) result" where
  "proposal_vote_from_proto p =
     bind_result (vote_from_proto (pv_ballot p)) (\<lambda>v.
       Ok \<lparr>cv_circuit_id = pv_circuit_id p, cv_circuit_hash = pv_circuit_hash p, cv_vote = v\<rparr>)"

definition proposal_vote_into_proto :: "circuit_proposal_vote \<Rightarrow> proto_proposal_vote" where
  "proposal_vote_into_proto v = \<lparr>pv_circuit_id = cv_circuit_id v, pv_circuit_hash = cv_circuit_hash v,
     pv_ballot = vote_into_proto (cv_vote v)\<rparr>"

fun proposal_type_from_proto :: "proto_proposal_type \<Rightarrow> (proposal_type, marshalling_error) result" where
  "proposal_type_from_proto CREATE = Ok CreateProposal"
| "proposal_type_from_proto UPDATE_ROSTER = Ok UpdateRoster"
| "proposal_type_from_proto ADD_NODE = Ok AddNode"
| "proposal_type_from_proto REMOVE_NODE = Ok RemoveNode"
| "proposal_type_from_proto DESTROY = Ok DestroyProposal"
| "proposal_type_from_proto UNSET_PROPOSAL_TYPE = Err (UnsetField ''Unset proposal type'')"

fun proposal_type_into_proto :: "proposal_type \<Rightarrow> proto_proposal_type" where
  "proposal_type_into_proto CreateProposal = CREATE"
| "proposal_type_into_proto UpdateRoster = UPDATE_ROSTER"
| "proposal_type_into_proto AddNode = ADD_NODE"
| "proposal_type_into_proto RemoveNode = REMOVE_NODE"
| "proposal_type_into_proto DestroyProposal = DESTROY"

definition proposal_from_proto :: "proto_proposal \<Rightarrow> (circuit_proposal, marshalling_error) result" where
  "proposal_from_proto p =
     bind_result (proposal_type_from_proto (pp_proposal_type p)) (\<lambda>ty.
     bind_result (collect_results (map vote_record_from_proto (pp_votes p))) (\<lambda>votes.
     bind_result (circuit_from_proto (pp_circuit_proposal p)) (\<lambda>circuit.
       Ok \<lparr>cp_proposal_type = ty, cp_circuit_id = pp_circuit_id p, cp_circuit_hash = pp_circuit_hash p,
           cp_circuit = circuit, cp_votes = votes, cp_requester = pp_requester p,
           cp_requester_node_id = pp_requester_node_id p\<rparr>)))"

definition proposal_into_proto :: "circuit_proposal \<Rightarrow> proto_proposal" where
  "proposal_into_proto c = \<lparr>pp_proposal_type = proposal_type_into_proto (cp_proposal_type c),
     pp_circuit_id = cp_circuit_id c, pp_circuit_hash = cp_circuit_hash c,
     pp_circuit_proposal = circuit_into_proto (cp_circuit c),
     pp_votes = map vote_record_into_proto (cp_votes c), pp_requester = cp_requester c,
     pp_requester_node_id = cp_requester_node_id c\<rparr>"

section \<open>Lemmas\<close>

text \<open>A conversion is exact when it accepts a message only as the image of one value.\<close>

definition exact_conversion :: "('p \<Rightarrow> ('m, 'e) result) \<Rightarrow> ('m \<Rightarrow> 'p) \<Rightarrow> bool" where
  "exact_conversion from_p into_p \<longleftrightarrow> (\<forall>p m. from_p p = Ok m \<longleftrightarrow> p = into_p m)"

lemma exact_conversionD: "exact_conversion f g \<Longrightarrow> f p = Ok m \<longleftrightarrow> p = g m"
  by (simp add: exact_conversion_def)

lemma exact_collect:
  assumes "exact_conversion f g"
  shows "collect_results (map f ps) = Ok ms \<longleftrightarrow> ps = map g ms"
proof -
  have "map f ps = map Ok ms \<longleftrightarrow> ps = map g ms"
  proof (induction ps arbitrary: ms)
    case Nil
    show ?case by auto
  next
    case (Cons p ps)
    show ?case by (cases ms) (auto simp: Cons.IH exact_conversionD [OF assms])
  qed
  then show ?thesis by (simp add: collect_results_Ok_iff)
qed

lemma exact_node: "exact_conversion node_from_proto node_into_proto"
  by (auto simp: exact_conversion_def node_from_proto_def node_into_proto_def)

lemma exact_service: "exact_conversion service_from_proto service_into_proto"
  by (auto simp: exact_conversion_def service_from_proto_def service_into_proto_def)

lemma exact_vote: "exact_conversion vote_from_proto vote_into_proto"
proof -
  have "vote_from_proto p = Ok m \<longleftrightarrow> p = vote_into_proto m" for p m by (cases p; cases m) auto
  then show ?thesis by (simp add: exact_conversion_def)
qed

lemma exact_proposal_type: "exact_conversion proposal_type_from_proto proposal_type_into_proto"
proof -
  have "proposal_type_from_proto p = Ok m \<longleftrightarrow> p = proposal_type_into_proto m" for p m
    by (cases p; cases m) auto
  then show ?thesis by (simp add: exact_conversion_def)
qed

lemma exact_vote_record: "exact_conversion vote_record_from_proto vote_record_into_proto"
  by (auto simp: exact_conversion_def vote_record_from_proto_def vote_record_into_proto_def rust_simps
      exact_conversionD [OF exact_vote])

lemma exact_writes:
  assumes "exact_conversion f g"
  shows "f (g m) = Ok m" and "collect_results (map (f \<circ> g) ms) = Ok ms"
  using exact_conversionD [OF assms] exact_collect [OF assms, of "map g ms" ms] by simp_all

lemma exact_conversionI:
  "(\<And>m. f (g m) = Ok m) \<Longrightarrow> (\<And>p m. f p = Ok m \<Longrightarrow> p = g m) \<Longrightarrow> exact_conversion f g"
  by (auto simp: exact_conversion_def)

lemma enum_from_proto_Ok:
  "auth_type_from_proto a = Ok a' \<Longrightarrow> a = TRUST_AUTHORIZATION"
  "persistence_from_proto p = Ok p' \<Longrightarrow> p = ANY_PERSISTENCE"
  "durability_from_proto d = Ok d' \<Longrightarrow> d = NO_DURABILITY"
  "route_from_proto r = Ok r' \<Longrightarrow> r = ANY_ROUTE"
  by (cases a, simp_all) (cases p, simp_all, cases d, simp_all, cases r, simp_all)

lemma exact_circuit: "exact_conversion circuit_from_proto circuit_into_proto"
proof (rule exact_conversionI)
  fix c
  show "circuit_from_proto (circuit_into_proto c) = Ok c"
    by (cases "cc_authorization_type c"; cases "cc_persistence c"; cases "cc_durability c"; cases "cc_routes c")
      (simp add: circuit_from_proto_def circuit_into_proto_def exact_writes(2) [OF exact_service]
        exact_writes(2) [OF exact_node])
next
  fix p c
  assume "circuit_from_proto p = Ok c"
  then show "p = circuit_into_proto c"
    by (auto simp: circuit_from_proto_def circuit_into_proto_def rust_simps
        exact_collect [OF exact_service] exact_collect [OF exact_node]
        dest!: enum_from_proto_Ok
        split: authorization_type.splits persistence_type.splits durability_type.splits route_type.splits)
qed

lemma exact_proposal: "exact_conversion proposal_from_proto proposal_into_proto"
proof (rule exact_conversionI)
  fix c
  show "proposal_from_proto (proposal_into_proto c) = Ok c"
    by (simp add: proposal_from_proto_def proposal_into_proto_def exact_writes(2) [OF exact_vote_record]
        exact_writes(1) [OF exact_proposal_type] exact_writes(1) [OF exact_circuit])
next
  fix p c
  assume "proposal_from_proto p = Ok c"
  then show "p = proposal_into_proto c"
    by (auto simp: proposal_from_proto_def proposal_into_proto_def rust_simps
        exact_conversionD [OF exact_proposal_type] exact_conversionD [OF exact_circuit]
        exact_collect [OF exact_vote_record])
qed

text \<open>A list is collected exactly when every element is converted.\<close>

lemma collect_Err_iff: "(\<exists>e. collect_results rs = Err e) \<longleftrightarrow> (\<exists>r \<in> set rs. \<exists>e. r = Err e)"
  by (induction rs) (auto simp: rust_simps, metis result.exhaust)

lemma circuit_refused_iff:
  "(\<exists>e. circuit_from_proto p = Err e) \<longleftrightarrow>
     pc_authorization_type p = UNSET_AUTH_TYPE \<or> pc_persistence p = UNSET_PERSISTENCE_TYPE \<or>
     pc_durability p = UNSET_DURABILITY_TYPE \<or> pc_routes p = UNSET_ROUTE_TYPE"
proof -
  have "\<exists>r. collect_results (map service_from_proto (pc_roster p)) = Ok r"
    using collect_results_map_Ok [of "pc_roster p" service_from_proto]
    by (simp add: service_from_proto_def)
  moreover have "\<exists>m. collect_results (map node_from_proto (pc_members p)) = Ok m"
    using collect_results_map_Ok [of "pc_members p" node_from_proto] by (simp add: node_from_proto_def)
  ultimately show ?thesis
    by (cases "pc_authorization_type p"; cases "pc_persistence p"; cases "pc_durability p"; cases "pc_routes p")
      (auto simp: circuit_from_proto_def)
qed

lemma proposal_round_trip [simp]: "proposal_from_proto (proposal_into_proto c) = Ok c"
  by (simp add: exact_conversionD [OF exact_proposal])

section \<open>Properties\<close>

text \<open>The conversions of circuit proposals are exact: a message is read as a proposal if and only if it
  is what that proposal is written as. So writing and reading gives the proposal back, two proposals
  are never written alike, and every message that is accepted is stored without loss.\<close>

theorem proposal_conversion_exact:
  "proposal_from_proto p = Ok c \<longleftrightarrow> proposal_into_proto c = p"
  using exact_conversionD [OF exact_proposal] by metis

text \<open>A proposal is refused exactly when one of its enumerated fields is not set: its type, a vote, or
  one of the four types of its circuit.\<close>

theorem proposal_refused_iff_unset:
  "(\<exists>e. proposal_from_proto p = Err e) \<longleftrightarrow>
     pp_proposal_type p = UNSET_PROPOSAL_TYPE \<or> UNSET_VOTE \<in> pv_vote ` set (pp_votes p) \<or>
     pc_authorization_type (pp_circuit_proposal p) = UNSET_AUTH_TYPE \<or>
     pc_persistence (pp_circuit_proposal p) = UNSET_PERSISTENCE_TYPE \<or>
     pc_durability (pp_circuit_proposal p) = UNSET_DURABILITY_TYPE \<or>
     pc_routes (pp_circuit_proposal p) = UNSET_ROUTE_TYPE"
proof -
  have ty: "(\<exists>e. proposal_type_from_proto (pp_proposal_type p) = Err e) \<longleftrightarrow>
      pp_proposal_type p = UNSET_PROPOSAL_TYPE"
    by (cases "pp_proposal_type p") auto
  have "(\<exists>e. vote_record_from_proto r = Err e) \<longleftrightarrow> pv_vote r = UNSET_VOTE" for r
    by (cases "pv_vote r") (auto simp: vote_record_from_proto_def)
  then have votes: "(\<exists>e. collect_results (map vote_record_from_proto (pp_votes p)) = Err e) \<longleftrightarrow>
      UNSET_VOTE \<in> pv_vote ` set (pp_votes p)"
    by (simp add: collect_Err_iff image_iff) metis
  show ?thesis
    using ty votes circuit_refused_iff [of "pp_circuit_proposal p"]
    by (cases "proposal_type_from_proto (pp_proposal_type p)";
        cases "collect_results (map vote_record_from_proto (pp_votes p))";
        cases "circuit_from_proto (pp_circuit_proposal p)") (simp_all add: proposal_from_proto_def)
qed

end
