(* ===== verification/Open_Proposals.thy ===== *)
theory Open_Proposals
  imports Admin_Messages BTreeMap "HOL-Library.List_Lexorder" "HOL-Library.Char_ord"
begin

text \<open>
  The open circuit proposals and their storage, \<^verbatim>\<open>libsplinter/src/admin/service/open_proposals.rs\<close>.
  \<open>storage\<close> is the outcome of opening the storage for a given registry.
\<close>

section \<open>Definitions\<close>

type_synonym proposal_registry = "(string \<times> circuit_proposal) list"

datatype open_proposal_error = OpenWriteError string | OpenInvalidFormat marshalling_error

record open_proposals =
  op_registry :: proposal_registry
  op_stored :: proposal_registry

definition open_proposals_new ::
  "(proposal_registry, string) result \<Rightarrow> (open_proposals, open_proposal_error) result" where
  "open_proposals_new storage =
     map_result (\<lambda>r. \<lparr>op_registry = r, op_stored = r\<rparr>) (map_err OpenWriteError storage)"

definition registry_add_proposal ::
  "proto_proposal \<Rightarrow> (proposal_registry, proto_proposal option, open_proposal_error) action" where
  "registry_add_proposal p r =
     (case proposal_from_proto p of
        Err e \<Rightarrow> (Err (OpenInvalidFormat e), r)
      | Ok c \<Rightarrow> (Ok (map_option proposal_into_proto (bmap_get r (pp_circuit_id p))),
                bmap_insert (pp_circuit_id p) c r))"

definition registry_remove_proposal ::
  "string \<Rightarrow> (proposal_registry, proto_proposal option, open_proposal_error) action" where
  "registry_remove_proposal circuit_id r =
     (Ok (map_option proposal_into_proto (bmap_get r circuit_id)), bmap_remove circuit_id r)"

definition write_open_proposals ::
  "(proposal_registry \<Rightarrow> (unit, string) result) \<Rightarrow> (open_proposals, unit, open_proposal_error) action" where
  "write_open_proposals storage st =
     (case storage (op_registry st) of
        Err e \<Rightarrow> (Err (OpenWriteError e), st)
      | Ok _ \<Rightarrow> (Ok (), st\<lparr>op_stored := op_registry st\<rparr>))"

text \<open>The registry is changed first; the write comes next and its error is returned before the outcome of
  the change.\<close>

definition add_proposal ::
  "(proposal_registry \<Rightarrow> (unit, string) result) \<Rightarrow> proto_proposal \<Rightarrow>
   (open_proposals, proto_proposal option, open_proposal_error) action" where
  "add_proposal storage p st =
     (let (res, r) = registry_add_proposal p (op_registry st)
      in case write_open_proposals storage (st\<lparr>op_registry := r\<rparr>) of
           (Err e, st') \<Rightarrow> (Err e, st')
         | (Ok _, st') \<Rightarrow> (res, st'))"

definition remove_proposal ::
  "(proposal_registry \<Rightarrow> (unit, string) result) \<Rightarrow> string \<Rightarrow>
   (open_proposals, proto_proposal option, open_proposal_error) action" where
  "remove_proposal storage circuit_id st =
     (let (res, r) = registry_remove_proposal circuit_id (op_registry st)
      in case write_open_proposals storage (st\<lparr>op_registry := r\<rparr>) of
           (Err e, st') \<Rightarrow> (Err e, st')
         | (Ok _, st') \<Rightarrow> (res, st'))"

definition get_proposal ::
  "open_proposals \<Rightarrow> string \<Rightarrow> (proto_proposal option, open_proposal_error) result" where
  "get_proposal st circuit_id = Ok (map_option proposal_into_proto (bmap_get (op_registry st) circuit_id))"

definition has_proposal :: "open_proposals \<Rightarrow> string \<Rightarrow> bool" where
  "has_proposal st circuit_id = bmap_contains_key (op_registry st) circuit_id"

section \<open>Lemmas\<close>

definition open_proposals_wf :: "open_proposals \<Rightarrow> bool" where
  "open_proposals_wf st \<longleftrightarrow> bmap_ok (op_registry st)"

text \<open>The open proposals as a map from circuit ids to messages.\<close>

definition proposals_of :: "open_proposals \<Rightarrow> string \<rightharpoonup> proto_proposal" where
  "proposals_of st i = map_option proposal_into_proto (bmap_get (op_registry st) i)"

lemma get_proposal_eq: "get_proposal st i = Ok (proposals_of st i)"
  by (simp add: get_proposal_def proposals_of_def)

lemma has_proposal_iff: "has_proposal st i \<longleftrightarrow> proposals_of st i \<noteq> None"
  by (simp add: has_proposal_def proposals_of_def bmap_contains_key_def bmap_get_def)

lemma add_proposal_wf: "open_proposals_wf st \<Longrightarrow> open_proposals_wf (snd (add_proposal storage p st))"
  by (simp add: open_proposals_wf_def add_proposal_def registry_add_proposal_def write_open_proposals_def
      bm.insert_inv split: result.split)

lemma remove_proposal_wf: "open_proposals_wf st \<Longrightarrow> open_proposals_wf (snd (remove_proposal storage i st))"
  by (simp add: open_proposals_wf_def remove_proposal_def registry_remove_proposal_def write_open_proposals_def
      bm.remove_inv split: result.split)

lemma proposals_of_add:
  assumes "open_proposals_wf st" and "proposal_from_proto p = Ok c"
  shows "proposals_of (snd (add_proposal storage p st)) = (proposals_of st)(pp_circuit_id p \<mapsto> p)"
proof -
  have p: "proposal_into_proto c = p" using assms(2) exact_conversionD [OF exact_proposal, of p c] by simp
  have "op_registry (snd (add_proposal storage p st)) = bmap_insert (pp_circuit_id p) c (op_registry st)"
    using assms(2) by (simp add: add_proposal_def registry_add_proposal_def write_open_proposals_def
        split: result.split)
  with assms(1) p bm.get_insert [of "op_registry st" "pp_circuit_id p" c] show ?thesis
    by (auto simp: proposals_of_def open_proposals_wf_def fun_eq_iff)
qed

lemma proposals_of_remove:
  assumes "open_proposals_wf st"
  shows "proposals_of (snd (remove_proposal storage i st)) = (proposals_of st)(i := None)"
proof -
  have "op_registry (snd (remove_proposal storage i st)) = bmap_remove i (op_registry st)"
    by (simp add: remove_proposal_def registry_remove_proposal_def write_open_proposals_def split: result.split)
  with assms bm.get_remove [of "op_registry st" i] show ?thesis
    by (auto simp: proposals_of_def open_proposals_wf_def fun_eq_iff)
qed

lemma add_proposal_invalid:
  assumes "proposal_from_proto p = Err e"
  shows "op_registry (snd (add_proposal storage p st)) = op_registry st"
  using assms by (simp add: add_proposal_def registry_add_proposal_def write_open_proposals_def
      split: result.split)

text \<open>What the store returns is never in a form that the conversion refuses.\<close>

lemma proposals_of_valid: "proposals_of st i = Some p \<Longrightarrow> \<exists>c. proposal_from_proto p = Ok c"
  by (auto simp: proposals_of_def)

section \<open>The contract\<close>

text \<open>What the admin service relies on: a store of proposals by circuit id. An operation may fail, when
  the storage cannot be written; the change is visible all the same.\<close>

locale proposal_store =
  fixes inv :: "'s \<Rightarrow> bool"
    and lookup :: "'s \<Rightarrow> string \<rightharpoonup> proto_proposal"
    and add :: "proto_proposal \<Rightarrow> 's \<Rightarrow> ('r, 'e) result \<times> 's"
    and remove :: "string \<Rightarrow> 's \<Rightarrow> ('r, 'e) result \<times> 's"
  assumes add_inv: "inv s \<Longrightarrow> inv (snd (add p s))"
    and remove_inv: "inv s \<Longrightarrow> inv (snd (remove i s))"
    and lookup_add: "inv s \<Longrightarrow> proposal_from_proto p = Ok c \<Longrightarrow>
      lookup (snd (add p s)) = (lookup s)(pp_circuit_id p \<mapsto> p)"
    and lookup_remove: "inv s \<Longrightarrow> lookup (snd (remove i s)) = (lookup s)(i := None)"
    and lookup_valid: "inv s \<Longrightarrow> lookup s i = Some p \<Longrightarrow> \<exists>c. proposal_from_proto p = Ok c"
begin

lemma add_then_lookup:
  "inv s \<Longrightarrow> proposal_from_proto p = Ok c \<Longrightarrow> lookup (snd (add p s)) (pp_circuit_id p) = Some p"
  by (simp add: lookup_add)

lemma add_again_is_last:
  assumes "inv s" and "proposal_from_proto p = Ok c" and "proposal_from_proto q = Ok d"
    and "pp_circuit_id p = pp_circuit_id q"
  shows "lookup (snd (add q (snd (add p s)))) = lookup (snd (add q s))"
  using assms by (simp add: lookup_add add_inv)

lemma remove_after_add:
  assumes "inv s" and "proposal_from_proto p = Ok c" and "lookup s (pp_circuit_id p) = None"
  shows "lookup (snd (remove (pp_circuit_id p) (snd (add p s)))) = lookup s"
  using assms by (auto simp: lookup_add lookup_remove add_inv fun_eq_iff)

lemma finite_lookup_add: "inv s \<Longrightarrow> finite (dom (lookup s)) \<Longrightarrow> finite (dom (lookup (snd (remove i s))))"
  by (simp add: lookup_remove)

end

interpretation ops: proposal_store open_proposals_wf proposals_of "add_proposal storage"
  "remove_proposal storage" for storage
  by unfold_locales
    (simp_all add: add_proposal_wf remove_proposal_wf proposals_of_add proposals_of_remove proposals_of_valid)

section \<open>Properties\<close>

text \<open>C30. The store of open proposals is a map from circuit ids to proposals: an added proposal is found
  under its circuit id, unchanged, and replaces an older one; a removed one is not found; every other
  proposal stays. This holds also when the storage cannot be written, only that the call then reports
  an error and the stored copy is the old one.\<close>

theorem open_proposals_refine_map:
  assumes "open_proposals_wf st" and "proposal_from_proto p = Ok c"
  shows "(\<forall>i. get_proposal (snd (add_proposal storage p st)) i =
      Ok (((proposals_of st)(pp_circuit_id p \<mapsto> p)) i)) \<and>
    (\<forall>i j. get_proposal (snd (remove_proposal storage j st)) i = Ok (((proposals_of st)(j := None)) i)) \<and>
    (case storage (op_registry (snd (add_proposal storage p st))) of
       Ok _ \<Rightarrow> op_stored (snd (add_proposal storage p st)) = op_registry (snd (add_proposal storage p st))
     | Err e \<Rightarrow> fst (add_proposal storage p st) = Err (OpenWriteError e) \<and>
         op_stored (snd (add_proposal storage p st)) = op_stored st)"
proof -
  have "case storage (op_registry (snd (add_proposal storage p st))) of
       Ok _ \<Rightarrow> op_stored (snd (add_proposal storage p st)) = op_registry (snd (add_proposal storage p st))
     | Err e \<Rightarrow> fst (add_proposal storage p st) = Err (OpenWriteError e) \<and>
         op_stored (snd (add_proposal storage p st)) = op_stored st"
    using assms(2)
    by (cases "storage (bmap_insert (pp_circuit_id p) c (op_registry st))")
      (simp_all add: add_proposal_def registry_add_proposal_def write_open_proposals_def)
  then show ?thesis
    using ops.lookup_add [OF assms, of storage] ops.lookup_remove [OF assms(1)]
    by (simp add: get_proposal_eq)
qed

definition ex_proposal :: circuit_proposal where
  "ex_proposal = \<lparr>cp_proposal_type = CreateProposal, cp_circuit_id = ''alpha'', cp_circuit_hash = ''h'',
     cp_circuit = \<lparr>cc_circuit_id = ''alpha'',
       cc_roster = [\<lparr>ms_service_id = ''a'', ms_service_type = ''t'', ms_allowed_nodes = [''n1''], ms_arguments = []\<rparr>],
       cc_members = [\<lparr>mn_node_id = ''n1'', mn_endpoint = ''tcp://n1''\<rparr>, \<lparr>mn_node_id = ''n2'', mn_endpoint = ''tcp://n2''\<rparr>],
       cc_authorization_type = AuthTrust, cc_persistence = PersistAny, cc_durability = DurabilityNone,
       cc_routes = RouteAny, cc_circuit_management_type = ''m'', cc_application_metadata = []\<rparr>,
     cp_votes = [], cp_requester = [1], cp_requester_node_id = ''n1''\<rparr>"

theorem open_proposals_refine_map_witness:
  "get_proposal (snd (add_proposal (\<lambda>_. Err ''full'') (proposal_into_proto ex_proposal)
     \<lparr>op_registry = [], op_stored = []\<rparr>)) ''alpha'' = Ok (Some (proposal_into_proto ex_proposal))"
proof -
  have "open_proposals_wf \<lparr>op_registry = [], op_stored = []\<rparr>" by (simp add: open_proposals_wf_def)
  from open_proposals_refine_map [OF this proposal_round_trip [of ex_proposal], of "\<lambda>_. Err ''full''"]
  show ?thesis by (simp add: proposal_into_proto_def ex_proposal_def)
qed

end
