(* ===== verification/Service_Net.thy ===== *)
theory Service_Net
  imports Circuit_Handlers
begin

text \<open>
  The service side of the network: the router of replies (\<^verbatim>\<open>libsplinter/src/network/reply.rs\<close>), the
  senders and the registry a service is given (\<^verbatim>\<open>service/sender.rs\<close>, \<^verbatim>\<open>service/registry.rs\<close>) and the
  service processor (\<^verbatim>\<open>service/processor.rs\<close>).

  Calls that wait for a reply are two steps here: the request, which gives a future, and \<open>future_get\<close>,
  whose value is \<open>None\<close> while there is nothing to receive.
\<close>

section \<open>The router of replies\<close>

type_synonym message_result = "(circuit_message_type \<times> bytes, string) result"

text \<open>A channel for each future, by number; the senders by correlation id, as a list of pairs in the order
  in which the hash map lists them; the channel for the rest.\<close>

record inbound_router =
  expected_replies :: "(string \<times> nat) list"
  reply_channels :: "nat \<Rightarrow> message_result channel"
  next_channel :: nat
  default_sender :: "message_result channel"

datatype route_error = RouteError

definition router_new :: "message_result channel \<Rightarrow> inbound_router" where
  "router_new dflt = \<lparr>expected_replies = [],
     reply_channels = (\<lambda>_. \<lparr>chan_open = True, chan_queue = []\<rparr>), next_channel = 0, default_sender = dflt\<rparr>"

definition send_to_channel :: "nat \<Rightarrow> message_result \<Rightarrow> (inbound_router, unit, route_error) action" where
  "send_to_channel ch m r =
     (let (res, c) = chan_send m (reply_channels r ch)
      in (map_err (\<lambda>_. RouteError) res, r\<lparr>reply_channels := (reply_channels r)(ch := c)\<rparr>))"

definition send_to_default :: "message_result \<Rightarrow> (inbound_router, unit, route_error) action" where
  "send_to_default m r =
     (let (res, c) = chan_send m (default_sender r)
      in (map_err (\<lambda>_. RouteError) res, r\<lparr>default_sender := c\<rparr>))"

text \<open>A reply is sent to the one who waits for it, who is then forgotten; any other message goes to the
  default channel. An error is sent to everyone who waits.\<close>

definition route :: "string \<Rightarrow> message_result \<Rightarrow> (inbound_router, unit, route_error) action" where
  "route correlation_id message_result r =
     (case message_result of
        Ok message \<Rightarrow>
          (case map_of (expected_replies r) correlation_id of
             Some ch \<Rightarrow> send_to_channel ch (Ok message)
                         (r\<lparr>expected_replies := filter (\<lambda>e. fst e \<noteq> correlation_id) (expected_replies r)\<rparr>)
           | None \<Rightarrow> send_to_default (Ok message) r)
      | Err e \<Rightarrow> for_act (map (\<lambda>x. case x of (_, ch) \<Rightarrow> ch) (expected_replies r))
                   (\<lambda>ch. send_to_channel ch (Err e)) r)"

definition expect_reply :: "string \<Rightarrow> inbound_router \<Rightarrow> nat \<times> inbound_router" where
  "expect_reply correlation_id r =
     (next_channel r,
      r\<lparr>expected_replies := (correlation_id, next_channel r) #
           filter (\<lambda>e. fst e \<noteq> correlation_id) (expected_replies r),
        reply_channels := (reply_channels r)(next_channel r := \<lparr>chan_open = True, chan_queue = []\<rparr>),
        next_channel := Suc (next_channel r)\<rparr>)"

datatype future_error = UnableToParseMessage string | UnableToReceive

text \<open>A future: its channel and the result once received. \<open>future_get\<close> is \<open>None\<close> while it waits: nothing is
  in the channel and its sender is still with the router.\<close>

record message_future =
  fut_channel :: nat
  fut_result :: "message_result option"

definition future_read :: "'m codec \<Rightarrow> message_result \<Rightarrow> ('m, future_error) result" where
  "future_read c m =
     (case m of
        Ok (_, bs) \<Rightarrow> map_err UnableToParseMessage (parse_from_bytes c bs)
      | Err _ \<Rightarrow> Err UnableToReceive)"

definition future_get ::
  "'m codec \<Rightarrow> message_future \<Rightarrow> inbound_router \<Rightarrow>
   (('m, future_error) result \<times> message_future \<times> inbound_router) option" where
  "future_get c fut r =
     (case fut_result fut of
        Some m \<Rightarrow> Some (future_read c m, fut, r)
      | None \<Rightarrow>
          (case chan_queue (reply_channels r (fut_channel fut)) of
             [] \<Rightarrow>
               if List.list_ex (\<lambda>(_, ch). ch = fut_channel fut) (expected_replies r) then None
               else Some (Err UnableToReceive, fut, r)
           | m # ms \<Rightarrow>
               Some (future_read c m, fut\<lparr>fut_result := Some m\<rparr>,
                 r\<lparr>reply_channels := (reply_channels r)
                     (fut_channel fut := (reply_channels r (fut_channel fut))\<lparr>chan_queue := ms\<rparr>)\<rparr>)))"

section \<open>Senders\<close>

record service_net =
  sn_router :: inbound_router
  sn_out :: "bytes channel"

record net_codecs =
  nc_circuit :: circuit_codecs
  nc_requests :: request_codecs

text \<open>The sender of the admin circuit and that of other circuits differ in the kind of message.\<close>

datatype network_sender = AdminSender string | StandardSender string string

fun sender_circuit :: "network_sender \<Rightarrow> string" where
  "sender_circuit (AdminSender _) = ''admin''"
| "sender_circuit (StandardSender circuit _) = circuit"

fun sender_id :: "network_sender \<Rightarrow> string" where
  "sender_id (AdminSender i) = i"
| "sender_id (StandardSender _ i) = i"

fun sender_type :: "network_sender \<Rightarrow> circuit_message_type" where
  "sender_type (AdminSender _) = ADMIN_DIRECT_MESSAGE"
| "sender_type (StandardSender _ _) = CIRCUIT_DIRECT_MESSAGE"

fun sender_codec :: "net_codecs \<Rightarrow> network_sender \<Rightarrow> direct_message codec" where
  "sender_codec cs (AdminSender _) = admin_message_codec (nc_requests cs)"
| "sender_codec cs (StandardSender _ _) = direct_message_codec (nc_requests cs)"

record service_message_context =
  ctx_sender :: string
  ctx_circuit :: string
  ctx_correlation_id :: string

datatype service_send_error = ServiceSendError

definition send_bytes :: "bytes \<Rightarrow> (service_net, unit, service_send_error) action" where
  "send_bytes bs n =
     (let (res, c) = chan_send bs (sn_out n)
      in (map_err (\<lambda>_. ServiceSendError) res, n\<lparr>sn_out := c\<rparr>))"

definition encode_direct ::
  "net_codecs \<Rightarrow> network_sender \<Rightarrow> direct_message \<Rightarrow> (bytes, service_send_error) result" where
  "encode_direct cs ns m =
     map_err (\<lambda>_. ServiceSendError)
       (bind_result (write_to_bytes (sender_codec cs ns) m)
          (\<lambda>bs. create_message (nc_circuit cs) bs (sender_type ns)))"

definition direct_message_from ::
  "network_sender \<Rightarrow> string \<Rightarrow> string \<Rightarrow> bytes \<Rightarrow> string \<Rightarrow> direct_message" where
  "direct_message_from ns circuit rcpt payload correlation_id =
     \<lparr>dmsg_circuit = circuit, dmsg_sender = sender_id ns, dmsg_recipient = rcpt,
      dmsg_payload = payload, dmsg_correlation_id = correlation_id\<rparr>"

definition sender_send ::
  "net_codecs \<Rightarrow> network_sender \<Rightarrow> string \<Rightarrow> bytes \<Rightarrow> (service_net, unit, service_send_error) action" where
  "sender_send cs ns rcpt payload =
     bind_act (lift_act (\<lambda>_. encode_direct cs ns
                 (direct_message_from ns (sender_circuit ns) rcpt payload '''')))
       send_bytes"

text \<open>\<open>send_and_await\<close> up to the wait; \<open>uuid\<close> is the fresh correlation id.\<close>

definition sender_send_and_await ::
  "net_codecs \<Rightarrow> string \<Rightarrow> network_sender \<Rightarrow> string \<Rightarrow> bytes \<Rightarrow>
   (service_net, message_future, service_send_error) action" where
  "sender_send_and_await cs uuid ns rcpt payload =
     bind_act (lift_act (\<lambda>_. encode_direct cs ns
                 (direct_message_from ns (sender_circuit ns) rcpt payload uuid)))
       (\<lambda>bs n. let (ch, r) = expect_reply uuid (sn_router n)
               in bind_act (send_bytes bs) (\<lambda>_. pure_act \<lparr>fut_channel = ch, fut_result = None\<rparr>)
                    (n\<lparr>sn_router := r\<rparr>))"

definition sender_reply ::
  "net_codecs \<Rightarrow> network_sender \<Rightarrow> service_message_context \<Rightarrow> bytes \<Rightarrow>
   (service_net, unit, service_send_error) action" where
  "sender_reply cs ns origin payload =
     bind_act (lift_act (\<lambda>_. encode_direct cs ns
                 (direct_message_from ns (ctx_circuit origin) (ctx_sender origin) payload
                    (ctx_correlation_id origin))))
       send_bytes"

text \<open>The methods of the sender an admin service is given.\<close>

definition admin_send ::
  "net_codecs \<Rightarrow> string \<Rightarrow> string \<Rightarrow> bytes \<Rightarrow> (service_net, unit, service_send_error) action" where
  "admin_send cs message_sender = sender_send cs (AdminSender message_sender)"

definition admin_send_and_await ::
  "net_codecs \<Rightarrow> string \<Rightarrow> string \<Rightarrow> string \<Rightarrow> bytes \<Rightarrow>
   (service_net, message_future, service_send_error) action" where
  "admin_send_and_await cs uuid message_sender = sender_send_and_await cs uuid (AdminSender message_sender)"

definition admin_reply ::
  "net_codecs \<Rightarrow> string \<Rightarrow> service_message_context \<Rightarrow> bytes \<Rightarrow> (service_net, unit, service_send_error) action" where
  "admin_reply cs message_sender = sender_reply cs (AdminSender message_sender)"

section \<open>The registry\<close>

datatype service_connection_error = ConnectionError | RejectedError string

definition registry_request ::
  "net_codecs \<Rightarrow> service_request codec \<Rightarrow> circuit_message_type \<Rightarrow> string \<Rightarrow> string \<Rightarrow> string \<Rightarrow>
   (service_net, message_future, service_connection_error) action" where
  "registry_request cs c mt uuid circuit service_id =
     bind_act (lift_act (\<lambda>_. map_err (\<lambda>_. ConnectionError)
         (bind_result (write_to_bytes c \<lparr>sr_circuit = circuit, sr_service_id = service_id, sr_correlation_id = uuid\<rparr>)
            (\<lambda>bs. create_message (nc_circuit cs) bs mt))))
       (\<lambda>bs n. let (ch, r) = expect_reply uuid (sn_router n);
                   (res, out) = chan_send bs (sn_out n);
                   n' = n\<lparr>sn_router := r, sn_out := out\<rparr>
               in case res of
                    Ok _ \<Rightarrow> (Ok \<lparr>fut_channel = ch, fut_result = None\<rparr>, n')
                  | Err _ \<Rightarrow> (Err ConnectionError, n'))"

definition registry_connect_request ::
  "net_codecs \<Rightarrow> string \<Rightarrow> string \<Rightarrow> string \<Rightarrow> (service_net, message_future, service_connection_error) action" where
  "registry_connect_request cs =
     registry_request cs (connect_request_codec (nc_requests cs)) SERVICE_CONNECT_REQUEST"

definition registry_connect_response ::
  "string \<Rightarrow> string \<Rightarrow> (service_response, future_error) result \<Rightarrow>
   (network_sender, service_connection_error) result" where
  "registry_connect_response circuit service_id res =
     (case res of
        Err _ \<Rightarrow> Err ConnectionError
      | Ok response \<Rightarrow>
          if resp_status response \<noteq> STATUS_OK then Err (RejectedError (resp_error_message response))
          else if circuit = ''admin'' then Ok (AdminSender service_id)
          else Ok (StandardSender circuit service_id))"

definition registry_disconnect_request ::
  "net_codecs \<Rightarrow> string \<Rightarrow> string \<Rightarrow> string \<Rightarrow> (service_net, message_future, service_connection_error) action" where
  "registry_disconnect_request cs =
     registry_request cs (disconnect_request_codec (nc_requests cs)) SERVICE_DISCONNECT_REQUEST"

definition registry_disconnect_response ::
  "(service_response, future_error) result \<Rightarrow> (unit, service_connection_error) result" where
  "registry_disconnect_response res =
     (case res of
        Err _ \<Rightarrow> Err ConnectionError
      | Ok response \<Rightarrow>
          if resp_status response \<noteq> STATUS_OK then Err (RejectedError (resp_error_message response)) else Ok ())"

section \<open>The service processor\<close>

datatype processor_error = AddServiceError string | ProcessError string

text \<open>Parsing the inner message serves to find its correlation id; its bytes are passed on.\<close>

definition route_inner ::
  "'m codec \<Rightarrow> ('m \<Rightarrow> string) \<Rightarrow> string \<Rightarrow> circuit_message \<Rightarrow>
   (inbound_router, unit, processor_error) action" where
  "route_inner c correlation what cm r =
     (case parse_from_bytes c (cmsg_payload cm) of
        Err _ \<Rightarrow> (Err (ProcessError (''unable to parse '' @ what)), r)
      | Ok m \<Rightarrow>
          (let (res, r') = route (correlation m) (Ok (cmsg_type cm, cmsg_payload cm)) r
           in (map_err (\<lambda>_. ProcessError ''unable to route message'') res, r')))"

definition process_circuit_msg ::
  "net_codecs \<Rightarrow> circuit_message \<Rightarrow> (inbound_router, unit, processor_error) action" where
  "process_circuit_msg cs cm =
     (case cmsg_type cm of
        ADMIN_DIRECT_MESSAGE \<Rightarrow>
          route_inner (admin_message_codec (nc_requests cs)) dmsg_correlation_id
            ''admin direct message'' cm
      | CIRCUIT_DIRECT_MESSAGE \<Rightarrow>
          route_inner (direct_message_codec (nc_requests cs)) dmsg_correlation_id
            ''circuit direct message'' cm
      | SERVICE_CONNECT_RESPONSE \<Rightarrow>
          route_inner (connect_response_codec (nc_circuit cs)) resp_correlation_id
            ''service connect response'' cm
      | SERVICE_DISCONNECT_RESPONSE \<Rightarrow>
          route_inner (disconnect_response_codec (nc_circuit cs)) resp_correlation_id
            ''service disconnect response'' cm
      | _ \<Rightarrow> pure_act ())"

definition process_incoming_msg ::
  "net_codecs \<Rightarrow> bytes \<Rightarrow> (inbound_router, unit, processor_error) action" where
  "process_incoming_msg cs bs r =
     (case parse_from_bytes (circuit_network_c (nc_circuit cs)) bs of
        Err _ \<Rightarrow> (Err (ProcessError ''unable parse network message''), r)
      | Ok msg \<Rightarrow>
          if nm_type msg = CIRCUIT then
            (case parse_from_bytes (circuit_message_c (nc_circuit cs)) (nm_payload msg) of
               Err _ \<Rightarrow> (Err (ProcessError ''unable to parse circuit message''), r)
             | Ok cm \<Rightarrow> process_circuit_msg cs cm r)
          else (Ok (), r))"

datatype service_message = AdminMsg direct_message | CircuitMsg direct_message
datatype processor_message = ServiceMsg service_message | ShutdownMsg

text \<open>The channels to the service threads, by service id.\<close>

type_synonym processor_services = "string \<rightharpoonup> processor_message channel"

definition deliver_to_service ::
  "string \<Rightarrow> service_message \<Rightarrow> string \<Rightarrow> (processor_services, unit, processor_error) action" where
  "deliver_to_service rcpt msg what services =
     (case services rcpt of
        None \<Rightarrow> (Ok (), services)
      | Some c \<Rightarrow>
          (let (res, c') = chan_send (ServiceMsg msg) c
           in (map_err (\<lambda>_. ProcessError (''unable to handle inbound '' @ what)) res, services(rcpt \<mapsto> c'))))"

definition process_inbound_msg ::
  "net_codecs \<Rightarrow> circuit_message_type \<times> bytes \<Rightarrow> (processor_services, unit, processor_error) action" where
  "process_inbound_msg cs m services =
     (case m of (mt, bs) \<Rightarrow>
        (case mt of
           ADMIN_DIRECT_MESSAGE \<Rightarrow>
             (case parse_from_bytes (admin_message_codec (nc_requests cs)) bs of
                Err _ \<Rightarrow> (Err (ProcessError ''unable to parse inbound admin direct message''), services)
              | Ok dm \<Rightarrow> deliver_to_service (dmsg_recipient dm) (AdminMsg dm) ''admin direct message'' services)
         | CIRCUIT_DIRECT_MESSAGE \<Rightarrow>
             (case parse_from_bytes (direct_message_codec (nc_requests cs)) bs of
                Err _ \<Rightarrow> (Err (ProcessError ''unable to parse inbound circuit direct message''), services)
              | Ok dm \<Rightarrow> deliver_to_service (dmsg_recipient dm) (CircuitMsg dm) ''circuit direct message'' services)
         | CIRCUIT_ERROR_MESSAGE \<Rightarrow>
             (case parse_from_bytes (circuit_error_c (nc_circuit cs)) bs of
                Err _ \<Rightarrow> (Err (ProcessError ''unable to parse circuit error message''), services)
              | Ok _ \<Rightarrow> (Ok (), services))
         | _ \<Rightarrow> (Ok (), services)))"

definition add_service :: "string \<Rightarrow> (string list, unit, processor_error) action" where
  "add_service service_id services =
     (if service_id \<in> set services
      then (Err (AddServiceError (service_id @ '' already exists'')), services)
      else (Ok (), services @ [service_id]))"

text \<open>A service: its state \<open>'s\<close> and its methods, which the processor only calls.\<close>

record 's service_ops =
  so_start :: "('s, unit, string) action"
  so_stop :: "('s, unit, string) action"
  so_destroy :: "'s \<Rightarrow> (unit, string) result"
  so_handle_message :: "bytes \<Rightarrow> service_message_context \<Rightarrow> ('s, unit, string) action"

definition message_of :: "service_message \<Rightarrow> direct_message" where
  "message_of m = (case m of AdminMsg dm \<Rightarrow> dm | CircuitMsg dm \<Rightarrow> dm)"

definition context_of :: "direct_message \<Rightarrow> service_message_context" where
  "context_of dm = \<lparr>ctx_sender = dmsg_sender dm, ctx_circuit = dmsg_circuit dm,
     ctx_correlation_id = dmsg_correlation_id dm\<rparr>"

text \<open>The loop of a service thread over the messages it receives; the end of the list is the closed
  channel.\<close>

fun service_loop ::
  "'s service_ops \<Rightarrow> processor_message list \<Rightarrow> ('s, unit, processor_error) action" where
  "service_loop ops [] s = (Err (ProcessError ''unable to receive service messages''), s)"
| "service_loop ops (ShutdownMsg # ms) s =
     (case so_stop ops s of
        (Err _, s') \<Rightarrow> (Err (ProcessError ''unable to stop service''), s')
      | (Ok _, s') \<Rightarrow>
          (case so_destroy ops s' of
             Err _ \<Rightarrow> (Err (ProcessError ''unable to destroy service''), s')
           | Ok _ \<Rightarrow> (Ok (), s')))"
| "service_loop ops (ServiceMsg m # ms) s =
     (case so_handle_message ops (dmsg_payload (message_of m)) (context_of (message_of m)) s of
        (Err _, s') \<Rightarrow>
          (Err (ProcessError (case m of AdminMsg _ \<Rightarrow> ''unable to handle admin direct message''
                              | CircuitMsg _ \<Rightarrow> ''unable to handle circuit direct message'')), s')
      | (Ok _, s') \<Rightarrow> service_loop ops ms s')"

definition run_service_loop ::
  "'s service_ops \<Rightarrow> processor_message list \<Rightarrow> ('s, unit, processor_error) action" where
  "run_service_loop ops ms s =
     (case so_start ops s of
        (Err _, s') \<Rightarrow> (Err (ProcessError ''unable to start service''), s')
      | (Ok _, s') \<Rightarrow> service_loop ops ms s')"

section \<open>Lemmas\<close>

definition codecs_round_trip :: "net_codecs \<Rightarrow> bool" where
  "codecs_round_trip cs \<longleftrightarrow> round_trip (circuit_message_c (nc_circuit cs)) \<and>
     round_trip (circuit_network_c (nc_circuit cs)) \<and> round_trip (circuit_error_c (nc_circuit cs)) \<and>
     round_trip (direct_message_codec (nc_requests cs)) \<and> round_trip (admin_message_codec (nc_requests cs))"

lemma sender_codec_round_trip: "codecs_round_trip cs \<Longrightarrow> round_trip (sender_codec cs ns)"
  by (cases ns) (simp_all add: codecs_round_trip_def)

text \<open>What the processor does with bytes that a circuit message was written as.\<close>

lemma process_incoming_created:
  assumes "codecs_round_trip cs" and "create_message (nc_circuit cs) payload mt = Ok bs"
  shows "process_incoming_msg cs bs r =
    process_circuit_msg cs \<lparr>cmsg_type = mt, cmsg_payload = payload\<rparr> r"
proof -
  from assms(2) obtain cb where cb:
    "write_to_bytes (circuit_message_c (nc_circuit cs)) \<lparr>cmsg_type = mt, cmsg_payload = payload\<rparr> = Ok cb"
    "write_to_bytes (circuit_network_c (nc_circuit cs)) \<lparr>nm_type = CIRCUIT, nm_payload = cb\<rparr> = Ok bs"
    by (auto simp: create_message_def rust_simps)
  with assms(1) show ?thesis
    by (simp add: process_incoming_msg_def codecs_round_trip_def round_tripD [OF _ cb(1)]
        round_tripD [OF _ cb(2)])
qed

lemma process_direct_created:
  assumes "codecs_round_trip cs" and "write_to_bytes (sender_codec cs ns) dm = Ok payload"
    and "create_message (nc_circuit cs) payload (sender_type ns) = Ok bs"
  shows "process_incoming_msg cs bs r =
    (let (res, r') = route (dmsg_correlation_id dm) (Ok (sender_type ns, payload)) r
     in (map_err (\<lambda>_. ProcessError ''unable to route message'') res, r'))"
proof -
  have "parse_from_bytes (sender_codec cs ns) payload = Ok dm"
    using sender_codec_round_trip [OF assms(1)] assms(2) by (rule round_tripD)
  then show ?thesis
    unfolding process_incoming_created [OF assms(1,3)]
    by (cases ns) (simp_all add: process_circuit_msg_def route_inner_def)
qed

lemma send_and_await_request:
  assumes "sender_send_and_await cs uuid ns rcpt payload n = (Ok fut, n')"
  obtains bs where
    "encode_direct cs ns (direct_message_from ns (sender_circuit ns) rcpt payload uuid) = Ok bs"
    "chan_open (sn_out n)" "sn_out n' = (sn_out n)\<lparr>chan_queue := chan_queue (sn_out n) @ [bs]\<rparr>"
    "sn_router n' = snd (expect_reply uuid (sn_router n))"
    "fut = \<lparr>fut_channel = next_channel (sn_router n), fut_result = None\<rparr>"
  using assms
  by (auto simp: sender_send_and_await_def bind_act_def lift_act_def expect_reply_def send_bytes_def
      chan_send_def pure_act_def Let_def split: result.splits if_splits)

lemma encode_direct_Ok:
  assumes "encode_direct cs ns dm = Ok bs"
  obtains payload where "write_to_bytes (sender_codec cs ns) dm = Ok payload"
    "create_message (nc_circuit cs) payload (sender_type ns) = Ok bs"
  using assms by (auto simp: encode_direct_def rust_simps)

lemma future_waits_after_request:
  assumes "sender_send_and_await cs uuid ns rcpt payload n = (Ok fut, n')"
  shows "future_get c fut (sn_router n') = None"
  using assms by (rule send_and_await_request) (simp add: future_get_def expect_reply_def)

text \<open>The first message with the correlation id of a request is its reply.\<close>

lemma reply_is_received:
  assumes "codecs_round_trip cs" and "sender_send_and_await cs uuid ns rcpt payload n = (Ok fut, n')"
    and "encode_direct cs ns' dm = Ok bs" and "dmsg_correlation_id dm = uuid"
    and "sender_type ns' = sender_type ns"
  shows "\<exists>r'. process_incoming_msg cs bs (sn_router n') = (Ok (), r') \<and>
    default_sender r' = default_sender (sn_router n) \<and>
    (\<exists>fut' r''. future_get (sender_codec cs ns) fut r' = Some (Ok dm, fut', r''))"
proof -
  obtain p where p: "write_to_bytes (sender_codec cs ns') dm = Ok p"
    "create_message (nc_circuit cs) p (sender_type ns') = Ok bs"
    using assms(3) by (rule encode_direct_Ok)
  have "sender_codec cs ns' = sender_codec cs ns"
    using assms(5) by (cases ns; cases ns') simp_all
  then have read: "parse_from_bytes (sender_codec cs ns) p = Ok dm"
    using round_tripD [OF sender_codec_round_trip [OF assms(1)] p(1)] by simp
  from assms(2) show ?thesis
    by (rule send_and_await_request)
      (simp add: process_direct_created [OF assms(1) p] assms(4) route_def expect_reply_def
        send_to_channel_def chan_send_def future_get_def future_read_def read)
qed

lemma error_not_routed:
  assumes "codecs_round_trip cs" and "create_message (nc_circuit cs) payload CIRCUIT_ERROR_MESSAGE = Ok bs"
  shows "process_incoming_msg cs bs r = (Ok (), r)"
  unfolding process_incoming_created [OF assms] by (simp add: process_circuit_msg_def pure_act_def)

text \<open>The message a node passes on is the one it was sent.\<close>

lemma forwarded_is_original:
  assumes "route_direct (cn_node_id n) dm (cn_state n) = Forward p" and "chan_open (cn_out n)"
    and "create_message cs inner CIRCUIT_DIRECT_MESSAGE = Ok bs" and "message_bytes ctx = inner"
  shows "chan_queue (cn_out (snd (direct_message_handle cs dm ctx n))) =
    chan_queue (cn_out n) @ [\<lparr>recipient = p, req_payload = bs\<rparr>]"
  using assms
  by (simp add: direct_message_handle_def perform_routing_def message_bytes_of_def circuit_reply_queue)

text \<open>A concrete instance: services \<open>a\<close> and \<open>b\<close> of circuit \<open>alpha\<close>, a request of \<open>a\<close> and an answer.\<close>

definition ex_request :: direct_message where
  "ex_request = direct_message_from (StandardSender ''alpha'' ''a'') ''alpha'' ''b'' [5] ''u''"

definition ex_answer :: direct_message where
  "ex_answer = direct_message_from (StandardSender ''alpha'' ''b'') ''alpha'' ''a'' [6] ''u''"

definition ex_error :: circuit_error where
  "ex_error = direct_error ex_request ERROR_RECIPIENT_NOT_IN_DIRECTORY
     ''Recipient is not in the service directory: b''"

definition ex_net_codecs :: net_codecs where
  "ex_net_codecs = \<lparr>nc_circuit = \<lparr>circuit_message_c = table_codec
         [\<lparr>cmsg_type = CIRCUIT_DIRECT_MESSAGE, cmsg_payload = [0]\<rparr>,
          \<lparr>cmsg_type = CIRCUIT_DIRECT_MESSAGE, cmsg_payload = [1]\<rparr>,
          \<lparr>cmsg_type = CIRCUIT_ERROR_MESSAGE, cmsg_payload = [0]\<rparr>],
       circuit_network_c = table_codec [\<lparr>nm_type = CIRCUIT, nm_payload = [0]\<rparr>,
          \<lparr>nm_type = CIRCUIT, nm_payload = [1]\<rparr>, \<lparr>nm_type = CIRCUIT, nm_payload = [2]\<rparr>],
       circuit_error_c = table_codec [ex_error], connect_response_codec = table_codec [],
       disconnect_response_codec = table_codec []\<rparr>,
     nc_requests = \<lparr>connect_request_codec = table_codec [], disconnect_request_codec = table_codec [],
       direct_message_codec = table_codec [ex_request, ex_answer], admin_message_codec = table_codec []\<rparr>\<rparr>"

definition ex_net :: service_net where
  "ex_net = \<lparr>sn_router = router_new \<lparr>chan_open = True, chan_queue = []\<rparr>,
     sn_out = \<lparr>chan_open = True, chan_queue = []\<rparr>\<rparr>"

text \<open>The node, where \<open>b\<close> is served on the same connection as \<open>a\<close>, or not at all.\<close>

definition ex_shared_node :: "bool \<Rightarrow> circuit_node" where
  "ex_shared_node b_connected = ex_node\<lparr>cn_state := (cn_state ex_node)\<lparr>service_dir := (\<lambda>k.
     if k = (''alpha'', ''a'') \<or> k = (''alpha'', ''b'') \<and> b_connected
     then Some \<lparr>svc_service_id = snd k, svc_peer_id = Some ''p'', svc_node = \<lparr>node_id_of = ''n1'', node_endpoints = []\<rparr>\<rparr>
     else None)\<rparr>\<rparr>"

lemma ex_codecs_round_trip: "codecs_round_trip ex_net_codecs"
  by (simp add: codecs_round_trip_def ex_net_codecs_def round_trip_table)

lemmas ex_net_eval =
  ex_request_def ex_answer_def ex_net_codecs_def ex_net_def direct_message_from_def
  encode_direct_def bind_act_def lift_act_def expect_reply_def send_bytes_def chan_send_def pure_act_def
  router_new_def create_message_def table_codec_def

lemma ex_send_and_await:
  "\<exists>fut n'. sender_send_and_await ex_net_codecs ''u'' (StandardSender ''alpha'' ''a'') ''b'' [5] ex_net = (Ok fut, n')"
  by (simp add: sender_send_and_await_def ex_net_eval)

lemma ex_request_bytes:
  "write_to_bytes (direct_message_codec (nc_requests ex_net_codecs))
     (direct_message_from (StandardSender ''alpha'' ''a'') ''alpha'' ''b'' [5] ''u'') = Ok [0]"
  by (simp add: ex_net_eval)

section \<open>Properties\<close>



text \<open>Two services behind one connection cannot ask each other: when the node sends a request back on
  the connection it came from, because the recipient is served there too, the processor takes the
  request for its own reply. The caller gets its own payload back and the recipient never sees it.\<close>

theorem request_answers_itself_on_shared_connection:
  assumes "codecs_round_trip cs"
    and "sender_send_and_await cs uuid (StandardSender circuit a) b payload net = (Ok fut, net')"
    and "write_to_bytes (direct_message_codec (nc_requests cs))
        (direct_message_from (StandardSender circuit a) circuit b payload uuid) = Ok inner"
    and "route_direct (cn_node_id n) (direct_message_from (StandardSender circuit a) circuit b payload uuid)
        (cn_state n) = Forward p"
    and "chan_open (cn_out n)"
  shows "\<exists>bs r'. chan_queue (cn_out (snd (direct_message_handle (nc_circuit cs)
        (direct_message_from (StandardSender circuit a) circuit b payload uuid)
        \<lparr>source_peer_id = p, ctx_message_type = CIRCUIT_DIRECT_MESSAGE, message_bytes = inner\<rparr> n))) =
      chan_queue (cn_out n) @ [\<lparr>recipient = p, req_payload = bs\<rparr>] \<and>
    process_incoming_msg cs bs (sn_router net') = (Ok (), r') \<and>
    default_sender r' = default_sender (sn_router net) \<and>
    (\<exists>dm fut' r''. future_get (direct_message_codec (nc_requests cs)) fut r' = Some (Ok dm, fut', r'') \<and>
       dmsg_payload dm = payload \<and> dmsg_recipient dm = b)"
proof -
  let ?ns = "StandardSender circuit a"
  let ?dm = "direct_message_from ?ns circuit b payload uuid"
  from assms(2) obtain bs where bs: "encode_direct cs ?ns ?dm = Ok bs"
    by (rule send_and_await_request) simp
  then have create: "create_message (nc_circuit cs) inner CIRCUIT_DIRECT_MESSAGE = Ok bs"
    using assms(3) by (auto simp: encode_direct_def rust_simps)
  have "dmsg_correlation_id ?dm = uuid" "dmsg_payload ?dm = payload" "dmsg_recipient ?dm = b"
    by (simp_all add: direct_message_from_def)
  with reply_is_received [OF assms(1,2) bs] forwarded_is_original [OF assms(4,5) create, of
      "\<lparr>source_peer_id = p, ctx_message_type = CIRCUIT_DIRECT_MESSAGE, message_bytes = inner\<rparr>"]
  show ?thesis by auto
qed

theorem request_answers_itself_on_shared_connection_witness:
  "\<exists>fut net' r' dm fut' r''.
     sender_send_and_await ex_net_codecs ''u'' (StandardSender ''alpha'' ''a'') ''b'' [5] ex_net = (Ok fut, net') \<and>
     future_get (direct_message_codec (nc_requests ex_net_codecs)) fut r' = Some (Ok dm, fut', r'') \<and>
     dmsg_payload dm = [5]"
proof -
  from ex_send_and_await obtain fut n' where n':
    "sender_send_and_await ex_net_codecs ''u'' (StandardSender ''alpha'' ''a'') ''b'' [5] ex_net = (Ok fut, n')"
    by blast
  have "route_direct (cn_node_id (ex_shared_node True))
      (direct_message_from (StandardSender ''alpha'' ''a'') ''alpha'' ''b'' [5] ''u'')
      (cn_state (ex_shared_node True)) = Forward ''p''"
    by (simp add: ex_shared_node_def ex_node_eval direct_message_from_def)
  moreover have "chan_open (cn_out (ex_shared_node True))" by (simp add: ex_shared_node_def ex_node_def)
  ultimately show ?thesis
    using request_answers_itself_on_shared_connection [OF ex_codecs_round_trip n' ex_request_bytes] n' by blast
qed

text \<open>A request that the node rejects is never answered: the processor ignores circuit error messages,
  so the caller of \<open>send_and_await\<close> waits on although the error names its correlation id.\<close>

theorem rejected_request_waits_forever:
  assumes "codecs_round_trip cs"
    and "sender_send_and_await cs uuid (StandardSender circuit a) b payload net = (Ok fut, net')"
    and "route_direct (cn_node_id n) (direct_message_from (StandardSender circuit a) circuit b payload uuid)
        (cn_state n) = Reject err"
    and "req \<in> set (drop (length (chan_queue (cn_out n))) (chan_queue (cn_out (snd
        (direct_message_handle (nc_circuit cs)
           (direct_message_from (StandardSender circuit a) circuit b payload uuid) ctx n)))))"
  shows "recipient req = source_peer_id ctx \<and>
    process_incoming_msg cs (req_payload req) (sn_router net') = (Ok (), sn_router net') \<and>
    future_get (direct_message_codec (nc_requests cs)) fut (sn_router net') = None"
proof -
  let ?dm = "direct_message_from (StandardSender circuit a) circuit b payload uuid"
  have q: "chan_queue (cn_out (snd (direct_message_handle (nc_circuit cs) ?dm ctx n))) =
      chan_queue (cn_out n) @
        (case message_bytes_of (nc_circuit cs) (write_to_bytes (circuit_error_c (nc_circuit cs)) err)
                CIRCUIT_ERROR_MESSAGE of
           Ok bs \<Rightarrow> if chan_open (cn_out n) then [\<lparr>recipient = source_peer_id ctx, req_payload = bs\<rparr>] else []
         | Err _ \<Rightarrow> [])"
    using assms(3) by (simp add: direct_message_handle_def perform_routing_def circuit_reply_queue)
  with assms(4) obtain bs where bs: "req = \<lparr>recipient = source_peer_id ctx, req_payload = bs\<rparr>"
    "message_bytes_of (nc_circuit cs) (write_to_bytes (circuit_error_c (nc_circuit cs)) err)
       CIRCUIT_ERROR_MESSAGE = Ok bs"
    by (auto split: result.splits if_splits)
  then obtain eb where "create_message (nc_circuit cs) eb CIRCUIT_ERROR_MESSAGE = Ok bs"
    by (auto simp: message_bytes_of_def rust_simps)
  with bs(1) error_not_routed [OF assms(1)] future_waits_after_request [OF assms(2)] show ?thesis by simp
qed

theorem rejected_request_waits_forever_witness:
  "\<exists>fut net'.
     sender_send_and_await ex_net_codecs ''u'' (StandardSender ''alpha'' ''a'') ''b'' [5] ex_net = (Ok fut, net') \<and>
     chan_queue (cn_out (snd (direct_message_handle (nc_circuit ex_net_codecs)
        (direct_message_from (StandardSender ''alpha'' ''a'') ''alpha'' ''b'' [5] ''u'')
        \<lparr>source_peer_id = ''p'', ctx_message_type = CIRCUIT_DIRECT_MESSAGE, message_bytes = [0]\<rparr>
        (ex_shared_node False)))) = [\<lparr>recipient = ''p'', req_payload = [2]\<rparr>] \<and>
     process_incoming_msg ex_net_codecs [2] (sn_router net') = (Ok (), sn_router net') \<and>
     future_get (direct_message_codec (nc_requests ex_net_codecs)) fut (sn_router net') = None"
proof -
  let ?dm = "direct_message_from (StandardSender ''alpha'' ''a'') ''alpha'' ''b'' [5] ''u''"
  let ?ctx = "\<lparr>source_peer_id = ''p'', ctx_message_type = CIRCUIT_DIRECT_MESSAGE, message_bytes = [0]\<rparr>"
  from ex_send_and_await obtain fut n' where n':
    "sender_send_and_await ex_net_codecs ''u'' (StandardSender ''alpha'' ''a'') ''b'' [5] ex_net = (Ok fut, n')"
    by blast
  have rej: "route_direct (cn_node_id (ex_shared_node False)) ?dm (cn_state (ex_shared_node False)) = Reject ex_error"
    by (simp add: ex_shared_node_def ex_node_eval direct_message_from_def ex_error_def ex_request_def)
  have q: "chan_queue (cn_out (ex_shared_node False)) = []" "chan_open (cn_out (ex_shared_node False))"
    by (simp_all add: ex_shared_node_def ex_node_def)
  have bytes: "message_bytes_of (nc_circuit ex_net_codecs)
      (write_to_bytes (circuit_error_c (nc_circuit ex_net_codecs)) ex_error) CIRCUIT_ERROR_MESSAGE = Ok [2]"
    by (simp add: ex_net_codecs_def message_bytes_of_def create_message_def table_codec_def)
  have out: "chan_queue (cn_out (snd (direct_message_handle (nc_circuit ex_net_codecs) ?dm ?ctx
      (ex_shared_node False)))) = [\<lparr>recipient = ''p'', req_payload = [2]\<rparr>]"
    using rej bytes q by (simp add: direct_message_handle_def perform_routing_def circuit_reply_queue)
  then have "\<lparr>recipient = ''p'', req_payload = [2]\<rparr> \<in> set (drop (length (chan_queue (cn_out (ex_shared_node False))))
      (chan_queue (cn_out (snd (direct_message_handle (nc_circuit ex_net_codecs) ?dm ?ctx (ex_shared_node False))))))"
    using q by simp
  from rejected_request_waits_forever [OF ex_codecs_round_trip n' rej this] n' out show ?thesis by auto
qed

end
