(* ===== verification/Orchestrator.thy ===== *)
theory Orchestrator
  imports Service_Net Auth
begin

text \<open>
  The service orchestrator, \<^verbatim>\<open>libsplinter/src/orchestrator/mod.rs\<close>: it starts and stops the services of
  this node and hands them the messages that arrive for them.

  A service is its state \<open>'s\<close> with its methods (\<open>service_ops\<close>); what a method does is an argument of the
  model. The services are a list of pairs with distinct definitions, in the order in which the hash map
  lists them.
\<close>

section \<open>Definitions\<close>

record orch_definition =
  od_circuit :: string
  od_service_id :: string
  od_service_type :: string

text \<open>A factory: the types it makes, and \<open>create\<close>, which gives a service from id, type, circuit and
  arguments.\<close>

record 's service_factory =
  sf_types :: "string list"
  sf_create :: "string \<Rightarrow> string \<Rightarrow> string \<Rightarrow> (string \<times> string) list \<Rightarrow> ('s \<times> 's service_ops, string) result"

record 's managed_service =
  ms_state :: 's
  ms_ops :: "'s service_ops"

record 's orchestrator =
  or_services :: "(orch_definition \<times> 's managed_service) list"
  or_factories :: "'s service_factory list"
  or_running :: bool

datatype initialize_error = InitializationFailed string | UnknownType
datatype shutdown_error = ShutdownFailed orch_definition string | UnknownService
datatype orchestrator_error = OrchestratorInternal string

datatype new_orchestrator_error = NewOrchestratorError string

text \<open>\<open>new\<close>: the outcomes of adding the connection, of sending over it and of receiving the first
  message are arguments. That message is not looked at. The threads it starts are the loops below.\<close>

definition orchestrator_connect_request :: "auth_codecs \<Rightarrow> (bytes, string) result" where
  "orchestrator_connect_request cs =
     bind_result (write_to_bytes (connect_request_c cs) UNIDIRECTIONAL)
       (\<lambda>payload. bind_result (write_to_bytes (authorization_message_c cs)
            \<lparr>am_type = CONNECT_REQUEST, am_payload = payload\<rparr>)
          (\<lambda>auth_bytes. write_to_bytes (network_message_c cs)
             \<lparr>nm_type = AUTHORIZATION, nm_payload = auth_bytes\<rparr>))"

definition orchestrator_new ::
  "auth_codecs \<Rightarrow> (nat, string) result \<Rightarrow> (nat \<Rightarrow> bytes \<Rightarrow> (unit, string) result) \<Rightarrow> (bytes, string) result \<Rightarrow>
   's service_factory list \<Rightarrow> ('s orchestrator, new_orchestrator_error) result" where
  "orchestrator_new cs added mesh_send received factories =
     map_err NewOrchestratorError
       (bind_result added (\<lambda>mesh_id.
        bind_result (orchestrator_connect_request cs) (\<lambda>connect_request.
        bind_result (mesh_send mesh_id connect_request) (\<lambda>_.
        map_result (\<lambda>_. \<lparr>or_services = [], or_factories = factories, or_running = True\<rparr>) received))))"

definition supported_service_types :: "'s orchestrator \<Rightarrow> string list" where
  "supported_service_types o' = concat (map sf_types (or_factories o'))"

definition insert_service ::
  "orch_definition \<Rightarrow> 's managed_service \<Rightarrow> (orch_definition \<times> 's managed_service) list \<Rightarrow>
   (orch_definition \<times> 's managed_service) list" where
  "insert_service d m xs = (d, m) # filter (\<lambda>e. fst e \<noteq> d) xs"

definition initialize_service ::
  "orch_definition \<Rightarrow> (string \<times> string) list \<Rightarrow> ('s orchestrator, unit, initialize_error) action" where
  "initialize_service d args orch =
     (case List.find (\<lambda>f. od_service_type d \<in> set (sf_types f)) (or_factories orch) of
        None \<Rightarrow> (Err UnknownType, orch)
      | Some f \<Rightarrow>
          (case sf_create f (od_service_id d) (od_service_type d) (od_circuit d) args of
             Err e \<Rightarrow> (Err (InitializationFailed e), orch)
           | Ok (s, ops) \<Rightarrow>
               (case so_start ops s of
                  (Err e, _) \<Rightarrow> (Err (InitializationFailed e), orch)
                | (Ok _, s') \<Rightarrow>
                    (Ok (), orch\<lparr>or_services := insert_service d \<lparr>ms_state = s', ms_ops = ops\<rparr> (or_services orch)\<rparr>))))"

text \<open>\<open>stop\<close>, then \<open>destroy\<close>, of a service that has been taken out.\<close>

definition stop_and_destroy :: "'s managed_service \<Rightarrow> (unit, string) result" where
  "stop_and_destroy m =
     (case so_stop (ms_ops m) (ms_state m) of
        (Err e, _) \<Rightarrow> Err e
      | (Ok _, s') \<Rightarrow> so_destroy (ms_ops m) s')"

definition shutdown_service :: "orch_definition \<Rightarrow> ('s orchestrator, unit, shutdown_error) action" where
  "shutdown_service d orch =
     (case map_of (or_services orch) d of
        None \<Rightarrow> (Err UnknownService, orch)
      | Some m \<Rightarrow>
          (map_err (ShutdownFailed d) (stop_and_destroy m),
           orch\<lparr>or_services := filter (\<lambda>e. fst e \<noteq> d) (or_services orch)\<rparr>))"

definition list_services :: "string list \<Rightarrow> string list \<Rightarrow> 's orchestrator \<Rightarrow> orch_definition list" where
  "list_services circuits service_types orch =
     filter (\<lambda>d. (circuits = [] \<or> od_circuit d \<in> set circuits) \<and>
                 (service_types = [] \<or> od_service_type d \<in> set service_types))
       (map fst (or_services orch))"

text \<open>\<open>destroy\<close>: the map is drained before the loop, so the services after one that fails are dropped
  without being stopped.\<close>

fun destroy_all :: "'s managed_service list \<Rightarrow> (unit, orchestrator_error) result" where
  "destroy_all [] = Ok ()"
| "destroy_all (m # ms) =
     (case stop_and_destroy m of Err e \<Rightarrow> Err (OrchestratorInternal e) | Ok _ \<Rightarrow> destroy_all ms)"

definition orchestrator_destroy :: "('s orchestrator, unit, orchestrator_error) action" where
  "orchestrator_destroy orch =
     (case destroy_all (map snd (or_services orch)) of
        Err e \<Rightarrow> (Err e, orch\<lparr>or_services := []\<rparr>)
      | Ok _ \<Rightarrow> (Ok (), orch\<lparr>or_services := [], or_running := False\<rparr>))"

text \<open>The loops of the three threads, over what they receive until \<open>running\<close> is false. The loop for
  incoming messages is that of the service processor, but an error ends the thread and a circuit error
  message is parsed before it is dropped.\<close>

definition orch_route_inner ::
  "'m codec \<Rightarrow> ('m \<Rightarrow> string) \<Rightarrow> circuit_message \<Rightarrow> (inbound_router, unit, orchestrator_error) action" where
  "orch_route_inner c correlation cm r =
     (case parse_from_bytes c (cmsg_payload cm) of
        Err e \<Rightarrow> (Err (OrchestratorInternal e), r)
      | Ok m \<Rightarrow>
          (let (res, r') = route (correlation m) (Ok (cmsg_type cm, cmsg_payload cm)) r
           in (map_err (\<lambda>_. OrchestratorInternal ''unable to route message'') res, r')))"

definition orch_incoming ::
  "net_codecs \<Rightarrow> bytes \<Rightarrow> (inbound_router, unit, orchestrator_error) action" where
  "orch_incoming cs bs r =
     (case parse_from_bytes (circuit_network_c (nc_circuit cs)) bs of
        Err e \<Rightarrow> (Err (OrchestratorInternal e), r)
      | Ok msg \<Rightarrow>
          if nm_type msg = CIRCUIT then
            (case parse_from_bytes (circuit_message_c (nc_circuit cs)) (nm_payload msg) of
               Err e \<Rightarrow> (Err (OrchestratorInternal e), r)
             | Ok cm \<Rightarrow>
                 (case cmsg_type cm of
                    ADMIN_DIRECT_MESSAGE \<Rightarrow>
                      orch_route_inner (admin_message_codec (nc_requests cs)) dmsg_correlation_id cm r
                  | CIRCUIT_DIRECT_MESSAGE \<Rightarrow>
                      orch_route_inner (direct_message_codec (nc_requests cs)) dmsg_correlation_id cm r
                  | SERVICE_CONNECT_RESPONSE \<Rightarrow>
                      orch_route_inner (connect_response_codec (nc_circuit cs)) resp_correlation_id cm r
                  | SERVICE_DISCONNECT_RESPONSE \<Rightarrow>
                      orch_route_inner (disconnect_response_codec (nc_circuit cs)) resp_correlation_id cm r
                  | CIRCUIT_ERROR_MESSAGE \<Rightarrow>
                      (case parse_from_bytes (circuit_error_c (nc_circuit cs)) (cmsg_payload cm) of
                         Err e \<Rightarrow> (Err (OrchestratorInternal e), r)
                       | Ok _ \<Rightarrow> (Ok (), r))
                  | _ \<Rightarrow> (Ok (), r)))
          else (Ok (), r))"

datatype incoming_event = IncomingBytes bytes | IncomingTimeout | IncomingDisconnected

fun run_incoming_loop ::
  "net_codecs \<Rightarrow> incoming_event list \<Rightarrow> (inbound_router, unit, orchestrator_error) action" where
  "run_incoming_loop cs [] r = (Ok (), r)"
| "run_incoming_loop cs (IncomingTimeout # es) r = run_incoming_loop cs es r"
| "run_incoming_loop cs (IncomingDisconnected # es) r = (Ok (), r)"
| "run_incoming_loop cs (IncomingBytes bs # es) r =
     (case orch_incoming cs bs r of
        (Err e, r') \<Rightarrow> (Err e, r')
      | (Ok _, r') \<Rightarrow> run_incoming_loop cs es r')"

text \<open>The loop for messages to the services.\<close>

definition addressed_to :: "direct_message \<Rightarrow> orch_definition \<Rightarrow> bool" where
  "addressed_to dm d \<longleftrightarrow> od_circuit d = dmsg_circuit dm \<and> od_service_id d = dmsg_recipient dm"

definition handle_at ::
  "direct_message \<Rightarrow> ((orch_definition \<times> 's managed_service) list, unit, orchestrator_error) action" where
  "handle_at dm xs =
     (case List.find (\<lambda>e. addressed_to dm (fst e)) xs of
        None \<Rightarrow> (Ok (), xs)
      | Some (d, m) \<Rightarrow>
          (let (res, s') = so_handle_message (ms_ops m) (dmsg_payload dm) (context_of dm) (ms_state m)
           in (map_err OrchestratorInternal res,
               map (\<lambda>e. if fst e = d then (d, m\<lparr>ms_state := s'\<rparr>) else e) xs)))"

definition orch_inbound ::
  "net_codecs \<Rightarrow> circuit_message_type \<times> bytes \<Rightarrow>
   ((orch_definition \<times> 's managed_service) list, unit, orchestrator_error) action" where
  "orch_inbound cs m xs =
     (case m of (mt, bs) \<Rightarrow>
        (case mt of
           ADMIN_DIRECT_MESSAGE \<Rightarrow>
             (case parse_from_bytes (admin_message_codec (nc_requests cs)) bs of
                Err e \<Rightarrow> (Err (OrchestratorInternal e), xs)
              | Ok dm \<Rightarrow> handle_at dm xs)
         | CIRCUIT_DIRECT_MESSAGE \<Rightarrow>
             (case parse_from_bytes (direct_message_codec (nc_requests cs)) bs of
                Err e \<Rightarrow> (Err (OrchestratorInternal e), xs)
              | Ok dm \<Rightarrow> handle_at dm xs)
         | _ \<Rightarrow> (Ok (), xs)))"

datatype inbound_event = InboundMessage message_result | InboundTimeout | InboundClosed

fun run_inbound_loop ::
  "net_codecs \<Rightarrow> inbound_event list \<Rightarrow>
   ((orch_definition \<times> 's managed_service) list, unit, orchestrator_error) action" where
  "run_inbound_loop cs [] xs = (Ok (), xs)"
| "run_inbound_loop cs (InboundTimeout # es) xs = run_inbound_loop cs es xs"
| "run_inbound_loop cs (InboundClosed # es) xs = (Err (OrchestratorInternal ''disconnected''), xs)"
| "run_inbound_loop cs (InboundMessage (Err e) # es) xs = (Err (OrchestratorInternal e), xs)"
| "run_inbound_loop cs (InboundMessage (Ok m) # es) xs =
     (case orch_inbound cs m xs of
        (Err e, xs') \<Rightarrow> (Err e, xs')
      | (Ok _, xs') \<Rightarrow> run_inbound_loop cs es xs')"

text \<open>The loop for outgoing messages; \<open>mesh_send\<close> is the outcome of sending to the node.\<close>

datatype outgoing_event = OutgoingBytes bytes | OutgoingTimeout | OutgoingClosed

fun run_outgoing_loop ::
  "(bytes \<Rightarrow> (unit, string) result) \<Rightarrow> outgoing_event list \<Rightarrow> (bytes list, unit, orchestrator_error) action" where
  "run_outgoing_loop mesh_send [] sent = (Ok (), sent)"
| "run_outgoing_loop mesh_send (OutgoingTimeout # es) sent = run_outgoing_loop mesh_send es sent"
| "run_outgoing_loop mesh_send (OutgoingClosed # es) sent = (Ok (), sent)"
| "run_outgoing_loop mesh_send (OutgoingBytes bs # es) sent =
     (case mesh_send bs of
        Err e \<Rightarrow> (Err (OrchestratorInternal e), sent)
      | Ok _ \<Rightarrow> run_outgoing_loop mesh_send es (sent @ [bs]))"

section \<open>Lemmas\<close>

definition orchestrator_wf :: "'s orchestrator \<Rightarrow> bool" where
  "orchestrator_wf orch \<longleftrightarrow> distinct (map fst (or_services orch)) \<and>
     od_service_type ` fst ` set (or_services orch) \<subseteq> set (supported_service_types orch)"

lemma find_SomeD: "List.find P xs = Some x \<Longrightarrow> x \<in> set xs \<and> P x"
  by (auto simp: find_Some_iff)

lemma insert_service_keys:
  "set (map fst (insert_service d m xs)) = insert d (set (map fst xs))"
  "distinct (map fst xs) \<Longrightarrow> distinct (map fst (insert_service d m xs))"
  by (auto simp: insert_service_def distinct_map_filter)

lemma initialize_service_Ok:
  assumes "initialize_service d args orch = (Ok (), orch')"
  obtains f m where "f \<in> set (or_factories orch)" and "od_service_type d \<in> set (sf_types f)"
    and "orch' = orch\<lparr>or_services := insert_service d m (or_services orch)\<rparr>"
  using assms
  by (auto simp: initialize_service_def find_Some_iff split: option.splits result.splits prod.splits
      dest: nth_mem)

lemma initialize_service_Err:
  "initialize_service d args orch = (Err e, orch') \<Longrightarrow> orch' = orch"
  by (auto simp: initialize_service_def split: option.splits result.splits prod.splits)

lemma initialize_service_wf:
  assumes "orchestrator_wf orch"
  shows "orchestrator_wf (snd (initialize_service d args orch))"
proof (cases "initialize_service d args orch")
  case (Pair r orch')
  show ?thesis
  proof (cases r)
    case (Err e)
    with Pair assms initialize_service_Err [of d args orch e orch'] show ?thesis by simp
  next
    case (Ok u)
    with Pair have "initialize_service d args orch = (Ok (), orch')" by simp
    then obtain f m where f: "f \<in> set (or_factories orch)" "od_service_type d \<in> set (sf_types f)"
      "orch' = orch\<lparr>or_services := insert_service d m (or_services orch)\<rparr>"
      by (rule initialize_service_Ok)
    have "od_service_type d \<in> set (supported_service_types orch)"
      using f(1,2) by (auto simp: supported_service_types_def)
    with assms f(3) insert_service_keys(2) [of "or_services orch" d m] Pair show ?thesis
      by (auto simp: orchestrator_wf_def supported_service_types_def insert_service_def)
  qed
qed

lemma shutdown_service_wf: "orchestrator_wf orch \<Longrightarrow> orchestrator_wf (snd (shutdown_service d orch))"
  by (auto simp: orchestrator_wf_def shutdown_service_def supported_service_types_def distinct_map_filter
      split: option.split)


text \<open>Delivering a message keeps the definitions.\<close>

lemma handle_at_keys: "map fst (snd (handle_at dm xs)) = map fst xs"
  by (auto simp: handle_at_def split: option.splits prod.splits)

lemma orch_inbound_keys: "map fst (snd (orch_inbound cs m xs)) = map fst xs"
  by (auto simp: orch_inbound_def handle_at_keys split: prod.splits circuit_message_type.splits result.splits)

text \<open>The calls and messages an orchestrator sees, and what they do to the set of definitions.\<close>

datatype orch_call =
  InitializeService orch_definition "(string \<times> string) list"
| ShutdownService orch_definition
| DeliverMessage "circuit_message_type \<times> bytes"

fun orchestrator_call :: "net_codecs \<Rightarrow> orch_call \<Rightarrow> 's orchestrator \<Rightarrow> bool \<times> 's orchestrator" where
  "orchestrator_call cs (InitializeService d args) orch =
     (let (r, orch') = initialize_service d args orch in (is_ok r, orch'))"
| "orchestrator_call cs (ShutdownService d) orch =
     (let (r, orch') = shutdown_service d orch in (is_ok r, orch'))"
| "orchestrator_call cs (DeliverMessage m) orch =
     (let (r, xs) = orch_inbound cs m (or_services orch) in (is_ok r, orch\<lparr>or_services := xs\<rparr>))"

fun definitions_after :: "orch_call \<Rightarrow> bool \<Rightarrow> orch_definition set \<Rightarrow> orch_definition set" where
  "definitions_after (InitializeService d args) ok ds = (if ok then insert d ds else ds)"
| "definitions_after (ShutdownService d) ok ds = ds - {d}"
| "definitions_after (DeliverMessage m) ok ds = ds"

lemma list_services_set: "set (list_services [] [] orch) = fst ` set (or_services orch)"
  by (simp add: list_services_def)

lemma shutdown_service_keys:
  "fst ` set (or_services (snd (shutdown_service d orch))) = fst ` set (or_services orch) - {d}"
  by (force simp: shutdown_service_def map_of_eq_None_iff split: option.split)

lemma deliver_wf:
  "orchestrator_wf orch \<Longrightarrow>
   orchestrator_wf (orch\<lparr>or_services := snd (orch_inbound cs m (or_services orch))\<rparr>)"
  using orch_inbound_keys [of cs m "or_services orch"]
  by (simp add: orchestrator_wf_def supported_service_types_def flip: set_map)

text \<open>C32. Every call and every delivered message keeps the orchestrator well formed (each definition has
  one service, of a type some factory makes) and changes the listed definitions as intended: an
  initialization that succeeds adds its definition, one that fails adds nothing, a shutdown removes the
  definition whether stopping the service succeeds or not, and a message changes nothing.\<close>

theorem orchestrator_tracks_services:
  assumes "orchestrator_wf orch" and "orchestrator_call cs c orch = (ok, orch')"
  shows "orchestrator_wf orch' \<and> distinct (list_services [] [] orch') \<and>
    set (list_services [] [] orch') = definitions_after c ok (set (list_services [] [] orch))"
proof (cases c)
  case (InitializeService d args)
  obtain r o2 where r: "initialize_service d args orch = (r, o2)" by fastforce
  with assms InitializeService initialize_service_wf [OF assms(1), of d args] have wf: "orchestrator_wf orch'"
    and o2: "orch' = o2" "ok = is_ok r" by auto
  have "fst ` set (or_services o2) = definitions_after c ok (fst ` set (or_services orch))"
  proof (cases r)
    case (Ok u)
    with r have "initialize_service d args orch = (Ok (), o2)" by simp
    then obtain m where "o2 = orch\<lparr>or_services := insert_service d m (or_services orch)\<rparr>"
      by (rule initialize_service_Ok)
    with Ok InitializeService o2 insert_service_keys(1) [of d m "or_services orch"] show ?thesis by simp
  next
    case (Err e)
    with r InitializeService o2 initialize_service_Err [of d args orch e o2] show ?thesis by simp
  qed
  with wf o2 show ?thesis
    unfolding list_services_set by (simp add: list_services_def orchestrator_wf_def)
next
  case (ShutdownService d)
  then have "orch' = snd (shutdown_service d orch)" using assms(2) by (simp add: case_prod_beta)
  with shutdown_service_wf [OF assms(1), of d] ShutdownService show ?thesis
    unfolding list_services_set by (simp add: shutdown_service_keys list_services_def orchestrator_wf_def)
next
  case (DeliverMessage m)
  then have o2: "orch' = orch\<lparr>or_services := snd (orch_inbound cs m (or_services orch))\<rparr>"
    using assms(2) by (auto simp: case_prod_beta)
  then have "fst ` set (or_services orch') = fst ` set (or_services orch)"
    using orch_inbound_keys [of cs m "or_services orch"] by (simp flip: set_map)
  with deliver_wf [OF assms(1), of cs m] o2 DeliverMessage show ?thesis
    unfolding list_services_set by (simp add: list_services_def orchestrator_wf_def)
qed

text \<open>The incoming loop of the orchestrator routes every message the way the service processor does,
  the state of the router included; they differ only in that a circuit error message that cannot be parsed
  is an error for the orchestrator.\<close>

theorem orchestrator_routes_like_processor:
  "snd (orch_incoming cs bs r) = snd (process_incoming_msg cs bs r) \<and>
   is_ok (fst (orch_incoming cs bs r)) =
     (is_ok (fst (process_incoming_msg cs bs r)) \<and>
      \<not> (case parse_from_bytes (circuit_network_c (nc_circuit cs)) bs of
           Err _ \<Rightarrow> False
         | Ok msg \<Rightarrow> nm_type msg = CIRCUIT \<and>
             (case parse_from_bytes (circuit_message_c (nc_circuit cs)) (nm_payload msg) of
                Err _ \<Rightarrow> False
              | Ok cm \<Rightarrow> cmsg_type cm = CIRCUIT_ERROR_MESSAGE \<and>
                  \<not> is_ok (parse_from_bytes (circuit_error_c (nc_circuit cs)) (cmsg_payload cm)))))"
proof -
  have inner: "snd (orch_route_inner c f cm r) = snd (route_inner c f w cm r)"
    "is_ok (fst (orch_route_inner c f cm r)) = is_ok (fst (route_inner c f w cm r))"
    for c :: "'m codec" and f w cm
    by (auto simp: orch_route_inner_def route_inner_def rust_simps split: result.splits prod.splits)
  show ?thesis
    by (auto simp: orch_incoming_def process_incoming_msg_def process_circuit_msg_def pure_act_def inner
        split: result.splits circuit_message_type.splits)
qed

text \<open>When the handler of one service returns an error, the inbound thread ends with it: whatever
  messages follow, no other service of the node receives one, and the definitions stay as they are.\<close>

theorem failing_service_stops_all_deliveries:
  assumes "distinct (map fst xs)"
    and "parse_from_bytes (direct_message_codec (nc_requests cs)) bs = Ok dm"
    and "(d, m) \<in> set xs" and "addressed_to dm d"
    and "\<forall>d'\<in>fst ` set xs. addressed_to dm d' \<longrightarrow> d' = d"
    and "so_handle_message (ms_ops m) (dmsg_payload dm) (context_of dm) (ms_state m) = (Err e, s')"
  shows "run_inbound_loop cs (InboundMessage (Ok (CIRCUIT_DIRECT_MESSAGE, bs)) # es) xs =
    (Err (OrchestratorInternal e), map (\<lambda>x. if fst x = d then (d, m\<lparr>ms_state := s'\<rparr>) else x) xs)"
proof -
  obtain d' m' where f: "List.find (\<lambda>x. addressed_to dm (fst x)) xs = Some (d', m')"
    using assms(3,4) by (cases "List.find (\<lambda>x. addressed_to dm (fst x)) xs") (auto simp: find_None_iff)
  then have "(d', m') \<in> set xs" "addressed_to dm d'" by (auto dest: find_SomeD)
  with assms(1,3,5) have "d' = d" "m' = m"
    by (force, metis assms(5) eq_key_imp_eq_value fst_conv imageI)
  with f assms(2,6) show ?thesis by (simp add: orch_inbound_def handle_at_def)
qed

text \<open>Two services on one circuit; the second counts the messages it gets.\<close>

definition ex_definition :: "string \<Rightarrow> orch_definition" where
  "ex_definition i = \<lparr>od_circuit = ''alpha'', od_service_id = i, od_service_type = ''t''\<rparr>"

definition ex_service :: "bool \<Rightarrow> nat managed_service" where
  "ex_service fails = \<lparr>ms_state = 0, ms_ops =
     \<lparr>so_start = (\<lambda>s. (Ok (), s)), so_stop = (\<lambda>s. (Ok (), s)), so_destroy = (\<lambda>_. Ok ()),
      so_handle_message = (\<lambda>_ _ s. if fails then (Err ''failed'', s) else (Ok (), Suc s))\<rparr>\<rparr>"

definition ex_orchestrator :: "nat orchestrator" where
  "ex_orchestrator =
     \<lparr>or_services = [(ex_definition ''a'', ex_service True), (ex_definition ''b'', ex_service False)],
      or_factories = [\<lparr>sf_types = [''t''],
        sf_create = (\<lambda>_ _ _ _. Ok (ms_state (ex_service False), ms_ops (ex_service False)))\<rparr>],
      or_running = True\<rparr>"

definition ex_to_service :: "string \<Rightarrow> direct_message" where
  "ex_to_service i = \<lparr>dmsg_circuit = ''alpha'', dmsg_sender = ''c'', dmsg_recipient = i, dmsg_payload = [1],
     dmsg_correlation_id = ''''\<rparr>"

definition ex_service_codecs :: net_codecs where
  "ex_service_codecs = ex_net_codecs\<lparr>nc_requests := (nc_requests ex_net_codecs)
     \<lparr>direct_message_codec := table_codec [ex_to_service ''a'', ex_to_service ''b'']\<rparr>\<rparr>"

lemmas ex_orchestrator_eval = ex_orchestrator_def ex_definition_def ex_service_def ex_to_service_def
  ex_service_codecs_def table_codec_def

theorem orchestrator_tracks_services_witness:
  "orchestrator_wf ex_orchestrator \<and>
   set (list_services [] [] (snd (orchestrator_call ex_service_codecs
     (InitializeService (ex_definition ''c'') []) ex_orchestrator))) =
   {ex_definition ''a'', ex_definition ''b'', ex_definition ''c''}"
proof -
  have wf: "orchestrator_wf ex_orchestrator"
    by (simp add: orchestrator_wf_def supported_service_types_def ex_orchestrator_eval)
  have ok: "fst (orchestrator_call ex_service_codecs (InitializeService (ex_definition ''c'') []) ex_orchestrator)"
    by (simp add: initialize_service_def ex_orchestrator_eval)
  show ?thesis
    using wf ok orchestrator_tracks_services [OF wf, of ex_service_codecs
      "InitializeService (ex_definition ''c'') []", OF prod.collapse [symmetric]]
    by (simp add: list_services_set del: orchestrator_call.simps) (auto simp: ex_orchestrator_def)
qed

theorem failing_service_stops_all_deliveries_witness:
  "run_inbound_loop ex_service_codecs
     [InboundMessage (Ok (CIRCUIT_DIRECT_MESSAGE, [0])), InboundMessage (Ok (CIRCUIT_DIRECT_MESSAGE, [1]))]
     (or_services ex_orchestrator) = (Err (OrchestratorInternal ''failed''), or_services ex_orchestrator) \<and>
   map (ms_state \<circ> snd) (snd (run_inbound_loop ex_service_codecs
     [InboundMessage (Ok (CIRCUIT_DIRECT_MESSAGE, [1]))] (or_services ex_orchestrator))) = [0, 1]"
proof -
  have "parse_from_bytes (direct_message_codec (nc_requests ex_service_codecs)) [0] = Ok (ex_to_service ''a'')"
    by (simp add: ex_service_codecs_def table_codec_def)
  from failing_service_stops_all_deliveries [of "or_services ex_orchestrator", OF _ this,
      of "ex_definition ''a''" "ex_service True" "''failed''" 0
        "[InboundMessage (Ok (CIRCUIT_DIRECT_MESSAGE, [1]))]"]
  show ?thesis
    by (simp add: ex_orchestrator_eval addressed_to_def orch_inbound_def handle_at_def)
qed

end
