(* ===== verification/Admin_Validation.thy ===== *)
theory Admin_Validation
  imports Open_Proposals Keys Orchestrator
begin

text \<open>
  The checks of the admin service: the errors of \<^verbatim>\<open>libsplinter/src/admin/service/error.rs\<close>, the helpers
  of \<^verbatim>\<open>admin/service/mod.rs\<close>, and the methods of \<open>AdminServiceShared\<close> (\<^verbatim>\<open>admin/service/shared.rs\<close>)
  that read the state without changing it: validation of payloads, circuits and votes, and the outcome
  of a vote.

  The cryptography is a parameter: a hash function, the verification of a signature and the key
  permission manager. Locks are not modelled.
\<close>

section \<open>Errors\<close>

text \<open>\<open>AdminPanic\<close> is not an error of the code: it marks the places where it would panic.\<close>

datatype admin_shared_error =
  HashError string
| InvalidMessageFormat marshalling_error
| NoPendingChanges
| ServiceInitializationFailed initialize_error
| ServiceShutdownFailed "shutdown_error list"
| ServiceSendFailed service_send_error
| UnknownAction string
| ValidationFailed string
| UnableToAddSubscriber string
| CommitError string
| UpdateProposalsError open_proposal_error
| AdminPanic

section \<open>Helpers\<close>

definition admin_service_id :: "string \<Rightarrow> string" where
  "admin_service_id node_id = ''admin::'' @ node_id"

definition sha256 :: "(bytes \<Rightarrow> (bytes, string) result) \<Rightarrow> 'm codec \<Rightarrow> 'm \<Rightarrow> (string, string) result" where
  "sha256 hash c m = bind_result (write_to_bytes c m) (\<lambda>bs. map_result to_hex (hash bs))"

definition VOTER_ROLE :: string where
  "VOTER_ROLE = ''voter''"

definition PROPOSER_ROLE :: string where
  "PROPOSER_ROLE = ''proposer''"

section \<open>Payloads\<close>

definition validate_circuit_management_payload ::
  "management_payload \<Rightarrow> payload_header \<Rightarrow> (unit, admin_shared_error) result" where
  "validate_circuit_management_payload payload header =
     guard_err (mp_signature payload = []) (ValidationFailed ''CircuitManagementPayload signature must be set'')
    (guard_err (mp_header payload = []) (ValidationFailed ''CircuitManagementPayload header must be set'')
    (guard_err (hd_requester header = []) (ValidationFailed ''CircuitManagementPayload must have a requester'')
    (guard_err (hd_requester_node_id header = [])
       (ValidationFailed ''CircuitManagementPayload must have a requester node id'') (Ok ()))))"

datatype verify_error = VerifyFormat string | VerifyFailed string

definition verify_signature ::
  "payload_header codec \<Rightarrow> (bytes \<Rightarrow> bytes \<Rightarrow> bytes \<Rightarrow> (bool, string) result) \<Rightarrow> management_payload \<Rightarrow>
   (bool, verify_error) result" where
  "verify_signature c verify payload =
     bind_result (map_err VerifyFormat (parse_from_bytes c (mp_header payload))) (\<lambda>header.
       map_err VerifyFailed (verify (mp_header payload) (mp_signature payload) (hd_requester header)))"

section \<open>Circuits\<close>

text \<open>The loop over the members: ids and endpoints seen so far.\<close>

fun check_members ::
  "proto_node list \<Rightarrow> string list \<Rightarrow> string list \<Rightarrow> (string list, admin_shared_error) result" where
  "check_members [] members eps = Ok members"
| "check_members (m # ms) members eps =
     guard_err (pn_node_id m = []) (ValidationFailed ''Member node id cannot be empty'')
    (guard_err (pn_node_id m \<in> set members) (ValidationFailed ''Every member must be unique in the circuit.'')
    (guard_err (pn_endpoint m = []) (ValidationFailed ''Member endpoint cannot be empty'')
    (guard_err (pn_endpoint m \<in> set eps)
       (ValidationFailed ''Every member endpoint must be unique in the circuit.'')
       (check_members ms (members @ [pn_node_id m]) (eps @ [pn_endpoint m])))))"

fun check_allowed_nodes :: "string list \<Rightarrow> string list \<Rightarrow> (unit, admin_shared_error) result" where
  "check_allowed_nodes members [] = Ok ()"
| "check_allowed_nodes members (n # ns) =
     guard_err (n \<notin> set members)
       (ValidationFailed (''Service cannot have an allowed node that is not in members: '' @ n))
       (check_allowed_nodes members ns)"

fun check_services ::
  "string list \<Rightarrow> proto_service list \<Rightarrow> string list \<Rightarrow> (unit, admin_shared_error) result" where
  "check_services members [] services = Ok ()"
| "check_services members (s # ss) services =
     guard_err (ps_allowed_nodes s = []) (ValidationFailed ''Service cannot have an empty allowed nodes list'')
    (guard_err (length (ps_allowed_nodes s) > 1)
       (ValidationFailed ''Only one allowed node for a service is supported'')
    (bind_result (check_allowed_nodes members (ps_allowed_nodes s)) (\<lambda>_.
     guard_err (ps_service_id s = []) (ValidationFailed ''Service id cannot be empty'')
    (guard_err (ps_service_id s \<in> set services) (ValidationFailed ''Every service must be unique in the circuit.'')
       (check_services members ss (services @ [ps_service_id s]))))))"

definition validate_circuit :: "string \<Rightarrow> proto_circuit \<Rightarrow> (unit, admin_shared_error) result" where
  "validate_circuit node_id c =
     guard_err (pc_authorization_type c = UNSET_AUTH_TYPE) (ValidationFailed ''authorization_type cannot be unset'')
    (guard_err (pc_persistence c = UNSET_PERSISTENCE_TYPE) (ValidationFailed ''persistence_type cannot be unset'')
    (guard_err (pc_durability c = UNSET_DURABILITY_TYPE) (ValidationFailed ''durability_type cannot be unset'')
    (guard_err (pc_routes c = UNSET_ROUTE_TYPE) (ValidationFailed ''route_type cannot be unset'')
    (guard_err (pc_circuit_id c = []) (ValidationFailed ''circuit_id must be set'')
    (guard_err (pc_circuit_management_type c = []) (ValidationFailed ''circuit_management_type must be set'')
    (bind_result (check_members (pc_members c) [] []) (\<lambda>members.
     guard_err (members = []) (ValidationFailed ''The circuit must have members'')
    (guard_err (node_id \<notin> set members) (ValidationFailed (''Circuit does not contain this node: '' @ node_id))
    (guard_err (pc_roster c = []) (ValidationFailed ''The circuit must have services'')
    (bind_result (check_services members (pc_roster c) []) (\<lambda>_.
     guard_err (pc_circuit_management_type c = [])
       (ValidationFailed ''The circuit must have a mangement type'') (Ok ()))))))))))))"

section \<open>Keys\<close>

text \<open>The key of the signer, from the registry.\<close>

definition registered_key :: "key_registry \<Rightarrow> bytes \<Rightarrow> (key_info, admin_shared_error) result" where
  "registered_key keys signer_public_key =
     bind_result (map_err (\<lambda>e. case e of KeyRegistryError m \<Rightarrow> ValidationFailed m) (get_key keys signer_public_key))
       (\<lambda>found. ok_or (ValidationFailed (to_hex signer_public_key @ '' is not registered for a node'')) found)"

definition not_permitted :: "bytes \<Rightarrow> string \<Rightarrow> admin_shared_error" where
  "not_permitted signer_public_key node_id =
     ValidationFailed (to_hex signer_public_key @ '' is not permitted to vote for node '' @ node_id)"

definition validate_create_circuit ::
  "key_registry \<Rightarrow> (bytes \<Rightarrow> string \<Rightarrow> (bool, string) result) \<Rightarrow> open_proposals \<Rightarrow> splinter_state \<Rightarrow> string \<Rightarrow>
   proto_circuit \<Rightarrow> bytes \<Rightarrow> string \<Rightarrow> (unit, admin_shared_error) result" where
  "validate_create_circuit keys is_permitted proposals state node_id c signer_public_key requester_node_id =
     guard_err (requester_node_id = []) (ValidationFailed ''requester_node_id is empty'')
    (bind_result (registered_key keys signer_public_key) (\<lambda>key.
     guard_err (ki_associated_node_id key \<noteq> requester_node_id)
       (ValidationFailed (to_hex signer_public_key @ '' is not registered for the node in header''))
    (bind_result (map_err (\<lambda>_. not_permitted signer_public_key (ki_associated_node_id key))
         (is_permitted signer_public_key PROPOSER_ROLE)) (\<lambda>_.
     guard_err (has_proposal proposals (pc_circuit_id c))
       (ValidationFailed (''Ignoring duplicate create proposal of circuit '' @ pc_circuit_id c))
    (guard_err (directory_has_circuit (circuit_dir state) (pc_circuit_id c))
       (ValidationFailed (''Circuit with circuit id '' @ pc_circuit_id c @ '' already exists''))
       (validate_circuit node_id c))))))"

section \<open>Votes\<close>

definition validate_circuit_vote ::
  "key_registry \<Rightarrow> (bytes \<Rightarrow> string \<Rightarrow> (bool, string) result) \<Rightarrow> proto_proposal_vote \<Rightarrow> bytes \<Rightarrow>
   proto_proposal \<Rightarrow> string \<Rightarrow> (unit, admin_shared_error) result" where
  "validate_circuit_vote keys is_permitted vote signer_public_key p node_id =
     bind_result (registered_key keys signer_public_key) (\<lambda>key.
     guard_err (ki_associated_node_id key \<noteq> node_id)
       (ValidationFailed (''Payload requester node id does not match the node the key is registered to: '' @
          to_hex (pp_requester p)))
    (guard_err (pp_requester_node_id p = ki_associated_node_id key)
       (ValidationFailed (''Received vote from requester node: '' @ to_hex (pp_requester p)))
    (guard_err (ki_associated_node_id key \<in> set (map pv_voter_node_id (pp_votes p)))
       (ValidationFailed (''Received duplicate vote from '' @ ki_associated_node_id key @ '' for '' @
          pv_circuit_id vote))
    (bind_result (map_err (\<lambda>_. not_permitted signer_public_key (ki_associated_node_id key))
         (is_permitted signer_public_key VOTER_ROLE)) (\<lambda>_.
     guard_err (pp_circuit_hash p \<noteq> pv_circuit_hash vote)
       (ValidationFailed (''Hash of circuit does not match circuit proposal: '' @ pv_circuit_id vote)) (Ok ()))))))"

datatype proposal_status = ProposalIsAccepted | ProposalIsRejected | ProposalIsPending

text \<open>The loop over the votes: the voters so far, or nothing after a vote against.\<close>

fun count_votes :: "proto_vote_record list \<Rightarrow> string set \<Rightarrow> string set option" where
  "count_votes [] received = Some received"
| "count_votes (v # vs) received =
     (if pv_vote v = REJECT then None else count_votes vs (insert (pv_voter_node_id v) received))"

definition check_approved :: "proto_proposal \<Rightarrow> proposal_status" where
  "check_approved p =
     (case count_votes (pp_votes p) {} of
        None \<Rightarrow> ProposalIsRejected
      | Some received \<Rightarrow>
          if set (map pn_node_id (pc_members (pp_circuit_proposal p))) - {pp_requester_node_id p} = received
          then ProposalIsAccepted else ProposalIsPending)"

section \<open>What the checks establish\<close>

text \<open>A well-formed circuit, as seen by the node \<open>node_id\<close>.\<close>

definition circuit_valid :: "string \<Rightarrow> proto_circuit \<Rightarrow> bool" where
  "circuit_valid node_id c \<longleftrightarrow>
     pc_authorization_type c = TRUST_AUTHORIZATION \<and> pc_persistence c = ANY_PERSISTENCE \<and>
     pc_durability c = NO_DURABILITY \<and> pc_routes c = ANY_ROUTE \<and>
     pc_circuit_id c \<noteq> [] \<and> pc_circuit_management_type c \<noteq> [] \<and>
     distinct (map pn_node_id (pc_members c)) \<and> [] \<notin> pn_node_id ` set (pc_members c) \<and>
     distinct (map pn_endpoint (pc_members c)) \<and> [] \<notin> pn_endpoint ` set (pc_members c) \<and>
     node_id \<in> pn_node_id ` set (pc_members c) \<and>
     pc_roster c \<noteq> [] \<and> distinct (map ps_service_id (pc_roster c)) \<and>
     [] \<notin> ps_service_id ` set (pc_roster c) \<and>
     (\<forall>s \<in> set (pc_roster c). \<exists>m \<in> set (pc_members c). ps_allowed_nodes s = [pn_node_id m])"

lemma check_members_Ok_iff:
  "check_members ms members eps = Ok r \<longleftrightarrow>
     r = members @ map pn_node_id ms \<and> [] \<notin> pn_node_id ` set ms \<and> [] \<notin> pn_endpoint ` set ms \<and>
     distinct (map pn_node_id ms) \<and> set (map pn_node_id ms) \<inter> set members = {} \<and>
     distinct (map pn_endpoint ms) \<and> set (map pn_endpoint ms) \<inter> set eps = {}"
  by (induction ms arbitrary: members eps) (auto simp: rust_simps)

lemma check_allowed_nodes_Ok_iff: "check_allowed_nodes members ns = Ok () \<longleftrightarrow> set ns \<subseteq> set members"
  by (induction ns) (auto simp: rust_simps)

lemma check_services_Ok_iff:
  "check_services members ss services = Ok () \<longleftrightarrow>
     (\<forall>s \<in> set ss. \<exists>n \<in> set members. ps_allowed_nodes s = [n]) \<and> [] \<notin> ps_service_id ` set ss \<and>
     distinct (map ps_service_id ss) \<and> set (map ps_service_id ss) \<inter> set services = {}"
proof (induction ss arbitrary: services)
  case Nil
  show ?case by simp
next
  case (Cons s ss)
  have one: "ps_allowed_nodes s \<noteq> [] \<and> \<not> 1 < length (ps_allowed_nodes s) \<and> set (ps_allowed_nodes s) \<subseteq> set members
      \<longleftrightarrow> (\<exists>n \<in> set members. ps_allowed_nodes s = [n])"
    by (cases "ps_allowed_nodes s" rule: list.exhaust; cases "tl (ps_allowed_nodes s)") auto
  show ?case
    unfolding check_services.simps guard_err_Ok_iff bind_result_Ok_iff Cons.IH
    using one by (auto simp: check_allowed_nodes_Ok_iff)
qed

lemma unset_iff:
  "a \<noteq> UNSET_AUTH_TYPE \<longleftrightarrow> a = TRUST_AUTHORIZATION" "p \<noteq> UNSET_PERSISTENCE_TYPE \<longleftrightarrow> p = ANY_PERSISTENCE"
  "d \<noteq> UNSET_DURABILITY_TYPE \<longleftrightarrow> d = NO_DURABILITY" "r \<noteq> UNSET_ROUTE_TYPE \<longleftrightarrow> r = ANY_ROUTE"
  subgoal by (cases a) simp_all
  subgoal by (cases p) simp_all
  subgoal by (cases d) simp_all
  subgoal by (cases r) simp_all
  done

lemma validate_circuit_Ok_iff: "validate_circuit node_id c = Ok () \<longleftrightarrow> circuit_valid node_id c"
  unfolding validate_circuit_def guard_err_Ok_iff bind_result_Ok_iff circuit_valid_def
    check_members_Ok_iff unset_iff
  by (auto simp: check_services_Ok_iff)

lemma count_votes_eq:
  "count_votes vs received =
     (if REJECT \<in> pv_vote ` set vs then None else Some (received \<union> pv_voter_node_id ` set vs))"
  by (induction vs arbitrary: received) auto

definition required_voters :: "proto_proposal \<Rightarrow> string set" where
  "required_voters p = pn_node_id ` set (pc_members (pp_circuit_proposal p)) - {pp_requester_node_id p}"

lemma check_approved_iff:
  "check_approved p = ProposalIsRejected \<longleftrightarrow> REJECT \<in> pv_vote ` set (pp_votes p)"
  "check_approved p = ProposalIsAccepted \<longleftrightarrow>
     REJECT \<notin> pv_vote ` set (pp_votes p) \<and> pv_voter_node_id ` set (pp_votes p) = required_voters p"
  by (auto simp: check_approved_def count_votes_eq required_voters_def)

lemma registered_key_Ok_iff:
  "registered_key keys k = Ok ki \<longleftrightarrow> get_key keys k = Ok (Some ki)"
  by (auto simp: registered_key_def rust_simps)

lemma validate_create_circuit_Ok_iff:
  "validate_create_circuit keys permitted proposals state node_id c signer requester = Ok () \<longleftrightarrow>
     requester \<noteq> [] \<and>
     (\<exists>ki. get_key keys signer = Ok (Some ki) \<and> ki_associated_node_id ki = requester) \<and>
     is_ok (permitted signer PROPOSER_ROLE) \<and> proposals_of proposals (pc_circuit_id c) = None \<and>
     cd_circuits (circuit_dir state) (pc_circuit_id c) = None \<and> circuit_valid node_id c"
  by (auto simp: validate_create_circuit_def rust_simps registered_key_Ok_iff validate_circuit_Ok_iff
      has_proposal_iff directory_has_circuit_def)

lemma validate_circuit_vote_Ok_iff:
  "validate_circuit_vote keys permitted v signer p node_id = Ok () \<longleftrightarrow>
     (\<exists>ki. get_key keys signer = Ok (Some ki) \<and> ki_associated_node_id ki = node_id) \<and>
     node_id \<noteq> pp_requester_node_id p \<and> node_id \<notin> pv_voter_node_id ` set (pp_votes p) \<and>
     is_ok (permitted signer VOTER_ROLE) \<and> pp_circuit_hash p = pv_circuit_hash v"
  by (auto simp: validate_circuit_vote_def rust_simps registered_key_Ok_iff)

end
