(* ===== verification/Admin_Shared.thy ===== *)
theory Admin_Shared
  imports Admin_Validation Mailbox Consensus
begin

text \<open>
  The state of the admin service, \<open>AdminServiceShared\<close> of \<^verbatim>\<open>libsplinter/src/admin/service/shared.rs\<close>, and
  its methods. The state is the record \<open>admin_shared\<close>; the parts it holds are those of the other theories:
  open proposals, mailbox, Splinter state, key registry, network and orchestrator.

  What lies outside is in \<open>admin_env\<close>: codecs, hash, signature verification, key permissions, the
  authorization inquisitor, transport and mesh, the outcomes of writing to storage, the clock (its
  \<open>n\<close>-th reading) and what event subscribers answer. A payload has the fields the service reads.
  Error texts that print a value in debug form are given without it.
\<close>

section \<open>State\<close>

record proposal_context =
  px_proposal :: proto_proposal
  px_action :: management_action
  px_signer_public_key :: bytes

record uninitialized_circuit =
  uc_circuit :: "proto_proposal option"
  uc_ready_members :: "string set"

datatype subscriber_error = UnableToHandleEvent string | Unsubscribe

text \<open>A subscriber is a number.\<close>

type_synonym subscriber = nat

record admin_env =
  ae_header_c :: "payload_header codec"
  ae_circuit_c :: "proto_circuit codec"
  ae_proposal_c :: "proto_proposal codec"
  ae_payload_c :: "management_payload codec"
  ae_message_c :: "admin_message codec"
  ae_net_codecs :: net_codecs
  ae_hash :: "bytes \<Rightarrow> (bytes, string) result"
  ae_verify :: "bytes \<Rightarrow> bytes \<Rightarrow> bytes \<Rightarrow> (bool, string) result"
  ae_is_permitted :: "bytes \<Rightarrow> string \<Rightarrow> (bool, string) result"
  ae_is_authorized :: "string \<Rightarrow> bool"
  ae_connect :: "string \<Rightarrow> (string, unit) result"
  ae_mesh_add :: "string \<Rightarrow> (mesh_id, unit) result"
  ae_connect_request :: "(bytes, unit) result"
  ae_mesh_send :: "mesh_id \<Rightarrow> bytes \<Rightarrow> (unit, mesh_send_error) result"
  ae_proposal_storage :: "proposal_registry \<Rightarrow> (unit, string) result"
  ae_node_storage :: "string \<Rightarrow> (unit, string) result"
  ae_circuit_storage :: "string \<Rightarrow> (unit, string) result"
  ae_clock :: "nat \<Rightarrow> int"
  ae_handle_event :: "subscriber \<Rightarrow> admin_service_event \<Rightarrow> int \<Rightarrow> (unit, subscriber_error) result"

text \<open>The fields of the code, and three of the model: \<open>as_net\<close>, the network the sender of the service
  writes to; \<open>as_ticks\<close>, the number of clock readings; \<open>as_delivered\<close>, the events handed to
  subscribers. The running services are a list without repetitions, in the order in which the hash set
  lists them.\<close>

record 's admin_shared =
  as_node_id :: string
  as_open_proposals :: open_proposals
  as_uninitialized_circuits :: "string \<rightharpoonup> uninitialized_circuit"
  as_orchestrator :: "'s orchestrator"
  as_running_services :: "orch_definition list"
  as_network :: network
  as_network_sender :: "network_sender option"
  as_net :: service_net
  as_unpeered_payloads :: "(string list \<times> management_payload) list"
  as_pending_circuit_payloads :: "management_payload list"
  as_pending_consensus_proposals :: "proposal_id \<rightharpoonup> (proposal \<times> management_payload)"
  as_pending_changes :: "proposal_context option"
  as_current_consensus_verifiers :: "string list"
  as_event_subscribers :: "string \<rightharpoonup> subscriber list"
  as_event_mailbox :: "admin_service_event event_entry btree_set"
  as_splinter_state :: splinter_state
  as_key_registry :: key_registry
  as_ticks :: nat
  as_delivered :: "(subscriber \<times> admin_service_event \<times> int) list"

type_synonym ('s, 'a) admin_action = "('s admin_shared, 'a, admin_shared_error) action"

definition DEFAULT_IN_MEMORY_EVENT_LIMIT :: nat where
  "DEFAULT_IN_MEMORY_EVENT_LIMIT = 100"

text \<open>\<open>new\<close> with the storage type \<open>yaml\<close> or \<open>memory\<close>; another one panics. \<open>storage\<close> is what loading the
  open proposals gives.\<close>

definition admin_shared_new ::
  "string \<Rightarrow> 's orchestrator \<Rightarrow> network \<Rightarrow> service_net \<Rightarrow> splinter_state \<Rightarrow> key_registry \<Rightarrow> string \<Rightarrow>
   (string \<Rightarrow> (proposal_registry, string) result) \<Rightarrow> ('s admin_shared, admin_shared_error) result" where
  "admin_shared_new node_id orch network net state keys storage_type storage =
     (if storage_type \<notin> {''yaml'', ''memory''} then Err AdminPanic
      else
        bind_result (map_err UpdateProposalsError (open_proposals_new (storage storage_type))) (\<lambda>proposals.
          Ok \<lparr>as_node_id = node_id, as_open_proposals = proposals, as_uninitialized_circuits = Map.empty,
              as_orchestrator = orch, as_running_services = [], as_network = network,
              as_network_sender = None, as_net = net, as_unpeered_payloads = [],
              as_pending_circuit_payloads = [], as_pending_consensus_proposals = Map.empty,
              as_pending_changes = None, as_current_consensus_verifiers = [],
              as_event_subscribers = Map.empty,
              as_event_mailbox = btree_new_with_bound DEFAULT_IN_MEMORY_EVENT_LIMIT,
              as_splinter_state = state, as_key_registry = keys, as_ticks = 0, as_delivered = []\<rparr>))"

section \<open>Accessors\<close>

definition set_network_sender :: "network_sender option \<Rightarrow> 's admin_shared \<Rightarrow> 's admin_shared" where
  "set_network_sender ns s = s\<lparr>as_network_sender := ns\<rparr>"

definition pop_pending_circuit_payload :: "'s admin_shared \<Rightarrow> management_payload option \<times> 's admin_shared" where
  "pop_pending_circuit_payload s =
     (case as_pending_circuit_payloads s of
        [] \<Rightarrow> (None, s)
      | p # ps \<Rightarrow> (Some p, s\<lparr>as_pending_circuit_payloads := ps\<rparr>))"

definition add_pending_consensus_proposal ::
  "proposal_id \<Rightarrow> proposal \<times> management_payload \<Rightarrow> 's admin_shared \<Rightarrow> 's admin_shared" where
  "add_pending_consensus_proposal i p s =
     s\<lparr>as_pending_consensus_proposals := (as_pending_consensus_proposals s)(i \<mapsto> p)\<rparr>"

definition remove_pending_consensus_proposals ::
  "proposal_id \<Rightarrow> 's admin_shared \<Rightarrow> (proposal \<times> management_payload) option \<times> 's admin_shared" where
  "remove_pending_consensus_proposals i s =
     (as_pending_consensus_proposals s i,
      s\<lparr>as_pending_consensus_proposals := (as_pending_consensus_proposals s)(i := None)\<rparr>)"

definition admin_get_proposal :: "string \<Rightarrow> 's admin_shared \<Rightarrow> (proto_proposal option, admin_shared_error) result" where
  "admin_get_proposal cid s = map_err UpdateProposalsError (get_proposal (as_open_proposals s) cid)"

definition admin_remove_proposal :: "admin_env \<Rightarrow> string \<Rightarrow> ('s, proto_proposal option) admin_action" where
  "admin_remove_proposal env cid =
     on_part as_open_proposals (\<lambda>p s. s\<lparr>as_open_proposals := p\<rparr>) UpdateProposalsError
       (remove_proposal (ae_proposal_storage env) cid)"

definition admin_add_proposal :: "admin_env \<Rightarrow> proto_proposal \<Rightarrow> ('s, proto_proposal option) admin_action" where
  "admin_add_proposal env p =
     on_part as_open_proposals (\<lambda>p s. s\<lparr>as_open_proposals := p\<rparr>) UpdateProposalsError
       (add_proposal (ae_proposal_storage env) p)"

text \<open>Sending to another admin service.\<close>

definition send_to_service ::
  "admin_env \<Rightarrow> network_sender \<Rightarrow> string \<Rightarrow> bytes \<Rightarrow> ('s admin_shared, unit, service_send_error) action" where
  "send_to_service env ns rcpt bs =
     on_part as_net (\<lambda>n s. s\<lparr>as_net := n\<rparr>) (\<lambda>e. e) (Service_Net.sender_send (ae_net_codecs env) ns rcpt bs)"

section \<open>Events\<close>

text \<open>\<open>broadcast_by_type\<close>: every subscriber of the type gets the event, and stays unless it asks to go.\<close>

definition broadcast_by_type ::
  "admin_env \<Rightarrow> string \<Rightarrow> admin_service_event \<Rightarrow> int \<Rightarrow> 's admin_shared \<Rightarrow> 's admin_shared" where
  "broadcast_by_type env event_type event timestamp s =
     (case as_event_subscribers s event_type of
        None \<Rightarrow> s
      | Some subscribers \<Rightarrow>
          s\<lparr>as_event_subscribers := (as_event_subscribers s)
              (event_type \<mapsto> filter (\<lambda>x. ae_handle_event env x event timestamp \<noteq> Err Unsubscribe) subscribers),
            as_delivered := as_delivered s @ map (\<lambda>x. (x, event, timestamp)) subscribers\<rparr>)"

definition add_subscriber :: "string \<Rightarrow> subscriber \<Rightarrow> ('s, unit) admin_action" where
  "add_subscriber event_type subscriber =
     modify_act (\<lambda>s. s\<lparr>as_event_subscribers := (as_event_subscribers s)
       (event_type \<mapsto> (case as_event_subscribers s event_type of None \<Rightarrow> [] | Some xs \<Rightarrow> xs) @ [subscriber])\<rparr>)"

definition remove_all_event_subscribers :: "'s admin_shared \<Rightarrow> 's admin_shared" where
  "remove_all_event_subscribers s = s\<lparr>as_event_subscribers := Map.empty\<rparr>"

text \<open>The error is the panic of an empty mailbox that is full, which its bound excludes.\<close>

definition send_event :: "admin_env \<Rightarrow> string \<Rightarrow> admin_service_event \<Rightarrow> ('s, unit) admin_action" where
  "send_event env mgmt_type event s =
     (let now = ae_clock env (as_ticks s); s1 = s\<lparr>as_ticks := Suc (as_ticks s)\<rparr>
      in case mailbox_add (btree_add ev_timestamp) now event (as_event_mailbox s1) of
           None \<Rightarrow> (Err AdminPanic, s1)
         | Some ((ts, ev), box) \<Rightarrow>
             (Ok (), broadcast_by_type env mgmt_type ev ts (s1\<lparr>as_event_mailbox := box\<rparr>)))"

text \<open>\<open>get_events_since\<close> reads the whole mailbox; the time it is given is not used. \<open>n\<close> bounds the events
  read.\<close>

definition get_events_since ::
  "admin_env \<Rightarrow> nat \<Rightarrow> int \<Rightarrow> string \<Rightarrow> 's admin_shared \<Rightarrow> (int \<times> admin_service_event) list option" where
  "get_events_since env n since_timestamp mgmt_type s =
     (case mailbox_iter (btree_range_iter ev_timestamp) (as_event_mailbox s) (ae_clock env (as_ticks s)) of
        None \<Rightarrow> None
      | Some it \<Rightarrow>
          map_option (filter (\<lambda>(_, e). cc_circuit_management_type (cp_circuit (event_proposal e)) =
                                mgmt_type))
            (mailbox_read (btree_range_iter ev_timestamp) (as_event_mailbox s) n it))"

section \<open>Services\<close>

definition runs_here :: "'s admin_shared \<Rightarrow> string \<Rightarrow> string list \<Rightarrow> bool" where
  "runs_here s service_type allowed_nodes \<longleftrightarrow>
     as_node_id s \<in> set allowed_nodes \<and> service_type \<in> set (supported_service_types (as_orchestrator s))"

definition start_service ::
  "orch_definition \<Rightarrow> (string \<times> string) list \<Rightarrow> ('s, unit) admin_action" where
  "start_service d args =
     bind_act (on_part as_orchestrator (\<lambda>o' s. s\<lparr>as_orchestrator := o'\<rparr>) ServiceInitializationFailed
                 (initialize_service d args))
       (\<lambda>_. modify_act (\<lambda>s. s\<lparr>as_running_services := List.insert d (as_running_services s)\<rparr>))"

definition initialize_services :: "proto_circuit \<Rightarrow> ('s, unit) admin_action" where
  "initialize_services c s =
     for_act (filter (\<lambda>v. runs_here s (ps_service_type v) (ps_allowed_nodes v)) (pc_roster c))
       (\<lambda>v. start_service \<lparr>od_circuit = pc_circuit_id c, od_service_id = ps_service_id v,
               od_service_type = ps_service_type v\<rparr> (ps_arguments v)) s"

text \<open>\<open>stop_services\<close> shuts every running service down and collects the errors.\<close>

fun shutdown_all ::
  "orch_definition list \<Rightarrow> 's orchestrator \<Rightarrow> shutdown_error list \<times> 's orchestrator" where
  "shutdown_all [] orch = ([], orch)"
| "shutdown_all (d # ds) orch =
     (case shutdown_service d orch of
        (r, orch1) \<Rightarrow>
          (case shutdown_all ds orch1 of
             (es, orch2) \<Rightarrow> ((case r of Ok _ \<Rightarrow> es | Err e \<Rightarrow> e # es), orch2)))"

definition stop_services :: "('s, unit) admin_action" where
  "stop_services s =
     (case shutdown_all (as_running_services s) (as_orchestrator s) of
        (es, orch) \<Rightarrow>
          (if es = [] then Ok () else Err (ServiceShutdownFailed es),
           s\<lparr>as_orchestrator := orch, as_running_services := []\<rparr>))"

text \<open>\<open>circuits\<close> is the order in which the circuits of the state are listed, \<open>args\<close> that of the arguments
  of a service, which the state keeps in a map.\<close>

definition restart_services ::
  "(string \<times> circuit) list \<Rightarrow> ((string \<rightharpoonup> string) \<Rightarrow> (string \<times> string) list) \<Rightarrow> ('s, unit) admin_action" where
  "restart_services circuits args =
     for_act circuits (\<lambda>(name, c) s.
       for_act (filter (\<lambda>d. runs_here s (sd_service_type d) (sd_allowed_nodes d)) (roster_to_vec (circuit_roster c)))
         (\<lambda>d. start_service \<lparr>od_circuit = name, od_service_id = sd_service_id d,
                 od_service_type = sd_service_type d\<rparr> (args (sd_arguments d))) s)"

section \<open>The Splinter state\<close>

definition state_nodes :: "proto_circuit \<Rightarrow> splinter_node list" where
  "state_nodes c = map (\<lambda>n. \<lparr>node_id_of = pn_node_id n, node_endpoints = [pn_endpoint n]\<rparr>) (pc_members c)"

definition state_roster :: "proto_circuit \<Rightarrow> service_definition list" where
  "state_roster c = map (\<lambda>v. service_definition_build (ps_service_id v) (ps_service_type v)
     (ps_allowed_nodes v) (ps_arguments v)) (pc_roster c)"

definition state_circuit :: "proto_circuit \<Rightarrow> (circuit, admin_shared_error) result" where
  "state_circuit c =
     guard_err (pc_authorization_type c = UNSET_AUTH_TYPE)
       (CommitError ''Missing authorization type on circuit commit'')
    (guard_err (pc_persistence c = UNSET_PERSISTENCE_TYPE)
       (CommitError ''Missing persistence type on circuit commit'')
    (guard_err (pc_durability c = UNSET_DURABILITY_TYPE)
       (CommitError ''Missing durabilty type on circuit commit'')
    (guard_err (pc_routes c = UNSET_ROUTE_TYPE) (CommitError ''Missing route type on circuit commit'')
       (map_err (\<lambda>e. case e of CircuitBuildError m \<Rightarrow> CommitError (''Unable build new circuit: '' @ m))
         (circuit_builder_build \<lparr>cb_id = Some (pc_circuit_id c), cb_auth = Some Trust,
            cb_members = map node_id_of (state_nodes c), cb_roster = state_roster c,
            cb_persistence = Some AnyPersistence, cb_durability = Some NoDurability,
            cb_routes = Some AnyRoute, cb_management_type = Some (pc_circuit_management_type c)\<rparr>)))))"

text \<open>A service of another node, put in the directory under the node it is allowed on; the code takes the
  first of the allowed nodes and panics when there is none.\<close>

definition add_remote_service ::
  "string \<Rightarrow> string \<Rightarrow> (string \<Rightarrow> splinter_node \<Rightarrow> splinter_node) \<Rightarrow> service_definition \<Rightarrow>
   (splinter_state, unit, admin_shared_error) action" where
  "add_remote_service node_id circuit rebuild d st =
     (if node_id \<in> set (sd_allowed_nodes d) then (Ok (), st)
      else case sd_allowed_nodes d of
        [] \<Rightarrow> (Err AdminPanic, st)
      | allowed_node # _ \<Rightarrow>
          (case cd_nodes (circuit_dir st) allowed_node of
             Some member \<Rightarrow>
               (Ok (), state_add_service (circuit, sd_service_id d)
                  \<lparr>svc_service_id = sd_service_id d, svc_peer_id = None, svc_node = rebuild allowed_node member\<rparr> st)
           | None \<Rightarrow>
               (Err (CommitError (''Unable to find allowed node '' @ allowed_node @ '' when adding service '' @
                  sd_service_id d @ '' to directory'')), st)))"

definition commit_write ::
  "string \<Rightarrow> (splinter_state, unit, write_error) action \<Rightarrow> (splinter_state, unit, admin_shared_error) action" where
  "commit_write what m st =
     (let (r, st') = m st
      in (map_err (\<lambda>e. case e of GetStorageError msg \<Rightarrow> CommitError (what @ msg)) r, st'))"

definition update_splinter_state ::
  "admin_env \<Rightarrow> string \<Rightarrow> proto_circuit \<Rightarrow> (splinter_state, unit, admin_shared_error) action" where
  "update_splinter_state env node_id c =
     bind_act (lift_act (\<lambda>_. state_circuit c)) (\<lambda>new_circuit.
     bind_act (for_act (state_nodes c) (\<lambda>n. commit_write ''Unable to add node to splinter state: ''
                 (state_add_node (ae_node_storage env (node_id_of n)) (node_id_of n) n))) (\<lambda>_.
     bind_act (commit_write ''Unable to add circuit to splinter state: ''
                 (state_add_circuit (ae_circuit_storage env (circuit_id new_circuit)) (circuit_id new_circuit)
                    new_circuit)) (\<lambda>_.
       for_act (state_roster c) (add_remote_service node_id (pc_circuit_id c) (\<lambda>_ n. n)))))"

definition add_services_to_directory ::
  "(string \<times> circuit) list \<Rightarrow> string \<Rightarrow> (splinter_state, unit, admin_shared_error) action" where
  "add_services_to_directory circuits node_id =
     for_act circuits (\<lambda>(name, c).
       for_act (roster_to_vec (circuit_roster c))
         (add_remote_service node_id name
            (\<lambda>allowed_node n. \<lparr>node_id_of = allowed_node, node_endpoints = node_endpoints n\<rparr>)))"

section \<open>Readiness\<close>

definition initialize_services_if_members_ready :: "admin_env \<Rightarrow> string \<Rightarrow> ('s, unit) admin_action" where
  "initialize_services_if_members_ready env cid s =
     (case as_uninitialized_circuits s cid of
        None \<Rightarrow> (Ok (), s)
      | Some u \<Rightarrow>
          (case uc_circuit u of
             None \<Rightarrow> (Ok (), s)
           | Some p \<Rightarrow>
               if pn_node_id ` set (pc_members (pp_circuit_proposal p)) \<subseteq> uc_ready_members u then
                 bind_act (modify_act (\<lambda>s. s\<lparr>as_uninitialized_circuits :=
                            (as_uninitialized_circuits s)(cid := None)\<rparr>)) (\<lambda>_.
                 bind_act (initialize_services (pp_circuit_proposal p)) (\<lambda>_.
                 bind_act (lift_act (\<lambda>_. map_err InvalidMessageFormat (Admin_Messages.proposal_from_proto p)))
                   (\<lambda>cp. send_event env (pc_circuit_management_type (pp_circuit_proposal p)) (CircuitReady cp)))) s
               else (Ok (), s)))"

definition mark_ready :: "string \<Rightarrow> string \<Rightarrow> 's admin_shared \<Rightarrow> 's admin_shared" where
  "mark_ready cid node_id s =
     s\<lparr>as_uninitialized_circuits := (as_uninitialized_circuits s)(cid \<mapsto>
         (case as_uninitialized_circuits s cid of
            None \<Rightarrow> \<lparr>uc_circuit = None, uc_ready_members = {node_id}\<rparr>
          | Some u \<Rightarrow> u\<lparr>uc_ready_members := insert node_id (uc_ready_members u)\<rparr>))\<rparr>"

definition add_uninitialized_circuit :: "admin_env \<Rightarrow> proto_proposal \<Rightarrow> ('s, unit) admin_action" where
  "add_uninitialized_circuit env p =
     bind_act (modify_act (\<lambda>s. s\<lparr>as_uninitialized_circuits := (as_uninitialized_circuits s)(pp_circuit_id p \<mapsto>
         (case as_uninitialized_circuits s (pp_circuit_id p) of
            Some u \<Rightarrow> u\<lparr>uc_circuit := Some p\<rparr>
          | None \<Rightarrow> \<lparr>uc_circuit = Some p, uc_ready_members = {}\<rparr>))\<rparr>)) (\<lambda>_.
     bind_act (modify_act (\<lambda>s. mark_ready (pp_circuit_id p) (as_node_id s) s)) (\<lambda>_.
       initialize_services_if_members_ready env (pp_circuit_id p)))"

definition add_ready_member :: "admin_env \<Rightarrow> string \<Rightarrow> string \<Rightarrow> ('s, unit) admin_action" where
  "add_ready_member env cid member_node_id =
     bind_act (modify_act (mark_ready cid member_node_id)) (\<lambda>_.
       initialize_services_if_members_ready env cid)"

section \<open>Changes\<close>

definition propose_change ::
  "admin_env \<Rightarrow> management_payload \<Rightarrow> ('s, string \<times> proto_proposal) admin_action" where
  "propose_change env payload s =
     (let changed = bind_result (map_err (\<lambda>e. InvalidMessageFormat (ProtobufError e))
                     (parse_from_bytes (ae_header_c env) (mp_header payload))) (\<lambda>header.
          bind_result (validate_circuit_management_payload payload header) (\<lambda>_.
          bind_result (map_err (\<lambda>_. ValidationFailed ''Unable to verify signature'')
                     (verify_signature (ae_header_c env) (ae_verify env) payload)) (\<lambda>_.
          (case hd_action header of
             CIRCUIT_CREATE_REQUEST \<Rightarrow>
               (let c = mp_create_circuit payload in
                bind_result (validate_create_circuit (as_key_registry s) (ae_is_permitted env)
                   (as_open_proposals s) (as_splinter_state s) (as_node_id s) c
                   (hd_requester header) (hd_requester_node_id header)) (\<lambda>_.
                bind_result (map_err HashError (sha256 (ae_hash env) (ae_circuit_c env) c)) (\<lambda>circuit_hash.
                let p = \<lparr>pp_proposal_type = CREATE, pp_circuit_id = pc_circuit_id c,
                         pp_circuit_hash = circuit_hash, pp_circuit_proposal = c, pp_votes = [],
                         pp_requester = hd_requester header,
                         pp_requester_node_id = hd_requester_node_id header\<rparr> in
                bind_result (map_err HashError (sha256 (ae_hash env) (ae_proposal_c env) p)) (\<lambda>expected_hash.
                  Ok (expected_hash, p, CIRCUIT_CREATE_REQUEST, hd_requester header)))))
           | CIRCUIT_PROPOSAL_VOTE \<Rightarrow>
               (let vote = mp_proposal_vote payload in
                bind_result (map_err (\<lambda>_. ValidationFailed ''error occured when trying to get proposal'')
                   (admin_get_proposal (pv_circuit_id vote) s)) (\<lambda>found.
                bind_result (ok_or (ValidationFailed
                   (''Received vote for a proposal that does not exist: circuit id '' @ pv_circuit_id vote)) found)
                   (\<lambda>p0.
                bind_result (validate_circuit_vote (as_key_registry s) (ae_is_permitted env) vote
                   (hd_requester header) p0 (hd_requester_node_id header)) (\<lambda>_.
                let p = p0\<lparr>pp_votes := pp_votes p0 @ [\<lparr>pv_public_key = hd_requester header,
                           pv_vote = pv_ballot vote, pv_voter_node_id = hd_requester_node_id header\<rparr>]\<rparr> in
                bind_result (map_err HashError (sha256 (ae_hash env) (ae_proposal_c env) p)) (\<lambda>expected_hash.
                  Ok (expected_hash, p, CIRCUIT_PROPOSAL_VOTE, hd_requester header))))))
           | ACTION_UNSET \<Rightarrow> Err (ValidationFailed ''Action must be set'')
           | _ \<Rightarrow> Err (ValidationFailed ''Unable to handle action'')))))
      in case changed of
           Err e \<Rightarrow> (Err e, s)
         | Ok (expected_hash, p, action, key) \<Rightarrow>
             (Ok (expected_hash, p),
              s\<lparr>as_pending_changes := Some \<lparr>px_proposal = p, px_action = action, px_signer_public_key = key\<rparr>,
                as_current_consensus_verifiers :=
                  map (\<lambda>m. admin_service_id (pn_node_id m)) (pc_members (pp_circuit_proposal p))\<rparr>))"

definition rollback :: "('s, unit) admin_action" where
  "rollback = modify_act (\<lambda>s. s\<lparr>as_pending_changes := None\<rparr>)"

text \<open>The messages that tell the other members that this node is ready.\<close>

definition send_member_ready :: "admin_env \<Rightarrow> proto_circuit \<Rightarrow> ('s, unit) admin_action" where
  "send_member_ready env c s =
     (case as_network_sender s of
        None \<Rightarrow> (Ok (), s)
      | Some ns \<Rightarrow>
          (case write_to_bytes (ae_message_c env)
                  (AdminMemberReady \<lparr>mr_circuit_id = pc_circuit_id c, mr_member_node_id = as_node_id s\<rparr>) of
             Err e \<Rightarrow> (Err (InvalidMessageFormat (ProtobufError e)), s)
           | Ok bs \<Rightarrow>
               for_act (filter (\<lambda>m. pn_node_id m \<noteq> as_node_id s) (pc_members c))
                 (\<lambda>m s. let (r, s') = send_to_service env ns (admin_service_id (pn_node_id m)) bs s
                        in (map_err ServiceSendFailed r, s')) s))"

definition send_proposal_event ::
  "admin_env \<Rightarrow> proto_proposal \<Rightarrow> (circuit_proposal \<Rightarrow> admin_service_event) \<Rightarrow> ('s, unit) admin_action" where
  "send_proposal_event env p event =
     bind_act (lift_act (\<lambda>_. map_err InvalidMessageFormat (Admin_Messages.proposal_from_proto p))) (\<lambda>cp.
       send_event env (pc_circuit_management_type (pp_circuit_proposal p)) (event cp))"

definition commit :: "admin_env \<Rightarrow> ('s, unit) admin_action" where
  "commit env s0 =
     (let s = s0\<lparr>as_pending_changes := None\<rparr> in
      case as_pending_changes s0 of
        None \<Rightarrow> (Err NoPendingChanges, s)
      | Some px \<Rightarrow>
          (let p = px_proposal px; c = pp_circuit_proposal p in
           case check_approved p of
             ProposalIsAccepted \<Rightarrow>
               bind_act (on_part as_splinter_state (\<lambda>st s. s\<lparr>as_splinter_state := st\<rparr>) (\<lambda>e. e)
                  (update_splinter_state env (as_node_id s) c)) (\<lambda>_.
               bind_act (admin_remove_proposal env (pp_circuit_id p)) (\<lambda>_.
               bind_act (send_proposal_event env p (\<lambda>cp. Admin_Messages.ProposalAccepted cp (px_signer_public_key px))) (\<lambda>_.
               bind_act (send_member_ready env c) (\<lambda>_.
                 add_uninitialized_circuit env p)))) s
           | ProposalIsPending \<Rightarrow>
               bind_act (admin_add_proposal env p) (\<lambda>_.
                 (case px_action px of
                    CIRCUIT_CREATE_REQUEST \<Rightarrow> send_proposal_event env p ProposalSubmitted
                  | CIRCUIT_PROPOSAL_VOTE \<Rightarrow>
                      send_proposal_event env p (\<lambda>cp. ProposalVote cp (px_signer_public_key px))
                  | _ \<Rightarrow> fail_act (UnknownAction ''Received unknown action''))) s
           | ProposalIsRejected \<Rightarrow>
               bind_act (admin_remove_proposal env (pp_circuit_id p)) (\<lambda>_.
                 send_proposal_event env p (\<lambda>cp. ProposalRejected cp (px_signer_public_key px))) s))"

section \<open>Requests\<close>

datatype error_source =
  AdminSource admin_shared_error | PeerSource peer_connector_error | SigningSource string
| FormatSource string | HashSource string | ConsensusSource string | MessageTypeUnset

datatype service_error =
  UnableToCreate error_source | ServiceInvalidFormat error_source | UnableToHandleMessage error_source
| ServiceNotStarted

definition connect_member :: "admin_env \<Rightarrow> string \<Rightarrow> string \<Rightarrow> ('s admin_shared, unit, service_error) action" where
  "connect_member env node_id endpoint =
     on_part as_network (\<lambda>n s. s\<lparr>as_network := n\<rparr>) (\<lambda>e. UnableToHandleMessage (PeerSource e))
       (connect_peer (ae_connect env) (ae_mesh_add env endpoint) (ae_connect_request env) (ae_mesh_send env)
          node_id endpoint)"

text \<open>The loop over the members: those without authorization, in order, connected to on the way.\<close>

fun connect_members ::
  "admin_env \<Rightarrow> proto_node list \<Rightarrow> string list \<Rightarrow> ('s admin_shared, string list, service_error) action" where
  "connect_members env [] unauthorized s = (Ok unauthorized, s)"
| "connect_members env (n # ns) unauthorized s =
     (if as_node_id s \<noteq> pn_node_id n \<and> \<not> ae_is_authorized env (pn_node_id n)
      then bind_act (connect_member env (pn_node_id n) (pn_endpoint n))
             (\<lambda>_. connect_members env ns (unauthorized @ [pn_node_id n])) s
      else connect_members env ns unauthorized s)"

definition propose_circuit :: "admin_env \<Rightarrow> management_payload \<Rightarrow> ('s admin_shared, unit, service_error) action" where
  "propose_circuit env payload =
     bind_act (connect_members env (pc_members (mp_create_circuit payload)) []) (\<lambda>unauthorized.
       modify_act (\<lambda>s. if unauthorized = []
         then s\<lparr>as_pending_circuit_payloads := as_pending_circuit_payloads s @ [payload]\<rparr>
         else s\<lparr>as_unpeered_payloads := as_unpeered_payloads s @ [(unauthorized, payload)]\<rparr>))"

definition propose_vote :: "management_payload \<Rightarrow> ('s admin_shared, unit, service_error) action" where
  "propose_vote payload =
     modify_act (\<lambda>s. s\<lparr>as_pending_circuit_payloads := as_pending_circuit_payloads s @ [payload]\<rparr>)"

definition submit :: "admin_env \<Rightarrow> management_payload \<Rightarrow> ('s admin_shared, unit, service_error) action" where
  "submit env payload =
     bind_act (lift_act (\<lambda>_. map_err (\<lambda>e. ServiceInvalidFormat (FormatSource e))
         (parse_from_bytes (ae_header_c env) (mp_header payload)))) (\<lambda>header.
     bind_act (lift_act (\<lambda>_. map_err (\<lambda>e. UnableToHandleMessage (AdminSource e))
         (validate_circuit_management_payload payload header))) (\<lambda>_.
     bind_act (lift_act (\<lambda>_. map_err (\<lambda>e. case e of VerifyFormat m \<Rightarrow> ServiceInvalidFormat (FormatSource m)
                                         | VerifyFailed m \<Rightarrow> UnableToHandleMessage (SigningSource m))
         (verify_signature (ae_header_c env) (ae_verify env) payload))) (\<lambda>_.
       (case hd_action header of
          CIRCUIT_CREATE_REQUEST \<Rightarrow> propose_circuit env payload
        | CIRCUIT_PROPOSAL_VOTE \<Rightarrow> propose_vote payload
        | ACTION_UNSET \<Rightarrow>
            fail_act (UnableToHandleMessage (AdminSource (ValidationFailed ''No action specified'')))
        | _ \<Rightarrow> fail_act (UnableToHandleMessage (AdminSource (ValidationFailed ''Unable to handle action'')))))))"

definition on_authorization_change ::
  "string \<Rightarrow> peer_authorization_state \<Rightarrow> 's admin_shared \<Rightarrow> 's admin_shared" where
  "on_authorization_change peer_id state s =
     (let updated = map (\<lambda>(peers, payload).
            (case state of
               PeerAuthorized \<Rightarrow> filter (\<lambda>p. p \<noteq> peer_id) peers
             | PeerUnauthorized \<Rightarrow> if peer_id \<in> set peers then [] else peers, payload)) (as_unpeered_payloads s);
          s1 = s\<lparr>as_unpeered_payloads := filter (\<lambda>(peers, _). peers \<noteq> []) updated\<rparr>
      in if state = PeerAuthorized
         then s1\<lparr>as_pending_circuit_payloads := as_pending_circuit_payloads s @
                   map snd (filter (\<lambda>(peers, _). peers = []) updated)\<rparr>
         else s1)"

section \<open>What the operations leave alone\<close>

text \<open>The part of the state that proposals and circuits live in.\<close>

definition core where
  "core s = (as_node_id s, as_open_proposals s, as_pending_changes s, as_splinter_state s, as_key_registry s,
     bt_bound (as_event_mailbox s))"

lemma btree_add_bound: "btree_add key x b = Some b' \<Longrightarrow> bt_bound b' = bt_bound b"
  by (auto simp: btree_add_def split: if_splits list.splits)

lemma core_broadcast [simp]:
  "core (broadcast_by_type env t e ts s) = core s"
  "as_uninitialized_circuits (broadcast_by_type env t e ts s) = as_uninitialized_circuits s"
  "as_orchestrator (broadcast_by_type env t e ts s) = as_orchestrator s"
  "as_running_services (broadcast_by_type env t e ts s) = as_running_services s"
  by (simp_all add: broadcast_by_type_def core_def split: option.split)

lemma core_event_mailbox:
  "bt_bound box = bt_bound (as_event_mailbox s) \<Longrightarrow> core (s\<lparr>as_ticks := n, as_event_mailbox := box\<rparr>) = core s"
  by (simp add: core_def)

lemma core_updates:
  "core (s\<lparr>as_ticks := n\<rparr>) = core s"
  "core (s\<lparr>as_pending_circuit_payloads := ps\<rparr>) = core s"
  "core (s\<lparr>as_unpeered_payloads := us\<rparr>) = core s"
  by (simp_all add: core_def)

lemma send_event_frame:
  "core (snd (send_event env t e s)) = core s"
  "as_uninitialized_circuits (snd (send_event env t e s)) = as_uninitialized_circuits s"
  "as_orchestrator (snd (send_event env t e s)) = as_orchestrator s"
  "as_running_services (snd (send_event env t e s)) = as_running_services s"
  by (auto simp: send_event_def mailbox_add_def Let_def core_event_mailbox btree_add_bound core_updates
      split: option.splits)

lemma core_start_service: "core (snd (start_service d args s)) = core s"
  by (auto simp: start_service_def bind_act_def on_part_def rust_simps core_def split: prod.splits result.splits)

lemma keeps_core_event [keeps_intros]: "keeps (\<lambda>s. core s = k) (send_event env t e)"
  by (simp add: keeps_def send_event_frame)

lemma keeps_core_start [keeps_intros]: "keeps (\<lambda>s. core s = k) (start_service d args)"
  by (simp add: keeps_def core_start_service)

lemma keeps_core_services [keeps_intros]: "keeps (\<lambda>s. core s = k) (initialize_services c)"
  unfolding initialize_services_def keeps_def
  by (intro allI impI) (erule keepsD [rotated], intro keeps_intros)

lemma keeps_core_ready [keeps_intros]:
  "keeps (\<lambda>s. core s = k) (initialize_services_if_members_ready env cid)"
proof (rule keepsI)
  fix s :: "'a admin_shared" assume s: "core s = k"
  have *: "keeps (\<lambda>s :: 'a admin_shared. core s = k)
     (bind_act (modify_act (\<lambda>s. s\<lparr>as_uninitialized_circuits := (as_uninitialized_circuits s)(cid := None)\<rparr>)) (\<lambda>_.
      bind_act (initialize_services (pp_circuit_proposal p)) (\<lambda>_.
      bind_act (lift_act (\<lambda>_. map_err InvalidMessageFormat (Admin_Messages.proposal_from_proto p)))
        (\<lambda>cp. send_event env (pc_circuit_management_type (pp_circuit_proposal p)) (CircuitReady cp)))))" for p
    by (intro keeps_intros) (simp add: core_def)
  from s keepsD [OF *] show "core (snd (initialize_services_if_members_ready env cid s)) = k"
    by (auto simp: initialize_services_if_members_ready_def split: option.split)
qed

lemma core_mark_ready [simp]: "core (mark_ready cid n s) = core s"
  by (simp add: mark_ready_def core_def)

lemma keeps_core_add_uninitialized [keeps_intros]:
  "keeps (\<lambda>s. core s = k) (add_uninitialized_circuit env p)"
  unfolding add_uninitialized_circuit_def by (intro keeps_intros) (simp_all add: core_def mark_ready_def)

lemma keeps_core_ready_member [keeps_intros]: "keeps (\<lambda>s. core s = k) (add_ready_member env cid n)"
  unfolding add_ready_member_def by (intro keeps_intros) simp

lemma keeps_core_proposal_event [keeps_intros]: "keeps (\<lambda>s. core s = k) (send_proposal_event env p ev)"
  unfolding send_proposal_event_def by (intro keeps_intros)

lemma keeps_core_member_ready [keeps_intros]: "keeps (\<lambda>s. core s = k) (send_member_ready env c)"
proof (rule keepsI)
  fix s :: "'a admin_shared" assume s: "core s = k"
  have *: "keeps (\<lambda>s :: 'a admin_shared. core s = k) (for_act ms (\<lambda>m s.
      let (r, s') = send_to_service env ns (admin_service_id (pn_node_id m)) bs s in (map_err ServiceSendFailed r, s')))"
    for ms ns bs
    by (intro keeps_intros keepsI)
      (auto simp: send_to_service_def on_part_def core_def Let_def split: prod.splits)
  from s keepsD [OF *] show "core (snd (send_member_ready env c s)) = k"
    by (auto simp: send_member_ready_def split: option.split result.split)
qed

lemma core_connect_members: "core (snd (connect_members env ns un s)) = core s"
proof (induction ns arbitrary: un s)
  case (Cons n ns)
  have "core (snd (connect_member env i e s)) = core s" for i e and s :: "'a admin_shared"
    by (auto simp: connect_member_def on_part_def core_def Let_def split: prod.splits)
  with Cons.IH show ?case
    by (auto simp: bind_act_def split: prod.splits result.splits) (metis snd_conv)+
qed simp

lemma core_submit: "core (snd (submit env payload s)) = core s"
proof -
  have c: "keeps (\<lambda>s. core s = k) (connect_members env ns un)" for k ns un
    by (simp add: keeps_def core_connect_members)
  have "keeps (\<lambda>s. core s = core s0) (submit env payload)" for s0
    unfolding submit_def propose_circuit_def propose_vote_def
    by (intro keeps_intros; (intro c)?) (auto split: management_action.split intro!: keeps_intros c simp: core_updates)
  from keepsD [OF this, of s s] show ?thesis by simp
qed

lemma core_authorization_change: "core (on_authorization_change p st s) = core s"
  by (simp add: on_authorization_change_def Let_def core_def)

end
