(* ===== verification/Admin_Invariant.thy ===== *)
theory Admin_Invariant
  imports Admin_Shared "HOL-Library.Multiset"
begin

text \<open>
  What the admin state of \<open>Admin_Shared\<close> guarantees: the invariant of every state its operations reach, when
  circuits come into being, and what does not protect them.
\<close>

section \<open>The invariant\<close>

definition voter_registered :: "key_registry \<Rightarrow> proto_vote_record \<Rightarrow> bool" where
  "voter_registered keys v \<longleftrightarrow>
     (\<exists>ki. get_key keys (pv_public_key v) = Ok (Some ki) \<and> ki_associated_node_id ki = pv_voter_node_id v)"

text \<open>A proposal under vote: its circuit is well formed, and the votes come from registered keys of
  different nodes other than the requester.\<close>

definition proposal_ok :: "string \<Rightarrow> key_registry \<Rightarrow> proto_proposal \<Rightarrow> bool" where
  "proposal_ok node_id keys p \<longleftrightarrow>
     circuit_valid node_id (pp_circuit_proposal p) \<and> pp_proposal_type p = CREATE \<and>
     pp_circuit_id p = pc_circuit_id (pp_circuit_proposal p) \<and>
     distinct (map pv_voter_node_id (pp_votes p)) \<and>
     pp_requester_node_id p \<notin> pv_voter_node_id ` set (pp_votes p) \<and>
     (\<forall>v \<in> set (pp_votes p). voter_registered keys v)"

definition core_ok where
  "core_ok k = (case k of (node_id, proposals, changes, state, keys, bound) \<Rightarrow>
     open_proposals_wf proposals \<and> bound = DEFAULT_IN_MEMORY_EVENT_LIMIT \<and>
     (\<forall>i p. proposals_of proposals i = Some p \<longrightarrow>
        proposal_ok node_id keys p \<and> pp_circuit_id p = i \<and> check_approved p = ProposalIsPending) \<and>
     (\<forall>px. changes = Some px \<longrightarrow> proposal_ok node_id keys (px_proposal px) \<and>
        px_action px \<in> {CIRCUIT_CREATE_REQUEST, CIRCUIT_PROPOSAL_VOTE}))"

definition admin_wf :: "'s admin_shared \<Rightarrow> bool" where
  "admin_wf s \<longleftrightarrow> core_ok (core s)"

lemma admin_wf_iff:
  "admin_wf s \<longleftrightarrow> open_proposals_wf (as_open_proposals s) \<and>
     bt_bound (as_event_mailbox s) = DEFAULT_IN_MEMORY_EVENT_LIMIT \<and>
     (\<forall>i p. proposals_of (as_open_proposals s) i = Some p \<longrightarrow>
        proposal_ok (as_node_id s) (as_key_registry s) p \<and> pp_circuit_id p = i \<and>
        check_approved p = ProposalIsPending) \<and>
     (\<forall>px. as_pending_changes s = Some px \<longrightarrow>
        proposal_ok (as_node_id s) (as_key_registry s) (px_proposal px) \<and>
        px_action px \<in> {CIRCUIT_CREATE_REQUEST, CIRCUIT_PROPOSAL_VOTE})"
  by (simp add: admin_wf_def core_ok_def core_def)

lemma admin_wf_core: "core s' = core s \<Longrightarrow> admin_wf s' = admin_wf s"
  by (simp add: admin_wf_def)

text \<open>What a change that is proposed consists of.\<close>

lemma propose_change_cases:
  assumes "propose_change env payload s = (Ok (h, p), s')"
  obtains (create) header where
      "parse_from_bytes (ae_header_c env) (mp_header payload) = Ok header"
      "hd_action header = CIRCUIT_CREATE_REQUEST"
      "validate_create_circuit (as_key_registry s) (ae_is_permitted env) (as_open_proposals s)
         (as_splinter_state s) (as_node_id s) (mp_create_circuit payload) (hd_requester header)
         (hd_requester_node_id header) = Ok ()"
      "pp_proposal_type p = CREATE" "pp_circuit_id p = pc_circuit_id (mp_create_circuit payload)"
      "pp_circuit_proposal p = mp_create_circuit payload" "pp_votes p = []"
      "pp_requester_node_id p = hd_requester_node_id header"
      "sha256 (ae_hash env) (ae_circuit_c env) (mp_create_circuit payload) = Ok (pp_circuit_hash p)"
      "sha256 (ae_hash env) (ae_proposal_c env) p = Ok h"
      "s' = s\<lparr>as_pending_changes := Some \<lparr>px_proposal = p, px_action = CIRCUIT_CREATE_REQUEST,
              px_signer_public_key = hd_requester header\<rparr>,
            as_current_consensus_verifiers :=
              map (\<lambda>m. admin_service_id (pn_node_id m)) (pc_members (pp_circuit_proposal p))\<rparr>"
  | (vote) header p0 where
      "parse_from_bytes (ae_header_c env) (mp_header payload) = Ok header"
      "hd_action header = CIRCUIT_PROPOSAL_VOTE"
      "proposals_of (as_open_proposals s) (pv_circuit_id (mp_proposal_vote payload)) = Some p0"
      "validate_circuit_vote (as_key_registry s) (ae_is_permitted env) (mp_proposal_vote payload)
         (hd_requester header) p0 (hd_requester_node_id header) = Ok ()"
      "p = p0\<lparr>pp_votes := pp_votes p0 @ [\<lparr>pv_public_key = hd_requester header,
              pv_vote = pv_ballot (mp_proposal_vote payload),
              pv_voter_node_id = hd_requester_node_id header\<rparr>]\<rparr>"
      "sha256 (ae_hash env) (ae_proposal_c env) p = Ok h"
      "s' = s\<lparr>as_pending_changes := Some \<lparr>px_proposal = p, px_action = CIRCUIT_PROPOSAL_VOTE,
              px_signer_public_key = hd_requester header\<rparr>,
            as_current_consensus_verifiers :=
              map (\<lambda>m. admin_service_id (pn_node_id m)) (pc_members (pp_circuit_proposal p))\<rparr>"
proof -
  obtain header where header: "parse_from_bytes (ae_header_c env) (mp_header payload) = Ok header"
    using assms by (auto simp: propose_change_def Let_def rust_simps split: result.splits)
  show thesis
  proof (cases "hd_action header")
    case CIRCUIT_CREATE_REQUEST
    with assms header create [OF header CIRCUIT_CREATE_REQUEST] show thesis
      by (auto simp: propose_change_def Let_def rust_simps split: result.splits prod.splits)
  next
    case CIRCUIT_PROPOSAL_VOTE
    with assms header vote [OF header CIRCUIT_PROPOSAL_VOTE] show thesis
      by (auto simp: propose_change_def Let_def rust_simps admin_get_proposal_def get_proposal_eq
          split: result.splits prod.splits)
  qed (use assms header in \<open>auto simp: propose_change_def Let_def rust_simps split: result.splits prod.splits\<close>)
qed

lemma propose_change_Err: "propose_change env payload s = (Err e, s') \<Longrightarrow> s' = s"
  by (auto simp: propose_change_def Let_def split: result.splits prod.splits)

lemma propose_change_ok:
  assumes "admin_wf s" and "propose_change env payload s = (Ok (h, p), s')"
  shows "proposal_ok (as_node_id s) (as_key_registry s) p"
  using assms(2)
proof (cases rule: propose_change_cases)
  case (create header)
  then show ?thesis
    by (simp add: proposal_ok_def validate_create_circuit_Ok_iff)
next
  case (vote header p0)
  from assms(1) vote(3) have "proposal_ok (as_node_id s) (as_key_registry s) p0" by (auto simp: admin_wf_iff)
  with vote(4) show ?thesis
    unfolding vote(5) by (auto simp: proposal_ok_def validate_circuit_vote_Ok_iff voter_registered_def)
qed

lemma propose_change_wf:
  assumes "admin_wf s"
  shows "admin_wf (snd (propose_change env payload s))"
proof (cases "propose_change env payload s")
  case (Pair r s')
  show ?thesis
  proof (cases r)
    case (Err e)
    with Pair propose_change_Err [of env payload s e s'] assms show ?thesis by simp
  next
    case (Ok hp)
    then obtain h p where hp: "propose_change env payload s = (Ok (h, p), s')" using Pair by (cases hp) auto
    note ok = propose_change_ok [OF assms hp]
    from hp show ?thesis
    proof (cases rule: propose_change_cases)
      case (create header)
      from assms ok show ?thesis unfolding hp create(11) by (simp add: admin_wf_iff)
    next
      case (vote header p0)
      from assms ok show ?thesis unfolding hp vote(7) by (simp add: admin_wf_iff)
    qed
  qed
qed

section \<open>Commit\<close>

lemma keeps_remote_service [keeps_intros]:
  "keeps (\<lambda>st. circuit_dir st = k) (add_remote_service n cid rebuild d)"
  by (auto simp: keeps_def add_remote_service_def state_add_service_def split: list.split option.split)

lemma commit_write_add_node:
  "cd_circuits (circuit_dir (snd (commit_write w (state_add_node r i n) st))) = cd_circuits (circuit_dir st)"
  by (auto simp: commit_write_def state_add_node_def bind_act_def modify_act_def write_circuit_directory_def
      directory_add_node_def Let_def split: result.splits prod.splits)

lemma commit_write_add_circuit:
  "cd_circuits (circuit_dir (snd (commit_write w (state_add_circuit r i c) st))) =
     (cd_circuits (circuit_dir st))(i \<mapsto> c)"
  by (auto simp: commit_write_def state_add_circuit_def bind_act_def modify_act_def write_circuit_directory_def
      directory_add_circuit_def Let_def split: result.splits prod.splits)

lemma state_circuit_id: "state_circuit c = Ok nc \<Longrightarrow> circuit_id nc = pc_circuit_id c"
  by (auto simp: state_circuit_def circuit_builder_build_def rust_simps)

lemma bind_act_snd:
  "snd (bind_act m f s) = snd (m s) \<or> (\<exists>a. fst (m s) = Ok a \<and> snd (bind_act m f s) = snd (f a (snd (m s))))"
  by (cases "m s"; cases "fst (m s)") (auto simp: bind_act_def)

text \<open>The circuits of the directory change at most at the id of the new circuit.\<close>

lemma update_splinter_state_circuits:
  "cd_circuits (circuit_dir (snd (update_splinter_state env n c st))) = cd_circuits (circuit_dir st) \<or>
   (\<exists>nc. state_circuit c = Ok nc \<and> cd_circuits (circuit_dir (snd (update_splinter_state env n c st))) =
      (cd_circuits (circuit_dir st))(pc_circuit_id c \<mapsto> nc))"
proof (cases "state_circuit c")
  case (Err e)
  then show ?thesis by (simp add: update_splinter_state_def lift_act_def bind_act_def)
next
  case (Ok nc)
  let ?nodes = "for_act (state_nodes c) (\<lambda>n. commit_write ''Unable to add node to splinter state: ''
    (state_add_node (ae_node_storage env (node_id_of n)) (node_id_of n) n))"
  let ?add = "commit_write ''Unable to add circuit to splinter state: ''
    (state_add_circuit (ae_circuit_storage env (circuit_id nc)) (circuit_id nc) nc)"
  let ?remote = "for_act (state_roster c) (add_remote_service n (pc_circuit_id c) (\<lambda>_ n. n))"
  have "keeps (\<lambda>st. cd_circuits (circuit_dir st) = k) ?nodes" for k
    by (intro keeps_intros keepsI) (simp add: commit_write_add_node)
  then have nodes: "cd_circuits (circuit_dir (snd (?nodes st))) = cd_circuits (circuit_dir st)" for st
    by (simp add: keeps_def)
  have add: "cd_circuits (circuit_dir (snd (?add st))) = (cd_circuits (circuit_dir st))(pc_circuit_id c \<mapsto> nc)" for st
    using state_circuit_id [OF Ok] by (simp add: commit_write_add_circuit)
  have "keeps (\<lambda>st. circuit_dir st = k) ?remote" for k by (intro keeps_intros)
  then have remote: "circuit_dir (snd (?remote st)) = circuit_dir st" for st by (simp add: keeps_def)
  have "update_splinter_state env n c st = bind_act ?nodes (\<lambda>_. bind_act ?add (\<lambda>_. ?remote)) st"
    using Ok by (simp add: update_splinter_state_def lift_act_def bind_act_def)
  then show ?thesis
    using Ok bind_act_snd [of ?nodes "\<lambda>_. bind_act ?add (\<lambda>_. ?remote)" st]
      bind_act_snd [of ?add "\<lambda>_. ?remote" "snd (?nodes st)"] nodes add remote by auto
qed

lemma keeps_coreD: "(\<And>k. keeps (\<lambda>s. core s = k) m) \<Longrightarrow> core (snd (m s)) = core s"
  by (simp add: keeps_def)

lemma core_bind_tail:
  "(\<And>a s. core (snd (f a s)) = core s) \<Longrightarrow> core (snd (bind_act m f s)) = core (snd (m s))"
  using bind_act_snd [of m f s] by auto

text \<open>What a commit does to proposals and circuits, in each of its cases.\<close>

lemma core_clear_pending:
  "core (s\<lparr>as_pending_changes := None\<rparr>) = (as_node_id s, as_open_proposals s, None, as_splinter_state s,
     as_key_registry s, bt_bound (as_event_mailbox s))"
  by (simp add: core_def)

lemma commit_accepted_core:
  assumes "as_pending_changes s = Some px" and "check_approved (px_proposal px) = ProposalIsAccepted"
  defines "ops \<equiv> as_open_proposals s"
  shows "\<exists>ops' \<in> {ops, snd (remove_proposal (ae_proposal_storage env) (pp_circuit_id (px_proposal px)) ops)}.
    core (snd (commit env s)) = (as_node_id s, ops', None,
      snd (update_splinter_state env (as_node_id s) (pp_circuit_proposal (px_proposal px)) (as_splinter_state s)),
      as_key_registry s, bt_bound (as_event_mailbox s))"
proof -
  let ?p = "px_proposal px"
  let ?c = "pp_circuit_proposal ?p"
  let ?s = "s\<lparr>as_pending_changes := None\<rparr>"
  let ?update = "on_part as_splinter_state (\<lambda>st s. s\<lparr>as_splinter_state := st\<rparr>) (\<lambda>e. e)
    (update_splinter_state env (as_node_id ?s) ?c)"
  let ?remove = "admin_remove_proposal env (pp_circuit_id ?p)"
  let ?tail = "bind_act (send_proposal_event env ?p (\<lambda>cp. Admin_Messages.ProposalAccepted cp (px_signer_public_key px))) (\<lambda>_.
     bind_act (send_member_ready env ?c) (\<lambda>_. add_uninitialized_circuit env ?p))"
  have commit: "commit env s = bind_act ?update (\<lambda>_. bind_act ?remove (\<lambda>_. ?tail)) ?s"
    using assms by (simp add: commit_def Let_def)
  have tail: "core (snd (?tail s1)) = core s1" for s1 by (rule keeps_coreD) (intro keeps_intros)
  have update: "snd (?update ?s) = ?s\<lparr>as_splinter_state :=
      snd (update_splinter_state env (as_node_id s) ?c (as_splinter_state s))\<rparr>"
    by (simp add: on_part_def case_prod_beta)
  have remove: "snd (?remove s1) = s1\<lparr>as_open_proposals :=
      snd (remove_proposal (ae_proposal_storage env) (pp_circuit_id ?p) (as_open_proposals s1))\<rparr>" for s1
    by (simp add: admin_remove_proposal_def on_part_def case_prod_beta)
  show ?thesis
    unfolding commit
    using bind_act_snd [of ?update "\<lambda>_. bind_act ?remove (\<lambda>_. ?tail)" ?s]
      core_bind_tail [of "\<lambda>_. ?tail", OF tail, of ?remove "snd (?update ?s)"]
    unfolding update remove by (auto simp: core_def ops_def)
qed

lemma commit_pending_core:
  assumes "as_pending_changes s = Some px" and "check_approved (px_proposal px) = ProposalIsPending"
  shows "core (snd (commit env s)) = (as_node_id s,
      snd (add_proposal (ae_proposal_storage env) (px_proposal px) (as_open_proposals s)), None,
      as_splinter_state s, as_key_registry s, bt_bound (as_event_mailbox s))"
proof -
  let ?p = "px_proposal px"
  let ?add = "admin_add_proposal env ?p"
  let ?tail = "case px_action px of
      CIRCUIT_CREATE_REQUEST \<Rightarrow> send_proposal_event env ?p ProposalSubmitted
    | CIRCUIT_PROPOSAL_VOTE \<Rightarrow> send_proposal_event env ?p (\<lambda>cp. ProposalVote cp (px_signer_public_key px))
    | _ \<Rightarrow> fail_act (UnknownAction ''Received unknown action'')"
  let ?s = "s\<lparr>as_pending_changes := None\<rparr>"
  have commit: "commit env s = bind_act ?add (\<lambda>_. ?tail) ?s"
    using assms by (simp add: commit_def Let_def)
  have tail: "core (snd (?tail s1)) = core s1" for s1
    by (rule keeps_coreD, cases "px_action px") (auto intro!: keeps_intros)
  have add: "snd (?add ?s) = ?s\<lparr>as_open_proposals :=
      snd (add_proposal (ae_proposal_storage env) ?p (as_open_proposals s))\<rparr>"
    by (simp add: admin_add_proposal_def on_part_def case_prod_beta)
  show ?thesis
    unfolding commit core_bind_tail [OF tail] add by (simp add: core_def)
qed

lemma commit_rejected_core:
  assumes "as_pending_changes s = Some px" and "check_approved (px_proposal px) = ProposalIsRejected"
  shows "core (snd (commit env s)) = (as_node_id s,
      snd (remove_proposal (ae_proposal_storage env) (pp_circuit_id (px_proposal px)) (as_open_proposals s)), None,
      as_splinter_state s, as_key_registry s, bt_bound (as_event_mailbox s))"
proof -
  let ?p = "px_proposal px"
  let ?remove = "admin_remove_proposal env (pp_circuit_id ?p)"
  let ?tail = "send_proposal_event env ?p (\<lambda>cp. ProposalRejected cp (px_signer_public_key px))"
  let ?s = "s\<lparr>as_pending_changes := None\<rparr>"
  have commit: "commit env s = bind_act ?remove (\<lambda>_. ?tail) ?s"
    using assms by (simp add: commit_def Let_def)
  have tail: "core (snd (?tail s1)) = core s1" for s1 by (rule keeps_coreD) (intro keeps_intros)
  have remove: "snd (?remove ?s) = ?s\<lparr>as_open_proposals :=
      snd (remove_proposal (ae_proposal_storage env) (pp_circuit_id ?p) (as_open_proposals s))\<rparr>"
    by (simp add: admin_remove_proposal_def on_part_def case_prod_beta)
  show ?thesis
    unfolding commit core_bind_tail [OF tail] remove by (simp add: core_def)
qed

lemma commit_none_core:
  "as_pending_changes s = None \<Longrightarrow> core (snd (commit env s)) = core s"
  by (simp add: commit_def Let_def core_def)

lemma core_ok_remove:
  assumes "core_ok (n, ops, ch, st, keys, b)"
  shows "core_ok (n, snd (remove_proposal storage i ops), None, st', keys, b)"
  using assms proposals_of_remove [of ops storage i] remove_proposal_wf [of ops storage i]
  by (auto simp: core_ok_def)

lemma core_ok_add:
  assumes "core_ok (n, ops, Some px, st, keys, b)" and "check_approved (px_proposal px) = ProposalIsPending"
  shows "core_ok (n, snd (add_proposal storage (px_proposal px) ops), None, st', keys, b)"
proof (cases "Admin_Messages.proposal_from_proto (px_proposal px)")
  case (Ok cp)
  with assms proposals_of_add [of ops "px_proposal px" cp storage] add_proposal_wf [of ops storage "px_proposal px"]
  show ?thesis by (auto simp: core_ok_def)
next
  case (Err e)
  then have "op_registry (snd (add_proposal storage (px_proposal px) ops)) = op_registry ops"
    by (auto simp: add_proposal_def registry_add_proposal_def write_open_proposals_def split: result.split)
  then have "proposals_of (snd (add_proposal storage (px_proposal px) ops)) = proposals_of ops"
    by (simp add: proposals_of_def fun_eq_iff)
  with assms add_proposal_wf [of ops storage "px_proposal px"] show ?thesis by (auto simp: core_ok_def)
qed

lemma commit_wf:
  assumes "admin_wf s"
  shows "admin_wf (snd (commit env s))"
proof (cases "as_pending_changes s")
  case None
  from commit_none_core [OF None] assms show ?thesis by (simp add: admin_wf_def)
next
  case (Some px)
  have ok: "core_ok (as_node_id s, as_open_proposals s, Some px, as_splinter_state s, as_key_registry s,
      bt_bound (as_event_mailbox s))"
    using assms Some by (simp add: admin_wf_def core_def)
  show ?thesis
  proof (cases "check_approved (px_proposal px)")
    case ProposalIsAccepted
    from commit_accepted_core [OF Some this, of env] core_ok_remove [OF ok] ok show ?thesis
      by (auto simp: admin_wf_def) (auto simp: core_ok_def)
  next
    case ProposalIsRejected
    from commit_rejected_core [OF Some this, of env] core_ok_remove [OF ok] show ?thesis
      by (simp add: admin_wf_def)
  next
    case ProposalIsPending
    from commit_pending_core [OF Some this, of env] core_ok_add [OF ok this] show ?thesis
      by (simp add: admin_wf_def)
  qed
qed

section \<open>Everything that can happen to the state\<close>

datatype admin_op =
  Submit management_payload
| ProposeChange management_payload
| Commit
| Rollback
| ReadyMember string string
| AuthorizationChange string peer_authorization_state
| AddSubscriber string subscriber
| RemoveSubscribers
| SetNetworkSender "network_sender option"
| PopPayload
| AddConsensusProposal proposal_id proposal management_payload
| RemoveConsensusProposal proposal_id
| RestartServices "(string \<times> circuit) list" "(string \<rightharpoonup> string) \<Rightarrow> (string \<times> string) list"
| StopServices

fun admin_step :: "admin_env \<Rightarrow> admin_op \<Rightarrow> 's admin_shared \<Rightarrow> 's admin_shared" where
  "admin_step env (Submit payload) s = snd (submit env payload s)"
| "admin_step env (ProposeChange payload) s = snd (propose_change env payload s)"
| "admin_step env Commit s = snd (commit env s)"
| "admin_step env Rollback s = snd (rollback s)"
| "admin_step env (ReadyMember cid n) s = snd (add_ready_member env cid n s)"
| "admin_step env (AuthorizationChange p st) s = on_authorization_change p st s"
| "admin_step env (AddSubscriber t x) s = snd (add_subscriber t x s)"
| "admin_step env RemoveSubscribers s = remove_all_event_subscribers s"
| "admin_step env (SetNetworkSender ns) s = set_network_sender ns s"
| "admin_step env PopPayload s = snd (pop_pending_circuit_payload s)"
| "admin_step env (AddConsensusProposal i p payload) s = add_pending_consensus_proposal i (p, payload) s"
| "admin_step env (RemoveConsensusProposal i) s = snd (remove_pending_consensus_proposals i s)"
| "admin_step env (RestartServices circuits args) s = snd (restart_services circuits args s)"
| "admin_step env StopServices s = snd (stop_services s)"

text \<open>The states reached from a service that starts without open proposals; the environment may answer
  differently at each step.\<close>

inductive admin_reachable :: "'s admin_shared \<Rightarrow> bool" where
  start: "admin_shared_new n orch network net state keys ty (\<lambda>_. Ok []) = Ok s \<Longrightarrow> admin_reachable s"
| step: "admin_reachable s \<Longrightarrow> admin_reachable (admin_step env op s)"

lemma keeps_core_restart: "keeps (\<lambda>s. core s = k) (restart_services circuits args)"
  unfolding restart_services_def
proof (intro keeps_intros keepsI)
  fix x :: "string \<times> circuit" and s :: "'a admin_shared" assume s: "core s = k"
  obtain name c where x: "x = (name, c)" by (cases x)
  have "core (snd (for_act ds (\<lambda>d. start_service \<lparr>od_circuit = name, od_service_id = sd_service_id d,
      od_service_type = sd_service_type d\<rparr> (args (sd_arguments d))) s)) = core s" for ds
    by (rule keeps_coreD) (intro keeps_intros)
  with s x show "core (snd ((case x of (name, c) \<Rightarrow> \<lambda>s.
       for_act (filter (\<lambda>d. runs_here s (sd_service_type d) (sd_allowed_nodes d)) (roster_to_vec (circuit_roster c)))
         (\<lambda>d. start_service \<lparr>od_circuit = name, od_service_id = sd_service_id d,
                 od_service_type = sd_service_type d\<rparr> (args (sd_arguments d))) s) s)) = k"
    by simp
qed

lemma admin_step_core:
  assumes "op \<notin> {Commit, Rollback} \<union> range ProposeChange"
  shows "core (admin_step env op s) = core s"
proof (cases op)
  case (RestartServices circuits args)
  then show ?thesis using keeps_coreD [OF keeps_core_restart] by simp
next
  case (ReadyMember cid n)
  then show ?thesis using keeps_coreD [OF keeps_core_ready_member] by simp
next
  case (Submit payload)
  then show ?thesis by (simp add: core_submit)
next
  case (AuthorizationChange p st)
  then show ?thesis by (simp add: core_authorization_change)
qed (use assms in \<open>auto simp: add_subscriber_def rust_simps
    remove_all_event_subscribers_def set_network_sender_def pop_pending_circuit_payload_def
    add_pending_consensus_proposal_def remove_pending_consensus_proposals_def stop_services_def core_def
    split: list.split prod.split\<close>)

lemma admin_step_wf: "admin_wf s \<Longrightarrow> admin_wf (admin_step env op s)"
proof -
  assume wf: "admin_wf s"
  consider "op = Commit" | "op = Rollback" | payload where "op = ProposeChange payload"
    | "op \<notin> {Commit, Rollback} \<union> range ProposeChange" by blast
  then show ?thesis
  proof cases
    case 1
    with wf commit_wf show ?thesis by simp
  next
    case 2
    with wf show ?thesis by (simp add: rollback_def rust_simps admin_wf_iff)
  next
    case 3
    with wf propose_change_wf show ?thesis by simp
  next
    case 4
    with wf admin_wf_core admin_step_core show ?thesis by blast
  qed
qed

lemma admin_reachable_wf: "admin_reachable s \<Longrightarrow> admin_wf s"
proof (induction rule: admin_reachable.induct)
  case (start n orch network net state keys ty s)
  then show ?case
    by (auto simp: admin_shared_new_def open_proposals_new_def admin_wf_iff open_proposals_wf_def
        proposals_of_def bmap_ok_def bmap_get_def btree_new_with_bound_def split: if_splits)
next
  case (step s env op)
  then show ?case by (rule_tac admin_step_wf)
qed

lemma admin_step_circuits:
  assumes "cd_circuits (circuit_dir (as_splinter_state (admin_step env op s))) \<noteq>
    cd_circuits (circuit_dir (as_splinter_state s))"
  obtains px nc where "op = Commit" and "as_pending_changes s = Some px"
    and "check_approved (px_proposal px) = ProposalIsAccepted"
    and "state_circuit (pp_circuit_proposal (px_proposal px)) = Ok nc"
    and "cd_circuits (circuit_dir (as_splinter_state (admin_step env op s))) =
      (cd_circuits (circuit_dir (as_splinter_state s)))(pc_circuit_id (pp_circuit_proposal (px_proposal px)) \<mapsto> nc)"
proof -
  have st: "as_splinter_state x = (case core x of (_, _, _, st, _) \<Rightarrow> st)" for x :: "'a admin_shared"
    by (simp add: core_def)
  have same: "core (admin_step env op s) \<noteq> core s" using assms by (metis st)
  have "op = Commit"
  proof (rule ccontr)
    assume "op \<noteq> Commit"
    with same admin_step_core [of op env s] obtain payload where "op = Rollback \<or> op = ProposeChange payload" by blast
    with assms show False
      by (auto simp: rollback_def rust_simps propose_change_def Let_def split: result.splits prod.splits)
  qed
  with same commit_none_core [of s env] obtain px where px: "as_pending_changes s = Some px" by fastforce
  have acc: "check_approved (px_proposal px) = ProposalIsAccepted"
  proof (cases "check_approved (px_proposal px)")
    case ProposalIsRejected
    with commit_rejected_core [OF px this, of env] assms \<open>op = Commit\<close> show ?thesis by (simp add: st)
  next
    case ProposalIsPending
    with commit_pending_core [OF px this, of env] assms \<open>op = Commit\<close> show ?thesis by (simp add: st)
  qed simp
  have "as_splinter_state (admin_step env op s) =
      snd (update_splinter_state env (as_node_id s) (pp_circuit_proposal (px_proposal px)) (as_splinter_state s))"
    using commit_accepted_core [OF px acc, of env] \<open>op = Commit\<close> by (auto simp: st)
  with assms update_splinter_state_circuits [of env "as_node_id s" "pp_circuit_proposal (px_proposal px)"
      "as_splinter_state s"] that [OF \<open>op = Commit\<close> px acc]
  show thesis by auto
qed

section \<open>Installing an approved circuit\<close>

lemma for_act_inv:
  assumes "\<And>x s. x \<in> set xs \<Longrightarrow> P s \<Longrightarrow> fst (body x s) = Ok () \<and> P (snd (body x s))" and "P s"
  shows "fst (for_act xs body s) = Ok () \<and> P (snd (for_act xs body s))"
  using assms
proof (induction xs arbitrary: s)
  case (Cons x xs)
  then have "fst (body x s) = Ok () \<and> P (snd (body x s))" by simp
  with Cons.IH [of "snd (body x s)"] Cons.prems show ?case by (cases "body x s") (auto simp: bind_act_def)
qed (simp add: pure_act_def)

lemma nodes_added:
  assumes "\<And>i. ae_node_storage env i = Ok ()" and "distinct (map node_id_of ns)"
  shows "\<exists>st'. for_act ns (\<lambda>n. commit_write w (state_add_node (ae_node_storage env (node_id_of n)) (node_id_of n) n)) st
      = (Ok (), st') \<and> (\<forall>n \<in> set ns. cd_nodes (circuit_dir st') (node_id_of n) = Some n) \<and>
      (\<forall>i. i \<notin> node_id_of ` set ns \<longrightarrow> cd_nodes (circuit_dir st') i = cd_nodes (circuit_dir st) i) \<and>
      service_dir st' = service_dir st"
  using assms(2)
proof (induction ns arbitrary: st)
  case Nil
  show ?case by (simp add: pure_act_def)
next
  case (Cons n ns)
  let ?body = "\<lambda>n. commit_write w (state_add_node (ae_node_storage env (node_id_of n)) (node_id_of n) n)"
  obtain st1 where st1: "?body n st = (Ok (), st1)"
    "cd_nodes (circuit_dir st1) = (cd_nodes (circuit_dir st))(node_id_of n \<mapsto> n)" "service_dir st1 = service_dir st"
    by (simp add: commit_write_def state_add_node_def bind_act_def modify_act_def write_circuit_directory_def
        directory_add_node_def assms(1))
  have "distinct (map node_id_of ns)" using Cons.prems by simp
  from Cons.IH [OF this, of st1] obtain st' where st': "for_act ns ?body st1 = (Ok (), st')"
    "\<forall>n \<in> set ns. cd_nodes (circuit_dir st') (node_id_of n) = Some n"
    "\<forall>i. i \<notin> node_id_of ` set ns \<longrightarrow> cd_nodes (circuit_dir st') i = cd_nodes (circuit_dir st1) i"
    "service_dir st' = service_dir st1" by blast
  from st1(1) st'(1) have "for_act (n # ns) ?body st = (Ok (), st')" by simp
  with st'(2-) st1(2,3) Cons.prems show ?case by (intro exI [of _ st']) auto
qed

lemma remote_services_added:
  assumes "distinct (map sd_service_id ds)"
    and "\<And>d. d \<in> set ds \<Longrightarrow> \<exists>m. sd_allowed_nodes d = [m] \<and> cd_nodes (circuit_dir st) m \<noteq> None"
  shows "\<exists>st'. for_act ds (add_remote_service n cid (\<lambda>_ n. n)) st = (Ok (), st') \<and> circuit_dir st' = circuit_dir st \<and>
     (\<forall>d \<in> set ds. \<forall>m v. sd_allowed_nodes d = [m] \<longrightarrow> m \<noteq> n \<longrightarrow> cd_nodes (circuit_dir st) m = Some v \<longrightarrow>
        service_dir st' (cid, sd_service_id d) =
          Some \<lparr>svc_service_id = sd_service_id d, svc_peer_id = None, svc_node = v\<rparr>) \<and>
     (\<forall>i. i \<notin> sd_service_id ` set ds \<longrightarrow> service_dir st' (cid, i) = service_dir st (cid, i))"
  using assms
proof (induction ds arbitrary: st)
  case Nil
  show ?case by (simp add: pure_act_def)
next
  case (Cons d ds)
  from Cons.prems(2) [of d] obtain m v where m: "sd_allowed_nodes d = [m]" "cd_nodes (circuit_dir st) m = Some v"
    by auto
  obtain st1 where st1: "add_remote_service n cid (\<lambda>_ n. n) d st = (Ok (), st1)" "circuit_dir st1 = circuit_dir st"
    "m \<noteq> n \<Longrightarrow> service_dir st1 (cid, sd_service_id d) =
       Some \<lparr>svc_service_id = sd_service_id d, svc_peer_id = None, svc_node = v\<rparr>"
    "\<And>i. i \<noteq> sd_service_id d \<Longrightarrow> service_dir st1 (cid, i) = service_dir st (cid, i)"
  proof (cases "m = n")
    case True
    with m that [of st] show thesis by (simp add: add_remote_service_def)
  next
    case False
    with m that [OF _ _ _] show thesis by (simp add: add_remote_service_def state_add_service_def)
  qed
  have "distinct (map sd_service_id ds)"
    "\<And>d. d \<in> set ds \<Longrightarrow> \<exists>m. sd_allowed_nodes d = [m] \<and> cd_nodes (circuit_dir st1) m \<noteq> None"
    using Cons.prems st1(2) by auto
  from Cons.IH [OF this] obtain st' where st':
    "for_act ds (add_remote_service n cid (\<lambda>_ n. n)) st1 = (Ok (), st')" "circuit_dir st' = circuit_dir st1"
    "\<forall>d \<in> set ds. \<forall>m v. sd_allowed_nodes d = [m] \<longrightarrow> m \<noteq> n \<longrightarrow> cd_nodes (circuit_dir st1) m = Some v \<longrightarrow>
        service_dir st' (cid, sd_service_id d) =
          Some \<lparr>svc_service_id = sd_service_id d, svc_peer_id = None, svc_node = v\<rparr>"
    "\<forall>i. i \<notin> sd_service_id ` set ds \<longrightarrow> service_dir st' (cid, i) = service_dir st1 (cid, i)"
    by blast
  have "sd_service_id d \<notin> sd_service_id ` set ds" using Cons.prems(1) by simp
  with st' st1 m show ?case by (auto simp: bind_act_def)
qed

lemma state_roster_id [simp]: "map sd_service_id (state_roster c) = map ps_service_id (pc_roster c)"
  "sd_service_id (service_definition_build i t ns args) = i"
  "sd_allowed_nodes (service_definition_build i t ns args) = ns"
  by (simp_all add: state_roster_def service_definition_build_def)

lemma state_nodes_id [simp]: "map node_id_of (state_nodes c) = map pn_node_id (pc_members c)"
  by (simp add: state_nodes_def)

lemma state_circuit_valid:
  assumes "circuit_valid n c"
  shows "\<exists>nc. state_circuit c = Ok nc \<and> circuit_id nc = pc_circuit_id c \<and>
     circuit_members nc = map pn_node_id (pc_members c) \<and> circuit_roster nc = StandardRoster (state_roster c)"
  using assms by (auto simp: circuit_valid_def state_circuit_def circuit_builder_build_def guard_err_def)

lemma update_splinter_state_installs:
  assumes "circuit_valid n c" and "\<And>i. ae_node_storage env i = Ok ()" and "\<And>i. ae_circuit_storage env i = Ok ()"
  obtains nc st' where "state_circuit c = Ok nc" and "update_splinter_state env n c st = (Ok (), st')"
    and "cd_circuits (circuit_dir st') = (cd_circuits (circuit_dir st))(pc_circuit_id c \<mapsto> nc)"
    and "stored_directory st' = circuit_dir st'"
    and "\<And>v m. v \<in> set (pc_roster c) \<Longrightarrow> m \<in> set (pc_members c) \<Longrightarrow> ps_allowed_nodes v = [pn_node_id m] \<Longrightarrow>
      pn_node_id m \<noteq> n \<Longrightarrow> service_dir st' (pc_circuit_id c, ps_service_id v) =
        Some \<lparr>svc_service_id = ps_service_id v, svc_peer_id = None,
          svc_node = \<lparr>node_id_of = pn_node_id m, node_endpoints = [pn_endpoint m]\<rparr>\<rparr>"
proof -
  from state_circuit_valid [OF assms(1)] obtain nc where nc: "state_circuit c = Ok nc" "circuit_id nc = pc_circuit_id c"
    by blast
  have "distinct (map node_id_of (state_nodes c))" using assms(1) by (simp add: circuit_valid_def)
  from nodes_added [OF assms(2) this, of "''Unable to add node to splinter state: ''" st]
  obtain st1 where st1: "for_act (state_nodes c) (\<lambda>n. commit_write ''Unable to add node to splinter state: ''
      (state_add_node (ae_node_storage env (node_id_of n)) (node_id_of n) n)) st = (Ok (), st1)"
    "\<forall>n \<in> set (state_nodes c). cd_nodes (circuit_dir st1) (node_id_of n) = Some n" by blast
  have c1: "cd_circuits (circuit_dir st1) = cd_circuits (circuit_dir st)"
  proof -
    have "keeps (\<lambda>st. cd_circuits (circuit_dir st) = k) (for_act (state_nodes c)
       (\<lambda>n. commit_write ''Unable to add node to splinter state: ''
         (state_add_node (ae_node_storage env (node_id_of n)) (node_id_of n) n)))" for k
      by (intro keeps_intros keepsI) (simp add: commit_write_add_node)
    from keepsD [OF this, of st] st1(1) show ?thesis by simp
  qed
  obtain st2 where st2: "commit_write ''Unable to add circuit to splinter state: ''
      (state_add_circuit (ae_circuit_storage env (circuit_id nc)) (circuit_id nc) nc) st1 = (Ok (), st2)"
    "circuit_dir st2 = directory_add_circuit (pc_circuit_id c) nc (circuit_dir st1)"
    "stored_directory st2 = circuit_dir st2"
    using assms(3) nc(2) by (simp add: commit_write_def state_add_circuit_def bind_act_def modify_act_def
        write_circuit_directory_def)
  have nodes2: "cd_nodes (circuit_dir st2) = cd_nodes (circuit_dir st1)"
    by (simp add: st2(2) directory_add_circuit_def)
  have members: "cd_nodes (circuit_dir st2) (pn_node_id m) = Some \<lparr>node_id_of = pn_node_id m, node_endpoints = [pn_endpoint m]\<rparr>"
    if "m \<in> set (pc_members c)" for m
    using st1(2) that by (auto simp: nodes2 state_nodes_def)
  have dist: "distinct (map sd_service_id (state_roster c))" using assms(1) by (simp add: circuit_valid_def)
  have allowed: "\<exists>m. sd_allowed_nodes d = [m] \<and> cd_nodes (circuit_dir st2) m \<noteq> None" if "d \<in> set (state_roster c)" for d
    using assms(1) that members by (fastforce simp: circuit_valid_def state_roster_def)
  from remote_services_added [OF dist allowed, of n "pc_circuit_id c"] obtain st3 where st3:
    "for_act (state_roster c) (add_remote_service n (pc_circuit_id c) (\<lambda>_ n. n)) st2 = (Ok (), st3)"
    "circuit_dir st3 = circuit_dir st2"
    "\<forall>d \<in> set (state_roster c). \<forall>m v. sd_allowed_nodes d = [m] \<longrightarrow> m \<noteq> n \<longrightarrow> cd_nodes (circuit_dir st2) m = Some v \<longrightarrow>
        service_dir st3 (pc_circuit_id c, sd_service_id d) =
          Some \<lparr>svc_service_id = sd_service_id d, svc_peer_id = None, svc_node = v\<rparr>"
    by blast
  have "keeps (\<lambda>st. stored_directory st = k) (for_act (state_roster c) (add_remote_service n (pc_circuit_id c) (\<lambda>_ n. n)))" for k
    by (intro keeps_intros keepsI) (auto simp: add_remote_service_def state_add_service_def split: list.split option.split)
  from keepsD [OF this, of st2] st3(1,2) st2(3) have stored: "stored_directory st3 = circuit_dir st3" by simp
  show thesis
  proof (rule that [OF nc(1) _ _ stored])
    show "update_splinter_state env n c st = (Ok (), st3)"
      using nc(1) st1(1) st2(1) st3(1) by (simp add: update_splinter_state_def lift_act_def bind_act_def)
    show "cd_circuits (circuit_dir st3) = (cd_circuits (circuit_dir st))(pc_circuit_id c \<mapsto> nc)"
      by (simp add: st3(2) st2(2) directory_add_circuit_def c1)
    fix v m assume v: "v \<in> set (pc_roster c)" "m \<in> set (pc_members c)" "ps_allowed_nodes v = [pn_node_id m]" "pn_node_id m \<noteq> n"
    let ?d = "service_definition_build (ps_service_id v) (ps_service_type v) (ps_allowed_nodes v) (ps_arguments v)"
    have "?d \<in> set (state_roster c)" using v(1) by (auto simp: state_roster_def)
    from st3(3) [rule_format, OF this, of "pn_node_id m"] v members [OF v(2)]
    show "service_dir st3 (pc_circuit_id c, ps_service_id v) =
        Some \<lparr>svc_service_id = ps_service_id v, svc_peer_id = None,
          svc_node = \<lparr>node_id_of = pn_node_id m, node_endpoints = [pn_endpoint m]\<rparr>\<rparr>" by simp
  qed
qed

end
