(* ===== verification/Engine_Client.thy ===== *)
theory Engine_Client
  imports Two_Phase_Node
begin

text \<open>
  The two-phase engine and the service that runs it. A service gives the engine a \<open>ProposalManager\<close> and a
  \<open>ConsensusNetworkSender\<close> (the traits of \<^verbatim>\<open>libsplinter/src/consensus/mod.rs\<close>), and both work on the state of
  the service. Here the service is its two functions \<open>pm\<close> and \<open>ns\<close> that perform a call on a state of any type
  \<open>'m\<close>; \<open>client_env\<close> answers a call of the engine by performing it on the state that the calls made before it in
  the iteration lead to.

  The locale \<open>engine_client\<close> is the contract between the two: a successful check makes the service ready for
  the proposal, and only the creation or the check of another proposal takes this back. Its lemmas follow the
  engine method by method and show that the engine accepts a proposal only when the service is ready for it.
  The admin service and the scabbard service are its two instances.
\<close>

section \<open>The environment a service makes\<close>

type_synonym 'm pm_calls = "effect \<Rightarrow> ('m, unit, proposal_manager_error) action"
type_synonym 'm ns_calls = "effect \<Rightarrow> ('m, unit, consensus_send_error) action"

definition client_call :: "'m pm_calls \<Rightarrow> 'm ns_calls \<Rightarrow> effect \<Rightarrow> 'm \<Rightarrow> 'm" where
  "client_call pm ns e m = snd (ns e (snd (pm e m)))"

definition client_calls :: "'m pm_calls \<Rightarrow> 'm ns_calls \<Rightarrow> effect list \<Rightarrow> 'm \<Rightarrow> 'm" where
  "client_calls pm ns es m = fold (client_call pm ns) es m"

definition client_env ::
  "'m pm_calls \<Rightarrow> 'm ns_calls \<Rightarrow> two_phase_message codec \<Rightarrow> required_verifiers_msg codec \<Rightarrow> nat \<Rightarrow> 'm \<Rightarrow> tp_env" where
  "client_env pm ns msg_codec verifiers_codec k m =
     \<lparr>pm_reply = (\<lambda>log e. fst (pm e (client_calls pm ns (map fst (drop k log)) m))),
      ns_reply = (\<lambda>log e. fst (ns e (client_calls pm ns (map fst (drop k log)) m))),
      wire = msg_codec, verifiers_wire = verifiers_codec\<rparr>"

text \<open>One iteration of the engine's loop, and the calls it makes.\<close>

definition client_iteration ::
  "'m pm_calls \<Rightarrow> 'm ns_calls \<Rightarrow> two_phase_message codec \<Rightarrow> required_verifiers_msg codec \<Rightarrow> tick \<Rightarrow> 'm \<Rightarrow>
   engine_run \<Rightarrow> engine_run \<times> effect list" where
  "client_iteration pm ns msg_codec verifiers_codec tick m s =
     (let s' = snd (run_iteration (client_env pm ns msg_codec verifiers_codec (length (calls s)) m) tick s)
      in (s', map fst (drop (length (calls s)) (calls s'))))"

text \<open>
  A manager may also panic in the engine's thread. The engine does not see the outcome of such a call, and the
  thread does not go on after it.
\<close>

datatype manager_failure = ManagerError proposal_manager_error | ManagerPanic

definition manager_reply :: "(unit, manager_failure) result \<Rightarrow> (unit, proposal_manager_error) result" where
  "manager_reply = map_err (\<lambda>f. case f of ManagerError e \<Rightarrow> e | ManagerPanic \<Rightarrow> PMInternal ''panic'')"

definition replying :: "(effect \<Rightarrow> ('m, unit, manager_failure) action) \<Rightarrow> 'm pm_calls" where
  "replying pm e m = (manager_reply (fst (pm e m)), snd (pm e m))"

fun panics :: "(effect \<Rightarrow> ('m, unit, manager_failure) action) \<Rightarrow> 'm ns_calls \<Rightarrow> effect list \<Rightarrow> 'm \<Rightarrow> bool" where
  "panics pm ns [] m \<longleftrightarrow> False"
| "panics pm ns (e # es) m \<longleftrightarrow>
     fst (pm e m) = Err ManagerPanic \<or> panics pm ns es (client_call (replying pm) ns e m)"

lemma client_calls_simps [simp]:
  "client_calls pm ns [] m = m"
  "client_calls pm ns (es @ es') m = client_calls pm ns es' (client_calls pm ns es m)"
  "client_calls pm ns (e # es) m = client_calls pm ns es (client_call pm ns e m)"
  by (simp_all add: client_calls_def)

section \<open>The proposal under evaluation\<close>

definition evaluated :: "engine_run \<Rightarrow> proposal_id set" where
  "evaluated s = (case engine_state s of EvaluatingProposal t \<Rightarrow> {tpp_id t} | _ \<Rightarrow> {})"

lemma evaluated_simps [simp]:
  "evaluated (s\<lparr>calls := l\<rparr>) = evaluated s"
  "evaluated (s\<lparr>coordinator_timeout := t\<rparr>) = evaluated s"
  "evaluated (s\<lparr>proposal_backlog := b\<rparr>) = evaluated s"
  "evaluated (s\<lparr>verification_request_backlog := v\<rparr>) = evaluated s"
  "evaluated (s\<lparr>engine_state := Idle\<rparr>) = {}"
  "evaluated (s\<lparr>engine_state := AwaitingProposal\<rparr>) = {}"
  "evaluated (s\<lparr>engine_state := EvaluatingProposal t'\<rparr>) = {tpp_id t'}"
  by (simp_all add: evaluated_def)

lemma evaluated_send [simp]:
  "evaluated (snd (broadcast_msg env msg s)) = evaluated s" "evaluated (snd (send_msg_to env q msg s)) = evaluated s"
  by (auto simp: broadcast_msg_def send_msg_to_def fail_act_def call_ns_def Let_def split: result.split)

lemma evaluated_push [simp]: "evaluated (push_proposal t s) = evaluated s"
  by (simp add: push_proposal_def)

lemma evaluated_iff:
  "engine_state s = EvaluatingProposal t \<Longrightarrow> evaluated s = {tpp_id t}"
  "engine_state s = Idle \<Longrightarrow> evaluated s = {}" "engine_state s = AwaitingProposal \<Longrightarrow> evaluated s = {}"
  "evaluating_proposal s p \<longleftrightarrow> p \<in> evaluated s"
  by (auto simp: evaluated_def evaluating_proposal_def split: tp_state.splits)

section \<open>The contract\<close>

text \<open>The calls after which a service that is ready for proposal \<open>p\<close> still is.\<close>

fun spares :: "proposal_id \<Rightarrow> effect \<Rightarrow> bool" where
  "spares p (Consensus.CreateProposal _ _) \<longleftrightarrow> False"
| "spares p (CheckProposal i) \<longleftrightarrow> i = p"
| "spares p _ \<longleftrightarrow> True"

definition harmless :: "proposal_id set \<Rightarrow> effect \<Rightarrow> bool" where
  "harmless G e \<longleftrightarrow> (\<forall>p \<in> G. spares p e) \<and> (\<forall>i d. e = AcceptProposal i d \<longrightarrow> i \<in> G)"

lemma harmless_simps [simp]:
  "harmless G (Consensus.CreateProposal prev d) \<longleftrightarrow> G = {}"
  "harmless G (CheckProposal i) \<longleftrightarrow> G \<subseteq> {i}"
  "harmless G (AcceptProposal i da) \<longleftrightarrow> i \<in> G"
  "harmless G (RejectProposal i)"
  "harmless G (SendTo q b)"
  "harmless G (Broadcast b)"
  by (auto simp: harmless_def)

locale engine_client =
  fixes pm :: "'m pm_calls" and ns :: "'m ns_calls"
    and msg_codec :: "two_phase_message codec" and verifiers_codec :: "required_verifiers_msg codec"
    and inv :: "'m \<Rightarrow> bool" and ready :: "proposal_id \<Rightarrow> 'm \<Rightarrow> bool"
  assumes inv_call: "inv m \<Longrightarrow> inv (client_call pm ns e m)"
    and check_ready: "inv m \<Longrightarrow> fst (pm (CheckProposal i) m) = Ok () \<Longrightarrow>
      ready i (client_call pm ns (CheckProposal i) m)"
    and ready_call: "inv m \<Longrightarrow> ready p m \<Longrightarrow> spares p e \<Longrightarrow> ready p (client_call pm ns e m)"
begin

abbreviation env_at :: "nat \<Rightarrow> 'm \<Rightarrow> tp_env" where
  "env_at k m \<equiv> client_env pm ns msg_codec verifiers_codec k m"

text \<open>The state of the service after the calls of an iteration that began with \<open>k\<close> calls in state \<open>m\<close>.\<close>

definition view :: "nat \<Rightarrow> 'm \<Rightarrow> engine_run \<Rightarrow> 'm" where
  "view k m s = client_calls pm ns (map fst (drop k (calls s))) m"

lemma view_call [simp]:
  "k \<le> length (calls s) \<Longrightarrow> view k m (s\<lparr>calls := calls s @ [(e, b)]\<rparr>) = client_call pm ns e (view k m s)"
  by (simp add: view_def)

text \<open>Every acceptance among the calls finds the service ready for its proposal.\<close>

fun accepts_ready :: "effect list \<Rightarrow> 'm \<Rightarrow> bool" where
  "accepts_ready [] m \<longleftrightarrow> True"
| "accepts_ready (e # es) m \<longleftrightarrow>
     (case e of AcceptProposal p _ \<Rightarrow> ready p m | _ \<Rightarrow> True) \<and> accepts_ready es (client_call pm ns e m)"

lemma accepts_ready_append:
  "accepts_ready (es @ es') m \<longleftrightarrow> accepts_ready es m \<and> accepts_ready es' (client_calls pm ns es m)"
  by (induction es arbitrary: m) auto

definition tracks :: "nat \<Rightarrow> 'm \<Rightarrow> proposal_id set \<Rightarrow> engine_run \<Rightarrow> bool" where
  "tracks k m G s \<longleftrightarrow> k \<le> length (calls s) \<and> inv (view k m s) \<and>
     accepts_ready (map fst (drop k (calls s))) m \<and> (\<forall>p \<in> G. ready p (view k m s))"

lemma tracks_simps [simp]:
  "tracks k m G (s\<lparr>engine_state := st\<rparr>) = tracks k m G s"
  "tracks k m G (s\<lparr>coordinator_timeout := t\<rparr>) = tracks k m G s"
  "tracks k m G (s\<lparr>proposal_backlog := b\<rparr>) = tracks k m G s"
  "tracks k m G (s\<lparr>verification_request_backlog := v\<rparr>) = tracks k m G s"
  by (simp_all add: tracks_def view_def)

lemma tracks_subset: "tracks k m G s \<Longrightarrow> G' \<subseteq> G \<Longrightarrow> tracks k m G' s"
  by (auto simp: tracks_def)

lemma tracks_call:
  assumes "tracks k m G s" and "harmless G e"
  shows "tracks k m G (s\<lparr>calls := calls s @ [(e, b)]\<rparr>)"
proof -
  have t: "k \<le> length (calls s)" "inv (view k m s)" "\<forall>p \<in> G. ready p (view k m s)"
    using assms(1) by (simp_all add: tracks_def)
  from t(3) assms(2) have "case e of AcceptProposal p _ \<Rightarrow> ready p (view k m s) | _ \<Rightarrow> True"
    by (cases e) auto
  moreover from t(2) have "inv (client_call pm ns e (view k m s))" by (rule inv_call)
  moreover have "\<forall>p \<in> G. ready p (client_call pm ns e (view k m s))"
    using t assms(2) ready_call by (auto simp: harmless_def)
  ultimately show ?thesis
    using assms(1) by (cases e) (simp_all add: tracks_def accepts_ready_append view_def)
qed

lemma tracks_send: "tracks k m G s \<Longrightarrow> tracks k m G (snd (broadcast_msg env msg s))"
  "tracks k m G s \<Longrightarrow> tracks k m G (snd (send_msg_to env q msg s))"
  by (auto simp: broadcast_msg_def send_msg_to_def fail_act_def call_ns_def Let_def intro!: tracks_call
      split: result.split)

lemma tracks_check:
  assumes "tracks k m G s" and "call_pm (env_at k m) (CheckProposal i) s = (Ok u, s')"
  shows "tracks k m {i} s'"
proof -
  have s': "s' = s\<lparr>calls := calls s @ [(CheckProposal i, True)]\<rparr>"
    and ok: "fst (pm (CheckProposal i) (view k m s)) = Ok ()"
    using assms(2) by (auto simp: call_pm_def Let_def client_env_def view_def rust_simps split: result.splits)
  have "tracks k m {} s'" unfolding s' by (rule tracks_call [OF tracks_subset [OF assms(1)]]) simp_all
  moreover have "k \<le> length (calls s)" "inv (view k m s)" using assms(1) by (simp_all add: tracks_def)
  ultimately show ?thesis using check_ready ok by (simp add: tracks_def s')
qed

text \<open>The invariant of the engine: the pending change is that of the proposal under evaluation.\<close>

abbreviation on_track :: "nat \<Rightarrow> 'm \<Rightarrow> engine_run \<Rightarrow> bool" where
  "on_track k m s \<equiv> tracks k m (evaluated s) s"

lemma on_track_idle: "tracks k m G s \<Longrightarrow> on_track k m (s\<lparr>engine_state := Idle\<rparr>)"
  by (simp add: tracks_subset)

lemma on_complete:
  assumes "tracks k m G s" and "res = APPLY \<Longrightarrow> p \<in> G" and "evaluated s \<subseteq> G"
  shows "on_track k m (snd (complete_coordination env p res s))"
proof (cases "res = UNSET_RESULT")
  case True
  with assms show ?thesis by (simp add: complete_coordination_unset tracks_subset)
next
  case False
  have h: "harmless G (decision_call p res)" using assms(2) by (simp add: decision_call_def)
  show ?thesis
  proof (cases rule: call_pm_cases [of env "decision_call p res" s])
    case (err x)
    show ?thesis
      using tracks_subset [OF tracks_call [OF assms(1) h] assms(3)] by (simp add: complete_coordination_err [OF False err])
  next
    case ok
    show ?thesis
      using tracks_subset [OF tracks_call [OF assms(1) h, of True], of "{}"]
      by (simp add: complete_coordination_ok [OF False ok] tracks_send)
  qed
qed

lemma on_start:
  assumes "tracks k m {} s" and "evaluated s = {}"
  shows "on_track k m (snd (start_coordination (env_at k m) now t s))"
proof (cases rule: call_pm_cases [of "env_at k m" "CheckProposal (tpp_id t)" s])
  case ok
  from tracks_check [OF assms(1) ok] ok show ?thesis by (simp add: start_coordination_def)
next
  case (err x)
  have "tracks k m {} (s\<lparr>calls := calls s @ [(CheckProposal (tpp_id t), False)]\<rparr>)"
    by (rule tracks_call [OF assms(1)]) simp
  from on_complete [OF this, of REJECT] err assms(2) show ?thesis by (simp add: start_coordination_def)
qed

text \<open>A proposal is taken up for evaluation after a check.\<close>

lemma on_evaluate:
  assumes "tracks k m (evaluated s) s" and "evaluated s \<subseteq> {i}"
    and "\<And>s'. proposal_backlog s' = proposal_backlog s \<Longrightarrow> evaluated (f s') = {i}"
    and "\<And>s' G. tracks k m G (f s') = tracks k m G s'"
  shows "on_track k m (snd (bind_act (call_pm (env_at k m) (CheckProposal i)) (\<lambda>_. modify_act f) s))"
proof (cases rule: call_pm_cases [of "env_at k m" "CheckProposal i" s])
  case ok
  from tracks_check [OF assms(1) ok] ok assms(3,4) show ?thesis by (simp add: modify_act_def)
next
  case (err x)
  have "tracks k m (evaluated s) (s\<lparr>calls := calls s @ [(CheckProposal i, False)]\<rparr>)"
    by (rule tracks_call [OF assms(1)]) (use assms(2) in simp)
  with err show ?thesis by simp
qed

lemma on_decide:
  assumes "on_track k m s" and "harmless (evaluated s) e"
    and "\<And>s'. evaluated s' = evaluated s \<Longrightarrow> evaluated (f s') \<subseteq> evaluated s"
    and "\<And>s' G. tracks k m G (f s') = tracks k m G s'"
  shows "on_track k m (snd (bind_act (call_pm env e) (\<lambda>_. modify_act f) s))"
proof (cases rule: call_pm_cases [of env e s])
  case ok
  let ?s = "s\<lparr>calls := calls s @ [(e, True)]\<rparr>"
  have "tracks k m (evaluated (f ?s)) ?s"
    by (rule tracks_subset [OF tracks_call [OF assms(1,2)]]) (rule assms(3), simp)
  with ok assms(4) show ?thesis by (simp add: modify_act_def)
next
  case (err x)
  with tracks_call [OF assms(1,2), of False] show ?thesis by simp
qed

lemma on_push [simp]: "tracks k m G (push_proposal t s) = tracks k m G s"
  by (simp add: push_proposal_def)

lemma on_handle_proposal:
  assumes "on_track k m s"
  shows "on_track k m (snd (handle_proposal (env_at k m) now prop s))"
proof -
  have idle: "on_track k m (snd (bind_act (call_pm env (RejectProposal i)) (\<lambda>_. modify_act (\<lambda>s. s\<lparr>engine_state := Idle\<rparr>)) s))"
    for env i by (rule on_decide [OF assms]) simp_all
  have start: "on_track k m (snd (start_coordination (env_at k m) now t s))" if "evaluated s = {}" for t
    using on_start assms that by simp
  show ?thesis
    using assms idle start
    by (cases "engine_state s")
      (auto simp: handle_proposal_def Let_def evaluated_iff split: result.split option.split)
qed

lemma on_verification_request:
  assumes "on_track k m s"
  shows "on_track k m (snd (handle_verification_request (env_at k m) p s))"
proof -
  have check: "on_track k m (snd (bind_act (call_pm (env_at k m) (CheckProposal p))
      (\<lambda>_. modify_act (\<lambda>s. s\<lparr>engine_state := EvaluatingProposal (proposal_backlog s ! idx),
         proposal_backlog := remove_at idx (proposal_backlog s)\<rparr>)) s))"
    if "position (\<lambda>t. tpp_id t = p) (proposal_backlog s) = Some idx" "evaluated s \<subseteq> {p}" for idx
    by (rule on_evaluate [OF assms that(2)]) (use position_SomeD(2) [OF that(1)] in simp_all)
  show ?thesis
    using assms check
    by (cases "engine_state s")
      (auto simp: handle_verification_request_def Let_def evaluated_iff split: option.split)
qed

lemma on_verification_response:
  assumes "on_track k m s"
  shows "on_track k m (snd (handle_verification_response env p resp q s))"
proof (cases "evaluating_proposal s p")
  case False
  with assms show ?thesis by (simp add: handle_verification_response_def)
next
  case True
  then obtain t where t: "engine_state s = EvaluatingProposal t" "tpp_id t = p"
    by (auto simp: evaluating_proposal_def split: tp_state.splits)
  let ?s = "s\<lparr>engine_state := EvaluatingProposal (add_verified_peer q t)\<rparr>"
  have e: "evaluated s = {p}" "evaluated ?s = {p}" using t by (simp_all add: evaluated_iff add_verified_peer_def)
  with assms have "tracks k m {p} s" "tracks k m {p} ?s" by simp_all
  from on_complete [OF this(1), of REJECT p] on_complete [OF this(2), of APPLY p] e True t this show ?thesis
    by (cases resp) (auto simp: handle_verification_response_def Let_def)
qed

lemma on_proposal_result:
  assumes "on_track k m s"
  shows "on_track k m (snd (handle_proposal_result env p res s))"
proof (cases res)
  case APPLY
  have "on_track k m (snd (bind_act (call_pm env (AcceptProposal p None)) (\<lambda>_. modify_act (\<lambda>s. s\<lparr>engine_state := Idle\<rparr>)) s))"
    if "p \<in> evaluated s"
    by (rule on_decide [OF assms]) (use that in simp_all)
  with assms APPLY show ?thesis by (simp add: handle_proposal_result_def evaluated_iff)
next
  case REJECT
  have "on_track k m (snd (bind_act (call_pm env (RejectProposal p))
      (\<lambda>_. modify_act (\<lambda>s. if evaluating_proposal s p then s\<lparr>engine_state := Idle\<rparr> else s)) s))"
    by (rule on_decide [OF assms]) simp_all
  with REJECT show ?thesis by (simp add: handle_proposal_result_def)
qed (use assms in \<open>simp add: handle_proposal_result_def\<close>)

lemma on_message:
  "on_track k m s \<Longrightarrow> on_track k m (snd (handle_consensus_msg (env_at k m) cm s))"
  by (auto simp: handle_consensus_msg_def Let_def on_verification_request on_verification_response on_proposal_result
      split: result.split tp_type.split)

lemma on_proposal_valid:
  assumes "on_track k m s"
  shows "on_track k m (snd (handle_proposal_valid env p s))"
  using assms
  by (cases "engine_state s") (auto simp: handle_proposal_valid_def evaluated_iff add_verified_peer_def intro!: tracks_send)

lemma on_proposal_invalid:
  assumes "on_track k m s"
  shows "on_track k m (snd (handle_proposal_invalid env p s))"
  using assms on_complete [OF assms, of REJECT]
  by (cases "engine_state s") (auto simp: handle_proposal_invalid_def evaluated_iff intro: tracks_send)

lemma on_update:
  assumes "on_track k m s"
  shows "on_track k m (snd (handle_proposal_update (env_at k m) now u s))"
proof (cases u)
  case (ProposalCreated new)
  have "on_track k m (s\<lparr>engine_state := Idle\<rparr>)" by (rule on_track_idle [OF assms])
  with assms ProposalCreated on_handle_proposal [OF assms] show ?thesis
    by (cases new) (simp_all add: handle_proposal_update_def)
qed (use assms in \<open>simp_all add: handle_proposal_update_def on_handle_proposal on_proposal_valid on_proposal_invalid\<close>)

lemma on_abort:
  assumes "on_track k m s"
  shows "on_track k m (snd (abort_proposal_if_timed_out env now s))"
proof -
  have "on_track k m (s\<lparr>coordinator_timeout := t\<rparr>)" for t using assms by simp
  from on_complete [OF this, of REJECT] assms show ?thesis
    by (auto simp: abort_proposal_if_timed_out_def Let_def split: tp_state.split prod.split)
qed

lemma on_backlogged:
  assumes "on_track k m s"
  shows "on_track k m (snd (handle_backlogged_verification_request (env_at k m) s))"
proof (cases "engine_state s = Idle")
  case False
  with assms show ?thesis by (simp add: handle_backlogged_verification_request_def)
next
  case True
  then have e: "evaluated s = {}" by (simp add: evaluated_iff)
  have "on_track k m (snd (bind_act (call_pm (env_at k m) (CheckProposal i))
      (\<lambda>_. modify_act (\<lambda>s. s\<lparr>engine_state := EvaluatingProposal t\<rparr>))
      (s\<lparr>verification_request_backlog := v, proposal_backlog := b\<rparr>)))" if "tpp_id t = i" for i t v b
    by (rule on_evaluate) (use assms e that in simp_all)
  with assms True e show ?thesis
    by (auto simp: handle_backlogged_verification_request_def Let_def dest!: position_SomeD(2) split: option.split)
qed

lemma on_next:
  assumes "on_track k m s"
  shows "on_track k m (snd (get_next_proposal (env_at k m) now s))"
proof (cases "engine_state s = Idle")
  case False
  with assms show ?thesis by (simp add: get_next_proposal_def)
next
  case True
  then have e: "evaluated s = {}" "tracks k m {} s" using assms by (simp_all add: evaluated_iff)
  have "on_track k m (snd (start_coordination (env_at k m) now t (s\<lparr>proposal_backlog := b\<rparr>)))" for t b
    by (rule on_start) (use e in simp_all)
  moreover have "tracks k m {} (s\<lparr>calls := calls s @ [(Consensus.CreateProposal None [], b)]\<rparr>)" for b
    by (rule tracks_call [OF e(2)]) simp
  ultimately show ?thesis
    using True e
    by (auto simp: get_next_proposal_def ignore_err_def call_pm_def Let_def split: option.split result.split)
qed

lemma on_iteration:
  assumes "on_track k m s"
  shows "on_track k m (snd (run_iteration (env_at k m) tick s))"
proof -
  have b: "on_track k m (run_background (env_at k m) tick s)"
    unfolding run_background_def ignore_err_def by (intro on_next on_backlogged on_abort assms)
  have u: "on_track k m (snd (run_update (env_at k m) tick s))" if "on_track k m s" for s
    using that on_update [OF that]
    by (auto simp: run_update_def ignore_err_def split: recv.split proposal_update.split)
  from u [OF b] u [OF on_message [OF b]] b show ?thesis
    by (auto simp: run_iteration_def Let_def ignore_err_def split: recv.split)
qed

text \<open>
  What the service gains: an iteration from a state in which the service is ready for the proposal under
  evaluation ends in such a state, and every acceptance on the way finds the service ready.
\<close>

lemma client_iteration_ready:
  assumes "inv m" and "\<forall>p \<in> evaluated s. ready p m"
    and "client_iteration pm ns msg_codec verifiers_codec tick m s = (s', es)"
  shows "accepts_ready es m" and "inv (client_calls pm ns es m)"
    and "\<forall>p \<in> evaluated s'. ready p (client_calls pm ns es m)"
proof -
  have s': "s' = snd (run_iteration (env_at (length (calls s)) m) tick s)"
    and es: "es = map fst (drop (length (calls s)) (calls s'))"
    using assms(3) by (auto simp: client_iteration_def Let_def)
  have "on_track (length (calls s)) m s" using assms(1,2) by (simp add: tracks_def view_def)
  then have "on_track (length (calls s)) m s'" unfolding s' by (rule on_iteration)
  then show "accepts_ready es m" "inv (client_calls pm ns es m)" "\<forall>p \<in> evaluated s'. ready p (client_calls pm ns es m)"
    by (simp_all add: tracks_def view_def es)
qed

lemma client_accepts_ready:
  assumes "inv m" and "\<forall>p \<in> evaluated s. ready p m"
    and "client_iteration pm ns msg_codec verifiers_codec tick m s = (s', es @ AcceptProposal i d # es')"
  shows "ready i (client_calls pm ns es m)"
  using client_iteration_ready(1) [OF assms] by (simp add: accepts_ready_append)

end

end
