(* ===== verification/Admin_Service.thy ===== *)
theory Admin_Service
  imports Admin_Invariant Engine_Client
begin

text \<open>
  The admin service around its state: \<open>AdminService\<close> of \<^verbatim>\<open>libsplinter/src/admin/service/mod.rs\<close>, and the
  consensus manager, proposal manager and consensus network sender of
  \<^verbatim>\<open>libsplinter/src/admin/service/consensus.rs\<close>.

  The outcomes of what lies outside are arguments: connecting
  and disconnecting at the service registry, spawning the consensus thread, registering a callback.
  \<open>ManagerPanic\<close> and \<open>AdminPanic\<close> mark the places where the code would panic.
\<close>

section \<open>Error texts\<close>

fun marshalling_error_text :: "marshalling_error \<Rightarrow> string" where
  "marshalling_error_text (UnsetField _) = ''Invalid enumerated type''"
| "marshalling_error_text (ProtobufError e) = ''Protobuf Error: '' @ e"

fun open_proposal_error_text :: "open_proposal_error \<Rightarrow> string" where
  "open_proposal_error_text (OpenWriteError msg) = ''Unable to write to persisted storage: '' @ msg"
| "open_proposal_error_text (OpenInvalidFormat e) =
     ''Unable to convert circuit proposal: '' @ marshalling_error_text e"

fun initialize_error_text :: "initialize_error \<Rightarrow> string" where
  "initialize_error_text (InitializationFailed e) = ''failed to initialize service: '' @ e"
| "initialize_error_text UnknownType = ''service type unknown''"

fun shutdown_error_text :: "shutdown_error \<Rightarrow> string" where
  "shutdown_error_text (ShutdownFailed d e) = ''failed to shutdown service with error '' @ e"
| "shutdown_error_text UnknownService = ''specified service not found''"

definition sha256_error_text :: "string \<Rightarrow> string" where
  "sha256_error_text e = ''unable to get sha256 hash: '' @ e"

fun admin_error_text :: "admin_shared_error \<Rightarrow> string" where
  "admin_error_text (HashError e) = ''received error while hashing: '' @ sha256_error_text e"
| "admin_error_text (InvalidMessageFormat e) = ''invalid message format: '' @ marshalling_error_text e"
| "admin_error_text NoPendingChanges = ''tried to commit without pending changes''"
| "admin_error_text (ServiceInitializationFailed e) = ''failed to initialize service: '' @ initialize_error_text e"
| "admin_error_text (ServiceShutdownFailed es) =
     ''failed to shutdown services: '' @ join_texts '', '' (map shutdown_error_text es)"
| "admin_error_text (ServiceSendFailed e) = ''failed to send service message: unable to send message''"
| "admin_error_text (UnknownAction msg) = ''received message with unknown action: '' @ msg"
| "admin_error_text (ValidationFailed msg) = ''validation failed: '' @ msg"
| "admin_error_text (UnableToAddSubscriber msg) = ''unable to add admin service event subscriber: '' @ msg"
| "admin_error_text (CommitError msg) = ''unable to commit circuit: '' @ msg"
| "admin_error_text (UpdateProposalsError e) =
     ''received error while update open proposal: '' @ open_proposal_error_text e"
| "admin_error_text AdminPanic = ''''"

section \<open>The proposal manager\<close>

record consensus_codecs =
  cc_verifiers :: "required_verifiers_msg codec"
  cc_message :: "consensus_message_proto codec"

text \<open>The manager shares the state of the service and the channel of updates to the engine.\<close>

record 's proposal_manager =
  pm_updates :: "proposal_update channel"
  pm_shared :: "'s admin_shared"

type_synonym ('s, 'a) manager_action = "('s proposal_manager, 'a, manager_failure) action"

definition on_shared :: "('e \<Rightarrow> 'f) \<Rightarrow> ('s admin_shared, 'a, 'e) action \<Rightarrow> ('s proposal_manager, 'a, 'f) action" where
  "on_shared = on_part pm_shared (\<lambda>s m. m\<lparr>pm_shared := s\<rparr>)"

definition internal_error :: "admin_shared_error \<Rightarrow> manager_failure" where
  "internal_error e = (if e = AdminPanic then ManagerPanic else ManagerError (PMInternal (admin_error_text e)))"

definition send_proposal_update :: "proposal_update \<Rightarrow> ('s, unit) manager_action" where
  "send_proposal_update u =
     on_part pm_updates (\<lambda>c m. m\<lparr>pm_updates := c\<rparr>) (\<lambda>_. ManagerError PMUpdateSendFailed) (chan_send u)"

text \<open>The id of the proposal for a payload.\<close>

definition payload_id :: "admin_env \<Rightarrow> management_payload \<Rightarrow> (proposal_id, string) result" where
  "payload_id env payload =
     map_result (\<lambda>h. ProposalId (as_bytes h)) (sha256 (ae_hash env) (ae_payload_c env) payload)"

definition member_verifiers :: "proto_node list \<Rightarrow> required_verifiers_msg" where
  "member_verifiers members = \<lparr>verifiers_field = map (\<lambda>m. as_bytes (admin_service_id (pn_node_id m))) members\<rparr>"

definition create_proposal ::
  "consensus_codecs \<Rightarrow> admin_env \<Rightarrow> proposal_id option \<Rightarrow> bytes \<Rightarrow> ('s, unit) manager_action" where
  "create_proposal cs env previous_proposal_id data m =
     (case as_network_sender (pm_shared m) of
        None \<Rightarrow> (Err (ManagerError (PMInternal ''service not started'')), m)
      | Some ns \<Rightarrow>
          (case pop_pending_circuit_payload (pm_shared m) of
             (None, s) \<Rightarrow> send_proposal_update (ProposalCreated None) (m\<lparr>pm_shared := s\<rparr>)
           | (Some payload, s) \<Rightarrow>
               bind_act (on_shared internal_error (propose_change env payload)) (\<lambda>(expected_hash, p).
               bind_act (lift_act (\<lambda>_. map_err (\<lambda>e. ManagerError (PMInternal (sha256_error_text e)))
                           (payload_id env payload))) (\<lambda>i.
               let members = pc_members (pp_circuit_proposal p) in
               bind_act (lift_act (\<lambda>_. map_err (\<lambda>e. ManagerError (PMInternal e))
                           (write_to_bytes (cc_verifiers cs) (member_verifiers members)))) (\<lambda>vs.
               let new = proposal_default\<lparr>prop_id := i, summary := as_bytes expected_hash, consensus_data := vs\<rparr> in
               bind_act (modify_act (\<lambda>m. m\<lparr>pm_shared :=
                           add_pending_consensus_proposal (prop_id new) (new, payload) (pm_shared m)\<rparr>)) (\<lambda>_.
               bind_act (lift_act (\<lambda>_. map_err (\<lambda>_. ManagerPanic) (write_to_bytes (ae_message_c env)
                           (AdminProposedCircuit \<lparr>prc_circuit_payload = payload,
                              prc_expected_hash = as_bytes expected_hash, prc_required_verifiers = vs\<rparr>)))) (\<lambda>bs.
               bind_act (for_act (filter (\<lambda>n. pn_node_id n \<noteq> as_node_id s) members)
                           (\<lambda>n. on_shared (\<lambda>_. ManagerPanic)
                                  (send_to_service env ns (admin_service_id (pn_node_id n)) bs))) (\<lambda>_.
                 send_proposal_update (ProposalCreated (Some new)))))))) (m\<lparr>pm_shared := s\<rparr>)))"

definition check_proposal :: "admin_env \<Rightarrow> proposal_id \<Rightarrow> ('s, unit) manager_action" where
  "check_proposal env i m =
     (case as_pending_consensus_proposals (pm_shared m) i of
        None \<Rightarrow> (Err (ManagerError (PMUnknownProposal i)), m)
      | Some (proposal, payload) \<Rightarrow>
          bind_act (on_shared internal_error (propose_change env payload)) (\<lambda>(hash, _).
            send_proposal_update (if as_bytes hash \<noteq> summary proposal then ProposalInvalid i else ProposalValid i)) m)"

definition accept_proposal :: "admin_env \<Rightarrow> proposal_id \<Rightarrow> bytes option \<Rightarrow> ('s, unit) manager_action" where
  "accept_proposal env i data m =
     (let not_pending = send_proposal_update (ProposalAcceptFailed i ''not pending proposal'') m in
      case as_pending_consensus_proposals (pm_shared m) i of
        None \<Rightarrow> not_pending
      | Some (proposal, _) \<Rightarrow>
          if prop_id proposal \<noteq> i then not_pending
          else case commit env (pm_shared m) of
            (Ok _, s) \<Rightarrow> (Ok (), m\<lparr>pm_shared := snd (remove_pending_consensus_proposals i s)\<rparr>)
          | (Err e, s) \<Rightarrow>
              if e = AdminPanic then (Err ManagerPanic, m\<lparr>pm_shared := s\<rparr>)
              else send_proposal_update (ProposalAcceptFailed i (''failed to commit proposal: '' @ admin_error_text e))
                     (m\<lparr>pm_shared := s\<rparr>))"

definition reject_proposal :: "proposal_id \<Rightarrow> ('s, unit) manager_action" where
  "reject_proposal i m =
     (case remove_pending_consensus_proposals i (pm_shared m) of
        (None, s) \<Rightarrow> (Err (ManagerError (PMUnknownProposal i)), m\<lparr>pm_shared := s\<rparr>)
      | (Some _, s) \<Rightarrow> on_shared internal_error rollback (m\<lparr>pm_shared := s\<rparr>))"

section \<open>The consensus network sender\<close>

definition consensus_envelope ::
  "consensus_codecs \<Rightarrow> string \<Rightarrow> bytes \<Rightarrow> (admin_message, consensus_send_error) result" where
  "consensus_envelope cs service_id message =
     map_err CSInternal (map_result AdminConsensusMessage
       (consensus_message_try_into (cc_message cs) \<lparr>cm_message = message, origin_id = PeerId (as_bytes service_id)\<rparr>))"

definition send_envelope ::
  "admin_env \<Rightarrow> network_sender \<Rightarrow> admin_message \<Rightarrow> string \<Rightarrow> ('s admin_shared, unit, consensus_send_error) action" where
  "send_envelope env ns msg peer =
     bind_act (lift_act (\<lambda>_. map_err CSInternal (write_to_bytes (ae_message_c env) msg))) (\<lambda>bs s.
       let (r, s') = send_to_service env ns peer bs s
       in (map_err (\<lambda>_. CSInternal ''unable to send message'') r, s'))"

definition send_to ::
  "consensus_codecs \<Rightarrow> admin_env \<Rightarrow> string \<Rightarrow> peer_id \<Rightarrow> bytes \<Rightarrow> ('s admin_shared, unit, consensus_send_error) action" where
  "send_to cs env service_id peer_id message =
     bind_act (lift_act (\<lambda>_. map_err CSInternal (from_utf8 (peer_id_bytes peer_id)))) (\<lambda>peer.
     bind_act (lift_act (\<lambda>_. consensus_envelope cs service_id message)) (\<lambda>msg.
     bind_act (lift_act (\<lambda>s. ok_or CSNotReady (as_network_sender s))) (\<lambda>ns.
       send_envelope env ns msg peer)))"

definition broadcast ::
  "consensus_codecs \<Rightarrow> admin_env \<Rightarrow> string \<Rightarrow> bytes \<Rightarrow> ('s admin_shared, unit, consensus_send_error) action" where
  "broadcast cs env service_id message =
     bind_act (lift_act (\<lambda>_. consensus_envelope cs service_id message)) (\<lambda>msg.
     bind_act (lift_act (\<lambda>s. ok_or CSNotReady (as_network_sender s))) (\<lambda>ns s.
       for_act (filter (\<lambda>v. v \<noteq> admin_service_id (as_node_id s)) (as_current_consensus_verifiers s))
         (send_envelope env ns msg) s))"

section \<open>The consensus manager\<close>

text \<open>The sending halves of the channels to the engine.\<close>

record consensus_manager =
  acm_messages :: "consensus_message channel"
  acm_updates :: "proposal_update channel"

definition consensus_manager_new :: "(unit, string) result \<Rightarrow> (consensus_manager, string) result" where
  "consensus_manager_new spawn =
     map_result (\<lambda>_. \<lparr>acm_messages = \<lparr>chan_open = True, chan_queue = []\<rparr>,
                       acm_updates = \<lparr>chan_open = True, chan_queue = []\<rparr>\<rparr>) spawn"

definition consensus_startup :: "string \<Rightarrow> startup_state" where
  "consensus_startup service_id =
     \<lparr>ss_id = PeerId (as_bytes service_id), ss_peer_ids = [], ss_last_proposal = None\<rparr>"

definition send_update :: "proposal_update \<Rightarrow> (consensus_manager, unit, string) action" where
  "send_update u =
     on_part acm_updates (\<lambda>c m. m\<lparr>acm_updates := c\<rparr>) (\<lambda>_. ''sending on a closed channel'') (chan_send u)"

definition consensus_handle_message ::
  "consensus_codecs \<Rightarrow> bytes \<Rightarrow> (consensus_manager, unit, string) action" where
  "consensus_handle_message cs bs =
     bind_act (lift_act (\<lambda>_. consensus_message_try_from (cc_message cs) bs)) (\<lambda>message.
       on_part acm_messages (\<lambda>c m. m\<lparr>acm_messages := c\<rparr>) (\<lambda>_. ''sending on a closed channel'') (chan_send message))"

text \<open>The join that follows only logs.\<close>

definition consensus_shutdown :: "(consensus_manager, unit, string) action" where
  "consensus_shutdown = send_update Shutdown"

section \<open>The service\<close>

record 's admin_service =
  sv_service_id :: string
  sv_shared :: "'s admin_shared"
  sv_consensus :: "consensus_manager option"

definition admin_service_new ::
  "string \<Rightarrow> ('s admin_shared, admin_shared_error) result \<Rightarrow> (unit, string) result \<Rightarrow>
   ('s admin_service, service_error) result" where
  "admin_service_new node_id shared callback =
     bind_result (map_err (\<lambda>e. UnableToCreate (AdminSource e)) shared) (\<lambda>s.
     bind_result (map_err (\<lambda>e. UnableToCreate (FormatSource e)) callback) (\<lambda>_.
       Ok \<lparr>sv_service_id = admin_service_id node_id, sv_shared = s, sv_consensus = None\<rparr>))"

definition service_type :: string where
  "service_type = ''admin''"

datatype service_start_error =
  AlreadyStarted | UnableToConnect service_connection_error | StartConsensus string | StartAdmin admin_shared_error

datatype service_stop_error =
  StopNotStarted | UnableToDisconnect service_connection_error | StopConsensus string | StopAdmin admin_shared_error

datatype service_destroy_error = NotStopped

definition on_sv_shared ::
  "('e \<Rightarrow> 'f) \<Rightarrow> ('s admin_shared, 'a, 'e) action \<Rightarrow> ('s admin_service, 'a, 'f) action" where
  "on_sv_shared = on_part sv_shared (\<lambda>s v. v\<lparr>sv_shared := s\<rparr>)"

definition admin_start ::
  "(string \<times> circuit) list \<Rightarrow> ((string \<rightharpoonup> string) \<Rightarrow> (string \<times> string) list) \<Rightarrow>
   (string \<Rightarrow> (network_sender, service_connection_error) result) \<Rightarrow> (unit, string) result \<Rightarrow>
   ('s admin_service, unit, service_start_error) action" where
  "admin_start circuits args connect spawn v =
     (if sv_consensus v \<noteq> None then (Err AlreadyStarted, v)
      else
        bind_act (lift_act (\<lambda>v. map_err UnableToConnect (connect (sv_service_id v)))) (\<lambda>ns.
        bind_act (modify_act (\<lambda>v. v\<lparr>sv_shared := set_network_sender (Some ns) (sv_shared v)\<rparr>)) (\<lambda>_.
        bind_act (lift_act (\<lambda>_. map_err StartConsensus (consensus_manager_new spawn))) (\<lambda>manager.
        bind_act (modify_act (\<lambda>v. v\<lparr>sv_consensus := Some manager\<rparr>)) (\<lambda>_.
        bind_act (on_sv_shared StartAdmin (restart_services circuits args)) (\<lambda>_.
          on_sv_shared StartAdmin (\<lambda>s. on_part as_splinter_state (\<lambda>st s. s\<lparr>as_splinter_state := st\<rparr>) (\<lambda>e. e)
            (add_services_to_directory circuits (as_node_id s)) s)))))) v)"

definition admin_stop ::
  "(string \<Rightarrow> (unit, service_connection_error) result) \<Rightarrow> ('s admin_service, unit, service_stop_error) action" where
  "admin_stop disconnect v =
     bind_act (lift_act (\<lambda>v. map_err UnableToDisconnect (disconnect (sv_service_id v)))) (\<lambda>_ v.
       case sv_consensus v of
         None \<Rightarrow> (Err StopNotStarted, v)
       | Some manager \<Rightarrow>
           bind_act (lift_act (\<lambda>_. map_err StopConsensus (fst (consensus_shutdown manager)))) (\<lambda>_.
           bind_act (modify_act (\<lambda>v. v\<lparr>sv_shared :=
             remove_all_event_subscribers (set_network_sender None (sv_shared v))\<rparr>)) (\<lambda>_.
             on_sv_shared StopAdmin stop_services)) (v\<lparr>sv_consensus := None\<rparr>)) v"

definition admin_destroy :: "'s admin_service \<Rightarrow> (unit, service_destroy_error) result" where
  "admin_destroy v = (if sv_consensus v \<noteq> None then Err NotStopped else Ok ())"

definition with_consensus ::
  "(consensus_manager, unit, string) action \<Rightarrow> ('s admin_service, unit, service_error) action" where
  "with_consensus m v =
     (case sv_consensus v of
        None \<Rightarrow> (Err ServiceNotStarted, v)
      | Some manager \<Rightarrow>
          (let (r, manager') = m manager
           in (map_err (\<lambda>e. UnableToHandleMessage (ConsensusSource e)) r, v\<lparr>sv_consensus := Some manager'\<rparr>)))"

definition admin_handle_message ::
  "consensus_codecs \<Rightarrow> admin_env \<Rightarrow> bytes \<Rightarrow> service_message_context \<Rightarrow>
   ('s admin_service, unit, service_error) action" where
  "admin_handle_message cs env msg_bytes ctx =
     bind_act (lift_act (\<lambda>_. map_err (\<lambda>e. ServiceInvalidFormat (FormatSource e))
                 (parse_from_bytes (ae_message_c env) msg_bytes))) (\<lambda>msg.
       case msg of
         AdminConsensusMessage bs \<Rightarrow> with_consensus (consensus_handle_message cs bs)
       | AdminProposedCircuit pc \<Rightarrow>
           bind_act (lift_act (\<lambda>_. map_err (\<lambda>e. UnableToHandleMessage (HashSource e))
                       (payload_id env (prc_circuit_payload pc)))) (\<lambda>i.
           let new = proposal_default\<lparr>prop_id := i, summary := prc_expected_hash pc,
                       consensus_data := prc_required_verifiers pc\<rparr> in
           bind_act (modify_act (\<lambda>v. v\<lparr>sv_shared :=
                       add_pending_consensus_proposal (prop_id new) (new, prc_circuit_payload pc) (sv_shared v)\<rparr>))
             (\<lambda>_. with_consensus (send_update (ProposalReceived new (PeerId (as_bytes (ctx_sender ctx)))))))
       | AdminMemberReady mr \<Rightarrow>
           on_sv_shared (\<lambda>e. UnableToHandleMessage (AdminSource e))
             (add_ready_member env (mr_circuit_id mr) (mr_member_node_id mr))
       | AdminUnset \<Rightarrow> fail_act (ServiceInvalidFormat MessageTypeUnset))"

section \<open>The commands of the service\<close>

datatype admin_service_error = AdminServiceFailed service_error | GeneralError string admin_shared_error

definition submit_circuit_change ::
  "admin_env \<Rightarrow> management_payload \<Rightarrow> ('s admin_shared, unit, admin_service_error) action" where
  "submit_circuit_change env payload = on_part (\<lambda>s. s) (\<lambda>s' _. s') AdminServiceFailed (submit env payload)"

definition add_event_subscriber ::
  "string \<Rightarrow> subscriber \<Rightarrow> ('s admin_shared, unit, admin_service_error) action" where
  "add_event_subscriber event_type x =
     on_part (\<lambda>s. s) (\<lambda>s' _. s') (GeneralError ''Unable to add event subscriber'') (add_subscriber event_type x)"

section \<open>What the state operations leave of the filed proposals\<close>

abbreviation filing :: "'s admin_shared \<Rightarrow> proposal_id \<rightharpoonup> (proposal \<times> management_payload)" where
  "filing s \<equiv> as_pending_consensus_proposals s"

lemma filing_send_event [simp]: "filing (snd (send_event env t e s)) = filing s"
  by (auto simp: send_event_def broadcast_by_type_def Let_def split: option.splits)

lemma filing_start_service [simp]: "filing (snd (start_service d args s)) = filing s"
  by (auto simp: start_service_def bind_act_def on_part_def rust_simps split: prod.splits result.splits)

lemma keeps_filing [keeps_intros]:
  "keeps (\<lambda>s. filing s = k) (send_event env t e)"
  "keeps (\<lambda>s. filing s = k) (start_service d args)"
  by (simp_all add: keeps_def)

lemma keeps_filing_services [keeps_intros]: "keeps (\<lambda>s. filing s = k) (initialize_services c)"
  unfolding initialize_services_def keeps_def
  by (intro allI impI) (erule keepsD [rotated], intro keeps_intros)

lemma keeps_filing_ready [keeps_intros]:
  "keeps (\<lambda>s. filing s = k) (initialize_services_if_members_ready env cid)"
proof (rule keepsI)
  fix s :: "'a admin_shared" assume s: "filing s = k"
  have *: "keeps (\<lambda>s :: 'a admin_shared. filing s = k)
     (bind_act (modify_act (\<lambda>s. s\<lparr>as_uninitialized_circuits := (as_uninitialized_circuits s)(cid := None)\<rparr>)) (\<lambda>_.
      bind_act (initialize_services (pp_circuit_proposal p)) (\<lambda>_.
      bind_act (lift_act (\<lambda>_. map_err InvalidMessageFormat (Admin_Messages.proposal_from_proto p)))
        (\<lambda>cp. send_event env (pc_circuit_management_type (pp_circuit_proposal p)) (CircuitReady cp)))))" for p
    by (intro keeps_intros) simp
  from s keepsD [OF *] show "filing (snd (initialize_services_if_members_ready env cid s)) = k"
    by (auto simp: initialize_services_if_members_ready_def split: option.split)
qed

lemma keeps_filing_uninitialized [keeps_intros]:
  "keeps (\<lambda>s. filing s = k) (add_uninitialized_circuit env p)"
  "keeps (\<lambda>s. filing s = k) (add_ready_member env cid n)"
  unfolding add_uninitialized_circuit_def add_ready_member_def by (intro keeps_intros; simp add: mark_ready_def)+

lemma filing_send_to_service [simp]: "filing (snd (send_to_service env ns rcpt bs s)) = filing s"
  by (auto simp: send_to_service_def on_part_def Let_def split: prod.splits)

lemma keeps_filing_member_ready [keeps_intros]: "keeps (\<lambda>s. filing s = k) (send_member_ready env c)"
proof (rule keepsI)
  fix s :: "'a admin_shared" assume s: "filing s = k"
  have *: "keeps (\<lambda>s :: 'a admin_shared. filing s = k) (for_act ms (\<lambda>m s.
      let (r, s') = send_to_service env ns (admin_service_id (pn_node_id m)) bs s in (map_err ServiceSendFailed r, s')))"
    for ms ns bs
    by (intro keeps_intros keepsI) (auto simp: Let_def case_prod_beta)
  from s keepsD [OF *] show "filing (snd (send_member_ready env c s)) = k"
    by (auto simp: send_member_ready_def split: option.split result.split)
qed

lemma keeps_filing_proposal_event [keeps_intros]: "keeps (\<lambda>s. filing s = k) (send_proposal_event env p ev)"
  unfolding send_proposal_event_def by (intro keeps_intros)

lemma filing_commit [simp]: "filing (snd (commit env s)) = filing s"
proof -
  have a: "keeps (\<lambda>s. filing s = k) (admin_remove_proposal env i)"
    "keeps (\<lambda>s. filing s = k) (admin_add_proposal env p)" for k i p
    unfolding admin_remove_proposal_def admin_add_proposal_def by (intro keeps_intros; simp)+
  have b: "keeps (\<lambda>s. filing s = k) (case act of
      CIRCUIT_CREATE_REQUEST \<Rightarrow> send_proposal_event env p ev | CIRCUIT_PROPOSAL_VOTE \<Rightarrow> send_proposal_event env p ev'
    | _ \<Rightarrow> fail_act e)" for k act p ev ev' e
    by (cases act) (auto intro: keeps_intros)
  show ?thesis
    unfolding commit_def Let_def
    by (auto split: option.split proposal_status.split intro!: keepsD [of "\<lambda>t. filing t = filing s"] keeps_intros a b)
qed

lemma filing_propose_change [simp]: "filing (snd (propose_change env payload s)) = filing s"
  by (auto simp: propose_change_def Let_def split: result.split prod.split)

lemma filing_connect_members: "filing (snd (connect_members env ns un s)) = filing s"
proof (induction ns arbitrary: un s)
  case (Cons n ns)
  have "filing (snd (connect_member env i e s)) = filing s" for i e and s :: "'a admin_shared"
    by (auto simp: connect_member_def on_part_def Let_def split: prod.splits)
  with Cons.IH show ?case
    by (auto simp: bind_act_def split: prod.splits result.splits) (metis snd_conv)+
qed simp

lemma filing_submit [simp]: "filing (snd (submit env payload s)) = filing s"
proof -
  have c: "keeps (\<lambda>s. filing s = k) (connect_members env ns un)" for k ns un
    by (simp add: keeps_def filing_connect_members)
  have "keeps (\<lambda>t. filing t = filing s) (submit env payload)"
    unfolding submit_def propose_circuit_def propose_vote_def
    by (intro keeps_intros; (intro c)?) (auto split: management_action.split intro!: keeps_intros c)
  from keepsD [OF this refl] show ?thesis .
qed

end
