(* ===== verification/Admin_Node.thy ===== *)
theory Admin_Node
  imports Admin_Service
begin

text \<open>
  A node of the admin circuit: the admin service of \<open>Admin_Service\<close> and the two-phase engine of \<open>Two_Phase\<close>
  that its consensus thread runs, put together as \<open>AdminConsensusManager::new\<close>
  (\<^verbatim>\<open>libsplinter/src/admin/service/consensus.rs\<close>) does: the engine's proposal manager and network sender are
  those of the service, and both work on the state the service handles messages with.

  An iteration of the engine's loop runs against the environment \<open>node_env\<close>, an instance of the environment of
  \<open>Engine_Client\<close>. The messages and updates an iteration receives are arbitrary, and a node does not go on
  after a panic. The proposal manager meets the contract \<open>engine_client\<close>: ready for a proposal means that the
  pending change, if there is one, is the change of this proposal.
\<close>

section \<open>The environment of the engine\<close>

record node_world =
  nw_codecs :: consensus_codecs
  nw_admin :: admin_env
  nw_wire :: "two_phase_message codec"
  nw_service_id :: string

fun pm_perform :: "node_world \<Rightarrow> effect \<Rightarrow> ('s, unit) manager_action" where
  "pm_perform w (Consensus.CreateProposal prev data) = create_proposal (nw_codecs w) (nw_admin w) prev data"
| "pm_perform w (CheckProposal i) = check_proposal (nw_admin w) i"
| "pm_perform w (AcceptProposal i data) = accept_proposal (nw_admin w) i data"
| "pm_perform w (RejectProposal i) = reject_proposal i"
| "pm_perform w (SendTo _ _) = pure_act ()"
| "pm_perform w (Broadcast _) = pure_act ()"

fun ns_perform :: "node_world \<Rightarrow> effect \<Rightarrow> ('s proposal_manager, unit, consensus_send_error) action" where
  "ns_perform w (SendTo peer bs) =
     on_shared (\<lambda>e. e) (send_to (nw_codecs w) (nw_admin w) (nw_service_id w) peer bs)"
| "ns_perform w (Broadcast bs) =
     on_shared (\<lambda>e. e) (broadcast (nw_codecs w) (nw_admin w) (nw_service_id w) bs)"
| "ns_perform w _ = pure_act ()"

definition admin_pm :: "node_world \<Rightarrow> 's proposal_manager pm_calls" where
  "admin_pm w = replying (pm_perform w)"

abbreviation perform :: "node_world \<Rightarrow> effect \<Rightarrow> 's proposal_manager \<Rightarrow> 's proposal_manager" where
  "perform w \<equiv> client_call (admin_pm w) (ns_perform w)"

abbreviation perform_all :: "node_world \<Rightarrow> effect list \<Rightarrow> 's proposal_manager \<Rightarrow> 's proposal_manager" where
  "perform_all w \<equiv> client_calls (admin_pm w) (ns_perform w)"

lemma admin_pm_reply: "fst (admin_pm w e m) = manager_reply (fst (pm_perform w e m))"
  by (simp add: admin_pm_def replying_def)

lemma perform_def: "perform w e m = snd (ns_perform w e (snd (pm_perform w e m)))"
  by (simp add: client_call_def admin_pm_def replying_def)

definition node_env :: "node_world \<Rightarrow> nat \<Rightarrow> 's proposal_manager \<Rightarrow> tp_env" where
  "node_env w = client_env (admin_pm w) (ns_perform w) (nw_wire w) (cc_verifiers (nw_codecs w))"

lemma node_env_simps [simp]:
  "pm_reply (node_env w k m) log e = manager_reply (fst (pm_perform w e (perform_all w (map fst (drop k log)) m)))"
  "ns_reply (node_env w k m) log e = fst (ns_perform w e (perform_all w (map fst (drop k log)) m))"
  "wire (node_env w k m) = nw_wire w" "verifiers_wire (node_env w k m) = cc_verifiers (nw_codecs w)"
  by (simp_all add: node_env_def client_env_def admin_pm_def replying_def)

section \<open>Nodes\<close>

record 's admin_node =
  nd_engine :: engine_run
  nd_service :: "'s admin_service"

definition manager_of :: "'s admin_service \<Rightarrow> consensus_manager \<Rightarrow> 's proposal_manager" where
  "manager_of v c = \<lparr>pm_updates = acm_updates c, pm_shared = sv_shared v\<rparr>"

definition with_manager :: "'s proposal_manager \<Rightarrow> consensus_manager \<Rightarrow> 's admin_service \<Rightarrow> 's admin_service" where
  "with_manager m c v = v\<lparr>sv_shared := pm_shared m, sv_consensus := Some (c\<lparr>acm_updates := pm_updates m\<rparr>)\<rparr>"

text \<open>One iteration of the engine's loop, and the calls it makes.\<close>

definition node_iteration ::
  "node_world \<Rightarrow> tick \<Rightarrow> 's proposal_manager \<Rightarrow> engine_run \<Rightarrow> engine_run \<times> effect list" where
  "node_iteration w = client_iteration (admin_pm w) (ns_perform w) (nw_wire w) (cc_verifiers (nw_codecs w))"

lemma node_iteration_unfold:
  "node_iteration w k m s =
     (let s' = snd (run_iteration (node_env w (length (calls s)) m) k s)
      in (s', map fst (drop (length (calls s)) (calls s'))))"
  by (simp add: node_iteration_def client_iteration_def node_env_def)

inductive node_step :: "node_world \<Rightarrow> 's admin_node \<Rightarrow> 's admin_node \<Rightarrow> bool" for w where
  node_engine:
  "node_step w nd (nd\<lparr>nd_engine := s', nd_service := with_manager (perform_all w es (manager_of (nd_service nd) c)) c
       (nd_service nd)\<rparr>)"
  if "sv_consensus (nd_service nd) = Some c"
    "node_iteration w k (manager_of (nd_service nd) c) (nd_engine nd) = (s', es)"
    "\<not> panics (pm_perform w) (ns_perform w) es (manager_of (nd_service nd) c)"
| node_message:
  "node_step w nd (nd\<lparr>nd_service := snd (admin_handle_message (nw_codecs w) (nw_admin w) bs ctx (nd_service nd))\<rparr>)"
| node_submit:
  "node_step w nd (nd\<lparr>nd_service := snd (on_sv_shared (\<lambda>e. e) (submit_circuit_change (nw_admin w) payload)
       (nd_service nd))\<rparr>)"
| node_subscribe:
  "node_step w nd (nd\<lparr>nd_service := snd (on_sv_shared (\<lambda>e. e) (add_event_subscriber event_type x) (nd_service nd))\<rparr>)"
| node_authorization:
  "node_step w nd (nd\<lparr>nd_service := (nd_service nd)\<lparr>sv_shared := on_authorization_change peer state
       (sv_shared (nd_service nd))\<rparr>\<rparr>)"
| node_start:
  "node_step w nd (nd\<lparr>nd_engine := engine_start (consensus_startup (nw_service_id w)) (engine_new duration now),
       nd_service := snd (admin_start circuits args connect spawn (nd_service nd))\<rparr>)"
  if "sv_consensus (nd_service nd) = None"
| node_stop:
  "node_step w nd (nd\<lparr>nd_service := snd (admin_stop disconnect (nd_service nd))\<rparr>)"

definition node_new :: "'s admin_service \<Rightarrow> nat \<Rightarrow> nat \<Rightarrow> 's admin_node" where
  "node_new v duration now = \<lparr>nd_engine = engine_new duration now, nd_service = v\<rparr>"

text \<open>A node begins with a service that \<open>AdminService::new\<close> has made.\<close>

inductive node_reachable :: "node_world \<Rightarrow> 's admin_node \<Rightarrow> bool" for w where
  node_init: "node_reachable w (node_new v duration now)"
  if "admin_service_new node_id (admin_shared_new node_id orch network net state keys storage_type storage) callback = Ok v"
| node_more: "node_reachable w nd'" if "node_reachable w nd" "node_step w nd nd'"

section \<open>The change behind a proposal\<close>

text \<open>What \<open>propose_change\<close> looks at, and the change it would put before the node.\<close>

definition basis where
  "basis s = (as_node_id s, as_open_proposals s, circuit_dir (as_splinter_state s), as_key_registry s)"

definition change :: "admin_env \<Rightarrow> management_payload \<Rightarrow> 's admin_shared \<Rightarrow> proposal_context option" where
  "change env payload s =
     (case propose_change env payload s of (Ok _, s') \<Rightarrow> as_pending_changes s' | (Err _, _) \<Rightarrow> None)"

lemma change_basis:
  assumes "basis s = basis s'"
  shows "change env payload s = change env payload s'"
proof -
  have eq: "as_node_id s = as_node_id s'" "as_open_proposals s = as_open_proposals s'"
    "circuit_dir (as_splinter_state s) = circuit_dir (as_splinter_state s')" "as_key_registry s = as_key_registry s'"
    using assms by (simp_all add: basis_def)
  show ?thesis
    unfolding change_def propose_change_def Let_def validate_create_circuit_def admin_get_proposal_def eq
    by (auto split: result.splits prod.splits)
qed

lemma core_basis: "core s = core s' \<Longrightarrow> basis s = basis s' \<and> as_pending_changes s = as_pending_changes s'"
  by (simp add: core_def basis_def)

text \<open>The pending change is the one that the payload of proposal \<open>i\<close> proposes.\<close>

definition good :: "admin_env \<Rightarrow> proposal_id \<Rightarrow> 's admin_shared \<Rightarrow> bool" where
  "good env i s \<longleftrightarrow> (\<forall>px. as_pending_changes s = Some px \<longrightarrow>
     (\<exists>payload. payload_id env payload = Ok i \<and> change env payload s = Some px))"

lemma good_cong: "basis s = basis s' \<Longrightarrow> as_pending_changes s = as_pending_changes s' \<Longrightarrow> good env i s = good env i s'"
  by (simp add: good_def change_basis [of s s'])

lemma good_core: "core s = core s' \<Longrightarrow> good env i s = good env i s'"
  using core_basis [of s s'] good_cong [of s s' env i] by blast

lemma good_None [simp]: "as_pending_changes s = None \<Longrightarrow> good env i s"
  by (simp add: good_def)

text \<open>Proposals are filed under their id, which is that of their payload.\<close>

definition filed :: "admin_env \<Rightarrow> 's admin_shared \<Rightarrow> bool" where
  "filed env s \<longleftrightarrow> (\<forall>i new payload. filing s i = Some (new, payload) \<longrightarrow>
     prop_id new = i \<and> payload_id env payload = Ok i)"

lemma filed_filing: "filing s = filing s' \<Longrightarrow> filed env s = filed env s'"
  by (simp add: filed_def)

lemma filed_add:
  "filed env s \<Longrightarrow> payload_id env payload = Ok (prop_id new) \<Longrightarrow>
   filed env (add_pending_consensus_proposal (prop_id new) (new, payload) s)"
  by (auto simp: filed_def add_pending_consensus_proposal_def)

lemma filed_remove: "filed env s \<Longrightarrow> filed env (snd (remove_pending_consensus_proposals i s))"
  by (auto simp: filed_def remove_pending_consensus_proposals_def)

subsection \<open>The calls of the engine\<close>

declare snd_on_part [simp]

lemma shared_on_shared [simp]: "pm_shared (snd (on_shared err a m)) = snd (a (pm_shared m))"
  by (simp add: on_shared_def)

lemma shared_send_update [simp]: "pm_shared (snd (send_proposal_update u m)) = pm_shared m"
  by (simp add: send_proposal_update_def)

lemma keeps_on_shared:
  "(\<And>s. filing (snd (a s)) = filing s) \<Longrightarrow> keeps (\<lambda>m. filed env (pm_shared m)) (on_shared err a)"
  using filed_filing by (auto simp: keeps_def)

lemma keeps_update: "keeps (\<lambda>m. P (pm_shared m)) (send_proposal_update u)"
  by (simp add: keeps_def)

lemma keeps_create_tail:
  assumes "payload_id env payload = Ok i"
  shows "keeps (\<lambda>m. filed env (pm_shared m)) (bind_act (lift_act (\<lambda>_. vs)) (\<lambda>vs.
      bind_act (modify_act (\<lambda>m. m\<lparr>pm_shared := add_pending_consensus_proposal i
          (proposal_default\<lparr>prop_id := i, summary := h, consensus_data := vs\<rparr>, payload) (pm_shared m)\<rparr>)) (\<lambda>_.
      bind_act (lift_act (\<lambda>_. msg vs)) (\<lambda>bs.
      bind_act (for_act ns (\<lambda>n. on_shared (\<lambda>_. ManagerPanic) (send_to_service env sender (rcpt n) bs))) (\<lambda>_.
        send_proposal_update (u vs))))))"
proof -
  have "filed env (add_pending_consensus_proposal i
      (proposal_default\<lparr>prop_id := i, summary := h, consensus_data := v\<rparr>, payload) s)" if "filed env s" for v s
    using filed_add [OF that, of payload "proposal_default\<lparr>prop_id := i, summary := h, consensus_data := v\<rparr>"] assms
    by simp
  then show ?thesis by (intro keeps_intros keeps_on_shared keeps_update) simp_all
qed

lemma filed_create:
  assumes "filed env (pm_shared m)"
  shows "filed env (pm_shared (snd (create_proposal cs env prev data m)))"
proof (cases "as_network_sender (pm_shared m)")
  case None
  with assms show ?thesis by (simp add: create_proposal_def)
next
  case (Some ns)
  show ?thesis
  proof (cases "as_pending_circuit_payloads (pm_shared m)")
    case Nil
    with assms Some show ?thesis by (simp add: create_proposal_def pop_pending_circuit_payload_def)
  next
    case (Cons payload ps)
    define s where "s = (pm_shared m)\<lparr>as_pending_circuit_payloads := ps\<rparr>"
    have s: "filed env s" using assms by (simp add: s_def filed_def)
    have pop: "pop_pending_circuit_payload (pm_shared m) = (Some payload, s)"
      using Cons by (simp add: pop_pending_circuit_payload_def s_def)
    have rest: "keeps (\<lambda>m. filed env (pm_shared m))
        (bind_act (lift_act (\<lambda>_. map_err err (payload_id env payload))) tail)"
      if "\<And>i. payload_id env payload = Ok i \<Longrightarrow> keeps (\<lambda>m. filed env (pm_shared m)) (tail i)" for tail err
      using that by (cases "payload_id env payload") (auto simp: keeps_def bind_act_def lift_act_def)
    show ?thesis
      unfolding create_proposal_def Some pop option.case prod.case Let_def
      by (rule keepsD [of "\<lambda>m. filed env (pm_shared m)"])
        (auto intro!: keeps_intros keeps_on_shared rest keeps_create_tail simp: s split: prod.split)
  qed
qed

lemma keeps_core_pending:
  fixes m :: "('s admin_shared, 'a, 'e) action"
  assumes "\<And>k. keeps (\<lambda>s. core s = k) m"
  shows "keeps (\<lambda>s. as_pending_changes s = None) m"
proof (rule keepsI)
  fix s :: "'s admin_shared" assume "as_pending_changes s = None"
  moreover have "core (snd (m s)) = core s" by (rule keepsD [OF assms]) simp
  ultimately show "as_pending_changes (snd (m s)) = None" by (simp add: core_def)
qed

lemma commit_clears: "as_pending_changes (snd (commit env s)) = None"
proof -
  have a: "keeps (\<lambda>s. as_pending_changes s = None) (admin_remove_proposal env i)"
    "keeps (\<lambda>s. as_pending_changes s = None) (admin_add_proposal env p)" for i p
    unfolding admin_remove_proposal_def admin_add_proposal_def by (intro keeps_intros; simp)+
  have b: "keeps (\<lambda>s. as_pending_changes s = None) (case act of
      CIRCUIT_CREATE_REQUEST \<Rightarrow> send_proposal_event env p ev | CIRCUIT_PROPOSAL_VOTE \<Rightarrow> send_proposal_event env p ev'
    | _ \<Rightarrow> fail_act e)" for act p ev ev' e
    by (cases act) (auto intro!: keeps_core_pending keeps_intros)
  have c: "keeps (\<lambda>s. as_pending_changes s = None) (send_proposal_event env p ev)"
    "keeps (\<lambda>s. as_pending_changes s = None) (send_member_ready env c)"
    "keeps (\<lambda>s. as_pending_changes s = None) (add_uninitialized_circuit env p)" for p ev c
    by (intro keeps_core_pending keeps_intros)+
  show ?thesis
    unfolding commit_def Let_def
    by (auto split: option.split proposal_status.split
        intro!: keepsD [of "\<lambda>t. as_pending_changes t = None"] keeps_bind keeps_on_part a b c)
qed

lemma core_send_envelope [simp]:
  "core (snd (send_envelope env ns msg peer s)) = core s"
  "filing (snd (send_envelope env ns msg peer s)) = filing s"
  by (auto simp: send_envelope_def send_to_service_def core_def bind_act_def lift_act_def Let_def
      case_prod_beta split: result.split)

lemma keeps_send_envelope [keeps_intros]:
  "keeps (\<lambda>s. core s = c \<and> filing s = k) (send_envelope env ns msg peer)"
  by (simp add: keeps_def)

lemma consensus_sends:
  fixes s :: "'s admin_shared"
  shows "core (snd (send_to cs env i peer bs s)) = core s \<and> filing (snd (send_to cs env i peer bs s)) = filing s"
    and "core (snd (broadcast cs env i bs s)) = core s \<and> filing (snd (broadcast cs env i bs s)) = filing s"
proof -
  have "keeps (\<lambda>t :: 's admin_shared. core t = core s \<and> filing t = filing s) (send_to cs env i peer bs)"
    unfolding send_to_def by (intro keeps_intros)
  from keepsD [OF this] show "core (snd (send_to cs env i peer bs s)) = core s \<and>
    filing (snd (send_to cs env i peer bs s)) = filing s" by simp
  have loop: "keeps (\<lambda>t :: 's admin_shared. core t = core s \<and> filing t = filing s) (for_act vs (send_envelope env ns msg))" for vs ns msg
    by (intro keeps_intros)
  have "keeps (\<lambda>t :: 's admin_shared. core t = core s \<and> filing t = filing s) (broadcast cs env i bs)"
    unfolding broadcast_def by (intro keeps_intros, rule keepsI) (erule keepsD [OF loop])
  from keepsD [OF this] show "core (snd (broadcast cs env i bs s)) = core s \<and>
    filing (snd (broadcast cs env i bs s)) = filing s" by simp
qed

lemma change_proposed:
  "propose_change env payload s = (Ok hp, s') \<Longrightarrow>
   basis s' = basis s \<and> change env payload s' = as_pending_changes s'"
proof -
  assume *: "propose_change env payload s = (Ok hp, s')"
  then have "basis s' = basis s"
    by (auto simp: propose_change_def Let_def basis_def split: result.splits prod.splits)
  with * change_basis [of s' s env payload] show ?thesis by (simp add: change_def)
qed

lemma good_proposed:
  assumes "payload_id env payload = Ok i" and "propose_change env payload s = (Ok hp, s')"
  shows "good env i s'"
  using assms(1) change_proposed [OF assms(2)] by (auto simp: good_def)

lemma check_proposal_Ok:
  assumes "filed env (pm_shared m)" and "check_proposal env i m = (Ok (), m')"
  shows "good env i (pm_shared m')"
proof -
  from assms(2) obtain new payload where f: "filing (pm_shared m) i = Some (new, payload)"
    by (auto simp: check_proposal_def split: option.splits)
  with assms(1) have i: "payload_id env payload = Ok i" by (auto simp: filed_def)
  from assms(2) f obtain hp s' where p: "propose_change env payload (pm_shared m) = (Ok hp, s')" "pm_shared m' = s'"
    by (cases "propose_change env payload (pm_shared m)")
      (auto simp: check_proposal_def bind_act_Ok_iff on_shared_def on_part_def rust_simps case_prod_beta
        send_proposal_update_def split: prod.splits)
  from good_proposed [OF i p(1)] p(2) show ?thesis by simp
qed

lemma check_proposal_keeps:
  assumes "filed env (pm_shared m)"
  shows "good env i (pm_shared m) \<Longrightarrow> good env i (pm_shared (snd (check_proposal env i m)))"
    and "filed env (pm_shared (snd (check_proposal env i m)))"
proof -
  show "good env i (pm_shared (snd (check_proposal env i m)))" if "good env i (pm_shared m)"
  proof (cases "filing (pm_shared m) i")
    case None
    with that show ?thesis by (simp add: check_proposal_def)
  next
    case (Some np)
    obtain new payload where np: "np = (new, payload)" by (cases np)
    with Some assms have i: "payload_id env payload = Ok i" by (auto simp: filed_def)
    show ?thesis
    proof (cases "propose_change env payload (pm_shared m)")
      case (Pair r s')
      show ?thesis
      proof (cases r)
        case (Ok hp)
        with Pair good_proposed [OF i] Some np show ?thesis
          by (simp add: check_proposal_def bind_act_def on_shared_def on_part_def case_prod_beta)
      next
        case (Err e)
        with Pair propose_change_Err [of env payload "pm_shared m" e s'] that Some np show ?thesis
          by (simp add: check_proposal_def bind_act_def on_shared_def on_part_def)
      qed
    qed
  qed
  have "keeps (\<lambda>m. filed env (pm_shared m)) (bind_act (on_shared internal_error (propose_change env payload)) (\<lambda>(hash, _).
      send_proposal_update (u hash)))" for payload u
    by (auto intro!: keeps_intros keeps_on_shared keeps_update split: prod.split)
  from keepsD [OF this, of m] assms show "filed env (pm_shared (snd (check_proposal env i m)))"
    by (auto simp: check_proposal_def split: option.split)
qed

lemma accept_proposal_keeps:
  "filed env (pm_shared m) \<Longrightarrow> filed env (pm_shared (snd (accept_proposal env i data m)))"
  "good env p (pm_shared m) \<Longrightarrow> good env p (pm_shared (snd (accept_proposal env i data m)))"
proof -
  let ?c = "snd (commit env (pm_shared m))" and ?m = "pm_shared (snd (accept_proposal env i data m))"
  have "?m \<in> {pm_shared m, ?c, snd (remove_pending_consensus_proposals i ?c)}"
    by (cases "commit env (pm_shared m)"; cases "fst (commit env (pm_shared m))")
      (auto simp: accept_proposal_def Let_def split: option.split)
  moreover have "good env p ?c" "good env p (snd (remove_pending_consensus_proposals i ?c))"
    by (simp_all add: commit_clears remove_pending_consensus_proposals_def)
  moreover have "filed env ?c = filed env (pm_shared m)" by (rule filed_filing) simp
  ultimately show "filed env (pm_shared m) \<Longrightarrow> filed env ?m" "good env p (pm_shared m) \<Longrightarrow> good env p ?m"
    using filed_remove [of env ?c i] by auto
qed

lemma reject_proposal_keeps:
  "filed env (pm_shared m) \<Longrightarrow> filed env (pm_shared (snd (reject_proposal i m)))"
  "good env p (pm_shared m) \<Longrightarrow> good env p (pm_shared (snd (reject_proposal i m)))"
proof -
  have good: "good env p (s\<lparr>as_pending_consensus_proposals := f\<rparr>) = good env p s" for f and s :: "'a admin_shared"
    by (rule good_cong) (simp_all add: basis_def)
  show "filed env (pm_shared m) \<Longrightarrow> filed env (pm_shared (snd (reject_proposal i m)))"
    by (auto simp: reject_proposal_def remove_pending_consensus_proposals_def rollback_def rust_simps filed_def
        split: option.split)
  show "good env p (pm_shared m) \<Longrightarrow> good env p (pm_shared (snd (reject_proposal i m)))"
    by (simp add: reject_proposal_def remove_pending_consensus_proposals_def rollback_def rust_simps good
        split: option.split)
qed

lemma sends_keep [simp]:
  "filed env' (snd (send_to cs env i peer bs s)) = filed env' s"
  "filed env' (snd (broadcast cs env i bs s)) = filed env' s"
  "good env' p (snd (send_to cs env i peer bs s)) = good env' p s"
  "good env' p (snd (broadcast cs env i bs s)) = good env' p s"
  by (rule filed_filing good_core, simp add: consensus_sends)+

lemma perform_filed:
  "filed (nw_admin w) (pm_shared m) \<Longrightarrow> filed (nw_admin w) (pm_shared (perform w e m))"
  by (cases e) (auto simp: perform_def pure_act_def filed_create check_proposal_keeps accept_proposal_keeps
      reject_proposal_keeps)

lemma perform_good:
  assumes "filed (nw_admin w) (pm_shared m)" and "spares p e" and "good (nw_admin w) p (pm_shared m)"
  shows "good (nw_admin w) p (pm_shared (perform w e m))"
  using assms by (cases e) (auto simp: perform_def pure_act_def check_proposal_keeps accept_proposal_keeps reject_proposal_keeps)

lemma perform_check:
  assumes "filed (nw_admin w) (pm_shared m)" and "fst (admin_pm w (CheckProposal i) m) = Ok ()"
  shows "good (nw_admin w) i (pm_shared (perform w (CheckProposal i) m))"
  using assms check_proposal_Ok [of "nw_admin w" m i "snd (check_proposal (nw_admin w) i m)"]
  by (cases "check_proposal (nw_admin w) i m")
    (auto simp: perform_def pure_act_def admin_pm_reply manager_reply_def rust_simps)

interpretation am: engine_client "admin_pm w" "ns_perform w" "nw_wire w" "cc_verifiers (nw_codecs w)"
    "\<lambda>m. filed (nw_admin w) (pm_shared m)" "\<lambda>i m. good (nw_admin w) i (pm_shared m)"
  for w :: node_world
  by unfold_locales (rule perform_filed perform_check perform_good; assumption)+

section \<open>The invariant of a node\<close>

definition node_ok :: "node_world \<Rightarrow> 's admin_node \<Rightarrow> bool" where
  "node_ok w nd \<longleftrightarrow> filed (nw_admin w) (sv_shared (nd_service nd)) \<and>
     (\<forall>p \<in> evaluated (nd_engine nd). good (nw_admin w) p (sv_shared (nd_service nd)))"

lemma node_ok_same:
  assumes "node_ok w nd" and "filing s = filing (sv_shared (nd_service nd))"
    and "core s = core (sv_shared (nd_service nd)) \<or>
      basis s = basis (sv_shared (nd_service nd)) \<and> as_pending_changes s = as_pending_changes (sv_shared (nd_service nd))"
    and "sv_shared v = s"
  shows "node_ok w (nd\<lparr>nd_service := v\<rparr>)"
proof -
  have "basis s = basis (sv_shared (nd_service nd))" "as_pending_changes s = as_pending_changes (sv_shared (nd_service nd))"
    using assms(3) core_basis by auto
  then have "good (nw_admin w) p s = good (nw_admin w) p (sv_shared (nd_service nd))" for p by (rule good_cong)
  with assms filed_filing [OF assms(2)] show ?thesis by (simp add: node_ok_def)
qed

lemma node_ok_manager:
  assumes "node_ok w nd"
  shows "filed (nw_admin w) (pm_shared (manager_of (nd_service nd) c))"
    and "\<forall>p \<in> evaluated (nd_engine nd). good (nw_admin w) p (pm_shared (manager_of (nd_service nd) c))"
  using assms by (simp_all add: node_ok_def manager_of_def)

lemma node_ok_engine:
  assumes "node_ok w nd"
    and "node_iteration w k (manager_of (nd_service nd) c) (nd_engine nd) = (s', es)"
  shows "node_ok w (nd\<lparr>nd_engine := s', nd_service := with_manager (perform_all w es (manager_of (nd_service nd) c)) c
       (nd_service nd)\<rparr>)"
  using am.client_iteration_ready(2,3) [OF node_ok_manager [OF assms(1)] assms(2) [unfolded node_iteration_def]]
  by (simp add: node_ok_def with_manager_def)

lemma shared_with_consensus [simp]: "sv_shared (snd (with_consensus a v)) = sv_shared v"
  by (simp add: with_consensus_def Let_def case_prod_beta split: option.split)

text \<open>What handling a message does to the shared state.\<close>

lemma handle_message_cases:
  obtains (same) "sv_shared (snd (admin_handle_message cs env bs ctx v)) = sv_shared v"
  | (filed) new payload where "payload_id env payload = Ok (prop_id new)"
      "sv_shared (snd (admin_handle_message cs env bs ctx v)) =
         add_pending_consensus_proposal (prop_id new) (new, payload) (sv_shared v)"
  | (ready) cid n where
      "sv_shared (snd (admin_handle_message cs env bs ctx v)) = snd (add_ready_member env cid n (sv_shared v))"
proof (cases "parse_from_bytes (ae_message_c env) bs")
  case (Err e)
  with same show thesis by (simp add: admin_handle_message_def bind_act_def lift_act_def)
next
  case (Ok msg)
  show thesis
  proof (cases msg)
    case (AdminProposedCircuit pc)
    show thesis
    proof (cases "payload_id env (prc_circuit_payload pc)")
      case (Err e)
      with Ok AdminProposedCircuit same show thesis by (simp add: admin_handle_message_def bind_act_def lift_act_def)
    next
      case id: (Ok i)
      with filed [of "prc_circuit_payload pc" "proposal_default\<lparr>prop_id := i, summary := prc_expected_hash pc,
          consensus_data := prc_required_verifiers pc\<rparr>"] Ok AdminProposedCircuit show thesis
        by (simp add: admin_handle_message_def bind_act_def lift_act_def modify_act_def Let_def)
    qed
  qed (use Ok same ready in \<open>simp_all add: admin_handle_message_def bind_act_def lift_act_def fail_act_def on_sv_shared_def\<close>)
qed

lemma add_ready_member_same:
  fixes s :: "'s admin_shared"
  shows "filing (snd (add_ready_member env cid n s)) = filing s" "core (snd (add_ready_member env cid n s)) = core s"
proof -
  have "keeps (\<lambda>t :: 's admin_shared. filing t = filing s) (add_ready_member env cid n)"
    "keeps (\<lambda>t :: 's admin_shared. core t = core s) (add_ready_member env cid n)" by (intro keeps_intros)+
  from keepsD [OF this(1) refl] keepsD [OF this(2) refl]
  show "filing (snd (add_ready_member env cid n s)) = filing s" "core (snd (add_ready_member env cid n s)) = core s" .
qed

lemma node_ok_message:
  assumes "node_ok w nd"
  shows "node_ok w (nd\<lparr>nd_service := snd (admin_handle_message cs (nw_admin w) bs ctx (nd_service nd))\<rparr>)"
proof (cases rule: handle_message_cases [of cs "nw_admin w" bs ctx "nd_service nd"])
  case same
  from node_ok_same [OF assms refl _ same] show ?thesis by simp
next
  case (ready cid n)
  from node_ok_same [OF assms _ _ ready] show ?thesis by (simp add: add_ready_member_same)
next
  case (filed new payload)
  let ?s = "sv_shared (nd_service nd)"
  have "filed (nw_admin w) (add_pending_consensus_proposal (prop_id new) (new, payload) ?s)"
    using assms filed(1) filed_add [of "nw_admin w" ?s payload new] by (simp add: node_ok_def)
  moreover have "good (nw_admin w) p (add_pending_consensus_proposal (prop_id new) (new, payload) ?s) =
      good (nw_admin w) p ?s" for p
    by (rule good_cong) (simp_all add: add_pending_consensus_proposal_def basis_def)
  ultimately show ?thesis using assms by (simp add: node_ok_def filed(2))
qed

text \<open>Starting and stopping.\<close>

lemma keeps_on_sv_shared:
  "(\<And>s. filing (snd (a s)) = filing s) \<Longrightarrow> keeps (\<lambda>v. filing (sv_shared v) = k) (on_sv_shared err a)"
  by (simp add: keeps_def on_sv_shared_def)

lemma filing_restart_services [simp]:
  fixes s :: "'s admin_shared"
  shows "filing (snd (restart_services circuits args s)) = filing s"
proof -
  have inner: "keeps (\<lambda>t :: 's admin_shared. filing t = filing s) (for_act ds (\<lambda>d. start_service (f d) (g d)))"
    for ds f and g :: "'b \<Rightarrow> _"
    by (intro keeps_intros)
  have "keeps (\<lambda>t :: 's admin_shared. filing t = filing s) (restart_services circuits args)"
    unfolding restart_services_def
    by (intro keeps_for) (auto split: prod.split intro!: keepsI keepsD [OF inner])
  from keepsD [OF this refl] show ?thesis .
qed

lemma filing_start:
  fixes v :: "'s admin_service"
  shows "filing (sv_shared (snd (admin_start circuits args connect spawn v))) = filing (sv_shared v)"
proof -
  have *: "keeps (\<lambda>u :: 's admin_service. filing (sv_shared u) = filing (sv_shared v))
      (bind_act (lift_act a) (\<lambda>ns.
        bind_act (modify_act (\<lambda>v. v\<lparr>sv_shared := set_network_sender (Some ns) (sv_shared v)\<rparr>)) (\<lambda>_.
        bind_act (lift_act b) (\<lambda>manager.
        bind_act (modify_act (\<lambda>v. v\<lparr>sv_consensus := Some manager\<rparr>)) (\<lambda>_.
        bind_act (on_sv_shared StartAdmin (restart_services circuits args)) (\<lambda>_.
          on_sv_shared StartAdmin (\<lambda>s. on_part as_splinter_state (\<lambda>st s. s\<lparr>as_splinter_state := st\<rparr>) (\<lambda>e. e)
            (add_services_to_directory circuits (as_node_id s)) s)))))))" for a b
    by (intro keeps_intros keeps_on_sv_shared) (simp_all add: set_network_sender_def)
  from keepsD [OF * refl] show ?thesis by (simp add: admin_start_def)
qed

lemma same_stop:
  "filing (sv_shared (snd (admin_stop disconnect v))) = filing (sv_shared v)"
  "basis (sv_shared (snd (admin_stop disconnect v))) = basis (sv_shared v)"
  "as_pending_changes (sv_shared (snd (admin_stop disconnect v))) = as_pending_changes (sv_shared v)"
  by (auto simp: admin_stop_def bind_act_def lift_act_def modify_act_def on_sv_shared_def stop_services_def
      remove_all_event_subscribers_def set_network_sender_def basis_def split: result.split option.split prod.split)

lemma node_step_ok:
  assumes "node_step w nd nd'" and "node_ok w nd"
  shows "node_ok w nd'"
  using assms
proof (cases rule: node_step.cases)
  case (node_engine c k s' es)
  with node_ok_engine [OF assms(2)] show ?thesis by simp
next
  case (node_message bs ctx)
  with node_ok_message [OF assms(2)] show ?thesis by simp
next
  case (node_submit payload)
  show ?thesis unfolding node_submit
    by (rule node_ok_same [OF assms(2)])
      (simp_all add: on_sv_shared_def submit_circuit_change_def core_submit)
next
  case (node_subscribe event_type x)
  show ?thesis unfolding node_subscribe
    by (rule node_ok_same [OF assms(2)])
      (simp_all add: on_sv_shared_def add_event_subscriber_def add_subscriber_def modify_act_def core_def)
next
  case (node_authorization peer state)
  show ?thesis unfolding node_authorization
    by (rule node_ok_same [OF assms(2)])
      (simp_all add: core_authorization_change, simp add: on_authorization_change_def Let_def)
next
  case (node_start duration now circuits args connect spawn)
  from assms(2) show ?thesis unfolding node_start
    by (simp add: node_ok_def engine_start_def engine_new_def evaluated_def filed_filing [OF filing_start])
next
  case (node_stop disconnect)
  show ?thesis unfolding node_stop
    by (rule node_ok_same [OF assms(2)]) (simp_all add: same_stop)
qed

lemma node_reachable_ok: "node_reachable w nd \<Longrightarrow> node_ok w nd"
proof (induction rule: node_reachable.induct)
  case (node_init node_id orch network net state keys storage_type storage callback v duration now)
  then have "filing (sv_shared v) = Map.empty"
    by (auto simp: admin_service_new_def admin_shared_new_def rust_simps split: if_splits)
  then show ?case by (simp add: node_ok_def node_new_def filed_def evaluated_def engine_new_def)
qed (rule node_step_ok)

end
