(* ===== verification/Admin_Properties.thy ===== *)
theory Admin_Properties
  imports Admin_Invariant
begin

text \<open>
  The properties of the admin state: which requests are accepted, what a commit installs, when services
  start, and the gaps in the checks.
\<close>

section \<open>Lemmas\<close>

lemma commit_installs_core:
  assumes "as_pending_changes s = Some px" and "check_approved (px_proposal px) = ProposalIsAccepted"
    and "update_splinter_state env (as_node_id s) (pp_circuit_proposal (px_proposal px)) (as_splinter_state s) = (Ok (), st')"
    and "\<And>r. ae_proposal_storage env r = Ok ()"
  defines "s1 \<equiv> s\<lparr>as_pending_changes := None, as_splinter_state := st',
    as_open_proposals := snd (remove_proposal (ae_proposal_storage env) (pp_circuit_id (px_proposal px)) (as_open_proposals s))\<rparr>"
  shows "commit env s =
    bind_act (send_proposal_event env (px_proposal px)
        (\<lambda>cp. Admin_Messages.ProposalAccepted cp (px_signer_public_key px))) (\<lambda>_.
      bind_act (send_member_ready env (pp_circuit_proposal (px_proposal px)))
        (\<lambda>_. add_uninitialized_circuit env (px_proposal px))) s1"
    and "core (snd (commit env s)) = core s1"
proof -
  let ?tail = "bind_act (send_proposal_event env (px_proposal px)
      (\<lambda>cp. Admin_Messages.ProposalAccepted cp (px_signer_public_key px))) (\<lambda>_.
      bind_act (send_member_ready env (pp_circuit_proposal (px_proposal px)))
        (\<lambda>_. add_uninitialized_circuit env (px_proposal px)))"
  obtain q ops' where rp:
    "remove_proposal (ae_proposal_storage env) (pp_circuit_id (px_proposal px)) (as_open_proposals s) = (Ok q, ops')"
    by (simp add: remove_proposal_def registry_remove_proposal_def write_open_proposals_def assms(4))
  have update: "on_part as_splinter_state (\<lambda>st s. s\<lparr>as_splinter_state := st\<rparr>) (\<lambda>e. e)
      (update_splinter_state env (as_node_id s) (pp_circuit_proposal (px_proposal px))) (s\<lparr>as_pending_changes := None\<rparr>) =
      (Ok (), s\<lparr>as_pending_changes := None, as_splinter_state := st'\<rparr>)"
    by (simp add: on_part_def assms(3))
  have remove: "admin_remove_proposal env (pp_circuit_id (px_proposal px))
      (s\<lparr>as_pending_changes := None, as_splinter_state := st'\<rparr>) = (Ok q, s1)"
    by (simp add: admin_remove_proposal_def on_part_def rp s1_def)
  show commit: "commit env s = ?tail s1"
    using assms(1,2) update remove by (simp add: commit_def Let_def)
  have "core (snd (?tail s1)) = core s1" by (rule keeps_coreD) (intro keeps_intros)
  with commit show "core (snd (commit env s)) = core s1" by simp
qed

lemma core_fields:
  "core s = (n, ops, ch, st, keys, b) \<Longrightarrow> as_node_id s = n \<and> as_open_proposals s = ops \<and>
     as_pending_changes s = ch \<and> as_splinter_state s = st \<and> as_key_registry s = keys"
  by (simp add: core_def)

lemma unset_vote_refused:
  assumes "v \<in> set (pp_votes p)" and "pv_vote v = UNSET_VOTE"
  obtains e where "Admin_Messages.proposal_from_proto p = Err e"
proof (cases "Admin_Messages.proposal_from_proto p")
  case (Ok cp)
  then have "p = Admin_Messages.proposal_into_proto cp" using exact_conversionD [OF exact_proposal] by blast
  with assms have "\<exists>r. vote_into_proto r = UNSET_VOTE"
    by (auto simp: Admin_Messages.proposal_into_proto_def vote_record_into_proto_def)
  then obtain r where "vote_into_proto r = UNSET_VOTE" ..
  then show thesis by (cases r) auto
qed (use that in blast)

lemma start_services_definitions:
  assumes "for_act vs (\<lambda>v. start_service (d v) (args v)) s = (Ok (), s')"
  shows "set (as_running_services s') = set (as_running_services s) \<union> d ` set vs \<and>
     fst ` set (or_services (as_orchestrator s')) = fst ` set (or_services (as_orchestrator s)) \<union> d ` set vs \<and>
     as_uninitialized_circuits s' = as_uninitialized_circuits s \<and> as_node_id s' = as_node_id s \<and>
     supported_service_types (as_orchestrator s') = supported_service_types (as_orchestrator s) \<and>
     as_network_sender s' = as_network_sender s"
  using assms
proof (induction vs arbitrary: s)
  case Nil
  then show ?case by (simp add: pure_act_def)
next
  case (Cons v vs)
  then obtain s1 where s1: "start_service (d v) (args v) s = (Ok (), s1)"
    "for_act vs (\<lambda>v. start_service (d v) (args v)) s1 = (Ok (), s')"
    by (auto simp: bind_act_Ok_iff)
  from s1(1) obtain orch where o': "initialize_service (d v) (args v) (as_orchestrator s) = (Ok (), orch)"
    "s1 = s\<lparr>as_orchestrator := orch, as_running_services := List.insert (d v) (as_running_services s)\<rparr>"
    by (auto simp: start_service_def bind_act_Ok_iff on_part_def rust_simps Let_def split: prod.splits)
  from o'(1) obtain m where "orch = (as_orchestrator s)\<lparr>or_services :=
      insert_service (d v) m (or_services (as_orchestrator s))\<rparr>"
    by (rule initialize_service_Ok)
  then have "fst ` set (or_services orch) = insert (d v) (fst ` set (or_services (as_orchestrator s)))"
    "supported_service_types orch = supported_service_types (as_orchestrator s)"
    using insert_service_keys(1) [of "d v" m "or_services (as_orchestrator s)"]
    by (simp_all add: supported_service_types_def)
  with Cons.IH [OF s1(2)] o'(2) show ?case by auto
qed

text \<open>Replacing an answer that is not looked at.\<close>

lemma drop_answer:
  assumes "map_result (\<lambda>_. ()) r = map_result (\<lambda>_. ()) r'"
  shows "bind_result (map_err f r) (\<lambda>_. k) = bind_result (map_err f r') (\<lambda>_. k)"
  using assms by (cases r; cases r') auto

lemma drop_answer_act:
  assumes "map_result (\<lambda>_. ()) r = map_result (\<lambda>_. ()) r'"
  shows "bind_act (lift_act (\<lambda>_. map_err f r)) (\<lambda>_. k) = bind_act (lift_act (\<lambda>_. map_err f r')) (\<lambda>_. k)"
  using assms by (cases r; cases r') (auto simp: bind_act_def lift_act_def fun_eq_iff)

lemma verify_signature_answers:
  assumes "\<And>h sg k. map_result (\<lambda>_. ()) (verify h sg k) = map_result (\<lambda>_. ()) (verify' h sg k)"
  shows "map_result (\<lambda>_. ()) (verify_signature c verify payload) =
    map_result (\<lambda>_. ()) (verify_signature c verify' payload)"
proof (cases "parse_from_bytes c (mp_header payload)")
  case (Ok header)
  with assms [of "mp_header payload" "mp_signature payload" "hd_requester header"] show ?thesis
    by (cases "verify (mp_header payload) (mp_signature payload) (hd_requester header)";
        cases "verify' (mp_header payload) (mp_signature payload) (hd_requester header)")
      (auto simp: verify_signature_def)
qed (simp add: verify_signature_def)

section \<open>Properties\<close>

text \<open>C9. A request to create a circuit passes exactly when it names a node, the key is registered for
  that node, the permission manager gives an answer, the circuit has no open proposal and does not exist,
  and the circuit is well formed for this node: all its types set, its members and endpoints distinct and
  not empty, this node among them, and distinct services each allowed on exactly one member.\<close>

theorem create_request_accepted_iff:
  "is_ok (validate_create_circuit keys permitted proposals state node_id c signer requester) \<longleftrightarrow>
     requester \<noteq> [] \<and>
     (\<exists>ki. get_key keys signer = Ok (Some ki) \<and> ki_associated_node_id ki = requester) \<and>
     is_ok (permitted signer PROPOSER_ROLE) \<and> proposals_of proposals (pc_circuit_id c) = None \<and>
     cd_circuits (circuit_dir state) (pc_circuit_id c) = None \<and> circuit_valid node_id c"
  unfolding validate_create_circuit_Ok_iff [symmetric] by (auto simp: is_ok_iff)

text \<open>C7. In every reachable state the open proposals are filed under their own circuit id and still
  undecided, their circuits are well formed, and their votes come from registered keys of different nodes,
  none of them the requester; the same holds of the proposal that waits for consensus.\<close>

theorem admin_invariant:
  assumes "admin_reachable s"
  shows "(\<forall>i p. proposals_of (as_open_proposals s) i = Some p \<longrightarrow>
            proposal_ok (as_node_id s) (as_key_registry s) p \<and> pp_circuit_id p = i \<and>
            check_approved p = ProposalIsPending) \<and>
         (\<forall>px. as_pending_changes s = Some px \<longrightarrow>
            proposal_ok (as_node_id s) (as_key_registry s) (px_proposal px))"
  using admin_reachable_wf [OF assms] by (simp add: admin_wf_iff)


text \<open>C8. Committing an approved proposal installs its circuit: with storage that can be written, the
  circuit is in the directory and on disk, every service of another member is in the service directory at
  that member's node, and the proposal is closed, whatever becomes of the messages sent afterwards.\<close>

theorem approved_circuit_is_installed:
  assumes "admin_reachable s" and "as_pending_changes s = Some px"
    and "check_approved (px_proposal px) = ProposalIsAccepted"
    and "\<And>i. ae_node_storage env i = Ok ()" and "\<And>i. ae_circuit_storage env i = Ok ()"
    and "\<And>r. ae_proposal_storage env r = Ok ()"
  defines "c \<equiv> pp_circuit_proposal (px_proposal px)" and "s' \<equiv> snd (commit env s)"
  shows "(\<exists>nc. state_circuit c = Ok nc \<and>
      cd_circuits (circuit_dir (as_splinter_state s')) =
        (cd_circuits (circuit_dir (as_splinter_state s)))(pc_circuit_id c \<mapsto> nc)) \<and>
    stored_directory (as_splinter_state s') = circuit_dir (as_splinter_state s') \<and>
    (\<forall>v m. v \<in> set (pc_roster c) \<and> m \<in> set (pc_members c) \<and> ps_allowed_nodes v = [pn_node_id m] \<and>
        pn_node_id m \<noteq> as_node_id s \<longrightarrow>
      service_dir (as_splinter_state s') (pc_circuit_id c, ps_service_id v) =
        Some \<lparr>svc_service_id = ps_service_id v, svc_peer_id = None,
          svc_node = \<lparr>node_id_of = pn_node_id m, node_endpoints = [pn_endpoint m]\<rparr>\<rparr>) \<and>
    proposals_of (as_open_proposals s') = (proposals_of (as_open_proposals s))(pc_circuit_id c := None)"
proof -
  have wf: "admin_wf s" using assms(1) by (rule admin_reachable_wf)
  then have ok: "proposal_ok (as_node_id s) (as_key_registry s) (px_proposal px)"
    "open_proposals_wf (as_open_proposals s)"
    using assms(2) by (simp_all add: admin_wf_iff)
  then have "circuit_valid (as_node_id s) c" and id: "pp_circuit_id (px_proposal px) = pc_circuit_id c"
    by (simp_all add: proposal_ok_def c_def)
  from update_splinter_state_installs [OF this(1) assms(4,5), of "as_splinter_state s"] obtain nc st' where st':
    "state_circuit c = Ok nc" "update_splinter_state env (as_node_id s) c (as_splinter_state s) = (Ok (), st')"
    "cd_circuits (circuit_dir st') = (cd_circuits (circuit_dir (as_splinter_state s)))(pc_circuit_id c \<mapsto> nc)"
    "stored_directory st' = circuit_dir st'"
    "\<And>v m. v \<in> set (pc_roster c) \<Longrightarrow> m \<in> set (pc_members c) \<Longrightarrow> ps_allowed_nodes v = [pn_node_id m] \<Longrightarrow>
      pn_node_id m \<noteq> as_node_id s \<Longrightarrow> service_dir st' (pc_circuit_id c, ps_service_id v) =
        Some \<lparr>svc_service_id = ps_service_id v, svc_peer_id = None,
          svc_node = \<lparr>node_id_of = pn_node_id m, node_endpoints = [pn_endpoint m]\<rparr>\<rparr>"
    by blast
  note core = commit_installs_core(2) [OF assms(2,3) st'(2) [unfolded c_def] assms(6)]
  then have "as_splinter_state s' = st'" and
    "as_open_proposals s' = snd (remove_proposal (ae_proposal_storage env) (pc_circuit_id c) (as_open_proposals s))"
    using id by (simp_all add: core_def s'_def)
  with st' proposals_of_remove [OF ok(2)] show ?thesis by auto
qed

text \<open>A vote that is neither for nor against counts as one in favour: when it is the last one missing,
  the commit puts the circuit in the directory and closes the proposal, and only then fails to report it,
  so that no member is told and its services are never started.\<close>

theorem unset_vote_creates_circuit:
  assumes "admin_reachable s" and "as_pending_changes s = Some px"
    and "v \<in> set (pp_votes (px_proposal px))" and "pv_vote v = UNSET_VOTE"
    and "REJECT \<notin> pv_vote ` set (pp_votes (px_proposal px))"
    and "pv_voter_node_id ` set (pp_votes (px_proposal px)) = required_voters (px_proposal px)"
    and "\<And>i. ae_node_storage env i = Ok ()" and "\<And>i. ae_circuit_storage env i = Ok ()"
    and "\<And>r. ae_proposal_storage env r = Ok ()"
  defines "s' \<equiv> snd (commit env s)"
  shows "(\<exists>e. fst (commit env s) = Err (InvalidMessageFormat e)) \<and>
    cd_circuits (circuit_dir (as_splinter_state s')) (pp_circuit_id (px_proposal px)) \<noteq> None \<and>
    proposals_of (as_open_proposals s') (pp_circuit_id (px_proposal px)) = None \<and>
    as_uninitialized_circuits s' = as_uninitialized_circuits s \<and> as_net s' = as_net s \<and>
    as_event_mailbox s' = as_event_mailbox s"
proof -
  let ?c = "pp_circuit_proposal (px_proposal px)"
  have acc: "check_approved (px_proposal px) = ProposalIsAccepted" using assms(5,6) by (simp add: check_approved_iff)
  have wf: "admin_wf s" using assms(1) by (rule admin_reachable_wf)
  then have ok: "proposal_ok (as_node_id s) (as_key_registry s) (px_proposal px)"
    "open_proposals_wf (as_open_proposals s)"
    using assms(2) by (simp_all add: admin_wf_iff)
  then have "circuit_valid (as_node_id s) ?c" and id: "pp_circuit_id (px_proposal px) = pc_circuit_id ?c"
    by (simp_all add: proposal_ok_def)
  obtain nc st' where st': "update_splinter_state env (as_node_id s) ?c (as_splinter_state s) = (Ok (), st')"
    "cd_circuits (circuit_dir st') = (cd_circuits (circuit_dir (as_splinter_state s)))(pc_circuit_id ?c \<mapsto> nc)"
    by (rule update_splinter_state_installs [OF \<open>circuit_valid (as_node_id s) ?c\<close> assms(7,8)])
  from assms(3,4) obtain e where e: "Admin_Messages.proposal_from_proto (px_proposal px) = Err e"
    by (rule unset_vote_refused)
  define s1 where "s1 = s\<lparr>as_pending_changes := None, as_splinter_state := st',
      as_open_proposals := snd (remove_proposal (ae_proposal_storage env) (pp_circuit_id (px_proposal px))
        (as_open_proposals s))\<rparr>"
  have "send_proposal_event env (px_proposal px)
      (\<lambda>cp. Admin_Messages.ProposalAccepted cp (px_signer_public_key px)) s1 = (Err (InvalidMessageFormat e), s1)"
    by (simp add: send_proposal_event_def e lift_act_def)
  then have commit: "commit env s = (Err (InvalidMessageFormat e), s1)"
    using commit_installs_core(1) [OF assms(2) acc st'(1) assms(9)] by (simp add: s1_def)
  have "proposals_of (as_open_proposals s1) (pp_circuit_id (px_proposal px)) = None"
    using proposals_of_remove [OF ok(2), of "ae_proposal_storage env" "pp_circuit_id (px_proposal px)"]
    by (simp add: s1_def)
  moreover have "cd_circuits (circuit_dir (as_splinter_state s1)) (pp_circuit_id (px_proposal px)) = Some nc"
    using st'(2) id by (simp add: s1_def)
  ultimately show ?thesis by (simp add: s'_def commit) (simp add: s1_def)
qed

text \<open>The vote of a node that is not a member of the circuit is taken: against, it rejects the
  proposal; in favour, the proposal can never again be accepted, whatever votes follow.\<close>

theorem outsider_vote_decides:
  assumes "propose_change env payload s = (Ok (h, p), s')"
    and "parse_from_bytes (ae_header_c env) (mp_header payload) = Ok header"
    and "hd_action header = CIRCUIT_PROPOSAL_VOTE"
    and "hd_requester_node_id header \<notin> pn_node_id ` set (pc_members (pp_circuit_proposal p))"
  shows "(pv_ballot (mp_proposal_vote payload) = REJECT \<longrightarrow> check_approved p = ProposalIsRejected) \<and>
    (\<forall>later. check_approved (p\<lparr>pp_votes := pp_votes p @ later\<rparr>) \<noteq> ProposalIsAccepted)"
  using assms(1)
proof (cases rule: propose_change_cases)
  case (create header')
  with assms(2,3) show ?thesis by simp
next
  case (vote header' p0)
  with assms(2) have header: "header' = header" by simp
  have "hd_requester_node_id header \<notin> required_voters (p\<lparr>pp_votes := vs\<rparr>)" for vs
    using assms(4) by (simp add: required_voters_def)
  then show ?thesis
    unfolding vote(5) header by (auto simp: check_approved_iff)
qed

text \<open>C34. The answers of signature verification and of the permission manager do not matter: a change is
  proposed and a payload submitted with the same outcome when the answers are replaced by others, as long
  as the calls fail in the same cases. A payload with a wrong signature by a key without permission passes.\<close>

theorem verification_answers_are_ignored:
  assumes "\<And>h sg k. map_result (\<lambda>_. ()) (verify h sg k) = map_result (\<lambda>_. ()) (ae_verify env h sg k)"
    and "\<And>k r. map_result (\<lambda>_. ()) (permitted k r) = map_result (\<lambda>_. ()) (ae_is_permitted env k r)"
  defines "env' \<equiv> env\<lparr>ae_verify := verify, ae_is_permitted := permitted\<rparr>"
  shows "propose_change env' payload s = propose_change env payload s \<and>
    submit env' payload s = submit env payload s"
proof -
  note v = verify_signature_answers [OF assms(1)]
  have cre: "validate_create_circuit keys permitted = validate_create_circuit keys (ae_is_permitted env)"
    "validate_circuit_vote keys permitted = validate_circuit_vote keys (ae_is_permitted env)" for keys
    by (simp_all add: fun_eq_iff validate_create_circuit_def validate_circuit_vote_def
        drop_answer [OF assms(2)])
  have "propose_change env' payload s = propose_change env payload s"
    unfolding propose_change_def env'_def by (simp add: drop_answer [OF v] cre Let_def cong: management_action.case_cong)
  moreover have "submit env' payload s = submit env payload s"
  proof -
    have auth: "ae_is_authorized env' = ae_is_authorized env" by (simp add: env'_def)
    have cm: "connect_member env' i e = connect_member env i e" for i e
      by (simp add: connect_member_def env'_def fun_eq_iff)
    have m: "connect_members env' ns un = connect_members env ns un" for ns un
    proof (induction ns arbitrary: un)
      case (Cons n ns)
      show ?case by (rule ext) (simp add: auth cm Cons.IH)
    qed (simp add: fun_eq_iff)
    have pc: "propose_circuit env' payload = propose_circuit env payload"
      by (simp add: propose_circuit_def m)
    show ?thesis
      unfolding submit_def pc by (simp add: env'_def drop_answer_act [OF v])
  qed
  ultimately show ?thesis ..
qed

text \<open>A member's message that it is ready starts the services of the circuit on this node exactly when
  it was the last member missing: then the services this node is allowed to run and has a factory for are
  added to the orchestrator and to the running services, and the circuit waits no more; before that nothing
  is started.\<close>

theorem services_start_when_all_ready:
  assumes "add_ready_member env cid n s = (Ok (), s')"
    and "as_uninitialized_circuits s cid = Some u" and "uc_circuit u = Some p"
  defines "c \<equiv> pp_circuit_proposal p"
  defines "started \<equiv> (\<lambda>v. \<lparr>od_circuit = pc_circuit_id c, od_service_id = ps_service_id v,
      od_service_type = ps_service_type v\<rparr>) `
        {v \<in> set (pc_roster c). as_node_id s \<in> set (ps_allowed_nodes v) \<and>
           ps_service_type v \<in> set (supported_service_types (as_orchestrator s))}"
  shows "if pn_node_id ` set (pc_members c) \<subseteq> insert n (uc_ready_members u)
    then as_uninitialized_circuits s' cid = None \<and>
      set (as_running_services s') = set (as_running_services s) \<union> started \<and>
      set (list_services [] [] (as_orchestrator s')) = set (list_services [] [] (as_orchestrator s)) \<union> started
    else as_uninitialized_circuits s' cid = Some (u\<lparr>uc_ready_members := insert n (uc_ready_members u)\<rparr>) \<and>
      as_running_services s' = as_running_services s \<and> as_orchestrator s' = as_orchestrator s"
proof (cases "pn_node_id ` set (pc_members c) \<subseteq> insert n (uc_ready_members u)")
  case False
  with assms(1-3) show ?thesis
    by (auto simp: add_ready_member_def initialize_services_if_members_ready_def mark_ready_def rust_simps
        bind_act_def c_def)
next
  case True
  define s1 where "s1 = (mark_ready cid n s)\<lparr>as_uninitialized_circuits :=
      (as_uninitialized_circuits (mark_ready cid n s))(cid := None)\<rparr>"
  have s1: "as_uninitialized_circuits s1 cid = None" "as_running_services s1 = as_running_services s"
    "as_orchestrator s1 = as_orchestrator s" "as_node_id s1 = as_node_id s"
    by (simp_all add: s1_def mark_ready_def)
  from assms(1-3) True obtain s2 cp where s2: "initialize_services c s1 = (Ok (), s2)"
    "send_event env (pc_circuit_management_type c) (CircuitReady cp) s2 = (Ok (), s')"
    by (auto simp: add_ready_member_def initialize_services_if_members_ready_def mark_ready_def rust_simps
        bind_act_Ok_iff c_def s1_def)
  let ?vs = "filter (\<lambda>v. runs_here s1 (ps_service_type v) (ps_allowed_nodes v)) (pc_roster c)"
  have "for_act ?vs (\<lambda>v. start_service \<lparr>od_circuit = pc_circuit_id c, od_service_id = ps_service_id v,
      od_service_type = ps_service_type v\<rparr> (ps_arguments v)) s1 = (Ok (), s2)"
    using s2(1) by (simp add: initialize_services_def)
  note defs = start_services_definitions [OF this]
  have started: "(\<lambda>v. \<lparr>od_circuit = pc_circuit_id c, od_service_id = ps_service_id v,
      od_service_type = ps_service_type v\<rparr>) ` set ?vs = started"
    by (auto simp: started_def runs_here_def s1)
  from send_event_frame(2-4) [of env "pc_circuit_management_type c" "CircuitReady cp" s2] s2(2) defs s1 True
  show ?thesis by (simp add: started [simplified] list_services_set)
qed

lemma mset_map_snd_partition:
  "mset (map snd (filter (\<lambda>(x, _). P x) xs)) + mset (map snd (filter (\<lambda>(x, _). \<not> P x) xs)) = mset (map snd xs)"
  by (induction xs) (auto simp: ac_simps)

text \<open>One authorized peer: the payloads that waited for it alone move to the pending ones, the others keep waiting
  for the rest of their peers.\<close>

lemma peer_authorized_releases:
  fixes p :: string and s :: "'h admin_shared"
  defines "s1 \<equiv> on_authorization_change p PeerAuthorized s"
  shows "\<exists>released. as_pending_circuit_payloads s1 = as_pending_circuit_payloads s @ released \<and>
    mset released + mset (map snd (as_unpeered_payloads s1)) = mset (map snd (as_unpeered_payloads s))"
    and "(left, payload) \<in> set (as_unpeered_payloads s1) \<Longrightarrow>
      left \<noteq> [] \<and> (\<exists>peers0. (peers0, payload) \<in> set (as_unpeered_payloads s) \<and> set left = set peers0 - {p})"
proof -
  define upd where "upd = map (\<lambda>(peers, payload). (filter (\<lambda>x. x \<noteq> p) peers, payload)) (as_unpeered_payloads s)"
  have s1: "as_unpeered_payloads s1 = filter (\<lambda>(peers, _). peers \<noteq> []) upd"
    "as_pending_circuit_payloads s1 = as_pending_circuit_payloads s @ map snd (filter (\<lambda>(peers, _). peers = []) upd)"
    by (simp_all add: s1_def upd_def on_authorization_change_def Let_def)
  have "map snd upd = map snd (as_unpeered_payloads s)" by (simp add: upd_def case_prod_beta)
  with mset_map_snd_partition [of "\<lambda>peers. peers = []" upd]
  show "\<exists>released. as_pending_circuit_payloads s1 = as_pending_circuit_payloads s @ released \<and>
    mset released + mset (map snd (as_unpeered_payloads s1)) = mset (map snd (as_unpeered_payloads s))"
    by (simp add: s1)
  show "(left, payload) \<in> set (as_unpeered_payloads s1) \<Longrightarrow>
      left \<noteq> [] \<and> (\<exists>peers0. (peers0, payload) \<in> set (as_unpeered_payloads s) \<and> set left = set peers0 - {p})"
    by (fastforce simp: s1 upd_def)
qed

text \<open>C33. A payload that waits for peers is neither lost nor repeated while they are authorized: once all of
  them are, in whatever order and with whatever others, every waiting payload is pending, behind those that
  were pending before.\<close>

theorem payloads_released_when_authorized:
  assumes "\<And>peers payload. (peers, payload) \<in> set (as_unpeered_payloads s) \<Longrightarrow> peers \<noteq> [] \<and> set peers \<subseteq> set ps"
  defines "s' \<equiv> fold (\<lambda>p. on_authorization_change p PeerAuthorized) ps s"
  shows "as_unpeered_payloads s' = [] \<and>
    (\<exists>released. as_pending_circuit_payloads s' = as_pending_circuit_payloads s @ released \<and>
       mset released = mset (map snd (as_unpeered_payloads s)))"
  using assms(1) unfolding s'_def
proof (induction ps arbitrary: s)
  case Nil
  have "as_unpeered_payloads s = []"
  proof (cases "as_unpeered_payloads s")
    case (Cons x xs)
    with Nil [of "fst x" "snd x"] show ?thesis by simp
  qed
  then show ?case by simp
next
  case (Cons p ps)
  define s1 where "s1 = on_authorization_change p PeerAuthorized s"
  have left: "peers \<noteq> [] \<and> set peers \<subseteq> set ps" if "(peers, payload) \<in> set (as_unpeered_payloads s1)" for peers payload
    using peer_authorized_releases(2) [OF that [unfolded s1_def]] Cons.prems by fastforce
  have "as_unpeered_payloads (fold (\<lambda>p. on_authorization_change p PeerAuthorized) ps s1) = [] \<and>
    (\<exists>released. as_pending_circuit_payloads (fold (\<lambda>p. on_authorization_change p PeerAuthorized) ps s1) =
       as_pending_circuit_payloads s1 @ released \<and> mset released = mset (map snd (as_unpeered_payloads s1)))"
    by (rule Cons.IH) (erule left)
  moreover obtain first where "as_pending_circuit_payloads s1 = as_pending_circuit_payloads s @ first"
    "mset first + mset (map snd (as_unpeered_payloads s1)) = mset (map snd (as_unpeered_payloads s))"
    using peer_authorized_releases(1) [of p s] by (auto simp: s1_def)
  ultimately show ?case by (auto simp: s1_def [symmetric] simp flip: mset_map)
qed

section \<open>Concrete instances\<close>

text \<open>A node \<open>a\<close> proposes a circuit with the nodes \<open>a\<close> and \<open>b\<close>; \<open>x\<close> is a node with a registered key that is
  not a member.\<close>

definition ex_circuit :: proto_circuit where
  "ex_circuit = \<lparr>pc_circuit_id = ''alpha'',
     pc_roster = [\<lparr>ps_service_id = ''s1'', ps_service_type = ''t'', ps_allowed_nodes = [''a''], ps_arguments = []\<rparr>,
                  \<lparr>ps_service_id = ''s2'', ps_service_type = ''t'', ps_allowed_nodes = [''b''], ps_arguments = []\<rparr>],
     pc_members = [\<lparr>pn_node_id = ''a'', pn_endpoint = ''tcp://a''\<rparr>, \<lparr>pn_node_id = ''b'', pn_endpoint = ''tcp://b''\<rparr>],
     pc_authorization_type = TRUST_AUTHORIZATION, pc_persistence = ANY_PERSISTENCE, pc_durability = NO_DURABILITY,
     pc_routes = ANY_ROUTE, pc_circuit_management_type = ''m'', pc_application_metadata = []\<rparr>"

definition ex_keys :: key_registry where
  "ex_keys = snd (save_keys (Ok ())
     [key_info_builder [1] ''a'', key_info_builder [2] ''b'', key_info_builder [3] ''x''] \<lparr>kr_keys = [], kr_stored = []\<rparr>)"

definition ex_header :: "management_action \<Rightarrow> byte \<Rightarrow> string \<Rightarrow> payload_header" where
  "ex_header act key node = \<lparr>hd_action = act, hd_requester = [key], hd_payload_sha512 = [], hd_requester_node_id = node\<rparr>"

definition ex_const_codec :: "'m codec" where
  "ex_const_codec = \<lparr>write_to_bytes = (\<lambda>_. Ok [7]), parse_from_bytes = (\<lambda>_. Err ''no message'')\<rparr>"

definition ex_admin_env :: admin_env where
  "ex_admin_env = \<lparr>ae_header_c = table_codec [ex_header CIRCUIT_CREATE_REQUEST 1 ''a'',
       ex_header CIRCUIT_PROPOSAL_VOTE 2 ''b'', ex_header CIRCUIT_PROPOSAL_VOTE 3 ''x''],
     ae_circuit_c = ex_const_codec, ae_proposal_c = ex_const_codec, ae_payload_c = ex_const_codec,
     ae_message_c = ex_const_codec, ae_net_codecs = ex_net_codecs, ae_hash = Ok,
     ae_verify = (\<lambda>_ _ _. Ok True), ae_is_permitted = (\<lambda>_ _. Ok True), ae_is_authorized = (\<lambda>_. False),
     ae_connect = Ok, ae_mesh_add = (\<lambda>_. Ok 3), ae_connect_request = Ok [1], ae_mesh_send = (\<lambda>_ _. Ok ()),
     ae_proposal_storage = (\<lambda>_. Ok ()), ae_node_storage = (\<lambda>_. Ok ()), ae_circuit_storage = (\<lambda>_. Ok ()),
     ae_clock = int, ae_handle_event = (\<lambda>_ _ _. Ok ())\<rparr>"

definition ex_payload :: "byte \<Rightarrow> proto_vote \<Rightarrow> management_payload" where
  "ex_payload header ballot = \<lparr>mp_header = [header], mp_signature = [9],
     mp_proposal_vote = \<lparr>pv_circuit_id = ''alpha'', pv_circuit_hash = ''07'', pv_ballot = ballot\<rparr>,
     mp_create_circuit = ex_circuit\<rparr>"

definition ex_vote :: "byte \<Rightarrow> proto_vote \<Rightarrow> string \<Rightarrow> proto_vote_record" where
  "ex_vote key ballot node = \<lparr>pv_public_key = [key], pv_vote = ballot, pv_voter_node_id = node\<rparr>"

definition ex_create_proposal :: "proto_vote_record list \<Rightarrow> proto_proposal" where
  "ex_create_proposal votes = \<lparr>pp_proposal_type = CREATE, pp_circuit_id = ''alpha'', pp_circuit_hash = ''07'',
     pp_circuit_proposal = ex_circuit, pp_votes = votes, pp_requester = [1], pp_requester_node_id = ''a''\<rparr>"

definition ex_admin_start :: "nat admin_shared" where
  "ex_admin_start = \<lparr>as_node_id = ''a'', as_open_proposals = \<lparr>op_registry = [], op_stored = []\<rparr>,
     as_uninitialized_circuits = Map.empty, as_orchestrator = ex_orchestrator\<lparr>or_services := []\<rparr>,
     as_running_services = [], as_network = network_new, as_network_sender = None, as_net = ex_net,
     as_unpeered_payloads = [], as_pending_circuit_payloads = [], as_pending_consensus_proposals = Map.empty,
     as_pending_changes = None, as_current_consensus_verifiers = [], as_event_subscribers = Map.empty,
     as_event_mailbox = btree_new_with_bound DEFAULT_IN_MEMORY_EVENT_LIMIT,
     as_splinter_state = splinter_state_new directory_new, as_key_registry = ex_keys, as_ticks = 0,
     as_delivered = []\<rparr>"

text \<open>After the proposal has been made and committed, and after a vote on it.\<close>

definition ex_admin_proposed :: "nat admin_shared" where
  "ex_admin_proposed = admin_step ex_admin_env Commit
     (admin_step ex_admin_env (ProposeChange (ex_payload 0 UNSET_VOTE)) ex_admin_start)"

definition ex_admin_voted :: "byte \<Rightarrow> proto_vote \<Rightarrow> nat admin_shared" where
  "ex_admin_voted header ballot = admin_step ex_admin_env (ProposeChange (ex_payload header ballot)) ex_admin_proposed"

lemma ex_admin_reachable:
  "admin_reachable ex_admin_start" "admin_reachable ex_admin_proposed" "admin_reachable (ex_admin_voted header ballot)"
proof -
  have "admin_shared_new ''a'' (ex_orchestrator\<lparr>or_services := []\<rparr>) network_new ex_net (splinter_state_new directory_new)
      ex_keys ''memory'' (\<lambda>_. Ok []) = Ok ex_admin_start"
    by (simp add: admin_shared_new_def open_proposals_new_def ex_admin_start_def)
  then show s: "admin_reachable ex_admin_start" by (rule admin_reachable.start)
  then show p: "admin_reachable ex_admin_proposed"
    unfolding ex_admin_proposed_def by (intro admin_reachable.step)
  then show "admin_reachable (ex_admin_voted header ballot)"
    unfolding ex_admin_voted_def by (rule admin_reachable.step)
qed

lemma ex_get_key:
  "get_key ex_keys [1] = Ok (Some (key_info_builder [1] ''a''))"
  "get_key ex_keys [2] = Ok (Some (key_info_builder [2] ''b''))"
  "get_key ex_keys [3] = Ok (Some (key_info_builder [3] ''x''))"
proof -
  have keys: "kr_keys ex_keys = fold persisted_add_key
      [key_info_builder [1] ''a'', key_info_builder [2] ''b'', key_info_builder [3] ''x''] []"
    by (simp add: ex_keys_def save_keys_def bind_act_def modify_act_def write_key_registry_def)
  have wf: "registry_wf (kr_keys ex_keys)" unfolding keys by (intro registry_wf_add_all registry_wf_empty)
  have ok: "bmap_ok (fold persisted_add_key kis [])" for kis
    using registry_wf_add_all [OF registry_wf_empty] by (simp add: registry_wf_def)
  have "registry_lookup (kr_keys ex_keys) = (registry_lookup [])([1] \<mapsto> key_info_builder [1] ''a'',
      [2] \<mapsto> key_info_builder [2] ''b'', [3] \<mapsto> key_info_builder [3] ''x'')"
    unfolding keys
    using ok [of "[]"] ok [of "[key_info_builder [1] ''a'']"] ok [of "[key_info_builder [1] ''a'', key_info_builder [2] ''b'']"]
    by (simp add: registry_lookup_add key_info_builder_def)
  then show "get_key ex_keys [1] = Ok (Some (key_info_builder [1] ''a''))"
    "get_key ex_keys [2] = Ok (Some (key_info_builder [2] ''b''))"
    "get_key ex_keys [3] = Ok (Some (key_info_builder [3] ''x''))"
    by (simp_all add: get_key_lookup [OF wf])
qed

lemma ex_circuit_valid: "circuit_valid ''a'' ex_circuit" "circuit_valid ''b'' ex_circuit"
  by (simp_all add: circuit_valid_def ex_circuit_def)

lemma ex_hash: "sha256 (ae_hash ex_admin_env) (ae_circuit_c ex_admin_env) c = Ok ''07''"
  "sha256 (ae_hash ex_admin_env) (ae_proposal_c ex_admin_env) p = Ok ''07''"
proof -
  have "to_hex [7] = ''07''" by code_simp
  then show "sha256 (ae_hash ex_admin_env) (ae_circuit_c ex_admin_env) c = Ok ''07''"
    "sha256 (ae_hash ex_admin_env) (ae_proposal_c ex_admin_env) p = Ok ''07''"
    by (simp_all add: sha256_def ex_admin_env_def ex_const_codec_def)
qed

lemma ex_parse_header:
  "parse_from_bytes (ae_header_c ex_admin_env) [0] = Ok (ex_header CIRCUIT_CREATE_REQUEST 1 ''a'')"
  "parse_from_bytes (ae_header_c ex_admin_env) [1] = Ok (ex_header CIRCUIT_PROPOSAL_VOTE 2 ''b'')"
  "parse_from_bytes (ae_header_c ex_admin_env) [2] = Ok (ex_header CIRCUIT_PROPOSAL_VOTE 3 ''x'')"
  by (simp_all add: ex_admin_env_def table_codec_def)

lemma ex_env_fields:
  "ae_is_permitted ex_admin_env k r = Ok True" "ae_node_storage ex_admin_env i = Ok ()"
  "ae_circuit_storage ex_admin_env i = Ok ()" "ae_proposal_storage ex_admin_env reg = Ok ()"
  by (simp_all add: ex_admin_env_def)

lemma ex_payload_fields:
  "mp_header (ex_payload h b) = [h]" "mp_create_circuit (ex_payload h b) = ex_circuit"
  "mp_proposal_vote (ex_payload h b) = \<lparr>pv_circuit_id = ''alpha'', pv_circuit_hash = ''07'', pv_ballot = b\<rparr>"
  by (simp_all add: ex_payload_def)

lemma ex_payload_checks:
  "n \<noteq> [] \<Longrightarrow> validate_circuit_management_payload (ex_payload h b) (ex_header act k n) = Ok ()"
  "parse_from_bytes (ae_header_c ex_admin_env) [h] = Ok hdr \<Longrightarrow>
   verify_signature (ae_header_c ex_admin_env) (ae_verify ex_admin_env) (ex_payload h b) = Ok True"
proof -
  show "n \<noteq> [] \<Longrightarrow> validate_circuit_management_payload (ex_payload h b) (ex_header act k n) = Ok ()"
    by (simp add: validate_circuit_management_payload_def ex_payload_def ex_header_def guard_err_def)
  have "ae_verify ex_admin_env x y z = Ok True" for x y z by (simp add: ex_admin_env_def)
  then show "parse_from_bytes (ae_header_c ex_admin_env) [h] = Ok hdr \<Longrightarrow>
      verify_signature (ae_header_c ex_admin_env) (ae_verify ex_admin_env) (ex_payload h b) = Ok True"
    by (simp add: verify_signature_def ex_payload_fields)
qed

lemma ex_header_fields:
  "hd_action (ex_header act k n) = act" "hd_requester (ex_header act k n) = [k]"
  "hd_requester_node_id (ex_header act k n) = n"
  by (simp_all add: ex_header_def)

lemmas ex_change_eval = propose_change_def ex_parse_header ex_env_fields ex_payload_fields ex_payload_checks
  ex_header_fields ex_hash Let_def

lemma ex_from_proto: "\<exists>c. Admin_Messages.proposal_from_proto (ex_create_proposal []) = Ok c"
  by (simp add: Admin_Messages.proposal_from_proto_def ex_create_proposal_def circuit_from_proto_def ex_circuit_def
      service_from_proto_def node_from_proto_def)

lemma ex_propose_create_at:
  assumes "as_key_registry s = ex_keys" and "as_open_proposals s = \<lparr>op_registry = [], op_stored = []\<rparr>"
    and "as_splinter_state s = splinter_state_new directory_new" and "as_node_id s = ''a'' \<or> as_node_id s = ''b''"
    and "sha256 (ae_hash ex_admin_env) c (ex_create_proposal []) = Ok h"
  shows "propose_change (ex_admin_env\<lparr>ae_proposal_c := c, ae_message_c := mc, ae_net_codecs := nc\<rparr>) (ex_payload 0 b) s =
     (Ok (h, ex_create_proposal []), s\<lparr>
        as_pending_changes := Some \<lparr>px_proposal = ex_create_proposal [], px_action = CIRCUIT_CREATE_REQUEST,
          px_signer_public_key = [1]\<rparr>,
        as_current_consensus_verifiers := [''admin::a'', ''admin::b'']\<rparr>)"
proof -
  have "validate_create_circuit (as_key_registry s) (ae_is_permitted ex_admin_env)
      (as_open_proposals s) (as_splinter_state s) (as_node_id s) ex_circuit [1] ''a'' = Ok ()"
    unfolding validate_create_circuit_Ok_iff assms(1-3)
    using assms(4) ex_circuit_valid
    by (auto simp: ex_get_key key_info_builder_def ex_env_fields proposals_of_def bmap_get_def
        splinter_state_new_def directory_new_def)
  moreover have "pc_circuit_id ex_circuit = ''alpha''" "map (\<lambda>m. admin_service_id (pn_node_id m)) (pc_members ex_circuit) =
      [''admin::a'', ''admin::b'']"
    by (simp_all add: ex_circuit_def admin_service_id_def)
  ultimately show ?thesis
    using assms(5) by (simp add: ex_change_eval ex_create_proposal_def)
qed

lemma ex_propose_create:
  "propose_change ex_admin_env (ex_payload 0 b) ex_admin_start =
     (Ok (''07'', ex_create_proposal []), ex_admin_start\<lparr>
        as_pending_changes := Some \<lparr>px_proposal = ex_create_proposal [], px_action = CIRCUIT_CREATE_REQUEST,
          px_signer_public_key = [1]\<rparr>,
        as_current_consensus_verifiers := [''admin::a'', ''admin::b'']\<rparr>)"
  using ex_propose_create_at [where s = ex_admin_start and c = "ae_proposal_c ex_admin_env" and h = "''07''"
      and mc = "ae_message_c ex_admin_env" and nc = "ae_net_codecs ex_admin_env" and b = b]
  by (simp add: ex_hash) (simp add: ex_admin_start_def)

definition ex_pending :: "byte \<Rightarrow> proto_vote \<Rightarrow> string \<Rightarrow> proposal_context" where
  "ex_pending key ballot node = \<lparr>px_proposal = ex_create_proposal [ex_vote key ballot node],
     px_action = CIRCUIT_PROPOSAL_VOTE, px_signer_public_key = [key]\<rparr>"

lemma ex_proposed_core:
  "as_node_id ex_admin_proposed = ''a''" "as_key_registry ex_admin_proposed = ex_keys"
  "as_splinter_state ex_admin_proposed = splinter_state_new directory_new"
  "proposals_of (as_open_proposals ex_admin_proposed) = [''alpha'' \<mapsto> ex_create_proposal []]"
proof -
  let ?s = "admin_step ex_admin_env (ProposeChange (ex_payload 0 UNSET_VOTE)) ex_admin_start"
  let ?px = "\<lparr>px_proposal = ex_create_proposal [], px_action = CIRCUIT_CREATE_REQUEST, px_signer_public_key = [1]\<rparr>"
  have s: "as_pending_changes ?s = Some ?px" "as_node_id ?s = ''a''" "as_key_registry ?s = ex_keys"
    "as_splinter_state ?s = splinter_state_new directory_new" "as_open_proposals ?s = as_open_proposals ex_admin_start"
    by (simp_all add: ex_propose_create) (simp_all add: ex_admin_start_def)
  have "check_approved (px_proposal ?px) = ProposalIsPending"
    by (simp add: check_approved_def ex_create_proposal_def ex_circuit_def)
  from core_fields [OF commit_pending_core [OF s(1) this, of ex_admin_env]]
  have core: "as_node_id ex_admin_proposed = ''a''" "as_key_registry ex_admin_proposed = ex_keys"
    "as_splinter_state ex_admin_proposed = splinter_state_new directory_new"
    "as_open_proposals ex_admin_proposed =
       snd (add_proposal (ae_proposal_storage ex_admin_env) (ex_create_proposal []) (as_open_proposals ex_admin_start))"
    using s by (simp_all add: ex_admin_proposed_def)
  then show "as_node_id ex_admin_proposed = ''a''" "as_key_registry ex_admin_proposed = ex_keys"
    "as_splinter_state ex_admin_proposed = splinter_state_new directory_new" by simp_all
  from ex_from_proto obtain c where c: "Admin_Messages.proposal_from_proto (ex_create_proposal []) = Ok c" ..
  have "open_proposals_wf (as_open_proposals ex_admin_start)"
    using admin_reachable_wf [OF ex_admin_reachable(1)] by (simp add: admin_wf_iff)
  from proposals_of_add [OF this c] core(4)
  show "proposals_of (as_open_proposals ex_admin_proposed) = [''alpha'' \<mapsto> ex_create_proposal []]"
    by (simp add: ex_create_proposal_def ex_admin_start_def proposals_of_def bmap_get_def fun_eq_iff)
qed

lemma ex_propose_vote:
  assumes "(h, k, n) \<in> {(1, 2, ''b''), (2, 3, ''x'')}"
  shows "propose_change ex_admin_env (ex_payload h b) ex_admin_proposed =
     (Ok (''07'', ex_create_proposal [ex_vote k b n]), ex_admin_voted h b)"
    and "as_pending_changes (ex_admin_voted h b) = Some (ex_pending k b n)"
    and "as_node_id (ex_admin_voted h b) = ''a''" and "as_key_registry (ex_admin_voted h b) = ex_keys"
    and "as_splinter_state (ex_admin_voted h b) = splinter_state_new directory_new"
proof -
  have header: "parse_from_bytes (ae_header_c ex_admin_env) [h] = Ok (ex_header CIRCUIT_PROPOSAL_VOTE k n)" "n \<noteq> []"
    using assms ex_parse_header by auto
  have get: "admin_get_proposal ''alpha'' ex_admin_proposed = Ok (Some (ex_create_proposal []))"
    by (simp add: admin_get_proposal_def get_proposal_eq ex_proposed_core)
  have vote: "validate_circuit_vote (as_key_registry ex_admin_proposed) (ae_is_permitted ex_admin_env)
      \<lparr>pv_circuit_id = ''alpha'', pv_circuit_hash = ''07'', pv_ballot = b\<rparr> [k] (ex_create_proposal []) n = Ok ()"
    unfolding validate_circuit_vote_Ok_iff ex_proposed_core
    using assms by (auto simp: ex_get_key key_info_builder_def ex_env_fields ex_create_proposal_def)
  have "(ex_create_proposal [])\<lparr>pp_votes := pp_votes (ex_create_proposal []) @
      [\<lparr>pv_public_key = [k], pv_vote = b, pv_voter_node_id = n\<rparr>]\<rparr> = ex_create_proposal [ex_vote k b n]"
    by (simp add: ex_create_proposal_def ex_vote_def)
  then have change: "propose_change ex_admin_env (ex_payload h b) ex_admin_proposed =
     (Ok (''07'', ex_create_proposal [ex_vote k b n]), ex_admin_proposed\<lparr>as_pending_changes := Some (ex_pending k b n),
        as_current_consensus_verifiers := map (\<lambda>m. admin_service_id (pn_node_id m)) (pc_members ex_circuit)\<rparr>)"
    using header get vote
    by (simp add: propose_change_def ex_env_fields ex_payload_fields ex_payload_checks ex_header_fields ex_hash Let_def
        ex_pending_def) (simp add: ex_create_proposal_def)
  then show "propose_change ex_admin_env (ex_payload h b) ex_admin_proposed =
     (Ok (''07'', ex_create_proposal [ex_vote k b n]), ex_admin_voted h b)"
    and "as_pending_changes (ex_admin_voted h b) = Some (ex_pending k b n)"
    and "as_node_id (ex_admin_voted h b) = ''a''" and "as_key_registry (ex_admin_voted h b) = ex_keys"
    and "as_splinter_state (ex_admin_voted h b) = splinter_state_new directory_new"
    by (simp_all add: ex_admin_voted_def ex_proposed_core)
qed

lemma ex_pending_accepted:
  "b \<noteq> REJECT \<Longrightarrow> check_approved (px_proposal (ex_pending 2 b ''b'')) = ProposalIsAccepted"
  by (auto simp: check_approved_def ex_pending_def ex_create_proposal_def ex_vote_def ex_circuit_def)

lemma ex_commit_installs:
  assumes "b \<noteq> REJECT"
  shows "cd_circuits (circuit_dir (as_splinter_state (admin_step ex_admin_env Commit (ex_admin_voted 1 b)))) ''alpha'' \<noteq> None"
    and "cd_circuits (circuit_dir (as_splinter_state (ex_admin_voted 1 b))) ''alpha'' = None"
proof -
  let ?s = "ex_admin_voted 1 b"
  note s = ex_propose_vote(2-5) [of 1 2 "''b''" b, simplified]
  have c: "pp_circuit_proposal (px_proposal (ex_pending 2 b ''b'')) = ex_circuit"
    by (simp add: ex_pending_def ex_create_proposal_def)
  obtain nc st' where "update_splinter_state ex_admin_env ''a'' ex_circuit (as_splinter_state ?s) = (Ok (), st')"
    "cd_circuits (circuit_dir st') = (cd_circuits (circuit_dir (as_splinter_state ?s)))(pc_circuit_id ex_circuit \<mapsto> nc)"
    by (rule update_splinter_state_installs [OF ex_circuit_valid(1) ex_env_fields(2,3)])
  with commit_installs_core(2) [OF s(1) ex_pending_accepted [OF assms], of ex_admin_env st'] c s(2)
  show "cd_circuits (circuit_dir (as_splinter_state (admin_step ex_admin_env Commit ?s))) ''alpha'' \<noteq> None"
    by (simp add: ex_env_fields core_def ex_circuit_def)
  show "cd_circuits (circuit_dir (as_splinter_state ?s)) ''alpha'' = None"
    by (simp add: s splinter_state_new_def directory_new_def)
qed

theorem admin_invariant_witness:
  "admin_reachable ex_admin_proposed \<and>
   proposals_of (as_open_proposals ex_admin_proposed) ''alpha'' = Some (ex_create_proposal []) \<and>
   proposal_ok ''a'' ex_keys (ex_create_proposal []) \<and> check_approved (ex_create_proposal []) = ProposalIsPending"
  using admin_invariant [OF ex_admin_reachable(2)] ex_admin_reachable(2) by (simp add: ex_proposed_core)


theorem approved_circuit_is_installed_witness:
  "service_dir (as_splinter_state (snd (commit ex_admin_env (ex_admin_voted 1 ACCEPT)))) (''alpha'', ''s2'') =
     Some \<lparr>svc_service_id = ''s2'', svc_peer_id = None,
       svc_node = \<lparr>node_id_of = ''b'', node_endpoints = [''tcp://b'']\<rparr>\<rparr>"
proof -
  let ?px = "ex_pending 2 ACCEPT ''b''"
  let ?v = "\<lparr>ps_service_id = ''s2'', ps_service_type = ''t'', ps_allowed_nodes = [''b''], ps_arguments = []\<rparr>"
  let ?m = "\<lparr>pn_node_id = ''b'', pn_endpoint = ''tcp://b''\<rparr>"
  note s = ex_propose_vote(2,3) [of 1 2 "''b''" ACCEPT, simplified]
  have c: "pp_circuit_proposal (px_proposal ?px) = ex_circuit"
    by (simp add: ex_pending_def ex_create_proposal_def)
  have acc: "check_approved (px_proposal ?px) = ProposalIsAccepted" by (rule ex_pending_accepted) simp
  have vm: "?v \<in> set (pc_roster ex_circuit)" "?m \<in> set (pc_members ex_circuit)" "pc_circuit_id ex_circuit = ''alpha''"
    by (simp_all add: ex_circuit_def)
  have "\<forall>v m. v \<in> set (pc_roster ex_circuit) \<and> m \<in> set (pc_members ex_circuit) \<and> ps_allowed_nodes v = [pn_node_id m] \<and>
        pn_node_id m \<noteq> ''a'' \<longrightarrow>
      service_dir (as_splinter_state (snd (commit ex_admin_env (ex_admin_voted 1 ACCEPT)))) (''alpha'', ps_service_id v) =
        Some \<lparr>svc_service_id = ps_service_id v, svc_peer_id = None,
          svc_node = \<lparr>node_id_of = pn_node_id m, node_endpoints = [pn_endpoint m]\<rparr>\<rparr>"
    using approved_circuit_is_installed [OF ex_admin_reachable(3) s(1) acc ex_env_fields(2-4)]
    unfolding c s(2) vm(3) by blast
  from this [rule_format, of ?v ?m] vm(1,2) show ?thesis by simp
qed

theorem unset_vote_creates_circuit_witness:
  "(\<exists>e. fst (commit ex_admin_env (ex_admin_voted 1 UNSET_VOTE)) = Err (InvalidMessageFormat e)) \<and>
   cd_circuits (circuit_dir (as_splinter_state (snd (commit ex_admin_env (ex_admin_voted 1 UNSET_VOTE))))) ''alpha'' \<noteq> None"
proof -
  let ?px = "ex_pending 2 UNSET_VOTE ''b''"
  note s = ex_propose_vote(2) [of 1 2 "''b''" UNSET_VOTE, simplified]
  have p: "pp_votes (px_proposal ?px) = [ex_vote 2 UNSET_VOTE ''b'']" "pp_circuit_id (px_proposal ?px) = ''alpha''"
    "required_voters (px_proposal ?px) = {''b''}"
    by (auto simp: ex_pending_def ex_create_proposal_def required_voters_def ex_circuit_def)
  have v: "pv_vote (ex_vote 2 UNSET_VOTE ''b'') = UNSET_VOTE" "pv_voter_node_id (ex_vote 2 UNSET_VOTE ''b'') = ''b''"
    by (simp_all add: ex_vote_def)
  from unset_vote_creates_circuit [OF ex_admin_reachable(3) s, of "ex_vote 2 UNSET_VOTE ''b''", OF _ v(1) _ _ ex_env_fields(2-4)]
  show ?thesis by (simp add: p v)
qed

theorem outsider_vote_decides_witness:
  "fst (propose_change ex_admin_env (ex_payload 2 REJECT) ex_admin_proposed) =
     Ok (''07'', ex_create_proposal [ex_vote 3 REJECT ''x'']) \<and>
   check_approved (ex_create_proposal [ex_vote 3 REJECT ''x'']) = ProposalIsRejected"
proof -
  note c = ex_propose_vote(1) [of 2 3 "''x''" REJECT, simplified]
  have h: "parse_from_bytes (ae_header_c ex_admin_env) (mp_header (ex_payload 2 REJECT)) =
      Ok (ex_header CIRCUIT_PROPOSAL_VOTE 3 ''x'')"
    by (simp add: ex_payload_fields ex_parse_header)
  have "hd_requester_node_id (ex_header CIRCUIT_PROPOSAL_VOTE 3 ''x'') \<notin>
      pn_node_id ` set (pc_members (pp_circuit_proposal (ex_create_proposal [ex_vote 3 REJECT ''x''])))"
    by (simp add: ex_header_fields ex_create_proposal_def ex_circuit_def)
  from outsider_vote_decides [OF c h ex_header_fields(1) this] c show ?thesis by (simp add: ex_payload_fields)
qed

theorem verification_answers_are_ignored_witness:
  "fst (propose_change (ex_admin_env\<lparr>ae_verify := \<lambda>_ _ _. Ok False, ae_is_permitted := \<lambda>_ _. Ok False\<rparr>)
     (ex_payload 0 UNSET_VOTE) ex_admin_start) = Ok (''07'', ex_create_proposal [])"
proof -
  have "map_result (\<lambda>_. ()) (Ok False :: (bool, string) result) = map_result (\<lambda>_. ()) (ae_verify ex_admin_env h sg k)"
    "map_result (\<lambda>_. ()) (Ok False :: (bool, string) result) = map_result (\<lambda>_. ()) (ae_is_permitted ex_admin_env k r)" for h sg k r
    by (simp_all add: ex_admin_env_def)
  from verification_answers_are_ignored [where verify = "\<lambda>_ _ _. Ok False" and permitted = "\<lambda>_ _. Ok False"
      and payload = "ex_payload 0 UNSET_VOTE" and s = ex_admin_start, OF this]
  show ?thesis by (simp add: ex_propose_create)
qed

definition ex_admin_waiting :: "nat admin_shared" where
  "ex_admin_waiting = ex_admin_start\<lparr>as_uninitialized_circuits :=
     [''alpha'' \<mapsto> \<lparr>uc_circuit = Some (ex_create_proposal []), uc_ready_members = {''a''}\<rparr>]\<rparr>"

theorem services_start_when_all_ready_witness:
  "\<exists>s'. add_ready_member ex_admin_env ''alpha'' ''b'' ex_admin_waiting = (Ok (), s') \<and>
     set (as_running_services s') = {\<lparr>od_circuit = ''alpha'', od_service_id = ''s1'', od_service_type = ''t''\<rparr>}"
proof -
  have u: "as_uninitialized_circuits ex_admin_waiting ''alpha'' =
      Some \<lparr>uc_circuit = Some (ex_create_proposal []), uc_ready_members = {''a''}\<rparr>"
    by (simp add: ex_admin_waiting_def)
  have p: "pp_circuit_proposal (ex_create_proposal []) = ex_circuit" by (simp add: ex_create_proposal_def)
  from ex_from_proto obtain c where c: "Admin_Messages.proposal_from_proto (ex_create_proposal []) = Ok c" ..
  have event: "\<exists>s1. send_event ex_admin_env t e s = (Ok (), s1)" if "bt_inner (as_event_mailbox s) = []"
    "bt_bound (as_event_mailbox s) = DEFAULT_IN_MEMORY_EVENT_LIMIT" for t e and s :: "nat admin_shared"
    using that by (simp add: send_event_def mailbox_add_def btree_add_def DEFAULT_IN_MEMORY_EVENT_LIMIT_def Let_def)
  define s1 where "s1 = (mark_ready ''alpha'' ''b'' ex_admin_waiting)\<lparr>as_uninitialized_circuits :=
      (as_uninitialized_circuits (mark_ready ''alpha'' ''b'' ex_admin_waiting))(''alpha'' := None)\<rparr>"
  let ?v = "\<lparr>ps_service_id = ''s1'', ps_service_type = ''t'', ps_allowed_nodes = [''a''], ps_arguments = []\<rparr>"
  have s1: "as_node_id s1 = ''a''" "as_orchestrator s1 = ex_orchestrator\<lparr>or_services := []\<rparr>"
    "bt_inner (as_event_mailbox s1) = []" "bt_bound (as_event_mailbox s1) = DEFAULT_IN_MEMORY_EVENT_LIMIT"
    by (simp_all add: s1_def mark_ready_def ex_admin_waiting_def ex_admin_start_def btree_new_with_bound_def)
  have here: "filter (\<lambda>v. runs_here s1 (ps_service_type v) (ps_allowed_nodes v)) (pc_roster ex_circuit) = [?v]"
    by (simp add: runs_here_def s1 supported_service_types_def ex_orchestrator_def ex_circuit_def)
  obtain orch where "initialize_service \<lparr>od_circuit = ''alpha'', od_service_id = ''s1'', od_service_type = ''t''\<rparr> []
      (ex_orchestrator\<lparr>or_services := []\<rparr>) = (Ok (), orch)"
    by (simp add: initialize_service_def ex_orchestrator_def ex_service_def)
  then obtain s2 where s2: "initialize_services ex_circuit s1 = (Ok (), s2)"
    "as_event_mailbox s2 = as_event_mailbox s1"
    unfolding initialize_services_def here
    by (simp add: start_service_def on_part_def s1 bind_act_def rust_simps ex_circuit_def)
  from event [of s2] s2(2) s1(3,4) obtain s3 where
    "send_event ex_admin_env (pc_circuit_management_type ex_circuit) (CircuitReady c) s2 = (Ok (), s3)" by auto
  with s2(1) c have "bind_act (initialize_services ex_circuit) (\<lambda>_.
      bind_act (lift_act (\<lambda>_. map_err InvalidMessageFormat (Admin_Messages.proposal_from_proto (ex_create_proposal []))))
        (\<lambda>cp. send_event ex_admin_env (pc_circuit_management_type ex_circuit) (CircuitReady cp))) s1 = (Ok (), s3)"
    by (simp add: lift_act_def bind_act_def)
  moreover have "as_uninitialized_circuits (mark_ready ''alpha'' ''b'' ex_admin_waiting) ''alpha'' =
      Some \<lparr>uc_circuit = Some (ex_create_proposal []), uc_ready_members = {''b'', ''a''}\<rparr>"
    by (simp add: mark_ready_def u)
  moreover have "pn_node_id ` set (pc_members ex_circuit) = {''a'', ''b''}" by (simp add: ex_circuit_def)
  ultimately have "\<exists>s'. add_ready_member ex_admin_env ''alpha'' ''b'' ex_admin_waiting = (Ok (), s')"
    by (simp add: add_ready_member_def initialize_services_if_members_ready_def modify_act_def p
        bind_act_def [of "modify_act _"] s1_def)
  then obtain s' where s': "add_ready_member ex_admin_env ''alpha'' ''b'' ex_admin_waiting = (Ok (), s')" ..
  have w: "as_node_id ex_admin_waiting = ''a''" "as_running_services ex_admin_waiting = []"
    "set (supported_service_types (as_orchestrator ex_admin_waiting)) = {''t''}"
    by (simp_all add: ex_admin_waiting_def ex_admin_start_def supported_service_types_def ex_orchestrator_def)
  have "set (as_running_services s') = (\<lambda>v. \<lparr>od_circuit = pc_circuit_id ex_circuit, od_service_id = ps_service_id v,
      od_service_type = ps_service_type v\<rparr>) `
        {v \<in> set (pc_roster ex_circuit). ''a'' \<in> set (ps_allowed_nodes v) \<and> ps_service_type v \<in> {''t''}}"
    using services_start_when_all_ready [OF s' u, of "ex_create_proposal []"] unfolding p w
    by (simp add: ex_circuit_def)
  moreover have "{v \<in> set (pc_roster ex_circuit). ''a'' \<in> set (ps_allowed_nodes v) \<and> ps_service_type v \<in> {''t''}} =
      set (filter (\<lambda>v. ''a'' \<in> set (ps_allowed_nodes v) \<and> ps_service_type v \<in> {''t''}) (pc_roster ex_circuit))"
    by simp
  moreover have "filter (\<lambda>v. ''a'' \<in> set (ps_allowed_nodes v) \<and> ps_service_type v \<in> {''t''}) (pc_roster ex_circuit) = [?v]"
    "pc_circuit_id ex_circuit = ''alpha''"
    by (simp_all add: ex_circuit_def)
  ultimately have "set (as_running_services s') = {\<lparr>od_circuit = ''alpha'', od_service_id = ''s1'', od_service_type = ''t''\<rparr>}"
    by (simp only:) simp
  with s' show ?thesis by blast
qed

theorem payloads_released_when_authorized_witness:
  "as_pending_circuit_payloads (on_authorization_change ''b'' PeerAuthorized
     (ex_admin_start\<lparr>as_unpeered_payloads := [([''b''], ex_payload 0 UNSET_VOTE)]\<rparr>)) = [ex_payload 0 UNSET_VOTE]"
proof -
  let ?s = "ex_admin_start\<lparr>as_unpeered_payloads := [([''b''], ex_payload 0 UNSET_VOTE)]\<rparr>"
  have "as_unpeered_payloads (fold (\<lambda>p. on_authorization_change p PeerAuthorized) [''b''] ?s) = [] \<and>
    (\<exists>released. as_pending_circuit_payloads (fold (\<lambda>p. on_authorization_change p PeerAuthorized) [''b''] ?s) =
       as_pending_circuit_payloads ?s @ released \<and> mset released = mset (map snd (as_unpeered_payloads ?s)))"
    by (rule payloads_released_when_authorized) simp
  moreover have "as_pending_circuit_payloads ?s = []" by (simp add: ex_admin_start_def)
  ultimately obtain released where
    "as_pending_circuit_payloads (on_authorization_change ''b'' PeerAuthorized ?s) = released"
    "mset released = {#ex_payload 0 UNSET_VOTE#}" by auto
  then show ?thesis by (metis mset_single_iff)
qed

end
