(* ===== verification/Admin_Node_Properties.thy ===== *)
theory Admin_Node_Properties
  imports Admin_Node Admin_Properties
begin

text \<open>
  The properties of the admin service as a whole: what a node commits when consensus accepts a proposal, when
  two nodes commit the same, how a proposal travels from one node to another, and what starting the service
  restores.
\<close>

section \<open>What is committed\<close>

lemma propose_change_pending:
  "propose_change env payload s = (Ok (h, p), s') \<Longrightarrow> \<exists>px. as_pending_changes s' = Some px \<and> px_proposal px = p"
  by (erule propose_change_cases) simp_all

text \<open>C4. 
  Consensus and the service agree on what is committed: when the engine of a node has a proposal accepted, the
  change that the service holds ready, if it holds one, is the change that a payload with the id of this
  proposal proposes in the current state.
\<close>

theorem accepted_change_is_the_proposed_one:
  assumes "node_reachable w nd" and "sv_consensus (nd_service nd) = Some c"
    and "node_iteration w k (manager_of (nd_service nd) c) (nd_engine nd) = (s', es @ AcceptProposal i d # es')"
    and "as_pending_changes (pm_shared (perform_all w es (manager_of (nd_service nd) c))) = Some px"
  shows "\<exists>payload h s1. payload_id (nw_admin w) payload = Ok i \<and>
    propose_change (nw_admin w) payload (pm_shared (perform_all w es (manager_of (nd_service nd) c))) =
      (Ok (h, px_proposal px), s1) \<and> as_pending_changes s1 = Some px"
proof -
  let ?s = "pm_shared (perform_all w es (manager_of (nd_service nd) c))"
  have "good (nw_admin w) i ?s"
    by (rule am.client_accepts_ready [OF node_ok_manager [OF node_reachable_ok [OF assms(1)]]
          assms(3) [unfolded node_iteration_def]])
  with assms(4) obtain payload where p: "payload_id (nw_admin w) payload = Ok i" "change (nw_admin w) payload ?s = Some px"
    by (auto simp: good_def)
  obtain h q s1 where c: "propose_change (nw_admin w) payload ?s = (Ok (h, q), s1)" "as_pending_changes s1 = Some px"
    using p(2) by (auto simp: change_def split: prod.splits result.splits)
  from propose_change_pending [OF c(1)] c p(1) show ?thesis by auto
qed

text \<open>C13. 
  A rejection of one proposal discards the change of another. While a node evaluates proposal \<open>i\<close>, the result
  \<open>REJECT\<close> for a proposal \<open>j\<close> that the node has received makes the proposal manager drop the only pending
  change. When \<open>i\<close> is then accepted, the node commits nothing, reports the failure to its engine, which ignores
  it, and goes on as if the proposal had been applied.
\<close>

theorem foreign_rejection_loses_accepted_proposal:
  fixes m :: "'s proposal_manager" and w :: node_world
  assumes "filing (pm_shared m) i = Some (new, payload)" and "prop_id new = i"
    and "filing (pm_shared m) j \<noteq> None" and "i \<noteq> j" and "chan_open (pm_updates m)"
    and "engine_state s = EvaluatingProposal t" and "tpp_id t = i"
  defines "env \<equiv> node_env w (length (calls s)) m"
  defines "s1 \<equiv> snd (handle_proposal_result env j REJECT s)"
  defines "s2 \<equiv> snd (handle_proposal_result env i APPLY s1)"
  defines "m2 \<equiv> perform_all w (map fst (drop (length (calls s)) (calls s2))) m"
  shows "calls s2 = calls s @ [(RejectProposal j, True), (AcceptProposal i None, True)] \<and> engine_state s2 = Idle \<and>
    as_open_proposals (pm_shared m2) = as_open_proposals (pm_shared m) \<and>
    as_splinter_state (pm_shared m2) = as_splinter_state (pm_shared m) \<and>
    chan_queue (pm_updates m2) = chan_queue (pm_updates m) @
      [ProposalAcceptFailed i ''failed to commit proposal: tried to commit without pending changes'']"
proof -
  define m1 where "m1 = m\<lparr>pm_shared := (pm_shared m)\<lparr>as_pending_consensus_proposals := (filing (pm_shared m))(j := None),
    as_pending_changes := None\<rparr>\<rparr>"
  have r: "reject_proposal j m = (Ok (), m1)"
    using assms(3) by (auto simp: reject_proposal_def remove_pending_consensus_proposals_def on_shared_def on_part_def
        rollback_def modify_act_def m1_def)
  have a: "accept_proposal (nw_admin w) i None m1 = (Ok (), m1\<lparr>pm_updates := (pm_updates m)\<lparr>chan_queue :=
      chan_queue (pm_updates m) @ [ProposalAcceptFailed i
        ''failed to commit proposal: tried to commit without pending changes'']\<rparr>\<rparr>)"
    using assms(1,2,4,5)
    by (simp add: accept_proposal_def m1_def commit_def send_proposal_update_def on_part_def chan_send_def)
  have s1: "s1 = s\<lparr>calls := calls s @ [(RejectProposal j, True)]\<rparr>"
    using assms(4,6,7) r
    by (simp add: s1_def handle_proposal_result_def env_def call_pm_def bind_act_def manager_reply_def
        modify_act_def evaluating_proposal_def)
  have s2: "s2 = s\<lparr>calls := calls s @ [(RejectProposal j, True), (AcceptProposal i None, True)], engine_state := Idle\<rparr>"
    using assms(6,7) a r
    by (simp add: s2_def s1 handle_proposal_result_def env_def call_pm_def bind_act_def manager_reply_def
        modify_act_def evaluating_proposal_def perform_def pure_act_def)
  have "m2 = snd (accept_proposal (nw_admin w) i None m1)"
    using r by (simp add: m2_def s2 perform_def pure_act_def)
  with s2 a show ?thesis by (simp add: m1_def)
qed

lemma check_proposal_valid:
  assumes "check_proposal env i m = (Ok (), m')" and "filing (pm_shared m) i = Some (new, payload)"
    and "ProposalValid i \<in> set (chan_queue (pm_updates m'))" "ProposalValid i \<notin> set (chan_queue (pm_updates m))"
  obtains px h b where "as_pending_changes (pm_shared m') = Some px" "as_bytes (to_hex h) = summary new"
    "write_to_bytes (ae_proposal_c env) (px_proposal px) = Ok b" "ae_hash env b = Ok h"
proof -
  from assms obtain hash p s1 where c: "propose_change env payload (pm_shared m) = (Ok (hash, p), s1)"
    "pm_shared m' = s1" "as_bytes hash = summary new"
    by (cases "propose_change env payload (pm_shared m)")
      (auto simp: check_proposal_def bind_act_Ok_iff on_shared_def on_part_def rust_simps case_prod_beta
        send_proposal_update_def chan_send_def split: prod.splits if_splits)
  from c(1) have "sha256 (ae_hash env) (ae_proposal_c env) p = Ok hash" by (rule propose_change_cases)
  then obtain b h where "write_to_bytes (ae_proposal_c env) p = Ok b" "ae_hash env b = Ok h" "hash = to_hex h"
    by (auto simp: sha256_def rust_simps)
  with that propose_change_pending [OF c(1)] c(2,3) show thesis by metis
qed


section \<open>From one node to another\<close>

lemma send_to_service_Ok:
  assumes "on_shared err (send_to_service env ns rcpt bs) m = (Ok (), m')"
  obtains raw where
    "encode_direct (ae_net_codecs env) ns (direct_message_from ns (sender_circuit ns) rcpt bs '''') = Ok raw"
    "chan_queue (sn_out (as_net (pm_shared m'))) = chan_queue (sn_out (as_net (pm_shared m))) @ [raw]"
    "pm_updates m' = pm_updates m" "filing (pm_shared m') = filing (pm_shared m)"
  using assms
  by (auto simp: on_shared_def send_to_service_def on_part_def sender_send_def bind_act_Ok_iff send_bytes_def chan_send_def
      rust_simps Let_def split: prod.splits if_splits)

lemma sends_reach_all:
  assumes "for_act ns (\<lambda>n. on_shared err (send_to_service env sender (rcpt n) bs)) m = (Ok (), m')"
  shows "(pm_updates m' = pm_updates m \<and> filing (pm_shared m') = filing (pm_shared m)) \<and>
    (\<forall>n \<in> set ns. \<exists>raw. encode_direct (ae_net_codecs env) sender
        (direct_message_from sender (sender_circuit sender) (rcpt n) bs '''') = Ok raw \<and>
      raw \<in> set (chan_queue (sn_out (as_net (pm_shared m')))))"
  by (rule for_act_establishes [OF assms]) (auto elim!: send_to_service_Ok)

text \<open>What a call that creates a proposal has done, when it has not found the queue of payloads empty.\<close>

lemma create_proposal_Ok:
  assumes "create_proposal cs env prev data m = (Ok (), m')" and "as_pending_circuit_payloads (pm_shared m) = payload # ps"
  obtains ns h p s1 i vs bs m1 m2 where "as_network_sender (pm_shared m) = Some ns"
    "propose_change env payload ((pm_shared m)\<lparr>as_pending_circuit_payloads := ps\<rparr>) = (Ok (h, p), s1)"
    "payload_id env payload = Ok i" "write_to_bytes (cc_verifiers cs) (member_verifiers (pc_members (pp_circuit_proposal p))) = Ok vs"
    "write_to_bytes (ae_message_c env) (AdminProposedCircuit \<lparr>prc_circuit_payload = payload,
       prc_expected_hash = as_bytes h, prc_required_verifiers = vs\<rparr>) = Ok bs"
    "m1 = m\<lparr>pm_shared := add_pending_consensus_proposal i
       (proposal_default\<lparr>prop_id := i, summary := as_bytes h, consensus_data := vs\<rparr>, payload) s1\<rparr>"
    "for_act (filter (\<lambda>n. pn_node_id n \<noteq> as_node_id (pm_shared m)) (pc_members (pp_circuit_proposal p)))
       (\<lambda>n. on_shared (\<lambda>_. ManagerPanic) (send_to_service env ns (admin_service_id (pn_node_id n)) bs)) m1 = (Ok (), m2)"
    "send_proposal_update (ProposalCreated (Some (proposal_default\<lparr>prop_id := i, summary := as_bytes h,
       consensus_data := vs\<rparr>))) m2 = (Ok (), m')"
proof -
  from assms(1) obtain ns where ns: "as_network_sender (pm_shared m) = Some ns"
    by (auto simp: create_proposal_def split: option.splits)
  let ?s = "(pm_shared m)\<lparr>as_pending_circuit_payloads := ps\<rparr>"
  have pop: "pop_pending_circuit_payload (pm_shared m) = (Some payload, ?s)"
    using assms(2) by (simp add: pop_pending_circuit_payload_def)
  obtain h p s1 where c: "propose_change env payload ?s = (Ok (h, p), s1)"
    using assms(1) by (cases "propose_change env payload ?s")
      (auto simp: create_proposal_def ns pop bind_act_Ok_iff on_shared_def on_part_def rust_simps)
  from assms(1) ns c that [OF ns c] show thesis
    by (auto simp: create_proposal_def pop bind_act_Ok_iff on_shared_def on_part_def lift_act_def modify_act_def
        rust_simps Let_def)
qed

lemma handle_proposed_circuit:
  fixes h :: string
  defines "new i vs \<equiv> proposal_default\<lparr>prop_id := i, summary := as_bytes h, consensus_data := vs\<rparr>"
  assumes "round_trip (ae_message_c env)"
    and "write_to_bytes (ae_message_c env) (AdminProposedCircuit \<lparr>prc_circuit_payload = payload,
       prc_expected_hash = as_bytes h, prc_required_verifiers = vs\<rparr>) = Ok bs"
    and "payload_id env payload = Ok i" and "sv_consensus v = Some c \<and> chan_open (acm_updates c)"
  shows "\<exists>v' c'. admin_handle_message cs env bs ctx v = (Ok (), v') \<and> sv_consensus v' = Some c' \<and>
      filing (sv_shared v') (prop_id (new i vs)) = Some (new i vs, payload) \<and>
      chan_queue (acm_updates c') = chan_queue (acm_updates c) @ [ProposalReceived (new i vs) (PeerId (as_bytes (ctx_sender ctx)))]"
  using assms(4,5) round_tripD [OF assms(2,3)]
  by (simp add: admin_handle_message_def bind_act_def rust_simps with_consensus_def send_update_def on_part_def
      chan_send_def add_pending_consensus_proposal_def Let_def new_def)

text \<open>C11. 
  A proposal reaches the members as it was made: the node that creates it files it with its payload, tells its
  engine, and puts one message into the network for every other member; a member that gets the message files
  the same proposal with the same payload and hands it to its engine, with the sender of the message.
\<close>

theorem proposal_reaches_members:
  assumes "create_proposal cs env prev data m = (Ok (), m')"
    and "as_pending_circuit_payloads (pm_shared m) = payload # ps" and "round_trip (ae_message_c env)"
  shows "\<exists>ns h p s1 new bs. as_network_sender (pm_shared m) = Some ns \<and>
    propose_change env payload ((pm_shared m)\<lparr>as_pending_circuit_payloads := ps\<rparr>) = (Ok (h, p), s1) \<and>
    filing (pm_shared m') (prop_id new) = Some (new, payload) \<and>
    chan_queue (pm_updates m') = chan_queue (pm_updates m) @ [ProposalCreated (Some new)] \<and>
    (\<forall>n \<in> set (pc_members (pp_circuit_proposal p)). pn_node_id n \<noteq> as_node_id (pm_shared m) \<longrightarrow>
       (\<exists>raw. encode_direct (ae_net_codecs env) ns (direct_message_from ns (sender_circuit ns)
            (admin_service_id (pn_node_id n)) bs '''') = Ok raw \<and>
          raw \<in> set (chan_queue (sn_out (as_net (pm_shared m')))))) \<and>
    (\<forall>ctx v c. sv_consensus v = Some c \<and> chan_open (acm_updates c) \<longrightarrow>
       (\<exists>v' c'. admin_handle_message cs env bs ctx v = (Ok (), v') \<and> sv_consensus v' = Some c' \<and>
          filing (sv_shared v') (prop_id new) = Some (new, payload) \<and>
          chan_queue (acm_updates c') = chan_queue (acm_updates c) @
            [ProposalReceived new (PeerId (as_bytes (ctx_sender ctx)))]))"
proof -
  obtain ns h p s1 i vs bs m1 m2 where c: "as_network_sender (pm_shared m) = Some ns"
    "propose_change env payload ((pm_shared m)\<lparr>as_pending_circuit_payloads := ps\<rparr>) = (Ok (h, p), s1)"
    "payload_id env payload = Ok i"
    and bs: "write_to_bytes (ae_message_c env) (AdminProposedCircuit \<lparr>prc_circuit_payload = payload,
       prc_expected_hash = as_bytes h, prc_required_verifiers = vs\<rparr>) = Ok bs"
    and m1: "m1 = m\<lparr>pm_shared := add_pending_consensus_proposal i
       (proposal_default\<lparr>prop_id := i, summary := as_bytes h, consensus_data := vs\<rparr>, payload) s1\<rparr>"
    and sends: "for_act (filter (\<lambda>n. pn_node_id n \<noteq> as_node_id (pm_shared m)) (pc_members (pp_circuit_proposal p)))
       (\<lambda>n. on_shared (\<lambda>_. ManagerPanic) (send_to_service env ns (admin_service_id (pn_node_id n)) bs)) m1 = (Ok (), m2)"
    and upd: "send_proposal_update (ProposalCreated (Some (proposal_default\<lparr>prop_id := i, summary := as_bytes h,
       consensus_data := vs\<rparr>))) m2 = (Ok (), m')"
    by (rule create_proposal_Ok [OF assms(1,2)])
  let ?new = "proposal_default\<lparr>prop_id := i, summary := as_bytes h, consensus_data := vs\<rparr>"
  have m': "pm_shared m' = pm_shared m2" "chan_queue (pm_updates m') = chan_queue (pm_updates m2) @ [ProposalCreated (Some ?new)]"
    using upd by (auto simp: send_proposal_update_def on_part_def chan_send_def split: if_splits)
  note r = sends_reach_all [OF sends]
  have filed: "filing (pm_shared m') (prop_id ?new) = Some (?new, payload)"
    "chan_queue (pm_updates m') = chan_queue (pm_updates m) @ [ProposalCreated (Some ?new)]"
    using r m' by (simp_all add: m1 add_pending_consensus_proposal_def)
  have sent: "\<forall>n \<in> set (pc_members (pp_circuit_proposal p)). pn_node_id n \<noteq> as_node_id (pm_shared m) \<longrightarrow>
       (\<exists>raw. encode_direct (ae_net_codecs env) ns (direct_message_from ns (sender_circuit ns)
            (admin_service_id (pn_node_id n)) bs '''') = Ok raw \<and>
          raw \<in> set (chan_queue (sn_out (as_net (pm_shared m')))))"
    using r m'(1) by simp
  show ?thesis
    by (rule exI [of _ ns], rule exI [of _ h], rule exI [of _ p], rule exI [of _ s1], rule exI [of _ ?new], rule exI [of _ bs],
        intro conjI c(1,2) filed sent allI impI, rule handle_proposed_circuit [OF assms(3) bs c(3)])
qed

section \<open>Starting the service\<close>

text \<open>What a restart leaves alone in the state.\<close>

definition same_node :: "'s admin_shared \<Rightarrow> 's admin_shared \<Rightarrow> bool" where
  "same_node s0 s \<longleftrightarrow> as_node_id s = as_node_id s0 \<and> as_network_sender s = as_network_sender s0 \<and>
     supported_service_types (as_orchestrator s) = supported_service_types (as_orchestrator s0)"

lemma restart_starts_services:
  fixes s :: "'s admin_shared"
  assumes "restart_services circuits args s = (Ok (), s')"
  shows "same_node s s' \<and> (\<forall>(name, c) \<in> set circuits. \<forall>d \<in> set (roster_to_vec (circuit_roster c)).
    runs_here s (sd_service_type d) (sd_allowed_nodes d) \<longrightarrow>
    \<lparr>od_circuit = name, od_service_id = sd_service_id d, od_service_type = sd_service_type d\<rparr> \<in> set (as_running_services s'))"
proof -
  let ?def = "\<lambda>name d. \<lparr>od_circuit = name, od_service_id = sd_service_id d, od_service_type = sd_service_type d\<rparr>"
  let ?here = "\<lambda>s c. filter (\<lambda>d. runs_here s (sd_service_type d) (sd_allowed_nodes d)) (roster_to_vec (circuit_roster c))"
  let ?Q = "\<lambda>nc s1. ?def (fst nc) ` set (?here s (snd nc)) \<subseteq> set (as_running_services s1)"
  have runs: "?here s1 c = ?here s c" if "same_node s s1" for s1 c
    using that by (simp add: same_node_def runs_here_def)
  have body: "same_node s2 s3 \<and> set (as_running_services s3) = set (as_running_services s2) \<union> ?def name ` set (?here s2 c)"
    if "for_act (?here s2 c) (\<lambda>d. start_service (?def name d) (args (sd_arguments d))) s2 = (Ok (), s3)" for s2 s3 :: "'s admin_shared" and name c
    using start_services_definitions [OF that] by (simp add: same_node_def)
  have trans: "same_node s s3" if "same_node s s2" "same_node s2 s3" for s2 s3
    using that by (simp add: same_node_def)
  have "same_node s s' \<and> (\<forall>nc \<in> set circuits. ?Q nc s')"
  proof (rule for_act_establishes [OF assms [unfolded restart_services_def]])
    show "same_node s s" by (simp add: same_node_def)
  next
    fix nc and s2 s3 :: "'s admin_shared"
    assume b: "(case nc of (name, c) \<Rightarrow> \<lambda>s. for_act (?here s c)
        (\<lambda>d. start_service (?def name d) (args (sd_arguments d))) s) s2 = (Ok (), s3)"
    obtain name c where nc: "nc = (name, c)" by (cases nc)
    note * = body [OF b [unfolded nc prod.case]]
    show "same_node s s3" if "same_node s s2" using trans that * by blast
    show "?Q nc s3" if "same_node s s2" using * [unfolded runs [OF that]] by (simp add: nc)
    show "?Q nd s3" if "?Q nd s2" for nd using * that by blast
  qed
  then show ?thesis by (fastforce simp: image_subset_iff)
qed

lemma add_remote_service_Ok:
  assumes "add_remote_service n name rebuild d st = (Ok (), st')"
  shows "n \<notin> set (sd_allowed_nodes d) \<Longrightarrow> service_dir st' (name, sd_service_id d) \<noteq> None"
    and "service_dir st key \<noteq> None \<Longrightarrow> service_dir st' key \<noteq> None"
  using assms
  by (auto simp: add_remote_service_def state_add_service_def split: if_splits list.splits option.splits)

lemma directory_gets_services:
  assumes "add_services_to_directory circuits n st = (Ok (), st')"
  shows "\<forall>(name, c) \<in> set circuits. \<forall>d \<in> set (roster_to_vec (circuit_roster c)).
    n \<notin> set (sd_allowed_nodes d) \<longrightarrow> service_dir st' (name, sd_service_id d) \<noteq> None"
proof -
  have inner: "(\<forall>d \<in> set ds. n \<notin> set (sd_allowed_nodes d) \<longrightarrow> service_dir st1 (name, sd_service_id d) \<noteq> None) \<and>
      (\<forall>key. service_dir st key \<noteq> None \<longrightarrow> service_dir st1 key \<noteq> None)"
    if "for_act ds (add_remote_service n name rebuild) st = (Ok (), st1)" for ds name rebuild st st1
    using for_act_establishes [OF that, where I = "\<lambda>st1. \<forall>key. service_dir st key \<noteq> None \<longrightarrow> service_dir st1 key \<noteq> None"
        and Q = "\<lambda>d st1. n \<notin> set (sd_allowed_nodes d) \<longrightarrow> service_dir st1 (name, sd_service_id d) \<noteq> None"]
      add_remote_service_Ok by blast
  show ?thesis
    using for_act_establishes [OF assms [unfolded add_services_to_directory_def], where I = "\<lambda>_. True"
        and Q = "\<lambda>(name, c) st1. \<forall>d \<in> set (roster_to_vec (circuit_roster c)).
          n \<notin> set (sd_allowed_nodes d) \<longrightarrow> service_dir st1 (name, sd_service_id d) \<noteq> None"] inner
    by (fastforce split: prod.splits)
qed


section \<open>Concrete instances\<close>

text \<open>Node \<open>a\<close> proposes the circuit \<open>alpha\<close> and coordinates the proposal; node \<open>b\<close> takes part.\<close>

definition ex_id :: proposal_id where
  "ex_id = ProposalId (as_bytes ''07'')"

definition ex_proposed_circuit :: proposed_circuit where
  "ex_proposed_circuit = \<lparr>prc_circuit_payload = ex_payload 0 UNSET_VOTE, prc_expected_hash = as_bytes ''00'',
     prc_required_verifiers = [0]\<rparr>"

definition ex_admin_net :: net_codecs where
  "ex_admin_net = ex_net_codecs\<lparr>
     nc_circuit := (nc_circuit ex_net_codecs)\<lparr>circuit_message_c := table_codec
       [\<lparr>cmsg_type = ADMIN_DIRECT_MESSAGE, cmsg_payload = [0]\<rparr>]\<rparr>,
     nc_requests := (nc_requests ex_net_codecs)\<lparr>admin_message_codec := table_codec
       [direct_message_from (AdminSender ''admin::a'') ''admin'' ''admin::b'' [0] '''']\<rparr>\<rparr>"

definition ex_node_admin :: admin_env where
  "ex_node_admin = ex_admin_env\<lparr>ae_proposal_c := table_codec [ex_create_proposal []],
     ae_message_c := table_codec [AdminProposedCircuit ex_proposed_circuit], ae_net_codecs := ex_admin_net\<rparr>"

definition ex_consensus_codecs :: consensus_codecs where
  "ex_consensus_codecs = \<lparr>cc_verifiers = table_codec [\<lparr>verifiers_field = [as_bytes ''admin::a'', as_bytes ''admin::b'']\<rparr>],
     cc_message = ex_const_codec\<rparr>"

definition ex_world :: node_world where
  "ex_world = \<lparr>nw_codecs = ex_consensus_codecs, nw_admin = ex_node_admin,
     nw_wire = table_codec [request_msg ex_id, result_msg ex_id APPLY], nw_service_id = ''admin::b''\<rparr>"

definition ex_received :: proposal where
  "ex_received = proposal_default\<lparr>prop_id := ex_id, summary := as_bytes ''00'', consensus_data := [0]\<rparr>"

definition ex_started :: "string \<Rightarrow> nat admin_shared" where
  "ex_started n = ex_admin_start\<lparr>as_node_id := n, as_network_sender := Some (AdminSender (''admin::'' @ n))\<rparr>"

definition ex_filed :: "string \<Rightarrow> nat admin_shared" where
  "ex_filed n = (ex_started n)\<lparr>as_pending_consensus_proposals := [ex_id \<mapsto> (ex_received, ex_payload 0 UNSET_VOTE)]\<rparr>"

definition ex_px :: proposal_context where
  "ex_px = \<lparr>px_proposal = ex_create_proposal [], px_action = CIRCUIT_CREATE_REQUEST, px_signer_public_key = [1]\<rparr>"

definition ex_checked :: "string \<Rightarrow> nat admin_shared" where
  "ex_checked n = (ex_filed n)\<lparr>as_pending_changes := Some ex_px,
     as_current_consensus_verifiers := [''admin::a'', ''admin::b'']\<rparr>"

abbreviation ex_channel :: "'m list \<Rightarrow> 'm channel" where
  "ex_channel ms \<equiv> \<lparr>chan_open = True, chan_queue = ms\<rparr>"

lemma ex_payload_id: "payload_id ex_node_admin (ex_payload h b) = Ok ex_id"
proof -
  have "to_hex [7] = ''07''" by code_simp
  then show ?thesis
    by (simp add: payload_id_def sha256_def ex_node_admin_def ex_admin_env_def ex_const_codec_def ex_id_def)
qed

lemma ex_propose_at:
  assumes "n = ''a'' \<or> n = ''b''" and "as_key_registry s = ex_keys" "as_open_proposals s = \<lparr>op_registry = [], op_stored = []\<rparr>"
    "as_splinter_state s = splinter_state_new directory_new" "as_node_id s = n"
  shows "propose_change ex_node_admin (ex_payload 0 b) s = (Ok (''00'', ex_create_proposal []),
    s\<lparr>as_pending_changes := Some ex_px, as_current_consensus_verifiers := [''admin::a'', ''admin::b'']\<rparr>)"
proof -
  have "to_hex [0] = ''00''" by code_simp
  then have "sha256 (ae_hash ex_admin_env) (table_codec [ex_create_proposal []]) (ex_create_proposal []) = Ok ''00''"
    by (simp add: sha256_def table_codec_def ex_admin_env_def)
  from ex_propose_create_at [OF assms(2-4) _ this] assms(1,5) show ?thesis by (simp add: ex_node_admin_def ex_px_def)
qed

lemma ex_check:
  assumes "n = ''a'' \<or> n = ''b''"
  shows "check_proposal ex_node_admin ex_id \<lparr>pm_updates = ex_channel us, pm_shared = ex_filed n\<rparr> =
    (Ok (), \<lparr>pm_updates = ex_channel (us @ [ProposalValid ex_id]), pm_shared = ex_checked n\<rparr>)"
proof -
  have "propose_change ex_node_admin (ex_payload 0 UNSET_VOTE) (ex_filed n) = (Ok (''00'', ex_create_proposal []), ex_checked n)"
    using assms by (subst ex_propose_at [of n]) (simp_all add: ex_checked_def, simp_all add: ex_filed_def ex_started_def
        ex_admin_start_def)
  then show ?thesis
    by (simp add: check_proposal_def ex_filed_def bind_act_def on_shared_def on_part_def send_proposal_update_def
        chan_send_def) (simp add: ex_received_def)
qed


definition ex_other :: proposal_id where
  "ex_other = ProposalId [1]"

definition ex_two_filed :: "nat proposal_manager" where
  "ex_two_filed = \<lparr>pm_updates = ex_channel [], pm_shared = (ex_checked ''b'')\<lparr>as_pending_consensus_proposals :=
     [ex_id \<mapsto> (ex_received, ex_payload 0 UNSET_VOTE), ex_other \<mapsto> (ex_received, ex_payload 0 UNSET_VOTE)]\<rparr>\<rparr>"

theorem foreign_rejection_loses_accepted_proposal_witness:
  "as_pending_changes (pm_shared ex_two_filed) = Some ex_px \<and>
   as_splinter_state (pm_shared (perform_all ex_world [RejectProposal ex_other, AcceptProposal ex_id None] ex_two_filed)) =
     as_splinter_state (pm_shared ex_two_filed) \<and>
   chan_queue (pm_updates (perform_all ex_world [RejectProposal ex_other, AcceptProposal ex_id None] ex_two_filed)) =
     [ProposalAcceptFailed ex_id ''failed to commit proposal: tried to commit without pending changes'']"
proof -
  let ?t = "two_phase_proposal_new ex_id (PeerId (as_bytes ''admin::a'')) {}"
  define s where "s = (engine_new 30000 0)\<lparr>engine_state := EvaluatingProposal ?t\<rparr>"
  have ne: "ex_id \<noteq> ex_other" by (simp add: ex_id_def ex_other_def as_bytes_def)
  have m: "filing (pm_shared ex_two_filed) ex_id = Some (ex_received, ex_payload 0 UNSET_VOTE)"
    "filing (pm_shared ex_two_filed) ex_other \<noteq> None" "chan_open (pm_updates ex_two_filed)"
    "chan_queue (pm_updates ex_two_filed) = []" "as_pending_changes (pm_shared ex_two_filed) = Some ex_px"
    using ne by (simp_all add: ex_two_filed_def ex_checked_def)
  have s: "calls s = []" "engine_state s = EvaluatingProposal ?t" by (simp_all add: s_def engine_new_def)
  have r: "prop_id ex_received = ex_id" "tpp_id ?t = ex_id" by (simp_all add: ex_received_def two_phase_proposal_new_def)
  from foreign_rejection_loses_accepted_proposal [OF m(1) r(1) m(2) ne m(3) s(2) r(2), of ex_world] m(4,5) s(1)
  show ?thesis by auto
qed

definition ex_proposing :: "nat proposal_manager" where
  "ex_proposing = \<lparr>pm_updates = ex_channel [],
     pm_shared = (ex_started ''a'')\<lparr>as_pending_circuit_payloads := [ex_payload 0 UNSET_VOTE]\<rparr>\<rparr>"

lemma ex_create: "\<exists>m'. create_proposal ex_consensus_codecs ex_node_admin None [] ex_proposing = (Ok (), m')"
proof -
  have p: "propose_change ex_node_admin (ex_payload 0 UNSET_VOTE) (ex_started ''a'') = (Ok (''00'', ex_create_proposal []),
      (ex_started ''a'')\<lparr>as_pending_changes := Some ex_px, as_current_consensus_verifiers := [''admin::a'', ''admin::b'']\<rparr>)"
    by (rule ex_propose_at [of "''a''"]) (simp_all add: ex_started_def ex_admin_start_def)
  have pop: "pop_pending_circuit_payload (pm_shared ex_proposing) = (Some (ex_payload 0 UNSET_VOTE), ex_started ''a'')"
    by (simp add: pop_pending_circuit_payload_def ex_proposing_def ex_started_def ex_admin_start_def)
  have vs: "write_to_bytes (cc_verifiers ex_consensus_codecs) (member_verifiers (pc_members (pp_circuit_proposal (ex_create_proposal [])))) = Ok [0]"
    by (simp add: ex_consensus_codecs_def table_codec_def member_verifiers_def ex_create_proposal_def ex_circuit_def admin_service_id_def)
  have msg: "write_to_bytes (ae_message_c ex_node_admin) (AdminProposedCircuit \<lparr>prc_circuit_payload = ex_payload 0 UNSET_VOTE,
      prc_expected_hash = as_bytes ''00'', prc_required_verifiers = [0]\<rparr>) = Ok [0]"
    by (simp add: ex_node_admin_def table_codec_def ex_proposed_circuit_def)
  have others: "filter (\<lambda>n. pn_node_id n \<noteq> as_node_id (ex_started ''a'')) (pc_members (pp_circuit_proposal (ex_create_proposal []))) =
      [\<lparr>pn_node_id = ''b'', pn_endpoint = ''tcp://b''\<rparr>]"
    by (simp add: ex_create_proposal_def ex_circuit_def ex_started_def)
  have send: "encode_direct (ae_net_codecs ex_node_admin) (AdminSender ''admin::a'')
      (direct_message_from (AdminSender ''admin::a'') ''admin'' ''admin::b'' [0] '''') = Ok [0]"
    by (simp add: encode_direct_def ex_node_admin_def ex_admin_net_def ex_net_codecs_def table_codec_def create_message_def)
  have ns: "as_network_sender (pm_shared ex_proposing) = Some (AdminSender ''admin::a'')"
    by (simp add: ex_proposing_def ex_started_def)
  have out: "sn_out (as_net (ex_started ''a'')) = ex_channel []"
    by (simp add: ex_started_def ex_admin_start_def ex_net_def)
  show ?thesis
    unfolding create_proposal_def ns pop
    by (simp add: bind_act_def on_shared_def on_part_def p ex_payload_id rust_simps vs msg others Let_def
        add_pending_consensus_proposal_def send_to_service_def sender_send_def admin_service_id_def send send_bytes_def out
        chan_send_def send_proposal_update_def ex_proposing_def)
qed

theorem proposal_reaches_members_witness:
  "\<exists>m' new bs. create_proposal ex_consensus_codecs ex_node_admin None [] ex_proposing = (Ok (), m') \<and>
     filing (pm_shared m') (prop_id new) = Some (new, ex_payload 0 UNSET_VOTE) \<and>
     (\<exists>raw. encode_direct ex_admin_net (AdminSender ''admin::a'')
        (direct_message_from (AdminSender ''admin::a'') ''admin'' ''admin::b'' bs '''') = Ok raw \<and>
        raw \<in> set (chan_queue (sn_out (as_net (pm_shared m')))))"
proof -
  from ex_create obtain m' where c: "create_proposal ex_consensus_codecs ex_node_admin None [] ex_proposing = (Ok (), m')" ..
  have q: "as_pending_circuit_payloads (pm_shared ex_proposing) = [ex_payload 0 UNSET_VOTE]"
    by (simp add: ex_proposing_def)
  have rt: "round_trip (ae_message_c ex_node_admin)" by (simp add: ex_node_admin_def round_trip_table)
  have p: "propose_change ex_node_admin (ex_payload 0 UNSET_VOTE) ((pm_shared ex_proposing)\<lparr>as_pending_circuit_payloads := []\<rparr>) =
      (Ok (''00'', ex_create_proposal []), s)" if "propose_change ex_node_admin (ex_payload 0 UNSET_VOTE)
        ((pm_shared ex_proposing)\<lparr>as_pending_circuit_payloads := []\<rparr>) = (r, s)" for r s
    using that by (subst (asm) ex_propose_at [of "''a''"], simp_all add: ex_proposing_def ex_started_def ex_admin_start_def)
  have b: "\<lparr>pn_node_id = ''b'', pn_endpoint = ''tcp://b''\<rparr> \<in> set (pc_members (pp_circuit_proposal (ex_create_proposal [])))"
    by (simp add: ex_create_proposal_def ex_circuit_def)
  have ns: "as_network_sender (pm_shared ex_proposing) = Some (AdminSender ''admin::a'')" "as_node_id (pm_shared ex_proposing) = ''a''"
    by (simp_all add: ex_proposing_def ex_started_def)
  from proposal_reaches_members [OF c q rt] obtain ns' h p' s1 new bs where *: "as_network_sender (pm_shared ex_proposing) = Some ns'"
    "propose_change ex_node_admin (ex_payload 0 UNSET_VOTE) ((pm_shared ex_proposing)\<lparr>as_pending_circuit_payloads := []\<rparr>) =
       (Ok (h, p'), s1)"
    "filing (pm_shared m') (prop_id new) = Some (new, ex_payload 0 UNSET_VOTE)"
    "\<forall>n \<in> set (pc_members (pp_circuit_proposal p')). pn_node_id n \<noteq> as_node_id (pm_shared ex_proposing) \<longrightarrow>
       (\<exists>raw. encode_direct (ae_net_codecs ex_node_admin) ns' (direct_message_from ns' (sender_circuit ns')
            (admin_service_id (pn_node_id n)) bs '''') = Ok raw \<and>
          raw \<in> set (chan_queue (sn_out (as_net (pm_shared m')))))"
    by blast
  from p [OF *(2)] *(2) have "p' = ex_create_proposal []" by simp
  with *(4) b ns *(1) have "\<exists>raw. encode_direct ex_admin_net (AdminSender ''admin::a'')
      (direct_message_from (AdminSender ''admin::a'') ''admin'' ''admin::b'' bs '''') = Ok raw \<and>
      raw \<in> set (chan_queue (sn_out (as_net (pm_shared m'))))"
    by (fastforce simp: ex_node_admin_def admin_service_id_def)
  with c *(3) show ?thesis by blast
qed

text \<open>The engine of node \<open>b\<close>: at the start, with the proposal received, and evaluating it.\<close>

definition ex_tick :: "consensus_message recv \<Rightarrow> proposal_update recv \<Rightarrow> tick" where
  "ex_tick msg upd = \<lparr>abort_now = 0, next_now = 0, tick_message = msg, tick_update = upd, update_now = 0\<rparr>"

definition ex_coordinator :: peer_id where
  "ex_coordinator = PeerId (as_bytes ''admin::a'')"

definition ex_from_coordinator :: "byte \<Rightarrow> consensus_message recv" where
  "ex_from_coordinator b = Received \<lparr>cm_message = [b], origin_id = ex_coordinator\<rparr>"

definition ex_evaluated :: two_phase_proposal where
  "ex_evaluated = two_phase_proposal_new ex_id ex_coordinator {ex_coordinator, PeerId (as_bytes ''admin::b'')}"

definition ex_e0 :: engine_run where
  "ex_e0 = engine_start (consensus_startup ''admin::b'') (engine_new 30000 0)"

definition ex_e1 :: engine_run where
  "ex_e1 = ex_e0\<lparr>engine_state := AwaitingProposal, proposal_backlog := [ex_evaluated],
     calls := [(Consensus.CreateProposal None [], True)]\<rparr>"

definition ex_e2 :: engine_run where
  "ex_e2 = ex_e1\<lparr>engine_state := EvaluatingProposal ex_evaluated, proposal_backlog := [],
     calls := [(Consensus.CreateProposal None [], True), (CheckProposal ex_id, True)]\<rparr>"

lemmas ex_engine_defs = ex_e0_def ex_e1_def ex_e2_def ex_tick_def ex_from_coordinator_def engine_start_def engine_new_def
  consensus_startup_def timeout_new_def run_iteration_def run_background_def run_update_def ignore_err_def
  abort_proposal_if_timed_out_def handle_backlogged_verification_request_def get_next_proposal_def call_pm_def Let_def

lemma ex_min_verifier: "min_verifier {ex_coordinator, PeerId (as_bytes ''admin::b'')} = Some ex_coordinator"
  by (simp add: min_verifier_def min_def less_eq_peer_id_def ex_coordinator_def as_bytes_def)

lemma ex_not_coordinator: "PeerId (as_bytes ''admin::b'') \<noteq> ex_coordinator"
  by (simp add: ex_coordinator_def as_bytes_def)

lemma ex_iteration_1:
  assumes "pm_reply env [] (Consensus.CreateProposal None []) = Ok ()"
    and "verifiers_wire env = cc_verifiers ex_consensus_codecs"
  shows "snd (run_iteration env (ex_tick RecvTimeout (Received (ProposalReceived ex_received p))) ex_e0) = ex_e1"
proof -
  have "parse_from_bytes (verifiers_wire env) [0] = Ok \<lparr>verifiers_field = [as_bytes ''admin::a'', as_bytes ''admin::b'']\<rparr>"
    by (simp add: assms(2) ex_consensus_codecs_def table_codec_def)
  then have "proposal_verifiers env s ex_received = Ok {ex_coordinator, PeerId (as_bytes ''admin::b'')}" for s
    by (simp add: proposal_verifiers_def ex_received_def ex_coordinator_def)
  moreover have "prop_id ex_received = ex_id" by (simp add: ex_received_def)
  ultimately show ?thesis
    using assms(1)
    by (simp add: ex_engine_defs handle_proposal_update_def handle_proposal_def ex_min_verifier ex_not_coordinator
        push_proposal_def ex_evaluated_def)
qed

lemma ex_iteration_2:
  assumes "pm_reply env [(Consensus.CreateProposal None [], True)] (CheckProposal ex_id) = Ok ()"
    and "wire env = nw_wire ex_world"
  shows "snd (run_iteration env (ex_tick (ex_from_coordinator 0) RecvTimeout) ex_e1) = ex_e2"
proof -
  have p: "parse_from_bytes (nw_wire ex_world) [0] = Ok (request_msg ex_id)" by (simp add: ex_world_def table_codec_def)
  have i: "tpp_id ex_evaluated = ex_id" "ProposalId (msg_proposal_id (request_msg ex_id)) = ex_id"
    "message_type (request_msg ex_id) = PROPOSAL_VERIFICATION_REQUEST"
    by (simp_all add: ex_evaluated_def two_phase_proposal_new_def request_msg_def)
  from assms p i show ?thesis
    by (simp add: ex_engine_defs handle_consensus_msg_def handle_verification_request_def bind_act_def modify_act_def)
qed

lemma ex_iteration_3:
  assumes "wire env = nw_wire ex_world"
  shows "map fst (calls (snd (run_iteration env (ex_tick (ex_from_coordinator 1) RecvTimeout) ex_e2))) =
    [Consensus.CreateProposal None [], CheckProposal ex_id, AcceptProposal ex_id None]"
proof -
  have p: "parse_from_bytes (nw_wire ex_world) [1] = Ok (result_msg ex_id APPLY)" by (simp add: ex_world_def table_codec_def)
  have i: "tpp_id ex_evaluated = ex_id" "ProposalId (msg_proposal_id (result_msg ex_id APPLY)) = ex_id"
    "message_type (result_msg ex_id APPLY) = PROPOSAL_RESULT" "proposal_result (result_msg ex_id APPLY) = APPLY"
    by (simp_all add: ex_evaluated_def two_phase_proposal_new_def result_msg_def)
  from assms p i show ?thesis
    by (cases "pm_reply env (calls ex_e2) (AcceptProposal ex_id None)")
      (simp_all add: ex_engine_defs handle_consensus_msg_def handle_proposal_result_def evaluating_proposal_def bind_act_def
        modify_act_def timeout_check_expired_def)
qed

text \<open>Node \<open>b\<close> from its start to the evaluation of the proposal.\<close>

definition ex_manager :: "nat admin_shared \<Rightarrow> proposal_update list \<Rightarrow> nat proposal_manager" where
  "ex_manager sh us = \<lparr>pm_updates = ex_channel us, pm_shared = sh\<rparr>"

definition ex_consensus :: "proposal_update list \<Rightarrow> consensus_manager" where
  "ex_consensus us = \<lparr>acm_messages = ex_channel [], acm_updates = ex_channel us\<rparr>"

definition ex_nd :: "engine_run \<Rightarrow> nat admin_shared \<Rightarrow> proposal_update list \<Rightarrow> nat admin_node" where
  "ex_nd e sh us = \<lparr>nd_engine = e,
     nd_service = \<lparr>sv_service_id = ''admin::b'', sv_shared = sh, sv_consensus = Some (ex_consensus us)\<rparr>\<rparr>"

lemma ex_nd_engine_step:
  assumes "node_reachable ex_world (ex_nd e sh us)" and "node_iteration ex_world k (ex_manager sh us) e = (e', es)"
    and "\<not> panics (pm_perform ex_world) (ns_perform ex_world) es (ex_manager sh us)" and "perform_all ex_world es (ex_manager sh us) = ex_manager sh' us'"
  shows "node_reachable ex_world (ex_nd e' sh' us')"
proof -
  let ?nd = "ex_nd e sh us"
  have nd: "sv_consensus (nd_service ?nd) = Some (ex_consensus us)" "nd_engine ?nd = e"
    "manager_of (nd_service ?nd) (ex_consensus us) = ex_manager sh us"
    by (simp_all add: ex_nd_def manager_of_def ex_manager_def ex_consensus_def)
  have "node_step ex_world ?nd (?nd\<lparr>nd_engine := e', nd_service := with_manager (perform_all ex_world es
      (manager_of (nd_service ?nd) (ex_consensus us))) (ex_consensus us) (nd_service ?nd)\<rparr>)"
    by (rule node_step.node_engine [where k = k]) (use nd assms(2,3) in simp_all)
  moreover have "?nd\<lparr>nd_engine := e', nd_service := with_manager (perform_all ex_world es
      (manager_of (nd_service ?nd) (ex_consensus us))) (ex_consensus us) (nd_service ?nd)\<rparr> = ex_nd e' sh' us'"
    unfolding nd assms(4) by (simp add: ex_nd_def with_manager_def ex_manager_def ex_consensus_def)
  ultimately show ?thesis using assms(1) node_reachable.node_more by metis
qed

lemma ex_nd_started: "node_reachable ex_world (ex_nd ex_e0 (ex_started ''b'') [])"
proof -
  let ?v = "\<lparr>sv_service_id = ''admin::b'', sv_shared = ex_admin_start\<lparr>as_node_id := ''b''\<rparr>, sv_consensus = None\<rparr>"
  have "admin_service_new ''b'' (admin_shared_new ''b'' (ex_orchestrator\<lparr>or_services := []\<rparr>) network_new ex_net
      (splinter_state_new directory_new) ex_keys ''memory'' (\<lambda>_. Ok [])) (Ok ()) = Ok ?v"
    by (simp add: admin_service_new_def admin_shared_new_def open_proposals_new_def ex_admin_start_def admin_service_id_def)
  from node_reachable.node_init [OF this] have "node_reachable ex_world (node_new ?v 30000 0)" .
  moreover have "node_step ex_world (node_new ?v 30000 0) ((node_new ?v 30000 0)\<lparr>
      nd_engine := engine_start (consensus_startup (nw_service_id ex_world)) (engine_new 30000 0),
      nd_service := snd (admin_start [] (\<lambda>_. []) (\<lambda>i. Ok (AdminSender i)) (Ok ()) (nd_service (node_new ?v 30000 0)))\<rparr>)"
    by (rule node_step.node_start) (simp add: node_new_def)
  moreover have "(node_new ?v 30000 0)\<lparr>
      nd_engine := engine_start (consensus_startup (nw_service_id ex_world)) (engine_new 30000 0),
      nd_service := snd (admin_start [] (\<lambda>_. []) (\<lambda>i. Ok (AdminSender i)) (Ok ()) (nd_service (node_new ?v 30000 0)))\<rparr> =
    ex_nd ex_e0 (ex_started ''b'') []"
    by (simp add: ex_nd_def node_new_def ex_e0_def ex_world_def admin_start_def bind_act_def rust_simps on_sv_shared_def
        on_part_def restart_services_def add_services_to_directory_def set_network_sender_def consensus_manager_new_def
        ex_started_def ex_consensus_def)
  ultimately show ?thesis using node_reachable.node_more by metis
qed

lemma ex_nd_filed: "node_reachable ex_world (ex_nd ex_e0 (ex_filed ''b'') [ProposalReceived ex_received ex_coordinator])"
proof -
  let ?nd = "ex_nd ex_e0 (ex_started ''b'') []"
  let ?ctx = "\<lparr>ctx_sender = ''admin::a'', ctx_circuit = ''admin'', ctx_correlation_id = ''''\<rparr>"
  have p: "parse_from_bytes (ae_message_c ex_node_admin) [0] = Ok (AdminProposedCircuit ex_proposed_circuit)"
    by (simp add: ex_node_admin_def table_codec_def)
  have "?nd\<lparr>nd_service := snd (admin_handle_message (nw_codecs ex_world) (nw_admin ex_world) [0] ?ctx (nd_service ?nd))\<rparr> =
      ex_nd ex_e0 (ex_filed ''b'') [ProposalReceived ex_received ex_coordinator]"
    by (simp add: ex_nd_def ex_world_def admin_handle_message_def bind_act_def rust_simps p ex_proposed_circuit_def ex_payload_id
        Let_def with_consensus_def send_update_def on_part_def chan_send_def add_pending_consensus_proposal_def ex_consensus_def
        ex_filed_def ex_received_def ex_coordinator_def) (simp add: ex_started_def ex_admin_start_def)
  then show ?thesis using node_reachable.node_more [OF ex_nd_started node_step.node_message [of _ _ "[0]" ?ctx]] by metis
qed

lemma ex_nd_evaluating:
  "node_reachable ex_world (ex_nd ex_e2 (ex_checked ''b'')
     [ProposalReceived ex_received ex_coordinator, ProposalCreated None, ProposalValid ex_id])"
proof -
  let ?us = "[ProposalReceived ex_received ex_coordinator]"
  have create: "create_proposal (nw_codecs ex_world) (nw_admin ex_world) None [] (ex_manager (ex_filed ''b'') ?us) =
      (Ok (), ex_manager (ex_filed ''b'') (?us @ [ProposalCreated None]))"
    by (simp add: create_proposal_def ex_manager_def ex_filed_def ex_started_def pop_pending_circuit_payload_def
        ex_admin_start_def send_proposal_update_def on_part_def chan_send_def)
  have "node_iteration ex_world (ex_tick RecvTimeout (Received (ProposalReceived ex_received ex_coordinator)))
      (ex_manager (ex_filed ''b'') ?us) ex_e0 = (ex_e1, [Consensus.CreateProposal None []])"
    using ex_iteration_1 [of "node_env ex_world 0 (ex_manager (ex_filed ''b'') ?us)" ex_coordinator]
    by (simp add: node_iteration_unfold Let_def create manager_reply_def)
      (simp add: ex_world_def ex_engine_defs)
  from ex_nd_engine_step [OF ex_nd_filed this, of "ex_filed ''b''" "?us @ [ProposalCreated None]"] create
  have r: "node_reachable ex_world (ex_nd ex_e1 (ex_filed ''b'') (?us @ [ProposalCreated None]))"
    by (simp add: perform_def pure_act_def)
  have check: "check_proposal (nw_admin ex_world) ex_id (ex_manager (ex_filed ''b'') (?us @ [ProposalCreated None])) =
      (Ok (), ex_manager (ex_checked ''b'') (?us @ [ProposalCreated None] @ [ProposalValid ex_id]))"
    using ex_check [of "''b''" "?us @ [ProposalCreated None]"] by (simp add: ex_manager_def ex_world_def)
  have "node_iteration ex_world (ex_tick (ex_from_coordinator 0) RecvTimeout)
      (ex_manager (ex_filed ''b'') (?us @ [ProposalCreated None])) ex_e1 = (ex_e2, [CheckProposal ex_id])"
    using ex_iteration_2 [of "node_env ex_world 1 (ex_manager (ex_filed ''b'') (?us @ [ProposalCreated None]))"] check
    by (simp add: node_iteration_unfold Let_def manager_reply_def) (simp add: ex_engine_defs)
  from ex_nd_engine_step [OF r this, of "ex_checked ''b''" "?us @ [ProposalCreated None] @ [ProposalValid ex_id]"] check
  show ?thesis by (simp add: perform_def pure_act_def)
qed

theorem accepted_change_is_the_proposed_one_witness:
  "\<exists>payload h s1. payload_id ex_node_admin payload = Ok ex_id \<and>
     propose_change ex_node_admin payload (ex_checked ''b'') = (Ok (h, ex_create_proposal []), s1)"
proof -
  let ?us = "[ProposalReceived ex_received ex_coordinator, ProposalCreated None, ProposalValid ex_id]"
  let ?nd = "ex_nd ex_e2 (ex_checked ''b'') ?us" and ?k = "ex_tick (ex_from_coordinator 1) RecvTimeout"
  have nd: "sv_consensus (nd_service ?nd) = Some (ex_consensus ?us)" "nd_engine ?nd = ex_e2"
    "manager_of (nd_service ?nd) (ex_consensus ?us) = ex_manager (ex_checked ''b'') ?us"
    by (simp_all add: ex_nd_def manager_of_def ex_manager_def ex_consensus_def)
  have "length (calls ex_e2) = 2" by (simp add: ex_e2_def)
  then have it: "node_iteration ex_world ?k (manager_of (nd_service ?nd) (ex_consensus ?us)) (nd_engine ?nd) =
      (snd (run_iteration (node_env ex_world 2 (ex_manager (ex_checked ''b'') ?us)) ?k ex_e2), [] @ AcceptProposal ex_id None # [])"
    using ex_iteration_3 [of "node_env ex_world 2 (ex_manager (ex_checked ''b'') ?us)"]
    unfolding node_iteration_unfold nd by (simp add: Let_def drop_map [symmetric])
  have "as_pending_changes (pm_shared (perform_all ex_world [] (manager_of (nd_service ?nd) (ex_consensus ?us)))) = Some ex_px"
    unfolding nd by (simp add: ex_manager_def ex_checked_def)
  from accepted_change_is_the_proposed_one [OF ex_nd_evaluating nd(1) it this] show ?thesis
    unfolding nd by (auto simp: ex_manager_def ex_px_def ex_world_def)
qed

text \<open>Node \<open>a\<close> starts again with the circuit \<open>alpha\<close>: it runs \<open>s1\<close>, and \<open>b\<close> runs \<open>s2\<close>.\<close>

definition ex_live_circuit :: circuit where
  "ex_live_circuit = circuit_new_admin\<lparr>circuit_id := ''alpha'', circuit_roster := StandardRoster (state_roster ex_circuit)\<rparr>"

definition ex_node_b :: splinter_node where
  "ex_node_b = \<lparr>node_id_of = ''b'', node_endpoints = [''tcp://b'']\<rparr>"

definition ex_restart_state :: splinter_state where
  "ex_restart_state = splinter_state_new (directory_new\<lparr>cd_nodes := Map.empty(''b'' \<mapsto> ex_node_b)\<rparr>)"

definition ex_stopped :: "nat admin_service" where
  "ex_stopped = \<lparr>sv_service_id = ''admin::a'', sv_shared = ex_admin_start\<lparr>as_splinter_state := ex_restart_state\<rparr>,
     sv_consensus = None\<rparr>"

lemma ex_live_roster: "roster_to_vec (circuit_roster ex_live_circuit) =
  [service_definition_build ''s1'' ''t'' [''a''] [], service_definition_build ''s2'' ''t'' [''b''] []]"
  by (simp add: ex_live_circuit_def state_roster_def ex_circuit_def)


end
