(* ===== verification/Event_Dealer.thy ===== *)
theory Event_Dealer
  imports Splinter_Prelude
begin

text \<open>
  Pushing events to web clients: the event dealer, its senders, the web socket actor and the history of
  recent events of \<^verbatim>\<open>libsplinter/src/rest_api/events.rs\<close>.

  The web sockets are a store: a sender is the index of its socket, so that a socket outlives the sender that
  the service drops. A socket has the events it starts with and the channel of what was sent to it since; the
  actor works through both in order.
\<close>

section \<open>Senders\<close>

datatype 'e message_wrapper = WsMessage 'e | WsShutdown

record 'e web_socket =
  ws_initial :: "'e list"
  ws_channel :: "'e message_wrapper channel"

type_synonym 'e web_sockets = "'e web_socket list"
type_synonym event_sender = nat

text \<open>The stream a socket is started with: the initial events, then what is sent.\<close>

definition ws_stream :: "'e web_socket \<Rightarrow> 'e message_wrapper list" where
  "ws_stream w = map WsMessage (ws_initial w) @ chan_queue (ws_channel w)"

definition unbounded_send :: "event_sender \<Rightarrow> 'e message_wrapper \<Rightarrow> ('e web_sockets, unit, unit) action" where
  "unbounded_send i m ws =
     (if i < length ws then
        let (r, c) = chan_send m (ws_channel (ws ! i)) in (r, ws[i := (ws ! i)\<lparr>ws_channel := c\<rparr>])
      else (Err (), ws))"

text \<open>The error of \<open>EventSender::send\<close> gives the event back.\<close>

definition event_send :: "event_sender \<Rightarrow> 'e \<Rightarrow> ('e web_sockets, unit, 'e) action" where
  "event_send i e = on_part (\<lambda>ws. ws) (\<lambda>ws _. ws) (\<lambda>_. e) (unbounded_send i (WsMessage e))"

text \<open>\<open>Drop for EventSender\<close>: the socket is told to shut down.\<close>

definition event_drop :: "event_sender \<Rightarrow> 'e web_sockets \<Rightarrow> 'e web_sockets" where
  "event_drop i ws = ignore_err (unbounded_send i WsShutdown) ws"

text \<open>\<open>EventDealer::subscribe\<close>; \<open>start\<close> is the outcome of the web socket handshake.\<close>

definition dealer_subscribe ::
  "(unit, string) result \<Rightarrow> 'e list \<Rightarrow> ('e web_sockets, event_sender, string) action" where
  "dealer_subscribe start initial_events ws =
     (case start of
        Err e \<Rightarrow> (Err e, ws)
      | Ok _ \<Rightarrow> (Ok (length ws),
                  ws @ [\<lparr>ws_initial = initial_events, ws_channel = \<lparr>chan_open = True, chan_queue = []\<rparr>\<rparr>]))"

text \<open>\<open>senders.retain(|s| s.send(e).is_ok())\<close>: a sender that fails is dropped.\<close>

fun send_or_drop :: "'e \<Rightarrow> event_sender list \<Rightarrow> 'e web_sockets \<Rightarrow> event_sender list \<times> 'e web_sockets" where
  "send_or_drop e [] ws = ([], ws)"
| "send_or_drop e (i # is) ws =
     (case event_send i e ws of
        (Ok _, ws') \<Rightarrow> (let (is', ws'') = send_or_drop e is ws' in (i # is', ws''))
      | (Err _, ws') \<Rightarrow> send_or_drop e is (event_drop i ws'))"

section \<open>The web socket actor\<close>

datatype close_code = CloseAway | CloseError | CloseNormal

datatype ws_frame =
  FrameText string | FrameBinary bytes | FramePing bytes | FramePong bytes | FrameClose close_code "string option"

text \<open>What the actor writes for a message of the stream, and whether it goes on; \<open>to_string\<close> is the JSON writer.\<close>

fun dealer_handle :: "('e \<Rightarrow> (string, string) result) \<Rightarrow> 'e message_wrapper \<Rightarrow> ws_frame list \<times> bool" where
  "dealer_handle to_string (WsMessage e) =
     (case to_string e of Ok text \<Rightarrow> ([FrameText text], True) | Err _ \<Rightarrow> ([], True))"
| "dealer_handle to_string WsShutdown = ([FrameClose CloseAway None], False)"

fun dealer_run :: "('e \<Rightarrow> (string, string) result) \<Rightarrow> 'e message_wrapper list \<Rightarrow> ws_frame list" where
  "dealer_run to_string [] = []"
| "dealer_run to_string (m # ms) =
     (let (fs, goes_on) = dealer_handle to_string m
      in fs @ (if goes_on then dealer_run to_string ms else []))"

datatype ws_message =
  ClientPing bytes | ClientPong bytes | ClientText string | ClientBinary bytes | ClientClose | ClientNop

fun client_handle :: "ws_message \<Rightarrow> ws_frame list \<times> bool" where
  "client_handle (ClientPing msg) = ([FramePing msg], True)"
| "client_handle (ClientPong msg) = ([FramePong msg], True)"
| "client_handle (ClientText text) = ([FrameText text], True)"
| "client_handle (ClientBinary bin) = ([FrameBinary bin], True)"
| "client_handle ClientClose =
     ([FrameClose CloseNormal (Some ''Received close frame closing normally'')], False)"
| "client_handle ClientNop = ([], True)"

section \<open>The history of events\<close>

record 'e event_history =
  eh_history :: "'e list"
  eh_limit :: nat

definition history_with_limit :: "nat \<Rightarrow> 'e event_history" where
  "history_with_limit limit = \<lparr>eh_history = [], eh_limit = limit\<rparr>"

definition history_default :: "'e event_history" where
  "history_default = \<lparr>eh_history = [], eh_limit = 100\<rparr>"

definition history_store :: "'e \<Rightarrow> 'e event_history \<Rightarrow> 'e event_history" where
  "history_store e h =
     (let es = eh_history h @ [e]
      in h\<lparr>eh_history := if eh_limit h < length es then tl es else es\<rparr>)"

definition history_events :: "'e event_history \<Rightarrow> 'e list" where
  "history_events h = eh_history h"

section \<open>Lemmas\<close>

definition last_n :: "nat \<Rightarrow> 'a list \<Rightarrow> 'a list" where
  "last_n n xs = drop (length xs - n) xs"

lemma length_last_n [simp]: "length (last_n n xs) = min n (length xs)"
  by (simp add: last_n_def)

lemma last_n_all: "length xs \<le> n \<Longrightarrow> last_n n xs = xs"
  by (simp add: last_n_def)

lemma last_n_snoc: "last_n n (xs @ [x]) = (if n \<le> length xs then tl (last_n n xs @ [x]) else xs @ [x])"
proof (cases "n \<le> length xs")
  case True
  define k where "k = length xs - n"
  have k: "k \<le> length xs" by (simp add: k_def)
  have "length (xs @ [x]) - n = Suc k" using True by (simp add: k_def Suc_diff_le)
  then have "last_n n (xs @ [x]) = tl (drop k (xs @ [x]))" by (simp only: last_n_def drop_Suc tl_drop)
  also have "\<dots> = tl (last_n n xs @ [x])" using k by (simp add: last_n_def k_def)
  finally show ?thesis using True by simp
qed (simp add: last_n_def)

lemma history_store_limit [simp]: "eh_limit (history_store e h) = eh_limit h"
  by (simp add: history_store_def Let_def)

text \<open>The history holds the most recent events, in order, as many as the limit allows.\<close>

lemma history_fold:
  "fold history_store es (history_with_limit n) = \<lparr>eh_history = last_n n es, eh_limit = n\<rparr>"
proof (induction es rule: rev_induct)
  case Nil
  show ?case by (simp add: history_with_limit_def last_n_def)
next
  case (snoc e es)
  then show ?case
    by (auto simp: history_store_def Let_def last_n_snoc last_n_all min_def)
qed

lemma history_default_eq: "history_default = history_with_limit 100"
  by (simp add: history_default_def history_with_limit_def)

lemma dealer_run_messages:
  "dealer_run to_string (map WsMessage es @ ms) =
     concat (map (\<lambda>e. case to_string e of Ok text \<Rightarrow> [FrameText text] | Err _ \<Rightarrow> []) es) @ dealer_run to_string ms"
  by (induction es) (auto split: result.split)

lemma unbounded_send_length [simp]: "length (snd (unbounded_send i m ws)) = length ws"
  by (simp add: unbounded_send_def Let_def case_prod_beta)

lemma unbounded_send_other [simp]: "j \<noteq> i \<Longrightarrow> snd (unbounded_send i m ws) ! j = ws ! j"
  by (simp add: unbounded_send_def Let_def case_prod_beta)

lemma unbounded_send_open:
  "i < length ws \<Longrightarrow> chan_open (ws_channel (ws ! i)) \<Longrightarrow>
   unbounded_send i m ws = (Ok (), ws[i := (ws ! i)\<lparr>ws_channel :=
     (ws_channel (ws ! i))\<lparr>chan_queue := chan_queue (ws_channel (ws ! i)) @ [m]\<rparr>\<rparr>])"
  by (simp add: unbounded_send_def chan_send_def)

lemma snd_event_send: "snd (event_send i e ws) = snd (unbounded_send i (WsMessage e) ws)"
  by (simp add: event_send_def snd_on_part)

lemma fst_event_send: "fst (event_send i e ws) = map_err (\<lambda>_. e) (fst (unbounded_send i (WsMessage e) ws))"
  by (simp add: event_send_def on_part_def case_prod_beta)

end
