(* ===== verification/Scabbard_State.thy ===== *)
theory Scabbard_State
  imports Hex Event_Dealer
begin

text \<open>
  The state of a scabbard service (\<^verbatim>\<open>libsplinter/src/service/scabbard/state.rs\<close>): the state root, the change
  that has been prepared and not yet committed, the receipts, the subscribers and the history of batches.

  The \<open>transact\<close> and \<open>sawtooth\<close> libraries are arguments, gathered in the record \<open>transact\<close>: executing a batch
  on a state root, computing and committing the root after a list of state changes, writing the \<open>HEAD\<close> entry
  of the database and appending to the receipt store. The types of these libraries have here the fields that
  the code reads.
\<close>

section \<open>Batches, receipts and changes\<close>

record transaction =
  tx_header :: bytes
  tx_header_signature :: string
  tx_payload :: bytes

record batch_pair =
  bp_header :: bytes
  bp_header_signature :: string
  bp_transactions :: "transaction list"
  bp_signer_public_key :: bytes
  bp_transaction_ids :: "bytes list"

datatype receipt_change = ReceiptSet string bytes | ReceiptDelete string
datatype state_change = StateSet string bytes | StateDelete string
datatype state_change_event = EventSet string bytes | EventDelete string

record transaction_receipt =
  rc_transaction_id :: string
  rc_state_changes :: "receipt_change list"

record invalid_transaction =
  it_transaction_id :: string
  it_error_message :: string
  it_error_data :: bytes

datatype transaction_result = TxnValid transaction_receipt | TxnInvalid invalid_transaction

fun from_receipt_change :: "receipt_change \<Rightarrow> state_change" where
  "from_receipt_change (ReceiptSet key value) = StateSet key value"
| "from_receipt_change (ReceiptDelete key) = StateDelete key"

definition receipts_into_state_changes :: "transaction_receipt list \<Rightarrow> state_change list" where
  "receipts_into_state_changes receipts = concat (map (\<lambda>r. map from_receipt_change (rc_state_changes r)) receipts)"

fun from_state_change :: "state_change \<Rightarrow> state_change_event" where
  "from_state_change (StateSet key value) = EventSet key value"
| "from_state_change (StateDelete key) = EventDelete key"

section \<open>The history of batches\<close>

text \<open>A valid transaction is its id.\<close>

datatype batch_status =
  BatchUnknown | BatchPending | BatchInvalid "invalid_transaction list" | BatchValid "string list"
| BatchCommitted "string list"

fun valid_transactions :: "transaction_result list \<Rightarrow> string list" where
  "valid_transactions [] = []"
| "valid_transactions (TxnValid r # rs) = rc_transaction_id r # valid_transactions rs"
| "valid_transactions (TxnInvalid _ # rs) = valid_transactions rs"

fun invalid_transactions :: "transaction_result list \<Rightarrow> invalid_transaction list" where
  "invalid_transactions [] = []"
| "invalid_transactions (TxnValid _ # rs) = invalid_transactions rs"
| "invalid_transactions (TxnInvalid r # rs) = r # invalid_transactions rs"

definition status_of_results :: "transaction_result list \<Rightarrow> batch_status" where
  "status_of_results results =
     (if invalid_transactions results \<noteq> [] then BatchInvalid (invalid_transactions results)
      else BatchValid (valid_transactions results))"

record batch_info =
  bi_id :: string
  bi_status :: batch_status
  bi_timestamp :: nat

record batch_history =
  bh_history :: "string \<rightharpoonup> batch_info"
  bh_limit :: nat

definition batch_history_new :: batch_history where
  "batch_history_new = \<lparr>bh_history = Map.empty, bh_limit = 100\<rparr>"

text \<open>
  The order in which the hash map iterates is an argument \<open>entries\<close>, which lists every entry once.
  \<open>min_by_key\<close> takes the first of several minimal entries.
\<close>

type_synonym entry_order = "(string \<rightharpoonup> batch_info) \<Rightarrow> (string \<times> batch_info) list"

definition lists_entries :: "entry_order \<Rightarrow> (string \<rightharpoonup> batch_info) \<Rightarrow> bool" where
  "lists_entries entries h \<longleftrightarrow> distinct (map fst (entries h)) \<and> map_of (entries h) = h"

fun oldest_entry :: "(string \<times> batch_info) \<Rightarrow> (string \<times> batch_info) list \<Rightarrow> string \<times> batch_info" where
  "oldest_entry e [] = e"
| "oldest_entry e (x # xs) =
     oldest_entry (if bi_timestamp (snd x) < bi_timestamp (snd e) then x else e) xs"

definition add_batch :: "entry_order \<Rightarrow> nat \<Rightarrow> string \<Rightarrow> batch_history \<Rightarrow> batch_history" where
  "add_batch entries now signature b =
     (let h = (bh_history b)(signature \<mapsto> \<lparr>bi_id = signature, bi_status = BatchPending, bi_timestamp = now\<rparr>)
      in b\<lparr>bh_history :=
           if bh_limit b < length (entries h) then
             (case entries h of [] \<Rightarrow> h | e # es \<Rightarrow> h(fst (oldest_entry e es) := None))
           else h\<rparr>)"

definition update_batch_status :: "string \<Rightarrow> batch_status \<Rightarrow> batch_history \<Rightarrow> batch_history" where
  "update_batch_status signature status b =
     (case bh_history b signature of
        Some info \<Rightarrow>
          if bi_status info = BatchPending
          then b\<lparr>bh_history := (bh_history b)(signature \<mapsto> info\<lparr>bi_status := status\<rparr>)\<rparr> else b
      | None \<Rightarrow> b)"

definition history_commit :: "string \<Rightarrow> batch_history \<Rightarrow> batch_history" where
  "history_commit signature b =
     (case bh_history b signature of
        None \<Rightarrow> b
      | Some info \<Rightarrow>
          (case bi_status info of
             BatchValid t \<Rightarrow>
               b\<lparr>bh_history := (bh_history b)(signature \<mapsto> info\<lparr>bi_status := BatchCommitted t\<rparr>)\<rparr>
           | _ \<Rightarrow> b))"

definition get_batch_info :: "nat \<Rightarrow> string \<Rightarrow> batch_history \<Rightarrow> batch_info" where
  "get_batch_info now signature b =
     (case bh_history b signature of
        Some info \<Rightarrow> info
      | None \<Rightarrow> \<lparr>bi_id = signature, bi_status = BatchUnknown, bi_timestamp = now\<rparr>)"

section \<open>The state\<close>

text \<open>\<open>ss_head\<close> is the \<open>HEAD\<close> entry of the database, \<open>ss_receipts\<close> the receipt store; \<open>ss_sockets\<close> are the web
  sockets the senders write to.\<close>

record scabbard_state =
  ss_current_state_root :: string
  ss_head :: "bytes option"
  ss_receipts :: "transaction_receipt list"
  ss_pending_changes :: "(string \<times> transaction_receipt list) option"
  ss_event_senders :: "event_sender list"
  ss_sockets :: "state_change_event list web_sockets"
  ss_batch_history :: batch_history
  ss_commit_history :: "state_change_event list event_history"

text \<open>
  The libraries. \<open>tr_execute\<close> is setting up a serial scheduler on a root, executing a batch and waiting for the
  result, which may be missing. \<open>tr_append\<close> returns the store it leaves behind.
\<close>

record transact =
  tr_execute :: "string \<Rightarrow> batch_pair \<Rightarrow> (transaction_result list option, string) result"
  tr_debug :: "invalid_transaction \<Rightarrow> string"
  tr_compute_state_id :: "string \<Rightarrow> state_change list \<Rightarrow> (string, string) result"
  tr_commit :: "string \<Rightarrow> state_change list \<Rightarrow> (string, string) result"
  tr_head_writer :: "(unit, string) result"
  tr_head_put :: "(unit, string) result"
  tr_head_commit :: "(unit, string) result"
  tr_append :: "transaction_receipt list \<Rightarrow> transaction_receipt list \<Rightarrow> (unit, string) result \<times> transaction_receipt list"

datatype scabbard_state_error = StateError string | StateHexPanic

record setting_entry =
  se_key :: string
  se_value :: string

type_synonym setting = "setting_entry list"

text \<open>What starting the libraries gives: the database with its \<open>HEAD\<close> entry, the root of the empty tree, the
  executor, the receipt store; and the two constants of the sabre library.\<close>

record state_startup =
  su_database :: "(unit, string) result"
  su_head :: "(bytes option, string) result"
  su_setting_codec :: "setting codec"
  su_initial_root :: "(string, string) result"
  su_adapter :: "(unit, string) result"
  su_executor :: "(unit, string) result"
  su_receipts :: "(transaction_receipt list, string) result"
  su_admin_key :: string
  su_admin_address :: string

definition initial_state_root ::
  "transact \<Rightarrow> state_startup \<Rightarrow> string list \<Rightarrow> (string, scabbard_state_error) result" where
  "initial_state_root tr su admin_keys =
     bind_result (map_err (\<lambda>e. StateError (''failed to write admin keys setting to bytes: '' @ e))
       (write_to_bytes (su_setting_codec su) [\<lparr>se_key = su_admin_key su, se_value = join_texts '','' admin_keys\<rparr>]))
       (\<lambda>setting_bytes.
     bind_result (map_err StateError (su_initial_root su)) (\<lambda>root.
       map_err StateError (tr_commit tr root [StateSet (su_admin_address su) setting_bytes])))"

definition read_current_state_root :: "state_startup \<Rightarrow> (string option, scabbard_state_error) result" where
  "read_current_state_root su =
     map_err (\<lambda>e. StateError (''Unable to read HEAD entry: '' @ e)) (map_result (map_option to_hex) (su_head su))"

definition state_new ::
  "transact \<Rightarrow> state_startup \<Rightarrow> string list \<Rightarrow> (scabbard_state, scabbard_state_error) result" where
  "state_new tr su admin_keys =
     bind_result (map_err StateError (su_database su)) (\<lambda>_.
     bind_result (read_current_state_root su) (\<lambda>head_root.
     bind_result (case head_root of Some root \<Rightarrow> Ok root | None \<Rightarrow> initial_state_root tr su admin_keys) (\<lambda>root.
     bind_result (map_err StateError (su_adapter su)) (\<lambda>_.
     bind_result (map_err (\<lambda>e. StateError (''failed to start executor: '' @ e)) (su_executor su)) (\<lambda>_.
     bind_result (map_err StateError (su_receipts su)) (\<lambda>receipts.
       Ok \<lparr>ss_current_state_root = root,
            ss_head = (case su_head su of Ok h \<Rightarrow> h | Err _ \<Rightarrow> None), ss_receipts = receipts,
            ss_pending_changes = None, ss_event_senders = [], ss_sockets = [],
            ss_batch_history = batch_history_new, ss_commit_history = history_default\<rparr>))))))"

definition write_current_state_root :: "transact \<Rightarrow> (scabbard_state, unit, scabbard_state_error) action" where
  "write_current_state_root tr s =
     (case parse_hex (ss_current_state_root s) of
        Err HexSlicePanic \<Rightarrow> (Err StateHexPanic, s)
      | Err e \<Rightarrow> (Err (StateError (''The in-memory current state root is invalid: '' @ hex_error_text e)), s)
      | Ok root_bytes \<Rightarrow>
          bind_act (lift_act (\<lambda>_. map_err (\<lambda>e. StateError (''Unable to start write transaction for HEAD entry: '' @ e))
                      (tr_head_writer tr))) (\<lambda>_.
          bind_act (lift_act (\<lambda>_. map_err (\<lambda>e. StateError (''Unable to write HEAD entry: '' @ e)) (tr_head_put tr))) (\<lambda>_.
          bind_act (lift_act (\<lambda>_. map_err (\<lambda>e. StateError (''Unable to commit HEAD entry: '' @ e)) (tr_head_commit tr)))
            (\<lambda>_. modify_act (\<lambda>s. s\<lparr>ss_head := Some root_bytes\<rparr>)))) s)"

fun valid_receipt :: "transact \<Rightarrow> transaction_result \<Rightarrow> (transaction_receipt, scabbard_state_error) result" where
  "valid_receipt tr (TxnValid r) = Ok r"
| "valid_receipt tr (TxnInvalid r) = Err (StateError (''transaction failed: '' @ tr_debug tr r))"

definition prepare_change :: "transact \<Rightarrow> batch_pair \<Rightarrow> (scabbard_state, string, scabbard_state_error) action" where
  "prepare_change tr batch s =
     bind_act (lift_act (\<lambda>s. bind_result (map_err StateError (tr_execute tr (ss_current_state_root s) batch))
                 (ok_or (StateError ''no result returned from executor'')))) (\<lambda>results.
     bind_act (modify_act (\<lambda>s. s\<lparr>ss_batch_history :=
                 update_batch_status (bp_header_signature batch) (status_of_results results) (ss_batch_history s)\<rparr>)) (\<lambda>_.
     bind_act (lift_act (\<lambda>_. collect_results (map (valid_receipt tr) results))) (\<lambda>txn_results.
     bind_act (lift_act (\<lambda>s. map_err StateError
                 (tr_compute_state_id tr (ss_current_state_root s) (receipts_into_state_changes txn_results))))
       (\<lambda>state_root.
     bind_act (modify_act (\<lambda>s. s\<lparr>ss_pending_changes := Some (bp_header_signature batch, txn_results)\<rparr>)) (\<lambda>_.
       pure_act state_root))))) s"

definition commit_state :: "transact \<Rightarrow> (scabbard_state, unit, scabbard_state_error) action" where
  "commit_state tr s0 =
     (let s = s0\<lparr>ss_pending_changes := None\<rparr> in
      case ss_pending_changes s0 of
        None \<Rightarrow> (Err (StateError ''no pending changes to commit''), s)
      | Some (signature, txn_receipts) \<Rightarrow>
          let state_changes = receipts_into_state_changes txn_receipts;
              events = map from_state_change state_changes in
          bind_act (lift_act (\<lambda>s. map_err StateError (tr_commit tr (ss_current_state_root s) state_changes))) (\<lambda>root.
          bind_act (modify_act (\<lambda>s. s\<lparr>ss_current_state_root := root\<rparr>)) (\<lambda>_.
          bind_act (write_current_state_root tr) (\<lambda>_.
          bind_act (on_part ss_receipts (\<lambda>r s. s\<lparr>ss_receipts := r\<rparr>)
                      (\<lambda>e. StateError (''failed to add transaction receipts to store: '' @ e))
                      (\<lambda>store. tr_append tr store txn_receipts)) (\<lambda>_.
          modify_act (\<lambda>s.
            let (senders, sockets) = send_or_drop events (ss_event_senders s) (ss_sockets s)
            in s\<lparr>ss_commit_history := history_store events (ss_commit_history s),
                 ss_event_senders := senders, ss_sockets := sockets,
                 ss_batch_history := history_commit signature (ss_batch_history s)\<rparr>))))) s)"

definition rollback_state :: "(scabbard_state, unit, scabbard_state_error) action" where
  "rollback_state = modify_act (\<lambda>s. s\<lparr>ss_pending_changes := None\<rparr>)"

definition subscribe_to_state :: "(unit, string) result \<Rightarrow> (scabbard_state, unit, string) action" where
  "subscribe_to_state start s =
     bind_act (on_part ss_sockets (\<lambda>ws s. s\<lparr>ss_sockets := ws\<rparr>) (\<lambda>e. e)
                 (dealer_subscribe start (history_events (ss_commit_history s)))) (\<lambda>sender.
       modify_act (\<lambda>s. s\<lparr>ss_event_senders := ss_event_senders s @ [sender]\<rparr>)) s"

text \<open>\<open>event_senders.clear()\<close> drops the senders.\<close>

definition shutdown_event_dealer :: "scabbard_state \<Rightarrow> scabbard_state" where
  "shutdown_event_dealer s =
     s\<lparr>ss_sockets := fold event_drop (ss_event_senders s) (ss_sockets s), ss_event_senders := []\<rparr>"

section \<open>Preparing and committing\<close>

lemma collect_valid_receipts:
  "collect_results (map (valid_receipt tr) results) = Ok rs \<longleftrightarrow> results = map TxnValid rs"
proof (induction results arbitrary: rs)
  case (Cons r results)
  then show ?case by (cases r; cases rs) (auto simp: rust_simps)
qed auto

lemma prepare_change_Ok:
  assumes "prepare_change tr batch s = (Ok h, s')"
  obtains rs where "tr_execute tr (ss_current_state_root s) batch = Ok (Some (map TxnValid rs))"
    and "tr_compute_state_id tr (ss_current_state_root s) (receipts_into_state_changes rs) = Ok h"
    and "s' = s\<lparr>ss_batch_history := update_batch_status (bp_header_signature batch)
            (status_of_results (map TxnValid rs)) (ss_batch_history s),
          ss_pending_changes := Some (bp_header_signature batch, rs)\<rparr>"
  using assms
  by (auto simp: prepare_change_def bind_act_Ok_iff lift_act_def modify_act_def pure_act_def rust_simps
      collect_valid_receipts)

lemma prepare_change_Err:
  "prepare_change tr batch s = (Err e, s') \<Longrightarrow> \<exists>b. s' = s\<lparr>ss_batch_history := b\<rparr>"
  by (auto simp: prepare_change_def bind_act_Err_iff lift_act_def modify_act_def pure_act_def) (metis scabbard_state.surjective scabbard_state.update_convs(7))

lemma commit_state_pending: "ss_pending_changes (snd (commit_state tr s)) = None"
proof -
  have w: "keeps (\<lambda>s. ss_pending_changes s = None) (write_current_state_root tr)"
    by (rule keepsI) (auto simp: write_current_state_root_def bind_act_def rust_simps split: result.split hex_error.split)
  show ?thesis
    unfolding commit_state_def Let_def
    by (auto split: option.split prod.split intro!: keepsD [of "\<lambda>s. ss_pending_changes s = None"] keeps_intros w
        simp: Let_def)
qed

lemma write_current_state_root_Ok:
  "write_current_state_root tr s = (Ok (), s') \<Longrightarrow>
   \<exists>b. parse_hex (ss_current_state_root s) = Ok b \<and> s' = s\<lparr>ss_head := Some b\<rparr>"
  by (auto simp: write_current_state_root_def bind_act_Ok_iff rust_simps split: result.splits hex_error.splits)

lemma commit_state_Ok:
  assumes "commit_state tr s = (Ok (), s')"
  obtains signature rs b where "ss_pending_changes s = Some (signature, rs)"
    and "tr_commit tr (ss_current_state_root s) (receipts_into_state_changes rs) = Ok (ss_current_state_root s')"
    and "parse_hex (ss_current_state_root s') = Ok b" and "ss_head s' = Some b"
    and "tr_append tr (ss_receipts s) rs = (Ok (), ss_receipts s')"
    and "ss_batch_history s' = history_commit signature (ss_batch_history s)"
    and "ss_commit_history s' =
      history_store (map from_state_change (receipts_into_state_changes rs)) (ss_commit_history s)"
    and "send_or_drop (map from_state_change (receipts_into_state_changes rs)) (ss_event_senders s) (ss_sockets s) =
      (ss_event_senders s', ss_sockets s')"
proof -
  from assms obtain signature rs where p: "ss_pending_changes s = Some (signature, rs)"
    by (cases "ss_pending_changes s") (auto simp: commit_state_def Let_def)
  let ?changes = "receipts_into_state_changes rs"
  let ?events = "map from_state_change ?changes"
  from assms p obtain root s1 where c: "tr_commit tr (ss_current_state_root s) ?changes = Ok root"
    and w: "write_current_state_root tr (s\<lparr>ss_pending_changes := None, ss_current_state_root := root\<rparr>) = (Ok (), s1)"
    and a: "fst (tr_append tr (ss_receipts s1) rs) = Ok ()"
    and s': "s' = s1\<lparr>ss_receipts := snd (tr_append tr (ss_receipts s1) rs),
        ss_commit_history := history_store ?events (ss_commit_history s1),
        ss_event_senders := fst (send_or_drop ?events (ss_event_senders s1) (ss_sockets s1)),
        ss_sockets := snd (send_or_drop ?events (ss_event_senders s1) (ss_sockets s1)),
        ss_batch_history := history_commit signature (ss_batch_history s1)\<rparr>"
    by (auto simp: commit_state_def bind_act_Ok_iff rust_simps on_part_def Let_def case_prod_beta)
  from write_current_state_root_Ok [OF w] obtain b where b: "parse_hex root = Ok b"
    "s1 = s\<lparr>ss_pending_changes := None, ss_current_state_root := root, ss_head := Some b\<rparr>" by auto
  from b a have "tr_append tr (ss_receipts s) rs = (Ok (), snd (tr_append tr (ss_receipts s) rs))"
    by (simp add: prod_eq_iff)
  with p c b s' show thesis by (intro that [of signature rs b]) simp_all
qed

end
