(* ===== verification/Scabbard.thy ===== *)
theory Scabbard
  imports Scabbard_State Service_Net Engine_Client
begin

text \<open>
  The scabbard service: the data it shares with its consensus (\<^verbatim>\<open>service/scabbard/shared.rs\<close>), its consensus
  manager, proposal manager and network sender (\<^verbatim>\<open>service/scabbard/consensus.rs\<close>), the service itself
  (\<^verbatim>\<open>service/scabbard/mod.rs\<close>), its factory and REST endpoints (\<^verbatim>\<open>service/scabbard/factory.rs\<close>), and the hash
  signer and verifier (\<^verbatim>\<open>signing/hash.rs\<close>), all under \<^verbatim>\<open>libsplinter/src\<close>.

  The signature verifier, the SHA-512 hash, the protobuf codecs and the JSON readers are arguments. The locks
  are not modelled; the places where the code would panic while it holds one are the errors \<open>ScPanic\<close> and
  \<open>ManagerPanic\<close>.
\<close>

section \<open>Hashes as signatures\<close>

definition hash_sign :: "(bytes \<Rightarrow> (bytes, string) result) \<Rightarrow> bytes \<Rightarrow> (bytes, string) result" where
  "hash_sign sha512 message = sha512 message"

definition hash_public_key :: bytes where
  "hash_public_key = as_bytes ''hash_signer''"

definition hash_verify ::
  "(bytes \<Rightarrow> (bytes, string) result) \<Rightarrow> bytes \<Rightarrow> bytes \<Rightarrow> bytes \<Rightarrow> (bool, string) result" where
  "hash_verify sha512 message signature public_key = map_result (\<lambda>h. h = signature) (sha512 message)"

section \<open>Messages and the environment\<close>

record proposed_batch =
  pb_proposal :: bytes
  pb_batch :: bytes
  pb_service_id :: string

datatype scabbard_message = ScConsensusMessage bytes | ScProposedBatch proposed_batch | ScUnset

record transaction_header =
  th_batcher_public_key :: bytes
  th_signer_public_key :: bytes
  th_payload_hash :: bytes

record scabbard_env =
  sc_transact :: transact
  sc_message_c :: "scabbard_message codec"
  sc_proposal_c :: "proposal_proto codec"
  sc_consensus_c :: "consensus_message_proto codec"
  sc_batch_c :: "batch_pair codec"
  sc_net_codecs :: net_codecs
  sc_txn_header :: "bytes \<Rightarrow> (transaction_header, string) result"
  sc_verify :: "bytes \<Rightarrow> bytes \<Rightarrow> bytes \<Rightarrow> (bool, string) result"
  sc_sha512 :: "bytes \<Rightarrow> (bytes, string) result"
  sc_entries :: entry_order

datatype scabbard_error =
  ScConsensusFailed string | ScInitializationFailed string | ScMessageTypeUnset | ScNotConnected

datatype sc_service_error =
  ScUnableToHandle string | ScInvalidFormat string | ScInvalidMessage scabbard_error | ScNotStarted | ScPanic

section \<open>Shared data\<close>

text \<open>\<open>sh_peer_services\<close> lists the set in the order in which it iterates; \<open>sh_net\<close> is what the network sender
  writes to.\<close>

record scabbard_shared =
  sh_batch_queue :: "batch_pair list"
  sh_network_sender :: "network_sender option"
  sh_net :: service_net
  sh_peer_services :: "string list"
  sh_proposed_batches :: "proposal_id \<rightharpoonup> batch_pair"
  sh_state :: scabbard_state

definition scabbard_shared_new ::
  "batch_pair list \<Rightarrow> network_sender option \<Rightarrow> service_net \<Rightarrow> string list \<Rightarrow> scabbard_state \<Rightarrow> scabbard_shared" where
  "scabbard_shared_new queue ns net ps st =
     \<lparr>sh_batch_queue = queue, sh_network_sender = ns, sh_net = net, sh_peer_services = ps,
      sh_proposed_batches = Map.empty, sh_state = st\<rparr>"

definition add_batch_to_queue :: "batch_pair \<Rightarrow> scabbard_shared \<Rightarrow> scabbard_shared" where
  "add_batch_to_queue batch sh = sh\<lparr>sh_batch_queue := sh_batch_queue sh @ [batch]\<rparr>"

definition pop_batch_from_queue :: "scabbard_shared \<Rightarrow> batch_pair option \<times> scabbard_shared" where
  "pop_batch_from_queue sh =
     (case sh_batch_queue sh of [] \<Rightarrow> (None, sh) | b # bs \<Rightarrow> (Some b, sh\<lparr>sh_batch_queue := bs\<rparr>))"

definition add_proposed_batch :: "proposal_id \<Rightarrow> batch_pair \<Rightarrow> scabbard_shared \<Rightarrow> scabbard_shared" where
  "add_proposed_batch i batch sh = sh\<lparr>sh_proposed_batches := (sh_proposed_batches sh)(i \<mapsto> batch)\<rparr>"

definition remove_proposed_batch :: "proposal_id \<Rightarrow> scabbard_shared \<Rightarrow> batch_pair option \<times> scabbard_shared" where
  "remove_proposed_batch i sh =
     (sh_proposed_batches sh i, sh\<lparr>sh_proposed_batches := (sh_proposed_batches sh)(i := None)\<rparr>)"

definition on_state ::
  "('e \<Rightarrow> 'f) \<Rightarrow> (scabbard_state, 'a, 'e) action \<Rightarrow> (scabbard_shared, 'a, 'f) action" where
  "on_state = on_part sh_state (\<lambda>st sh. sh\<lparr>sh_state := st\<rparr>)"

subsection \<open>Verification of batches\<close>

definition hex_argument :: "string \<Rightarrow> (bytes, sc_service_error) result" where
  "hex_argument s =
     map_err (\<lambda>e. if e = HexSlicePanic then ScPanic else ScUnableToHandle (hex_error_text e)) (parse_hex s)"

text \<open>The loop over the transactions of a batch from index \<open>i\<close> on. Indexing the ids in the batch header panics
  out of range.\<close>

fun verify_transactions ::
  "scabbard_env \<Rightarrow> batch_pair \<Rightarrow> nat \<Rightarrow> transaction list \<Rightarrow> (bool, sc_service_error) result" where
  "verify_transactions env batch i [] = Ok True"
| "verify_transactions env batch i (txn # txns) =
     bind_result (map_err ScInvalidFormat (sc_txn_header env (tx_header txn))) (\<lambda>header.
     bind_result (hex_argument (tx_header_signature txn)) (\<lambda>signature.
     if length (bp_transaction_ids batch) \<le> i then Err ScPanic
     else if signature \<noteq> bp_transaction_ids batch ! i then Ok False
     else if th_batcher_public_key header \<noteq> bp_signer_public_key batch then Ok False
     else bind_result (map_err ScUnableToHandle
                 (sc_verify env (tx_header txn) signature (th_signer_public_key header))) (\<lambda>signed.
     if \<not> signed then Ok False
     else bind_result (map_err ScUnableToHandle
                 (hash_verify (sc_sha512 env) (tx_payload txn) (th_payload_hash header) [])) (\<lambda>hashed.
     if \<not> hashed then Ok False else verify_transactions env batch (Suc i) txns))))"

fun verify_batches :: "scabbard_env \<Rightarrow> batch_pair list \<Rightarrow> (bool, sc_service_error) result" where
  "verify_batches env [] = Ok True"
| "verify_batches env (batch # batches) =
     bind_result (hex_argument (bp_header_signature batch)) (\<lambda>signature.
     bind_result (map_err ScUnableToHandle
                 (sc_verify env (bp_header batch) signature (bp_signer_public_key batch))) (\<lambda>signed.
     if \<not> signed then Ok False
     else if length (bp_transaction_ids batch) \<noteq> length (bp_transactions batch) then Ok False
     else bind_result (verify_transactions env batch 0 (bp_transactions batch)) (\<lambda>verified.
     if \<not> verified then Ok False else verify_batches env batches)))"

section \<open>The proposal manager\<close>

record scabbard_manager =
  sm_updates :: "proposal_update channel"
  sm_shared :: scabbard_shared

type_synonym 'a sc_manager_action = "(scabbard_manager, 'a, manager_failure) action"

definition on_sm_shared ::
  "('e \<Rightarrow> 'f) \<Rightarrow> (scabbard_shared, 'a, 'e) action \<Rightarrow> (scabbard_manager, 'a, 'f) action" where
  "on_sm_shared = on_part sm_shared (\<lambda>sh m. m\<lparr>sm_shared := sh\<rparr>)"

fun state_failure :: "scabbard_state_error \<Rightarrow> manager_failure" where
  "state_failure (StateError e) = ManagerError (PMInternal (''scabbard state error: '' @ e))"
| "state_failure StateHexPanic = ManagerPanic"

definition sc_send_update :: "proposal_update \<Rightarrow> unit sc_manager_action" where
  "sc_send_update u =
     on_part sm_updates (\<lambda>c m. m\<lparr>sm_updates := c\<rparr>) (\<lambda>_. ManagerError PMUpdateSendFailed) (chan_send u)"

definition sc_net_send ::
  "scabbard_env \<Rightarrow> network_sender \<Rightarrow> bytes \<Rightarrow> string \<Rightarrow> (scabbard_shared, unit, service_send_error) action" where
  "sc_net_send env ns bs service =
     on_part sh_net (\<lambda>n sh. sh\<lparr>sh_net := n\<rparr>) (\<lambda>e. e) (Service_Net.sender_send (sc_net_codecs env) ns service bs)"

definition internal_result :: "('a, string) result \<Rightarrow> ('s, 'a, manager_failure) action" where
  "internal_result r = lift_act (\<lambda>_. map_err (\<lambda>e. ManagerError (PMInternal e)) r)"

definition batch_proposal :: "string \<Rightarrow> proposal" where
  "batch_proposal expected_hash =
     proposal_default\<lparr>prop_id := ProposalId (as_bytes expected_hash), summary := as_bytes expected_hash\<rparr>"

definition sc_create_proposal ::
  "string \<Rightarrow> scabbard_env \<Rightarrow> proposal_id option \<Rightarrow> bytes \<Rightarrow> unit sc_manager_action" where
  "sc_create_proposal service_id env previous_proposal_id data m =
     (case pop_batch_from_queue (sm_shared m) of
        (None, sh) \<Rightarrow> sc_send_update (ProposalCreated None) (m\<lparr>sm_shared := sh\<rparr>)
      | (Some batch, sh) \<Rightarrow>
          bind_act (on_sm_shared (\<lambda>e. e) (on_state state_failure (prepare_change (sc_transact env) batch))) (\<lambda>expected_hash.
          let new = batch_proposal expected_hash in
          bind_act (modify_act (\<lambda>m. m\<lparr>sm_shared := add_proposed_batch (prop_id new) batch (sm_shared m)\<rparr>)) (\<lambda>_.
          bind_act (internal_result (proposal_try_into (sc_proposal_c env) new)) (\<lambda>proposal_bytes.
          bind_act (internal_result (write_to_bytes (sc_batch_c env) batch)) (\<lambda>batch_bytes.
          bind_act (internal_result (write_to_bytes (sc_message_c env) (ScProposedBatch
                      \<lparr>pb_proposal = proposal_bytes, pb_batch = batch_bytes, pb_service_id = service_id\<rparr>))) (\<lambda>msg_bytes.
          bind_act (lift_act (\<lambda>m. ok_or (ManagerError PMNotReady) (sh_network_sender (sm_shared m)))) (\<lambda>ns.
          bind_act (\<lambda>m. for_act (sh_peer_services (sm_shared m))
                      (\<lambda>service. on_sm_shared (\<lambda>_. ManagerError (PMInternal ''unable to send message''))
                         (sc_net_send env ns msg_bytes service)) m) (\<lambda>_.
            sc_send_update (ProposalCreated (Some new))))))))) (m\<lparr>sm_shared := sh\<rparr>))"

definition sc_check_proposal :: "scabbard_env \<Rightarrow> proposal_id \<Rightarrow> unit sc_manager_action" where
  "sc_check_proposal env i m =
     (case sh_proposed_batches (sm_shared m) i of
        None \<Rightarrow> (Err (ManagerError (PMUnknownProposal i)), m)
      | Some batch \<Rightarrow>
          bind_act (on_sm_shared (\<lambda>e. e) (on_state state_failure (prepare_change (sc_transact env) batch))) (\<lambda>hash.
            sc_send_update (if as_bytes hash \<noteq> proposal_id_bytes i then ProposalInvalid i else ProposalValid i)) m)"

definition sc_accept_proposal :: "scabbard_env \<Rightarrow> proposal_id \<Rightarrow> bytes option \<Rightarrow> unit sc_manager_action" where
  "sc_accept_proposal env i data m =
     (case remove_proposed_batch i (sm_shared m) of
        (None, sh) \<Rightarrow> (Err (ManagerError (PMUnknownProposal i)), m\<lparr>sm_shared := sh\<rparr>)
      | (Some _, sh) \<Rightarrow>
          bind_act (on_sm_shared (\<lambda>e. e) (on_state state_failure (commit_state (sc_transact env)))) (\<lambda>_.
            sc_send_update (ProposalAccepted i)) (m\<lparr>sm_shared := sh\<rparr>))"

definition sc_reject_proposal :: "proposal_id \<Rightarrow> unit sc_manager_action" where
  "sc_reject_proposal i m =
     (case remove_proposed_batch i (sm_shared m) of
        (None, sh) \<Rightarrow> (Err (ManagerError (PMUnknownProposal i)), m\<lparr>sm_shared := sh\<rparr>)
      | (Some _, sh) \<Rightarrow>
          on_sm_shared (\<lambda>e. e) (on_state state_failure rollback_state) (m\<lparr>sm_shared := sh\<rparr>))"

section \<open>The consensus network sender\<close>

definition sc_envelope :: "scabbard_env \<Rightarrow> string \<Rightarrow> bytes \<Rightarrow> (scabbard_message, consensus_send_error) result" where
  "sc_envelope env service_id message =
     map_err CSInternal (map_result ScConsensusMessage
       (consensus_message_try_into (sc_consensus_c env) \<lparr>cm_message = message, origin_id = PeerId (as_bytes service_id)\<rparr>))"

definition sc_send_envelope ::
  "scabbard_env \<Rightarrow> network_sender \<Rightarrow> scabbard_message \<Rightarrow> string \<Rightarrow> (scabbard_shared, unit, consensus_send_error) action" where
  "sc_send_envelope env ns msg peer =
     bind_act (lift_act (\<lambda>_. map_err CSInternal (write_to_bytes (sc_message_c env) msg))) (\<lambda>bs.
       on_part (\<lambda>sh. sh) (\<lambda>sh _. sh) (\<lambda>_. CSInternal ''unable to send message'') (sc_net_send env ns bs peer))"

definition sc_send_to ::
  "scabbard_env \<Rightarrow> string \<Rightarrow> peer_id \<Rightarrow> bytes \<Rightarrow> (scabbard_shared, unit, consensus_send_error) action" where
  "sc_send_to env service_id peer_id message =
     bind_act (lift_act (\<lambda>_. map_err CSInternal (from_utf8 (peer_id_bytes peer_id)))) (\<lambda>peer.
     bind_act (lift_act (\<lambda>_. sc_envelope env service_id message)) (\<lambda>msg sh.
       if peer \<notin> set (sh_peer_services sh) then (Err (CSUnknownPeer peer_id), sh)
       else bind_act (lift_act (\<lambda>sh. ok_or CSNotReady (sh_network_sender sh))) (\<lambda>ns.
              sc_send_envelope env ns msg peer) sh))"

definition sc_broadcast ::
  "scabbard_env \<Rightarrow> string \<Rightarrow> bytes \<Rightarrow> (scabbard_shared, unit, consensus_send_error) action" where
  "sc_broadcast env service_id message =
     bind_act (lift_act (\<lambda>_. sc_envelope env service_id message)) (\<lambda>msg.
     bind_act (lift_act (\<lambda>sh. ok_or CSNotReady (sh_network_sender sh))) (\<lambda>ns sh.
       for_act (sh_peer_services sh) (sc_send_envelope env ns msg) sh))"

section \<open>The consensus manager\<close>

record sc_consensus_manager =
  scm_messages :: "consensus_message channel"
  scm_updates :: "proposal_update channel"

definition scm_startup :: "string \<Rightarrow> scabbard_shared \<Rightarrow> startup_state" where
  "scm_startup service_id sh =
     \<lparr>ss_id = PeerId (as_bytes service_id), ss_peer_ids = map (\<lambda>p. PeerId (as_bytes p)) (sh_peer_services sh),
      ss_last_proposal = None\<rparr>"

text \<open>\<open>spawn\<close> is the outcome of starting the thread, which runs the engine on \<open>scm_startup\<close>.\<close>

definition scm_new :: "(unit, string) result \<Rightarrow> (sc_consensus_manager, string) result" where
  "scm_new spawn =
     map_result (\<lambda>_. \<lparr>scm_messages = \<lparr>chan_open = True, chan_queue = []\<rparr>,
                       scm_updates = \<lparr>chan_open = True, chan_queue = []\<rparr>\<rparr>) spawn"

definition scm_send_update :: "proposal_update \<Rightarrow> (sc_consensus_manager, unit, string) action" where
  "scm_send_update u =
     on_part scm_updates (\<lambda>c m. m\<lparr>scm_updates := c\<rparr>) (\<lambda>_. ''sending on a closed channel'') (chan_send u)"

definition scm_handle_message :: "scabbard_env \<Rightarrow> bytes \<Rightarrow> (sc_consensus_manager, unit, string) action" where
  "scm_handle_message env bs =
     bind_act (lift_act (\<lambda>_. consensus_message_try_from (sc_consensus_c env) bs)) (\<lambda>message.
       on_part scm_messages (\<lambda>c m. m\<lparr>scm_messages := c\<rparr>) (\<lambda>_. ''sending on a closed channel'') (chan_send message))"

text \<open>The join that follows only logs.\<close>

definition scm_shutdown :: "(sc_consensus_manager, unit, string) action" where
  "scm_shutdown = scm_send_update Shutdown"

definition scm_error_text :: "string \<Rightarrow> string" where
  "scm_error_text e = ''scabbard consensus manager failed: '' @ e"

section \<open>The service\<close>

record scabbard =
  sb_circuit_id :: string
  sb_service_id :: string
  sb_shared :: scabbard_shared
  sb_consensus :: "sc_consensus_manager option"

text \<open>\<open>sha256\<close> names the files of the databases; \<open>startup\<close> is what opening them gives.\<close>

definition scabbard_new ::
  "transact \<Rightarrow> (bytes \<Rightarrow> (bytes, string) result) \<Rightarrow> (string \<Rightarrow> string \<Rightarrow> state_startup) \<Rightarrow> service_net \<Rightarrow>
   string \<Rightarrow> string \<Rightarrow> string list \<Rightarrow> string list \<Rightarrow> (scabbard, scabbard_error) result" where
  "scabbard_new tr sha256 startup net service_id circuit peer_services admin_keys =
     bind_result (map_err ScInitializationFailed
       (map_result to_hex (sha256 (as_bytes (service_id @ ''::'' @ circuit))))) (\<lambda>hash.
     bind_result (map_err (\<lambda>e. case e of StateError t \<Rightarrow> ScInitializationFailed (''scabbard state error: '' @ t)
                                     | StateHexPanic \<Rightarrow> ScInitializationFailed '''')
       (state_new tr (startup (hash @ ''-state.lmdb'') (hash @ ''-receipts.lmdb'')) admin_keys)) (\<lambda>st.
       Ok \<lparr>sb_circuit_id = circuit, sb_service_id = service_id,
            sb_shared = scabbard_shared_new [] None net peer_services st, sb_consensus = None\<rparr>))"

text \<open>\<open>now k\<close> is the time at which the \<open>k\<close>-th batch is added.\<close>

fun queue_batches ::
  "entry_order \<Rightarrow> (nat \<Rightarrow> nat) \<Rightarrow> nat \<Rightarrow> batch_pair list \<Rightarrow> scabbard_shared \<Rightarrow> scabbard_shared" where
  "queue_batches entries now k [] sh = sh"
| "queue_batches entries now k (batch # batches) sh =
     queue_batches entries now (Suc k) batches
       (add_batch_to_queue batch
         (sh\<lparr>sh_state := (sh_state sh)\<lparr>ss_batch_history :=
            add_batch entries (now k) (bp_header_signature batch) (ss_batch_history (sh_state sh))\<rparr>\<rparr>))"

definition status_link :: "scabbard \<Rightarrow> batch_pair list \<Rightarrow> string" where
  "status_link sb batches =
     butlast (''/scabbard/'' @ sb_circuit_id sb @ ''/'' @ sb_service_id sb @ ''/batch_statuses?ids='' @
       concat (map (\<lambda>b. bp_header_signature b @ '','') batches))"

definition add_batches ::
  "scabbard_env \<Rightarrow> (nat \<Rightarrow> nat) \<Rightarrow> batch_pair list \<Rightarrow> (scabbard, string option, sc_service_error) action" where
  "add_batches env now batches sb =
     (case verify_batches env batches of
        Err e \<Rightarrow> (Err e, sb)
      | Ok False \<Rightarrow> (Ok None, sb)
      | Ok True \<Rightarrow>
          (Ok (Some (status_link sb batches)),
           sb\<lparr>sb_shared := queue_batches (sc_entries env) now 0 batches (sb_shared sb)\<rparr>))"

definition get_batch_infos :: "nat \<Rightarrow> string list \<Rightarrow> scabbard \<Rightarrow> batch_info list" where
  "get_batch_infos now ids sb =
     map (\<lambda>signature. get_batch_info now signature (ss_batch_history (sh_state (sb_shared sb)))) ids"

definition on_sb_shared ::
  "('e \<Rightarrow> 'f) \<Rightarrow> (scabbard_shared, 'a, 'e) action \<Rightarrow> (scabbard, 'a, 'f) action" where
  "on_sb_shared = on_part sb_shared (\<lambda>sh sb. sb\<lparr>sb_shared := sh\<rparr>)"

definition sb_subscribe_to_state :: "(unit, string) result \<Rightarrow> (scabbard, unit, string) action" where
  "sb_subscribe_to_state start = on_sb_shared (\<lambda>e. e) (on_state (\<lambda>e. e) (subscribe_to_state start))"

datatype sc_start_error =
  ScAlreadyStarted | ScUnableToConnect service_connection_error | ScStartInternal scabbard_error

datatype sc_stop_error =
  ScStopNotStarted | ScUnableToDisconnect service_connection_error | ScStopInternal scabbard_error

datatype sc_destroy_error = ScNotStopped

definition sb_start ::
  "(string \<Rightarrow> (network_sender, service_connection_error) result) \<Rightarrow> (unit, string) result \<Rightarrow>
   (scabbard, unit, sc_start_error) action" where
  "sb_start connect spawn sb =
     (if sb_consensus sb \<noteq> None then (Err ScAlreadyStarted, sb)
      else
        bind_act (lift_act (\<lambda>sb. map_err ScUnableToConnect (connect (sb_service_id sb)))) (\<lambda>ns.
        bind_act (modify_act (\<lambda>sb. sb\<lparr>sb_shared := (sb_shared sb)\<lparr>sh_network_sender := Some ns\<rparr>\<rparr>)) (\<lambda>_.
        bind_act (lift_act (\<lambda>_. map_err (\<lambda>e. ScStartInternal (ScConsensusFailed (scm_error_text e))) (scm_new spawn)))
          (\<lambda>manager. modify_act (\<lambda>sb. sb\<lparr>sb_consensus := Some manager\<rparr>)))) sb)"

definition sb_stop ::
  "(string \<Rightarrow> (unit, service_connection_error) result) \<Rightarrow> (scabbard, unit, sc_stop_error) action" where
  "sb_stop disconnect sb =
     (case sb_consensus sb of
        None \<Rightarrow> (Err ScStopNotStarted, sb)
      | Some manager \<Rightarrow>
          bind_act (lift_act (\<lambda>_. map_err (\<lambda>e. ScStopInternal (ScConsensusFailed (scm_error_text e)))
                      (fst (scm_shutdown manager)))) (\<lambda>_.
          bind_act (lift_act (\<lambda>sb. ok_or (ScStopInternal ScNotConnected) (sh_network_sender (sb_shared sb)))) (\<lambda>_.
          bind_act (modify_act (\<lambda>sb. sb\<lparr>sb_shared := (sb_shared sb)\<lparr>sh_network_sender := None,
                      sh_state := shutdown_event_dealer (sh_state (sb_shared sb))\<rparr>\<rparr>)) (\<lambda>_.
            lift_act (\<lambda>sb. map_err ScUnableToDisconnect (disconnect (sb_service_id sb))))))
            (sb\<lparr>sb_consensus := None\<rparr>))"

definition sb_destroy :: "scabbard \<Rightarrow> (unit, sc_destroy_error) result" where
  "sb_destroy sb = (if sb_consensus sb \<noteq> None then Err ScNotStopped else Ok ())"

definition with_sc_consensus ::
  "(sc_consensus_manager, unit, string) action \<Rightarrow> (scabbard, unit, sc_service_error) action" where
  "with_sc_consensus m sb =
     (case sb_consensus sb of
        None \<Rightarrow> (Err ScNotStarted, sb)
      | Some manager \<Rightarrow>
          (let (r, manager') = m manager
           in (map_err (\<lambda>e. ScUnableToHandle (scm_error_text e)) r, sb\<lparr>sb_consensus := Some manager'\<rparr>)))"

definition sb_handle_message :: "scabbard_env \<Rightarrow> bytes \<Rightarrow> (scabbard, unit, sc_service_error) action" where
  "sb_handle_message env bs =
     bind_act (lift_act (\<lambda>_. map_err ScInvalidFormat (parse_from_bytes (sc_message_c env) bs))) (\<lambda>msg.
       case msg of
         ScConsensusMessage cbs \<Rightarrow> with_sc_consensus (scm_handle_message env cbs)
       | ScProposedBatch pb \<Rightarrow>
           bind_act (lift_act (\<lambda>_. map_err ScInvalidFormat (proposal_try_from (sc_proposal_c env) (pb_proposal pb)))) (\<lambda>new.
           bind_act (lift_act (\<lambda>_. map_err ScUnableToHandle (parse_from_bytes (sc_batch_c env) (pb_batch pb)))) (\<lambda>batch.
           bind_act (modify_act (\<lambda>sb. sb\<lparr>sb_shared := add_proposed_batch (prop_id new) batch (sb_shared sb)\<rparr>)) (\<lambda>_.
             with_sc_consensus (scm_send_update (ProposalReceived new (PeerId (as_bytes (pb_service_id pb))))))))
       | ScUnset \<Rightarrow> fail_act (ScInvalidMessage ScMessageTypeUnset))"

section \<open>The factory and the REST endpoints\<close>

datatype factory_error = InvalidArguments string | CreationFailed scabbard_error

text \<open>\<open>json_strings\<close> reads a JSON array of strings.\<close>

definition scabbard_create ::
  "(string \<Rightarrow> (string list, string) result) \<Rightarrow>
   (string list \<Rightarrow> string list \<Rightarrow> (scabbard, scabbard_error) result) \<Rightarrow> (string \<rightharpoonup> string) \<Rightarrow>
   (scabbard, factory_error) result" where
  "scabbard_create json_strings new_service args =
     bind_result (ok_or (InvalidArguments ''peer_services argument not provided'') (args ''peer_services'')) (\<lambda>peers_str.
     bind_result (map_err (\<lambda>e. InvalidArguments (''failed to parse peer_services list: '' @ e)) (json_strings peers_str)) (\<lambda>peers.
     bind_result (ok_or (InvalidArguments ''admin_keys argument not provided'') (args ''admin_keys'')) (\<lambda>keys_str.
     bind_result (map_err (\<lambda>e. InvalidArguments (''failed to parse admin_keys list: '' @ e)) (json_strings keys_str)) (\<lambda>keys.
       map_err CreationFailed (new_service (remdups peers) keys)))))"

datatype http_response = HttpAccepted string | HttpBadRequest string | HttpInternalServerError | HttpOk "batch_info list"
| HttpPanicked

text \<open>The body of \<open>POST /batches\<close>, which gives no response when it panics; \<open>batch_list\<close> reads a list of batches.\<close>

definition post_batches ::
  "scabbard_env \<Rightarrow> (bytes \<Rightarrow> (batch_pair list, string) result) \<Rightarrow> (nat \<Rightarrow> nat) \<Rightarrow> bytes \<Rightarrow> scabbard \<Rightarrow>
   http_response \<times> scabbard" where
  "post_batches env batch_list now body sb =
     (case batch_list body of
        Err _ \<Rightarrow> (HttpBadRequest '''', sb)
      | Ok batches \<Rightarrow>
          (case add_batches env now batches sb of
             (Ok (Some link), sb') \<Rightarrow> (HttpAccepted link, sb')
           | (Ok None, sb') \<Rightarrow> (HttpBadRequest '''', sb')
           | (Err ScPanic, sb') \<Rightarrow> (HttpPanicked, sb')
           | (Err _, sb') \<Rightarrow> (HttpInternalServerError, sb')))"

text \<open>\<open>str::split\<close> on a character.\<close>

fun split_on :: "char \<Rightarrow> string \<Rightarrow> string list" where
  "split_on c [] = [[]]"
| "split_on c (x # xs) =
     (if x = c then [] # split_on c xs
      else case split_on c xs of [] \<Rightarrow> [[x]] | p # ps \<Rightarrow> (x # p) # ps)"

definition get_batch_statuses :: "nat \<Rightarrow> (string \<rightharpoonup> string) option \<Rightarrow> scabbard \<Rightarrow> http_response" where
  "get_batch_statuses now query sb =
     (case query of
        None \<Rightarrow> HttpBadRequest ''Invalid query''
      | Some q \<Rightarrow>
          (case q ''ids'' of
             None \<Rightarrow> HttpBadRequest ''No batch IDs specified''
           | Some ids \<Rightarrow> HttpOk (get_batch_infos now (split_on (CHR '','') ids) sb)))"

end
