(* ===== verification/Scabbard_Node.thy ===== *)
theory Scabbard_Node
  imports Scabbard
begin

text \<open>
  A scabbard service with the two-phase engine its consensus thread runs, put together as
  \<open>ScabbardConsensusManager::new\<close> (\<^verbatim>\<open>libsplinter/src/service/scabbard/consensus.rs\<close>) does, and what every step of
  it keeps: the change that is ready to be committed was computed on the current state root, and while the
  engine evaluates a proposal it leads to the state root the proposal names, unless the service has reported
  the proposal invalid.

  The proposal manager is an instance of the contract \<open>engine_client\<close>. The messages and updates the engine
  receives are arbitrary.
\<close>

section \<open>Nodes\<close>

record sc_world =
  cw_env :: scabbard_env
  cw_wire :: "two_phase_message codec"
  cw_verifiers :: "required_verifiers_msg codec"
  cw_service_id :: string

fun sc_perform :: "sc_world \<Rightarrow> effect \<Rightarrow> unit sc_manager_action" where
  "sc_perform w (Consensus.CreateProposal prev data) = sc_create_proposal (cw_service_id w) (cw_env w) prev data"
| "sc_perform w (CheckProposal i) = sc_check_proposal (cw_env w) i"
| "sc_perform w (AcceptProposal i data) = sc_accept_proposal (cw_env w) i data"
| "sc_perform w (RejectProposal i) = sc_reject_proposal i"
| "sc_perform w (SendTo _ _) = pure_act ()"
| "sc_perform w (Broadcast _) = pure_act ()"

fun sc_transmit :: "sc_world \<Rightarrow> effect \<Rightarrow> (scabbard_manager, unit, consensus_send_error) action" where
  "sc_transmit w (SendTo peer bs) = on_sm_shared (\<lambda>e. e) (sc_send_to (cw_env w) (cw_service_id w) peer bs)"
| "sc_transmit w (Broadcast bs) = on_sm_shared (\<lambda>e. e) (sc_broadcast (cw_env w) (cw_service_id w) bs)"
| "sc_transmit w _ = pure_act ()"

definition sc_pm :: "sc_world \<Rightarrow> scabbard_manager pm_calls" where
  "sc_pm w = replying (sc_perform w)"

definition sc_iteration ::
  "sc_world \<Rightarrow> tick \<Rightarrow> scabbard_manager \<Rightarrow> engine_run \<Rightarrow> engine_run \<times> effect list" where
  "sc_iteration w = client_iteration (sc_pm w) (sc_transmit w) (cw_wire w) (cw_verifiers w)"

abbreviation sc_calls :: "sc_world \<Rightarrow> effect list \<Rightarrow> scabbard_manager \<Rightarrow> scabbard_manager" where
  "sc_calls w \<equiv> client_calls (sc_pm w) (sc_transmit w)"

record sc_node =
  sn_engine :: engine_run
  sn_service :: scabbard

definition sc_manager_of :: "scabbard \<Rightarrow> sc_consensus_manager \<Rightarrow> scabbard_manager" where
  "sc_manager_of sb c = \<lparr>sm_updates = scm_updates c, sm_shared = sb_shared sb\<rparr>"

definition with_sc_manager :: "scabbard_manager \<Rightarrow> sc_consensus_manager \<Rightarrow> scabbard \<Rightarrow> scabbard" where
  "with_sc_manager m c sb = sb\<lparr>sb_shared := sm_shared m, sb_consensus := Some (c\<lparr>scm_updates := sm_updates m\<rparr>)\<rparr>"

inductive sc_step :: "sc_world \<Rightarrow> sc_node \<Rightarrow> sc_node \<Rightarrow> bool" for w where
  sc_engine:
  "sc_step w nd (nd\<lparr>sn_engine := s', sn_service := with_sc_manager (sc_calls w es (sc_manager_of (sn_service nd) c)) c
       (sn_service nd)\<rparr>)"
  if "sb_consensus (sn_service nd) = Some c"
    "sc_iteration w k (sc_manager_of (sn_service nd) c) (sn_engine nd) = (s', es)"
    "\<not> panics (sc_perform w) (sc_transmit w) es (sc_manager_of (sn_service nd) c)"
| sc_message: "sc_step w nd (nd\<lparr>sn_service := snd (sb_handle_message (cw_env w) bs (sn_service nd))\<rparr>)"
| sc_add: "sc_step w nd (nd\<lparr>sn_service := snd (add_batches (cw_env w) now batches (sn_service nd))\<rparr>)"
| sc_subscribe: "sc_step w nd (nd\<lparr>sn_service := snd (sb_subscribe_to_state start (sn_service nd))\<rparr>)"
| sc_start:
  "sc_step w nd (nd\<lparr>sn_engine :=
       engine_start (scm_startup (cw_service_id w) (sb_shared (sn_service nd))) (engine_new duration now),
       sn_service := snd (sb_start connect spawn (sn_service nd))\<rparr>)"
  if "sb_consensus (sn_service nd) = None"
| sc_stop: "sc_step w nd (nd\<lparr>sn_service := snd (sb_stop disconnect (sn_service nd))\<rparr>)"

definition sc_node_new :: "scabbard \<Rightarrow> nat \<Rightarrow> nat \<Rightarrow> sc_node" where
  "sc_node_new sb duration now = \<lparr>sn_engine = engine_new duration now, sn_service = sb\<rparr>"

inductive sc_reachable :: "sc_world \<Rightarrow> sc_node \<Rightarrow> bool" for w where
  sc_init: "sc_reachable w (sc_node_new sb duration now)"
  if "scabbard_new (sc_transact (cw_env w)) sha256 startup net (cw_service_id w) circuit ps keys = Ok sb"
| sc_more: "sc_reachable w nd'" if "sc_reachable w nd" "sc_step w nd nd'"

section \<open>The change that is ready\<close>

text \<open>It was computed by executing a batch on the current state root.\<close>

definition fresh_change :: "transact \<Rightarrow> scabbard_state \<Rightarrow> bool" where
  "fresh_change tr s \<longleftrightarrow> (\<forall>signature rs. ss_pending_changes s = Some (signature, rs) \<longrightarrow>
     (\<exists>batch. bp_header_signature batch = signature \<and>
        tr_execute tr (ss_current_state_root s) batch = Ok (Some (map TxnValid rs))))"

text \<open>It leads to the state root \<open>i\<close>, or the engine has been told that \<open>i\<close> is invalid.\<close>

definition leads_to :: "transact \<Rightarrow> proposal_id \<Rightarrow> scabbard_manager \<Rightarrow> bool" where
  "leads_to tr i m \<longleftrightarrow> (\<forall>signature rs. ss_pending_changes (sh_state (sm_shared m)) = Some (signature, rs) \<longrightarrow>
     (\<exists>h. tr_compute_state_id tr (ss_current_state_root (sh_state (sm_shared m))) (receipts_into_state_changes rs) = Ok h \<and>
        (ProposalId (as_bytes h) = i \<or> ProposalInvalid i \<in> set (chan_queue (sm_updates m)))))"

definition sc_inv :: "transact \<Rightarrow> scabbard_manager \<Rightarrow> bool" where
  "sc_inv tr m \<longleftrightarrow> chan_open (sm_updates m) \<and> fresh_change tr (sh_state (sm_shared m))"

text \<open>What the two depend on.\<close>

definition sc_basis :: "scabbard_manager \<Rightarrow> string \<times> (string \<times> transaction_receipt list) option \<times> proposal_update channel" where
  "sc_basis m = (ss_current_state_root (sh_state (sm_shared m)), ss_pending_changes (sh_state (sm_shared m)), sm_updates m)"

lemma basis_leads: "sc_basis m = sc_basis m' \<Longrightarrow> leads_to tr i m = leads_to tr i m'"
  by (simp add: sc_basis_def leads_to_def)

lemma basis_inv: "sc_basis m = sc_basis m' \<Longrightarrow> sc_inv tr m = sc_inv tr m'"
  by (simp add: sc_basis_def sc_inv_def fresh_change_def)

lemma leads_none: "ss_pending_changes (sh_state (sm_shared m)) = None \<Longrightarrow> leads_to tr i m"
  by (simp add: leads_to_def)

lemma fresh_none: "ss_pending_changes s = None \<Longrightarrow> fresh_change tr s"
  by (simp add: fresh_change_def)

subsection \<open>Sending\<close>

lemma state_net_send [simp]: "sh_state (snd (sc_net_send env ns bs service sh)) = sh_state sh"
  by (simp add: sc_net_send_def snd_on_part)

lemma state_send_envelope [simp]: "sh_state (snd (sc_send_envelope env ns msg peer sh)) = sh_state sh"
  by (auto simp: sc_send_envelope_def bind_act_def lift_act_def snd_on_part split: result.split)

lemma keeps_state_send_envelope: "keeps (\<lambda>sh. sh_state sh = st) (sc_send_envelope env ns msg peer)"
  by (simp add: keeps_def)

lemma state_send_to [simp]: "sh_state (snd (sc_send_to env i peer bs sh)) = sh_state sh"
  by (auto simp: sc_send_to_def bind_act_def lift_act_def split: result.split)

lemma state_broadcast [simp]: "sh_state (snd (sc_broadcast env i bs sh)) = sh_state sh"
proof -
  have "keeps (\<lambda>t. sh_state t = sh_state sh) (for_act ps (sc_send_envelope env ns msg))" for ps ns msg
    by (intro keeps_for keeps_state_send_envelope)
  from keepsD [OF this] show ?thesis
    by (auto simp: sc_broadcast_def bind_act_def lift_act_def split: result.split)
qed

lemma basis_transmit [simp]: "sc_basis (snd (sc_transmit w e m)) = sc_basis m"
  by (cases e) (simp_all add: sc_basis_def on_sm_shared_def snd_on_part pure_act_def)

subsection \<open>The calls of the engine\<close>

lemma prepare_inv: "keeps (sc_inv tr) (on_sm_shared (\<lambda>e. e) (on_state f (prepare_change tr batch)))"
proof (rule keepsI)
  fix m assume m: "sc_inv tr m"
  show "sc_inv tr (snd (on_sm_shared (\<lambda>e. e) (on_state f (prepare_change tr batch)) m))"
  proof (cases "prepare_change tr batch (sh_state (sm_shared m))")
    case (Pair r s')
    show ?thesis
    proof (cases r)
      case (Ok h)
      obtain rs where "tr_execute tr (ss_current_state_root (sh_state (sm_shared m))) batch = Ok (Some (map TxnValid rs))"
        "ss_pending_changes s' = Some (bp_header_signature batch, rs)"
        "ss_current_state_root s' = ss_current_state_root (sh_state (sm_shared m))"
        by (rule prepare_change_Ok [OF Pair [unfolded Ok]]) simp
      with m Pair show ?thesis
        by (auto simp: sc_inv_def fresh_change_def on_sm_shared_def on_state_def snd_on_part)
    next
      case (Err e)
      from prepare_change_Err [OF Pair [unfolded Err]] m Pair show ?thesis
        by (auto simp: sc_inv_def fresh_change_def on_sm_shared_def on_state_def snd_on_part)
    qed
  qed
qed

lemma open_chan_send [simp]: "chan_open (snd (chan_send u c)) = chan_open c"
  by (simp add: chan_send_def)

lemma update_inv: "keeps (sc_inv tr) (sc_send_update u)"
  by (simp add: keeps_def sc_inv_def sc_send_update_def snd_on_part)

lemma net_send_inv: "keeps (sc_inv tr) (on_sm_shared f (sc_net_send env ns bs service))"
  by (simp add: keeps_def sc_inv_def on_sm_shared_def snd_on_part)

lemma peers_inv:
  "keeps (sc_inv tr) (\<lambda>m. for_act (ps m) (\<lambda>service. on_sm_shared f (sc_net_send env ns bs service)) m)"
  unfolding keeps_def by (intro allI impI) (erule keepsD [rotated], intro keeps_for net_send_inv)

lemma create_inv:
  assumes "sc_inv (sc_transact env) m"
  shows "sc_inv (sc_transact env) (snd (sc_create_proposal i env prev data m))"
proof (cases "sh_batch_queue (sm_shared m)")
  case Nil
  with assms keepsD [OF update_inv, of "sc_transact env" m "ProposalCreated None"] show ?thesis
    by (simp add: sc_create_proposal_def pop_batch_from_queue_def)
next
  case (Cons batch bs)
  let ?m = "m\<lparr>sm_shared := (sm_shared m)\<lparr>sh_batch_queue := bs\<rparr>\<rparr>"
  have "sc_inv (sc_transact env) ?m" using assms by (simp add: sc_inv_def)
  then show ?thesis
    unfolding sc_create_proposal_def pop_batch_from_queue_def Cons list.case prod.case option.case Let_def internal_result_def
    by (rule keepsD [rotated]) (intro keeps_intros prepare_inv update_inv peers_inv,
        simp add: sc_inv_def add_proposed_batch_def)
qed

lemma check_inv:
  assumes "sc_inv (sc_transact env) m"
  shows "sc_inv (sc_transact env) (snd (sc_check_proposal env i m))"
proof (cases "sh_proposed_batches (sm_shared m) i")
  case None
  with assms show ?thesis by (simp add: sc_check_proposal_def)
next
  case (Some batch)
  from assms show ?thesis unfolding sc_check_proposal_def Some option.case
    by (rule keepsD [rotated]) (intro keeps_intros prepare_inv update_inv)
qed

lemma shared_update [simp]: "sm_shared (snd (sc_send_update u m)) = sm_shared m"
  by (simp add: sc_send_update_def snd_on_part)

lemma updates_on_shared [simp]: "sm_updates (snd (on_sm_shared f a m)) = sm_updates m"
  by (simp add: on_sm_shared_def snd_on_part)

lemma accept_cases:
  obtains (unknown) "sh_proposed_batches (sm_shared m) i = None" "sc_basis (snd (sc_accept_proposal env i d m)) = sc_basis m"
  | (known) "ss_pending_changes (sh_state (sm_shared (snd (sc_accept_proposal env i d m)))) = None"
      "chan_open (sm_updates (snd (sc_accept_proposal env i d m))) = chan_open (sm_updates m)"
proof (cases "sh_proposed_batches (sm_shared m) i")
  case None
  with unknown show thesis
    by (simp add: sc_accept_proposal_def remove_proposed_batch_def sc_basis_def)
next
  case (Some batch)
  then show thesis
    by (intro known)
      (simp_all add: sc_accept_proposal_def remove_proposed_batch_def bind_act_def on_sm_shared_def on_state_def
        on_part_def case_prod_beta commit_state_pending sc_send_update_def split: result.split)
qed

lemma accept_keeps:
  "sc_inv tr m \<Longrightarrow> sc_inv tr (snd (sc_accept_proposal env i d m))"
  "leads_to tr p m \<Longrightarrow> leads_to tr p (snd (sc_accept_proposal env i d m))"
proof -
  let ?m = "snd (sc_accept_proposal env i d m)"
  have "(sc_inv tr m \<longrightarrow> sc_inv tr ?m) \<and> (leads_to tr p m \<longrightarrow> leads_to tr p ?m)"
  proof (cases rule: accept_cases [of m i env d])
    case unknown
    from basis_inv [OF unknown(2)] basis_leads [OF unknown(2)] show ?thesis by blast
  next
    case known
    from leads_none [OF known(1)] fresh_none [OF known(1)] known(2) show ?thesis by (simp add: sc_inv_def)
  qed
  then show "sc_inv tr m \<Longrightarrow> sc_inv tr ?m" "leads_to tr p m \<Longrightarrow> leads_to tr p ?m" by blast+
qed

lemma reject_keeps:
  "sc_inv tr m \<Longrightarrow> sc_inv tr (snd (sc_reject_proposal i m))"
  "leads_to tr p m \<Longrightarrow> leads_to tr p (snd (sc_reject_proposal i m))"
  by (auto simp: sc_reject_proposal_def remove_proposed_batch_def on_sm_shared_def on_state_def snd_on_part
      rollback_state_def modify_act_def sc_inv_def fresh_change_def leads_to_def split: option.split)

lemma check_prepared:
  assumes "prepare_change (sc_transact env) batch (sh_state (sm_shared m)) = (Ok h, s')"
    and "sh_proposed_batches (sm_shared m) i = Some batch" and "chan_open (sm_updates m)"
  shows "leads_to (sc_transact env) i (snd (sc_check_proposal env i m))"
proof -
  let ?u = "if as_bytes h \<noteq> proposal_id_bytes i then ProposalInvalid i else ProposalValid i"
  have m': "snd (sc_check_proposal env i m) = m\<lparr>sm_shared := (sm_shared m)\<lparr>sh_state := s'\<rparr>,
      sm_updates := (sm_updates m)\<lparr>chan_queue := chan_queue (sm_updates m) @ [?u]\<rparr>\<rparr>"
    using assms by (simp add: sc_check_proposal_def bind_act_def on_sm_shared_def on_state_def on_part_def
        sc_send_update_def chan_send_def)
  obtain rs where "ss_pending_changes s' = Some (bp_header_signature batch, rs)"
    "ss_current_state_root s' = ss_current_state_root (sh_state (sm_shared m))"
    "tr_compute_state_id (sc_transact env) (ss_current_state_root (sh_state (sm_shared m)))
       (receipts_into_state_changes rs) = Ok h"
    by (rule prepare_change_Ok [OF assms(1)]) simp
  then show ?thesis
    unfolding m' by (cases i) (simp add: leads_to_def)
qed

lemma check_leads:
  assumes "sc_inv (sc_transact env) m" and "leads_to (sc_transact env) i m \<or> fst (sc_check_proposal env i m) = Ok ()"
  shows "leads_to (sc_transact env) i (snd (sc_check_proposal env i m))"
proof (cases "sh_proposed_batches (sm_shared m) i")
  case None
  with assms show ?thesis by (auto simp: sc_check_proposal_def)
next
  case (Some batch)
  show ?thesis
  proof (cases "prepare_change (sc_transact env) batch (sh_state (sm_shared m))")
    case (Pair r s')
    show ?thesis
    proof (cases r)
      case (Ok h)
      with check_prepared Pair Some assms(1) show ?thesis by (simp add: sc_inv_def)
    next
      case (Err e)
      from prepare_change_Err [OF Pair [unfolded Err]] Pair Err Some assms(2) show ?thesis
        by (auto simp: sc_check_proposal_def bind_act_def on_sm_shared_def on_state_def on_part_def leads_to_def)
    qed
  qed
qed

lemma sc_pm_reply: "fst (sc_pm w e m) = manager_reply (fst (sc_perform w e m))"
  by (simp add: sc_pm_def replying_def)

lemma call_basis: "sc_basis (client_call (sc_pm w) (sc_transmit w) e m) = sc_basis (snd (sc_perform w e m))"
  by (simp add: client_call_def sc_pm_def replying_def)

lemma sc_call_inv:
  "sc_inv (sc_transact (cw_env w)) m \<Longrightarrow> sc_inv (sc_transact (cw_env w)) (client_call (sc_pm w) (sc_transmit w) e m)"
  unfolding basis_inv [OF call_basis]
  by (cases e) (simp_all add: create_inv check_inv accept_keeps reject_keeps pure_act_def)

lemma sc_call_check:
  "sc_inv (sc_transact (cw_env w)) m \<Longrightarrow> fst (sc_pm w (CheckProposal i) m) = Ok () \<Longrightarrow>
   leads_to (sc_transact (cw_env w)) i (client_call (sc_pm w) (sc_transmit w) (CheckProposal i) m)"
  unfolding basis_leads [OF call_basis]
  by (simp add: check_leads sc_pm_reply manager_reply_def rust_simps)

lemma sc_call_leads:
  "sc_inv (sc_transact (cw_env w)) m \<Longrightarrow> leads_to (sc_transact (cw_env w)) p m \<Longrightarrow> spares p e \<Longrightarrow>
   leads_to (sc_transact (cw_env w)) p (client_call (sc_pm w) (sc_transmit w) e m)"
  unfolding basis_leads [OF call_basis]
  by (cases e) (simp_all add: check_leads accept_keeps reject_keeps pure_act_def)

interpretation sm: engine_client "sc_pm w" "sc_transmit w" "cw_wire w" "cw_verifiers w"
    "sc_inv (sc_transact (cw_env w))" "leads_to (sc_transact (cw_env w))"
  for w :: sc_world
  by unfold_locales (rule sc_call_inv sc_call_check sc_call_leads; assumption)+

section \<open>The invariant of a node\<close>

definition sc_ok :: "sc_world \<Rightarrow> sc_node \<Rightarrow> bool" where
  "sc_ok w nd \<longleftrightarrow> fresh_change (sc_transact (cw_env w)) (sh_state (sb_shared (sn_service nd))) \<and>
     (\<forall>c. sb_consensus (sn_service nd) = Some c \<longrightarrow> chan_open (scm_updates c) \<and>
       (\<forall>p \<in> evaluated (sn_engine nd). leads_to (sc_transact (cw_env w)) p (sc_manager_of (sn_service nd) c)))"

lemma sc_ok_manager:
  assumes "sc_ok w nd" and "sb_consensus (sn_service nd) = Some c"
  shows "sc_inv (sc_transact (cw_env w)) (sc_manager_of (sn_service nd) c)"
    and "\<forall>p \<in> evaluated (sn_engine nd). leads_to (sc_transact (cw_env w)) p (sc_manager_of (sn_service nd) c)"
  using assms by (simp_all add: sc_ok_def sc_inv_def sc_manager_of_def)

lemma sc_ok_engine:
  assumes "sc_ok w nd" and "sb_consensus (sn_service nd) = Some c"
    and "sc_iteration w k (sc_manager_of (sn_service nd) c) (sn_engine nd) = (s', es)"
  shows "sc_ok w (nd\<lparr>sn_engine := s',
    sn_service := with_sc_manager (sc_calls w es (sc_manager_of (sn_service nd) c)) c (sn_service nd)\<rparr>)"
  using sm.client_iteration_ready(2,3) [OF sc_ok_manager [OF assms(1,2)] assms(3) [unfolded sc_iteration_def]]
  by (simp add: sc_ok_def sc_inv_def with_sc_manager_def sc_manager_of_def leads_to_def)

text \<open>A step of the service that leaves the state root and the pending change alone and only adds to the updates.\<close>

definition sc_same :: "scabbard \<Rightarrow> scabbard \<Rightarrow> bool" where
  "sc_same sb sb' \<longleftrightarrow>
     ss_current_state_root (sh_state (sb_shared sb')) = ss_current_state_root (sh_state (sb_shared sb)) \<and>
     ss_pending_changes (sh_state (sb_shared sb')) = ss_pending_changes (sh_state (sb_shared sb)) \<and>
     (\<forall>c'. sb_consensus sb' = Some c' \<longrightarrow> (\<exists>c. sb_consensus sb = Some c \<and>
        chan_open (scm_updates c') = chan_open (scm_updates c) \<and>
        set (chan_queue (scm_updates c)) \<subseteq> set (chan_queue (scm_updates c'))))"

lemma sc_ok_same:
  assumes "sc_ok w nd" and "sc_same (sn_service nd) sb"
  shows "sc_ok w (nd\<lparr>sn_service := sb\<rparr>)"
proof -
  have "leads_to tr p (sc_manager_of sb c')"
    if "sb_consensus sb = Some c'" "sb_consensus (sn_service nd) = Some c" "leads_to tr p (sc_manager_of (sn_service nd) c)"
      "set (chan_queue (scm_updates c)) \<subseteq> set (chan_queue (scm_updates c'))" for tr p c c'
    using that assms(2) by (fastforce simp: leads_to_def sc_manager_of_def sc_same_def)
  with assms show ?thesis by (fastforce simp: sc_ok_def sc_same_def fresh_change_def)
qed

lemma same_refl [simp]: "sc_same sb sb"
  by (simp add: sc_same_def)

lemma same_consensus:
  assumes "\<And>c. set (chan_queue (scm_updates c)) \<subseteq> set (chan_queue (scm_updates (snd (a c))))"
    and "\<And>c. chan_open (scm_updates (snd (a c))) = chan_open (scm_updates c)"
    and "ss_current_state_root (sh_state (sb_shared sb')) = ss_current_state_root (sh_state (sb_shared sb))"
    and "ss_pending_changes (sh_state (sb_shared sb')) = ss_pending_changes (sh_state (sb_shared sb))"
    and "sb_consensus sb' = sb_consensus sb"
  shows "sc_same sb (snd (with_sc_consensus a sb'))"
  using assms by (simp add: with_sc_consensus_def sc_same_def Let_def case_prod_beta split: option.split)

lemma same_message: "sc_same sb (snd (sb_handle_message env bs sb))"
proof (cases "parse_from_bytes (sc_message_c env) bs")
  case (Err e)
  then show ?thesis by (simp add: sb_handle_message_def bind_act_def lift_act_def)
next
  case (Ok msg)
  show ?thesis
  proof (cases msg)
    case (ScConsensusMessage cbs)
    have "sc_same sb (snd (with_sc_consensus (scm_handle_message env cbs) sb))"
      by (rule same_consensus)
        (auto simp: scm_handle_message_def bind_act_def lift_act_def snd_on_part split: result.split)
    with Ok ScConsensusMessage show ?thesis by (simp add: sb_handle_message_def bind_act_def lift_act_def)
  next
    case (ScProposedBatch pb)
    have "sc_same sb (snd (with_sc_consensus (scm_send_update u) (sb\<lparr>sb_shared := add_proposed_batch i b (sb_shared sb)\<rparr>)))"
      for u i b
      by (rule same_consensus)
        (auto simp: scm_send_update_def snd_on_part add_proposed_batch_def chan_send_def)
    with Ok ScProposedBatch show ?thesis
      by (auto simp: sb_handle_message_def bind_act_def lift_act_def modify_act_def split: result.split)
  qed (use Ok in \<open>simp add: sb_handle_message_def bind_act_def lift_act_def fail_act_def\<close>)
qed

lemma queue_batches_same:
  "ss_current_state_root (sh_state (queue_batches en now k batches sh)) = ss_current_state_root (sh_state sh) \<and>
   ss_pending_changes (sh_state (queue_batches en now k batches sh)) = ss_pending_changes (sh_state sh)"
  by (induction batches arbitrary: k sh) (simp_all add: add_batch_to_queue_def)

lemma same_add: "sc_same sb (snd (add_batches env now batches sb))"
  using queue_batches_same [of "sc_entries env" now 0 batches "sb_shared sb"]
  by (auto simp: add_batches_def sc_same_def split: result.split bool.split)

lemma same_subscribe: "sc_same sb (snd (sb_subscribe_to_state start sb))"
  by (auto simp: sb_subscribe_to_state_def on_sb_shared_def on_state_def snd_on_part subscribe_to_state_def bind_act_def
      on_part_def dealer_subscribe_def modify_act_def sc_same_def split: result.split)

lemma same_stop_scabbard: "sc_same sb (snd (sb_stop disconnect sb))"
  by (auto simp: sb_stop_def bind_act_def lift_act_def modify_act_def sc_same_def shutdown_event_dealer_def
      split: option.split result.split)

lemma sc_ok_start:
  assumes "sc_ok w nd" and "sb_consensus (sn_service nd) = None"
  shows "sc_ok w (nd\<lparr>sn_engine := engine_start st (engine_new duration now),
    sn_service := snd (sb_start connect spawn (sn_service nd))\<rparr>)"
  using assms
  by (auto simp: sc_ok_def sb_start_def bind_act_def lift_act_def modify_act_def scm_new_def evaluated_def engine_start_def
      engine_new_def fresh_change_def rust_simps split: result.splits)

lemma sc_step_ok: "sc_step w nd nd' \<Longrightarrow> sc_ok w nd \<Longrightarrow> sc_ok w nd'"
  by (erule sc_step.cases)
    (simp_all add: sc_ok_engine sc_ok_start sc_ok_same same_message same_add same_subscribe same_stop_scabbard)

lemma sc_reachable_ok: "sc_reachable w nd \<Longrightarrow> sc_ok w nd"
proof (induction rule: sc_reachable.induct)
  case (sc_init sha256 startup net circuit ps keys sb duration now)
  then show ?case
    by (auto simp: scabbard_new_def state_new_def scabbard_shared_new_def sc_node_new_def sc_ok_def fresh_change_def rust_simps)
qed (rule sc_step_ok)

section \<open>Invariants of the state\<close>

text \<open>
  A predicate on the scabbard state that holds of a new state and that every operation on the state keeps holds
  in every reachable node: the calls of the engine and the requests change the state by these operations only.
\<close>

locale scabbard_state_invariant =
  fixes w :: sc_world and Q :: "scabbard_state \<Rightarrow> bool"
  assumes Q_new: "state_new (sc_transact (cw_env w)) su keys = Ok s \<Longrightarrow> Q s"
    and Q_prepare: "Q s \<Longrightarrow> Q (snd (prepare_change (sc_transact (cw_env w)) batch s))"
    and Q_commit: "Q s \<Longrightarrow> Q (snd (commit_state (sc_transact (cw_env w)) s))"
    and Q_rollback: "Q s \<Longrightarrow> Q (s\<lparr>ss_pending_changes := None\<rparr>)"
    and Q_subscribe: "Q s \<Longrightarrow> Q (snd (subscribe_to_state start s))"
    and Q_shutdown: "Q s \<Longrightarrow> Q (shutdown_event_dealer s)"
    and Q_add: "Q s \<Longrightarrow> Q (s\<lparr>ss_batch_history :=
      add_batch (sc_entries (cw_env w)) now signature (ss_batch_history s)\<rparr>)"
begin

lemma keeps_Q_state:
  "(\<And>s. Q s \<Longrightarrow> Q (snd (a s))) \<Longrightarrow> keeps (\<lambda>m. Q (sh_state (sm_shared m))) (on_sm_shared f (on_state g a))"
  by (simp add: keeps_def on_sm_shared_def on_state_def snd_on_part)

lemma keeps_Q_send:
  "keeps (\<lambda>m. Q (sh_state (sm_shared m))) (\<lambda>m. for_act (ps m) (\<lambda>p. on_sm_shared f (sc_net_send env ns bs p)) m)"
  "keeps (\<lambda>m. Q (sh_state (sm_shared m))) (sc_send_update u)"
proof -
  have "keeps (\<lambda>m. Q (sh_state (sm_shared m))) (for_act xs (\<lambda>p. on_sm_shared f (sc_net_send env ns bs p)))" for xs
    by (rule keeps_for) (simp add: keeps_def on_sm_shared_def snd_on_part)
  from keepsD [OF this]
  show "keeps (\<lambda>m. Q (sh_state (sm_shared m))) (\<lambda>m. for_act (ps m) (\<lambda>p. on_sm_shared f (sc_net_send env ns bs p)) m)"
    by (auto intro: keepsI)
qed (simp add: keeps_def)

lemma Q_perform:
  assumes "Q (sh_state (sm_shared m))"
  shows "Q (sh_state (sm_shared (snd (sc_perform w e m))))"
proof (cases e)
  case (CreateProposal prev data)
  show ?thesis
  proof (cases "sh_batch_queue (sm_shared m)")
    case (Cons b bs)
    have "Q (sh_state (sm_shared (m\<lparr>sm_shared := (sm_shared m)\<lparr>sh_batch_queue := bs\<rparr>\<rparr>)))" using assms by simp
    then show ?thesis
      unfolding CreateProposal sc_perform.simps sc_create_proposal_def pop_batch_from_queue_def Cons list.case prod.case option.case
        Let_def internal_result_def
      by (rule keepsD [of "\<lambda>m. Q (sh_state (sm_shared m))", rotated])
        (intro keeps_intros keeps_Q_state keeps_Q_send Q_prepare; simp add: add_proposed_batch_def)
  qed (use assms CreateProposal in \<open>simp add: sc_create_proposal_def pop_batch_from_queue_def\<close>)
next
  case (CheckProposal i)
  have "keeps (\<lambda>m. Q (sh_state (sm_shared m))) (bind_act (on_sm_shared (\<lambda>e. e) (on_state state_failure
      (prepare_change (sc_transact (cw_env w)) b))) (\<lambda>h. sc_send_update (u h)))" for b u
    by (intro keeps_intros keeps_Q_state keeps_Q_send Q_prepare)
  from keepsD [OF this] assms CheckProposal show ?thesis by (auto simp: sc_check_proposal_def split: option.split)
next
  case (AcceptProposal i d)
  have "keeps (\<lambda>m. Q (sh_state (sm_shared m))) (bind_act (on_sm_shared (\<lambda>e. e) (on_state state_failure
      (commit_state (sc_transact (cw_env w))))) (\<lambda>_. sc_send_update u))" for u
    by (intro keeps_intros keeps_Q_state keeps_Q_send Q_commit)
  from keepsD [OF this] assms AcceptProposal show ?thesis
    by (auto simp: sc_accept_proposal_def remove_proposed_batch_def split: option.split)
next
  case (RejectProposal i)
  with assms show ?thesis
    by (auto simp: sc_reject_proposal_def remove_proposed_batch_def on_sm_shared_def on_state_def snd_on_part rollback_state_def
        modify_act_def Q_rollback split: option.split)
qed (use assms in \<open>simp_all add: pure_act_def\<close>)

lemma Q_transmit: "Q (sh_state (sm_shared m)) \<Longrightarrow> Q (sh_state (sm_shared (snd (sc_transmit w e m))))"
  by (cases e) (simp_all add: on_sm_shared_def snd_on_part pure_act_def)

lemma Q_calls: "Q (sh_state (sm_shared m)) \<Longrightarrow> Q (sh_state (sm_shared (sc_calls w es m)))"
  by (induction es arbitrary: m) (simp_all add: client_call_def sc_pm_def replying_def Q_perform Q_transmit)

lemma Q_queue: "Q (sh_state sh) \<Longrightarrow> Q (sh_state (queue_batches (sc_entries (cw_env w)) now k batches sh))"
  by (induction batches arbitrary: k sh) (simp_all add: add_batch_to_queue_def Q_add)

lemma Q_with_consensus: "sb_shared (snd (with_sc_consensus a sb)) = sb_shared sb"
  by (simp add: with_sc_consensus_def Let_def case_prod_beta split: option.split)

lemma Q_message: "Q (sh_state (sb_shared sb)) \<Longrightarrow> Q (sh_state (sb_shared (snd (sb_handle_message env bs sb))))"
  by (auto simp: sb_handle_message_def bind_act_def lift_act_def modify_act_def fail_act_def add_proposed_batch_def Q_with_consensus
      split: result.split scabbard_message.split)

lemma Q_step:
  assumes "sc_step w nd nd'" and "Q (sh_state (sb_shared (sn_service nd)))"
  shows "Q (sh_state (sb_shared (sn_service nd')))"
  using assms
proof (cases rule: sc_step.cases)
  case (sc_engine c k s' es)
  with assms(2) Q_calls [of "sc_manager_of (sn_service nd) c" es] show ?thesis
    by (simp add: with_sc_manager_def sc_manager_of_def)
next
  case (sc_subscribe start)
  with assms(2) show ?thesis
    by (simp add: sb_subscribe_to_state_def on_sb_shared_def on_state_def snd_on_part Q_subscribe)
next
  case (sc_start duration now connect spawn)
  with assms(2) show ?thesis
    by (auto simp: sb_start_def bind_act_def lift_act_def modify_act_def split: result.split)
next
  case (sc_stop disconnect)
  with assms(2) show ?thesis
    by (auto simp: sb_stop_def bind_act_def lift_act_def modify_act_def Q_shutdown split: result.split option.split)
qed (use assms(2) in \<open>auto simp: Q_message add_batches_def Q_queue split: result.split bool.split\<close>)

lemma Q_reachable: "sc_reachable w nd \<Longrightarrow> Q (sh_state (sb_shared (sn_service nd)))"
proof (induction rule: sc_reachable.induct)
  case (sc_init sha256 startup net circuit ps keys sb duration now)
  then show ?case by (auto simp: scabbard_new_def scabbard_shared_new_def sc_node_new_def rust_simps Q_new)
qed (rule Q_step)

end

end
