(* ===== verification/Scabbard_Properties.thy ===== *)
theory Scabbard_Properties
  imports Scabbard_Node "HOL-Library.Char_ord" "HOL-Library.List_Lexorder"
begin

text \<open>
  The properties of the scabbard service: what its nodes commit when consensus accepts a proposal, what a
  restart restores, which batches are let in, what the clients of the REST interface are told, and the bounds
  of its histories.
\<close>

section \<open>What is committed\<close>

text \<open>
  What the code relies on of the Merkle state of the transact library: committing a list of changes gives the
  state root that was computed for them.
\<close>

definition commits_computed_root :: "transact \<Rightarrow> bool" where
  "commits_computed_root tr \<longleftrightarrow>
     (\<forall>root changes h h'. tr_compute_state_id tr root changes = Ok h \<longrightarrow> tr_commit tr root changes = Ok h' \<longrightarrow> h' = h)"

lemma accept_Ok:
  assumes "sc_accept_proposal env i d m = (Ok (), m')"
  obtains st' where "commit_state (sc_transact env) (sh_state (sm_shared m)) = (Ok (), st')" "sh_state (sm_shared m') = st'"
proof -
  from assms obtain batch where "sh_proposed_batches (sm_shared m) i = Some batch"
    by (auto simp: sc_accept_proposal_def remove_proposed_batch_def split: option.splits)
  with assms that show thesis
    by (cases "commit_state (sc_transact env) (sh_state (sm_shared m))"; cases "fst (commit_state (sc_transact env) (sh_state (sm_shared m)))")
      (auto simp: sc_accept_proposal_def remove_proposed_batch_def bind_act_def on_sm_shared_def on_state_def on_part_def
        sc_send_update_def Let_def case_prod_beta)
qed

lemma accepted_state:
  assumes "sc_accept_proposal env i d m = (Ok (), m')" and "sc_inv (sc_transact env) m" and "leads_to (sc_transact env) i m"
    and "ProposalInvalid i \<notin> set (chan_queue (sm_updates m))" and "commits_computed_root (sc_transact env)"
  shows "ProposalId (as_bytes (ss_current_state_root (sh_state (sm_shared m')))) = i \<and>
    (\<exists>batch rs. tr_execute (sc_transact env) (ss_current_state_root (sh_state (sm_shared m))) batch = Ok (Some (map TxnValid rs)) \<and>
       ss_pending_changes (sh_state (sm_shared m)) = Some (bp_header_signature batch, rs) \<and>
       tr_append (sc_transact env) (ss_receipts (sh_state (sm_shared m))) rs = (Ok (), ss_receipts (sh_state (sm_shared m'))))"
proof -
  let ?st = "sh_state (sm_shared m)"
  obtain st' where st': "commit_state (sc_transact env) ?st = (Ok (), st')" "sh_state (sm_shared m') = st'"
    by (rule accept_Ok [OF assms(1)])
  obtain signature rs where c: "ss_pending_changes ?st = Some (signature, rs)"
    "tr_commit (sc_transact env) (ss_current_state_root ?st) (receipts_into_state_changes rs) = Ok (ss_current_state_root st')"
    "tr_append (sc_transact env) (ss_receipts ?st) rs = (Ok (), ss_receipts st')"
    by (rule commit_state_Ok [OF st'(1)])
  from assms(3,4) c(1) obtain h where
    "tr_compute_state_id (sc_transact env) (ss_current_state_root ?st) (receipts_into_state_changes rs) = Ok h"
    "ProposalId (as_bytes h) = i" by (auto simp: leads_to_def)
  with assms(5) c(2) have "ProposalId (as_bytes (ss_current_state_root st')) = i" by (auto simp: commits_computed_root_def)
  moreover from assms(2) c(1) obtain batch where "bp_header_signature batch = signature"
    "tr_execute (sc_transact env) (ss_current_state_root ?st) batch = Ok (Some (map TxnValid rs))"
    by (auto simp: sc_inv_def fresh_change_def)
  ultimately show ?thesis using c st'(2) by auto
qed

lemma reachable_accepts:
  assumes "sc_reachable w nd" and "sb_consensus (sn_service nd) = Some c"
    and "sc_iteration w k (sc_manager_of (sn_service nd) c) (sn_engine nd) = (s', es @ AcceptProposal i d # es')"
  shows "sc_inv (sc_transact (cw_env w)) (sc_calls w es (sc_manager_of (sn_service nd) c))"
    and "leads_to (sc_transact (cw_env w)) i (sc_calls w es (sc_manager_of (sn_service nd) c))"
proof -
  note ok = sc_ok_manager [OF sc_reachable_ok [OF assms(1)] assms(2)]
  have "sc_inv (sc_transact (cw_env w)) (sc_calls w es m)" if "sc_inv (sc_transact (cw_env w)) m" for m
    using that by (induction es arbitrary: m) (simp_all add: sc_call_inv)
  from this [OF ok(1)] show "sc_inv (sc_transact (cw_env w)) (sc_calls w es (sc_manager_of (sn_service nd) c))" .
  show "leads_to (sc_transact (cw_env w)) i (sc_calls w es (sc_manager_of (sn_service nd) c))"
    by (rule sm.client_accepts_ready [OF ok assms(3) [unfolded sc_iteration_def]])
qed

text \<open>C5. 
  Consensus and state agree: when the engine of a reachable node has a proposal accepted that the service has
  not reported invalid, and the service accepts it, the state root it moves to is the one the proposal names.
  The receipts it stores are those of executing one batch on the state root they are committed to.
\<close>

theorem scabbard_commits_agreed_root:
  assumes "sc_reachable w nd" and "sb_consensus (sn_service nd) = Some c"
    and "sc_iteration w k (sc_manager_of (sn_service nd) c) (sn_engine nd) = (s', es @ AcceptProposal i d # es')"
    and "sc_accept_proposal (cw_env w) i d (sc_calls w es (sc_manager_of (sn_service nd) c)) = (Ok (), m')"
    and "ProposalInvalid i \<notin> set (chan_queue (sm_updates (sc_calls w es (sc_manager_of (sn_service nd) c))))"
    and "commits_computed_root (sc_transact (cw_env w))"
  shows "ProposalId (as_bytes (ss_current_state_root (sh_state (sm_shared m')))) = i \<and>
    (\<exists>batch rs. tr_execute (sc_transact (cw_env w))
         (ss_current_state_root (sh_state (sm_shared (sc_calls w es (sc_manager_of (sn_service nd) c))))) batch =
         Ok (Some (map TxnValid rs)) \<and>
       tr_append (sc_transact (cw_env w))
         (ss_receipts (sh_state (sm_shared (sc_calls w es (sc_manager_of (sn_service nd) c))))) rs =
         (Ok (), ss_receipts (sh_state (sm_shared m'))))"
  using accepted_state [OF assms(4) reachable_accepts [OF assms(1-3)] assms(5,6)] by blast

text \<open>
  A node \<open>b\<close> with the peer \<open>a\<close>: it starts, receives a proposed batch from \<open>a\<close>, checks it on the request of \<open>a\<close>
  and accepts it.
\<close>

definition ex_sc_batch :: batch_pair where
  "ex_sc_batch = \<lparr>bp_header = [1], bp_header_signature = ''aa'', bp_transactions = [], bp_signer_public_key = [2],
     bp_transaction_ids = []\<rparr>"

definition ex_sc_receipt :: transaction_receipt where
  "ex_sc_receipt = \<lparr>rc_transaction_id = ''t'', rc_state_changes = [ReceiptSet ''k'' [7]]\<rparr>"

definition ex_transact :: transact where
  "ex_transact = \<lparr>tr_execute = (\<lambda>_ _. Ok (Some [TxnValid ex_sc_receipt])), tr_debug = (\<lambda>_. ''''),
     tr_compute_state_id = (\<lambda>_ _. Ok ''00''), tr_commit = (\<lambda>_ _. Ok ''00''), tr_head_writer = Ok (), tr_head_put = Ok (),
     tr_head_commit = Ok (), tr_append = (\<lambda>store rs. (Ok (), store @ rs))\<rparr>"

definition ex_sc_startup :: "bytes option \<Rightarrow> state_startup" where
  "ex_sc_startup head = \<lparr>su_database = Ok (), su_head = Ok head, su_setting_codec = table_codec [], su_initial_root = Ok ''02'',
     su_adapter = Ok (), su_executor = Ok (), su_receipts = Ok [], su_admin_key = ''k'', su_admin_address = ''a''\<rparr>"

definition ex_sc_id :: proposal_id where
  "ex_sc_id = ProposalId (as_bytes ''00'')"

definition ex_sc_message :: scabbard_message where
  "ex_sc_message = ScProposedBatch \<lparr>pb_proposal = [0], pb_batch = [0], pb_service_id = ''a''\<rparr>"

definition ex_entries :: entry_order where
  "ex_entries h = map (\<lambda>k. (k, the (h k))) (sorted_list_of_set (dom h))"

definition ex_sc_env :: scabbard_env where
  "ex_sc_env = \<lparr>sc_transact = ex_transact, sc_message_c = table_codec [ex_sc_message],
     sc_proposal_c = table_codec [proposal_into_proto (batch_proposal ''00'')], sc_consensus_c = table_codec [],
     sc_batch_c = table_codec [ex_sc_batch], sc_net_codecs = ex_net_codecs, sc_txn_header = (\<lambda>_. Err ''''),
     sc_verify = (\<lambda>_ _ _. Ok True), sc_sha512 = (\<lambda>_. Ok []), sc_entries = ex_entries\<rparr>"

definition ex_sc_world :: sc_world where
  "ex_sc_world = \<lparr>cw_env = ex_sc_env, cw_wire = table_codec [request_msg ex_sc_id, result_msg ex_sc_id APPLY],
     cw_verifiers = table_codec [], cw_service_id = ''b''\<rparr>"

definition ex_sc_state :: scabbard_state where
  "ex_sc_state = \<lparr>ss_current_state_root = ''01'', ss_head = Some [1], ss_receipts = [], ss_pending_changes = None,
     ss_event_senders = [], ss_sockets = [], ss_batch_history = batch_history_new, ss_commit_history = history_default\<rparr>"

definition ex_sc_shared :: "(proposal_id \<rightharpoonup> batch_pair) \<Rightarrow> (string \<times> transaction_receipt list) option \<Rightarrow> scabbard_shared" where
  "ex_sc_shared filed change = \<lparr>sh_batch_queue = [], sh_network_sender = Some (StandardSender ''c'' ''b''), sh_net = ex_net,
     sh_peer_services = [''a''], sh_proposed_batches = filed, sh_state = ex_sc_state\<lparr>ss_pending_changes := change\<rparr>\<rparr>"

definition ex_sc_manager ::
  "(proposal_id \<rightharpoonup> batch_pair) \<Rightarrow> (string \<times> transaction_receipt list) option \<Rightarrow> proposal_update list \<Rightarrow> scabbard_manager" where
  "ex_sc_manager filed change us =
     \<lparr>sm_updates = \<lparr>chan_open = True, chan_queue = us\<rparr>, sm_shared = ex_sc_shared filed change\<rparr>"

definition ex_sc_node ::
  "engine_run \<Rightarrow> (proposal_id \<rightharpoonup> batch_pair) \<Rightarrow> (string \<times> transaction_receipt list) option \<Rightarrow> proposal_update list \<Rightarrow> sc_node" where
  "ex_sc_node e filed change us = \<lparr>sn_engine = e, sn_service = \<lparr>sb_circuit_id = ''c'', sb_service_id = ''b'',
     sb_shared = ex_sc_shared filed change,
     sb_consensus = Some \<lparr>scm_messages = \<lparr>chan_open = True, chan_queue = []\<rparr>,
        scm_updates = \<lparr>chan_open = True, chan_queue = us\<rparr>\<rparr>\<rparr>\<rparr>"

text \<open>The engine: at the start, with the proposal received, and evaluating it.\<close>

definition ex_sc_tick :: "consensus_message recv \<Rightarrow> proposal_update recv \<Rightarrow> tick" where
  "ex_sc_tick msg upd = \<lparr>abort_now = 0, next_now = 0, tick_message = msg, tick_update = upd, update_now = 0\<rparr>"

definition ex_sc_peer :: "string \<Rightarrow> peer_id" where
  "ex_sc_peer i = PeerId (as_bytes i)"

definition ex_sc_from_a :: "byte \<Rightarrow> consensus_message recv" where
  "ex_sc_from_a b = Received \<lparr>cm_message = [b], origin_id = ex_sc_peer ''a''\<rparr>"

definition ex_sc_proposal :: two_phase_proposal where
  "ex_sc_proposal = two_phase_proposal_new ex_sc_id (ex_sc_peer ''a'') {ex_sc_peer ''b'', ex_sc_peer ''a''}"

definition ex_sc_e0 :: engine_run where
  "ex_sc_e0 = engine_start \<lparr>ss_id = ex_sc_peer ''b'', ss_peer_ids = [ex_sc_peer ''a''], ss_last_proposal = None\<rparr> (engine_new 30000 0)"

definition ex_sc_e1 :: engine_run where
  "ex_sc_e1 = ex_sc_e0\<lparr>engine_state := AwaitingProposal, proposal_backlog := [ex_sc_proposal],
     calls := [(Consensus.CreateProposal None [], True)]\<rparr>"

definition ex_sc_e2 :: engine_run where
  "ex_sc_e2 = ex_sc_e1\<lparr>engine_state := EvaluatingProposal ex_sc_proposal, proposal_backlog := [],
     calls := [(Consensus.CreateProposal None [], True), (CheckProposal ex_sc_id, True)]\<rparr>"

lemmas ex_sc_engine_defs = ex_sc_e0_def ex_sc_e1_def ex_sc_e2_def ex_sc_tick_def ex_sc_from_a_def engine_start_def engine_new_def
  timeout_new_def run_iteration_def run_background_def run_update_def ignore_err_def
  abort_proposal_if_timed_out_def handle_backlogged_verification_request_def get_next_proposal_def call_pm_def Let_def

lemma ex_sc_min: "min_verifier {ex_sc_peer ''b'', ex_sc_peer ''a''} = Some (ex_sc_peer ''a'')"
  by (simp add: min_verifier_def min_def less_eq_peer_id_def ex_sc_peer_def as_bytes_def)

lemma ex_sc_peers: "ex_sc_peer ''b'' \<noteq> ex_sc_peer ''a''"
  by (simp add: ex_sc_peer_def as_bytes_def)

lemma ex_sc_iteration_1:
  assumes "pm_reply env [] (Consensus.CreateProposal None []) = Ok ()"
  shows "snd (run_iteration env (ex_sc_tick RecvTimeout (Received (ProposalReceived (batch_proposal ''00'') p))) ex_sc_e0) = ex_sc_e1"
proof -
  have p: "consensus_data (batch_proposal ''00'') = []" "prop_id (batch_proposal ''00'') = ex_sc_id"
    by (simp_all add: batch_proposal_def proposal_default_def ex_sc_id_def)
  show ?thesis
    using assms
    by (simp add: ex_sc_engine_defs handle_proposal_update_def handle_proposal_def proposal_verifiers_def p ex_sc_min ex_sc_peers
        push_proposal_def ex_sc_proposal_def)
qed

lemma ex_sc_iteration_2:
  assumes "pm_reply env [(Consensus.CreateProposal None [], True)] (CheckProposal ex_sc_id) = Ok ()"
    and "wire env = cw_wire ex_sc_world"
  shows "snd (run_iteration env (ex_sc_tick (ex_sc_from_a 0) RecvTimeout) ex_sc_e1) = ex_sc_e2"
proof -
  have p: "parse_from_bytes (cw_wire ex_sc_world) [0] = Ok (request_msg ex_sc_id)" by (simp add: ex_sc_world_def table_codec_def)
  have i: "tpp_id ex_sc_proposal = ex_sc_id" "ProposalId (msg_proposal_id (request_msg ex_sc_id)) = ex_sc_id"
    "message_type (request_msg ex_sc_id) = PROPOSAL_VERIFICATION_REQUEST"
    by (simp_all add: ex_sc_proposal_def two_phase_proposal_new_def request_msg_def)
  from assms p i show ?thesis
    by (simp add: ex_sc_engine_defs handle_consensus_msg_def handle_verification_request_def bind_act_def modify_act_def)
qed

lemma ex_sc_iteration_3:
  assumes "wire env = cw_wire ex_sc_world"
  shows "map fst (calls (snd (run_iteration env (ex_sc_tick (ex_sc_from_a 1) RecvTimeout) ex_sc_e2))) =
    [Consensus.CreateProposal None [], CheckProposal ex_sc_id, AcceptProposal ex_sc_id None]"
proof -
  have p: "parse_from_bytes (cw_wire ex_sc_world) [1] = Ok (result_msg ex_sc_id APPLY)" by (simp add: ex_sc_world_def table_codec_def)
  have i: "tpp_id ex_sc_proposal = ex_sc_id" "ProposalId (msg_proposal_id (result_msg ex_sc_id APPLY)) = ex_sc_id"
    "message_type (result_msg ex_sc_id APPLY) = PROPOSAL_RESULT" "proposal_result (result_msg ex_sc_id APPLY) = APPLY"
    by (simp_all add: ex_sc_proposal_def two_phase_proposal_new_def result_msg_def)
  from assms p i show ?thesis
    by (cases "pm_reply env (calls ex_sc_e2) (AcceptProposal ex_sc_id None)")
      (simp_all add: ex_sc_engine_defs handle_consensus_msg_def handle_proposal_result_def evaluating_proposal_def bind_act_def
        modify_act_def timeout_check_expired_def)
qed

lemma ex_sc_engine_step:
  assumes "sc_reachable ex_sc_world (ex_sc_node e filed change us)"
    and "sc_iteration ex_sc_world k (ex_sc_manager filed change us) e = (e', es)"
    and "\<not> panics (sc_perform ex_sc_world) (sc_transmit ex_sc_world) es (ex_sc_manager filed change us)"
    and "sc_calls ex_sc_world es (ex_sc_manager filed change us) = ex_sc_manager filed' change' us'"
  shows "sc_reachable ex_sc_world (ex_sc_node e' filed' change' us')"
proof -
  let ?nd = "ex_sc_node e filed change us"
  let ?c = "\<lparr>scm_messages = \<lparr>chan_open = True, chan_queue = []\<rparr>, scm_updates = \<lparr>chan_open = True, chan_queue = us\<rparr>\<rparr>"
  have nd: "sb_consensus (sn_service ?nd) = Some ?c" "sn_engine ?nd = e"
    "sc_manager_of (sn_service ?nd) ?c = ex_sc_manager filed change us"
    by (simp_all add: ex_sc_node_def sc_manager_of_def ex_sc_manager_def)
  have "sc_step ex_sc_world ?nd (?nd\<lparr>sn_engine := e', sn_service := with_sc_manager (sc_calls ex_sc_world es
      (sc_manager_of (sn_service ?nd) ?c)) ?c (sn_service ?nd)\<rparr>)"
    by (rule sc_step.sc_engine [where k = k]) (use nd assms(2,3) in simp_all)
  moreover have "?nd\<lparr>sn_engine := e', sn_service := with_sc_manager (sc_calls ex_sc_world es
      (sc_manager_of (sn_service ?nd) ?c)) ?c (sn_service ?nd)\<rparr> = ex_sc_node e' filed' change' us'"
    unfolding nd assms(4) by (simp add: ex_sc_node_def with_sc_manager_def ex_sc_manager_def)
  ultimately show ?thesis using assms(1) sc_reachable.sc_more by metis
qed

lemma ex_sc_started: "sc_reachable ex_sc_world (ex_sc_node ex_sc_e0 Map.empty None [])"
proof -
  let ?sb = "\<lparr>sb_circuit_id = ''c'', sb_service_id = ''b'',
      sb_shared = (ex_sc_shared Map.empty None)\<lparr>sh_network_sender := None\<rparr>, sb_consensus = None\<rparr>"
  let ?nd = "sc_node_new ?sb 30000 0"
  have "scabbard_new (sc_transact (cw_env ex_sc_world)) (\<lambda>_. Ok []) (\<lambda>_ _. ex_sc_startup (Some [1])) ex_net
      (cw_service_id ex_sc_world) ''c'' [''a''] [] = Ok ?sb"
    by (simp add: scabbard_new_def ex_sc_world_def ex_sc_env_def state_new_def read_current_state_root_def ex_sc_startup_def
        scabbard_shared_new_def ex_sc_shared_def ex_sc_state_def byte_to_hex_def hex_digit_def char_of_def bit_simps numeral_2_eq_2)
  from sc_reachable.sc_init [OF this] have "sc_reachable ex_sc_world ?nd" .
  moreover have "sc_step ex_sc_world ?nd (?nd\<lparr>sn_engine :=
       engine_start (scm_startup (cw_service_id ex_sc_world) (sb_shared (sn_service ?nd))) (engine_new 30000 0),
       sn_service := snd (sb_start (\<lambda>i. Ok (StandardSender ''c'' i)) (Ok ()) (sn_service ?nd))\<rparr>)"
    by (rule sc_step.sc_start) (simp add: sc_node_new_def)
  moreover have "?nd\<lparr>sn_engine :=
       engine_start (scm_startup (cw_service_id ex_sc_world) (sb_shared (sn_service ?nd))) (engine_new 30000 0),
       sn_service := snd (sb_start (\<lambda>i. Ok (StandardSender ''c'' i)) (Ok ()) (sn_service ?nd))\<rparr> =
     ex_sc_node ex_sc_e0 Map.empty None []"
    by (simp add: ex_sc_node_def sc_node_new_def ex_sc_e0_def ex_sc_world_def sb_start_def bind_act_def rust_simps scm_new_def
        scm_startup_def ex_sc_shared_def ex_sc_peer_def)
  ultimately show ?thesis using sc_reachable.sc_more by metis
qed

lemma ex_sc_filed:
  "sc_reachable ex_sc_world (ex_sc_node ex_sc_e0 (Map.empty(ex_sc_id \<mapsto> ex_sc_batch)) None
     [ProposalReceived (batch_proposal ''00'') (ex_sc_peer ''a'')])"
proof -
  let ?nd = "ex_sc_node ex_sc_e0 Map.empty None []"
  have "?nd\<lparr>sn_service := snd (sb_handle_message (cw_env ex_sc_world) [0] (sn_service ?nd))\<rparr> =
      ex_sc_node ex_sc_e0 (Map.empty(ex_sc_id \<mapsto> ex_sc_batch)) None [ProposalReceived (batch_proposal ''00'') (ex_sc_peer ''a'')]"
    by (simp add: ex_sc_node_def ex_sc_world_def ex_sc_env_def sb_handle_message_def bind_act_def rust_simps table_codec_def
        ex_sc_message_def proposal_try_from_def with_sc_consensus_def scm_send_update_def on_part_def chan_send_def
        add_proposed_batch_def ex_sc_shared_def ex_sc_peer_def)
      (simp add: batch_proposal_def ex_sc_id_def)
  then show ?thesis using sc_reachable.sc_more [OF ex_sc_started sc_step.sc_message [of _ _ "[0]"]] by metis
qed

lemma sc_iteration_unfold:
  "sc_iteration w k m s =
     (let s' = snd (run_iteration (client_env (sc_pm w) (sc_transmit w) (cw_wire w) (cw_verifiers w) (length (calls s)) m) k s)
      in (s', map fst (drop (length (calls s)) (calls s'))))"
  by (simp add: sc_iteration_def client_iteration_def)

lemma sc_call_manager:
  "client_call (sc_pm w) (sc_transmit w) (Consensus.CreateProposal prev data) m =
     snd (sc_create_proposal (cw_service_id w) (cw_env w) prev data m)"
  "client_call (sc_pm w) (sc_transmit w) (CheckProposal i) m = snd (sc_check_proposal (cw_env w) i m)"
  by (simp_all add: client_call_def sc_pm_def replying_def pure_act_def)

lemma ex_sc_change: "receipts_into_state_changes [ex_sc_receipt] = [StateSet ''k'' [7]]"
  by (simp add: receipts_into_state_changes_def ex_sc_receipt_def)

lemma ex_sc_create:
  "sc_create_proposal ''b'' ex_sc_env None [] (ex_sc_manager filed change us) =
     (Ok (), ex_sc_manager filed change (us @ [ProposalCreated None]))"
  by (simp add: sc_create_proposal_def ex_sc_manager_def ex_sc_shared_def pop_batch_from_queue_def sc_send_update_def on_part_def
      chan_send_def)

lemma ex_sc_prepare:
  "prepare_change ex_transact ex_sc_batch (ex_sc_state\<lparr>ss_pending_changes := change\<rparr>) =
     (Ok ''00'', ex_sc_state\<lparr>ss_pending_changes := Some (''aa'', [ex_sc_receipt])\<rparr>)"
  by (simp add: prepare_change_def ex_transact_def bind_act_def rust_simps ex_sc_batch_def ex_sc_state_def update_batch_status_def
      batch_history_new_def)

lemma ex_sc_check:
  "sc_check_proposal ex_sc_env ex_sc_id (ex_sc_manager (Map.empty(ex_sc_id \<mapsto> ex_sc_batch)) change us) =
     (Ok (), ex_sc_manager (Map.empty(ex_sc_id \<mapsto> ex_sc_batch)) (Some (''aa'', [ex_sc_receipt])) (us @ [ProposalValid ex_sc_id]))"
  by (simp add: sc_check_proposal_def ex_sc_manager_def ex_sc_shared_def ex_sc_env_def ex_sc_prepare bind_act_def on_sm_shared_def
      on_state_def on_part_def sc_send_update_def chan_send_def ex_sc_id_def)

lemma ex_sc_evaluating:
  "sc_reachable ex_sc_world (ex_sc_node ex_sc_e2 (Map.empty(ex_sc_id \<mapsto> ex_sc_batch)) (Some (''aa'', [ex_sc_receipt]))
     [ProposalReceived (batch_proposal ''00'') (ex_sc_peer ''a''), ProposalCreated None, ProposalValid ex_sc_id])"
proof -
  let ?us = "[ProposalReceived (batch_proposal ''00'') (ex_sc_peer ''a'')]" and ?f = "Map.empty(ex_sc_id \<mapsto> ex_sc_batch)"
  have w: "cw_env ex_sc_world = ex_sc_env" "cw_service_id ex_sc_world = ''b''" by (simp_all add: ex_sc_world_def)
  have "sc_iteration ex_sc_world (ex_sc_tick RecvTimeout (Received (ProposalReceived (batch_proposal ''00'') (ex_sc_peer ''a''))))
      (ex_sc_manager ?f None ?us) ex_sc_e0 = (ex_sc_e1, [Consensus.CreateProposal None []])"
    using ex_sc_iteration_1 [of "client_env (sc_pm ex_sc_world) (sc_transmit ex_sc_world) (cw_wire ex_sc_world)
        (cw_verifiers ex_sc_world) 0 (ex_sc_manager ?f None ?us)" "ex_sc_peer ''a''"]
    by (simp add: sc_iteration_unfold Let_def client_env_def sc_pm_reply manager_reply_def w ex_sc_create)
      (simp add: ex_sc_engine_defs)
  from ex_sc_engine_step [OF ex_sc_filed this, of ?f None "?us @ [ProposalCreated None]"]
  have r: "sc_reachable ex_sc_world (ex_sc_node ex_sc_e1 ?f None (?us @ [ProposalCreated None]))"
    by (simp add: sc_call_manager w ex_sc_create)
  have "sc_iteration ex_sc_world (ex_sc_tick (ex_sc_from_a 0) RecvTimeout)
      (ex_sc_manager ?f None (?us @ [ProposalCreated None])) ex_sc_e1 = (ex_sc_e2, [CheckProposal ex_sc_id])"
    using ex_sc_iteration_2 [of "client_env (sc_pm ex_sc_world) (sc_transmit ex_sc_world) (cw_wire ex_sc_world)
        (cw_verifiers ex_sc_world) 1 (ex_sc_manager ?f None (?us @ [ProposalCreated None]))"]
    by (simp add: sc_iteration_unfold Let_def client_env_def sc_pm_reply manager_reply_def w ex_sc_check)
      (simp add: ex_sc_engine_defs)
  from ex_sc_engine_step [OF r this, of ?f "Some (''aa'', [ex_sc_receipt])" "?us @ [ProposalCreated None] @ [ProposalValid ex_sc_id]"]
  show ?thesis by (simp add: sc_call_manager w ex_sc_check)
qed

lemma ex_sc_accept:
  "\<exists>m'. sc_accept_proposal ex_sc_env ex_sc_id None
      (ex_sc_manager (Map.empty(ex_sc_id \<mapsto> ex_sc_batch)) (Some (''aa'', [ex_sc_receipt])) us) = (Ok (), m') \<and>
    ss_receipts (sh_state (sm_shared m')) = [ex_sc_receipt]"
proof -
  have "parse_hex ''00'' = Ok [0]" using parse_hex_to_hex [of "[0]"] by (simp add: byte_to_hex_def hex_digit_def char_of_def bit_simps)
  then show ?thesis
    by (simp add: sc_accept_proposal_def ex_sc_manager_def ex_sc_shared_def remove_proposed_batch_def bind_act_def on_sm_shared_def
        on_state_def on_part_def ex_sc_env_def commit_state_def ex_sc_state_def ex_transact_def rust_simps
        write_current_state_root_def sc_send_update_def chan_send_def Let_def)
qed

theorem scabbard_commits_agreed_root_witness:
  "\<exists>m'. sc_accept_proposal ex_sc_env ex_sc_id None (ex_sc_manager (Map.empty(ex_sc_id \<mapsto> ex_sc_batch))
       (Some (''aa'', [ex_sc_receipt]))
       [ProposalReceived (batch_proposal ''00'') (ex_sc_peer ''a''), ProposalCreated None, ProposalValid ex_sc_id]) = (Ok (), m') \<and>
     ProposalId (as_bytes (ss_current_state_root (sh_state (sm_shared m')))) = ex_sc_id"
proof -
  let ?us = "[ProposalReceived (batch_proposal ''00'') (ex_sc_peer ''a''), ProposalCreated None, ProposalValid ex_sc_id]"
  let ?m = "ex_sc_manager (Map.empty(ex_sc_id \<mapsto> ex_sc_batch)) (Some (''aa'', [ex_sc_receipt])) ?us"
  let ?nd = "ex_sc_node ex_sc_e2 (Map.empty(ex_sc_id \<mapsto> ex_sc_batch)) (Some (''aa'', [ex_sc_receipt])) ?us"
  let ?c = "\<lparr>scm_messages = \<lparr>chan_open = True, chan_queue = []\<rparr>, scm_updates = \<lparr>chan_open = True, chan_queue = ?us\<rparr>\<rparr>"
  let ?k = "ex_sc_tick (ex_sc_from_a 1) RecvTimeout"
  have nd: "sb_consensus (sn_service ?nd) = Some ?c" "sn_engine ?nd = ex_sc_e2" "sc_manager_of (sn_service ?nd) ?c = ?m"
    by (simp_all add: ex_sc_node_def sc_manager_of_def ex_sc_manager_def)
  have "length (calls ex_sc_e2) = 2" by (simp add: ex_sc_e2_def)
  then have it: "sc_iteration ex_sc_world ?k (sc_manager_of (sn_service ?nd) ?c) (sn_engine ?nd) =
      (snd (run_iteration (client_env (sc_pm ex_sc_world) (sc_transmit ex_sc_world) (cw_wire ex_sc_world)
         (cw_verifiers ex_sc_world) 2 ?m) ?k ex_sc_e2), [] @ AcceptProposal ex_sc_id None # [])"
    using ex_sc_iteration_3 [of "client_env (sc_pm ex_sc_world) (sc_transmit ex_sc_world) (cw_wire ex_sc_world)
         (cw_verifiers ex_sc_world) 2 ?m"]
    unfolding sc_iteration_unfold nd by (simp add: Let_def client_env_def drop_map [symmetric])
  obtain m' where m': "sc_accept_proposal ex_sc_env ex_sc_id None ?m = (Ok (), m')" using ex_sc_accept by blast
  have "ProposalId (as_bytes (ss_current_state_root (sh_state (sm_shared m')))) = ex_sc_id"
    by (rule scabbard_commits_agreed_root [OF ex_sc_evaluating nd(1) it, THEN conjunct1], unfold nd)
      (use m' in \<open>simp_all add: ex_sc_world_def ex_sc_manager_def ex_sc_env_def commits_computed_root_def ex_transact_def\<close>)
  with m' show ?thesis by blast
qed

section \<open>Restart\<close>

definition durable :: "scabbard_state \<Rightarrow> bool" where
  "durable s \<longleftrightarrow> (\<forall>b. ss_head s = Some b \<longrightarrow> ss_current_state_root s = to_hex b)"

text \<open>The database does not fail, and the state roots of the transact library are hexadecimal strings.\<close>

definition database_works :: "transact \<Rightarrow> bool" where
  "database_works tr \<longleftrightarrow> tr_head_writer tr = Ok () \<and> tr_head_put tr = Ok () \<and> tr_head_commit tr = Ok () \<and>
     (\<forall>root changes h. tr_commit tr root changes = Ok h \<longrightarrow> (\<exists>b. h = to_hex b))"

lemma durable_cong:
  "ss_head s' = ss_head s \<Longrightarrow> ss_current_state_root s' = ss_current_state_root s \<Longrightarrow> durable s' = durable s"
  by (simp add: durable_def)

lemma write_root:
  "database_works tr \<Longrightarrow> ss_current_state_root s = to_hex b \<Longrightarrow>
   write_current_state_root tr s = (Ok (), s\<lparr>ss_head := Some b\<rparr>)"
  by (simp add: write_current_state_root_def parse_hex_to_hex database_works_def bind_act_def rust_simps)

lemma commit_durable:
  assumes "database_works tr" and "durable s"
  shows "durable (snd (commit_state tr s))"
proof (cases "ss_pending_changes s")
  case None
  with assms(2) show ?thesis by (simp add: commit_state_def Let_def durable_def)
next
  case (Some c)
  obtain signature rs where c: "c = (signature, rs)" by (cases c)
  show ?thesis
  proof (cases "tr_commit tr (ss_current_state_root s) (receipts_into_state_changes rs)")
    case (Err e)
    with Some c assms(2) show ?thesis by (simp add: commit_state_def Let_def durable_def bind_act_def rust_simps)
  next
    case (Ok h)
    with assms(1) obtain b where b: "h = to_hex b" unfolding database_works_def by blast
    show ?thesis
      using Some c Ok write_root [OF assms(1), of "s\<lparr>ss_pending_changes := None, ss_current_state_root := h\<rparr>" b] b
      by (cases "fst (tr_append tr (ss_receipts s) rs)")
        (simp_all add: commit_state_def Let_def bind_act_def rust_simps on_part_def case_prod_beta durable_def)
  qed
qed

lemma prepare_frame:
  "ss_head (snd (prepare_change tr b s)) = ss_head s \<and> ss_current_state_root (snd (prepare_change tr b s)) = ss_current_state_root s"
  by (auto simp: prepare_change_def bind_act_def rust_simps split: result.split)

lemma subscribe_frame:
  "ss_head (snd (subscribe_to_state start s)) = ss_head s" "ss_current_state_root (snd (subscribe_to_state start s)) = ss_current_state_root s"
  "ss_batch_history (snd (subscribe_to_state start s)) = ss_batch_history s"
  by (auto simp: subscribe_to_state_def bind_act_def on_part_def dealer_subscribe_def modify_act_def split: result.split)

lemma durable_same [simp]:
  "durable (snd (prepare_change tr b s)) = durable s" "durable (snd (subscribe_to_state start s)) = durable s"
  "durable (shutdown_event_dealer s) = durable s" "durable (s\<lparr>ss_pending_changes := p\<rparr>) = durable s"
  "durable (s\<lparr>ss_batch_history := h\<rparr>) = durable s"
  by (simp_all add: durable_def prepare_frame subscribe_frame shutdown_event_dealer_def)

interpretation du: scabbard_state_invariant w "\<lambda>s. database_works (sc_transact (cw_env w)) \<longrightarrow> durable s" for w :: sc_world
proof unfold_locales
  fix s su keys assume "state_new (sc_transact (cw_env w)) su keys = Ok s"
  then show "database_works (sc_transact (cw_env w)) \<longrightarrow> durable s"
    by (auto simp: state_new_def read_current_state_root_def durable_def rust_simps)
qed (simp_all add: commit_durable)

text \<open>C14. 
  A restart restores the state: as long as the database does not fail, a service that is started again on the
  \<open>HEAD\<close> entry another one has left behind is on the state root that the other one was on, wherever its
  consensus, its clients or its peers had brought it.
\<close>

theorem restart_restores_state_root:
  assumes "sc_reachable w nd" and "database_works (sc_transact (cw_env w))"
    and "ss_head (sh_state (sb_shared (sn_service nd))) = Some b"
    and "su_head su = Ok (Some b)" and "state_new tr su keys = Ok s"
  shows "ss_current_state_root s = ss_current_state_root (sh_state (sb_shared (sn_service nd)))"
  using du.Q_reachable [OF assms(1)] assms(2-5)
  by (auto simp: durable_def state_new_def read_current_state_root_def rust_simps)

theorem restart_restores_state_root_witness:
  "\<exists>s. state_new ex_transact (ex_sc_startup (Some [1])) [] = Ok s \<and> ss_current_state_root s = ''01''"
proof -
  let ?nd = "ex_sc_node ex_sc_e0 Map.empty None []"
  have d: "database_works (sc_transact (cw_env ex_sc_world))"
    by (auto simp: ex_sc_world_def ex_sc_env_def database_works_def ex_transact_def byte_to_hex_def hex_digit_def char_of_def
        bit_simps intro!: exI [of _ "[0]"])
  obtain s where s: "state_new ex_transact (ex_sc_startup (Some [1])) [] = Ok s"
    by (simp add: state_new_def ex_sc_startup_def read_current_state_root_def)
  have "ss_head (sh_state (sb_shared (sn_service ?nd))) = Some [1]" "su_head (ex_sc_startup (Some [1])) = Ok (Some [1])"
    by (simp_all add: ex_sc_node_def ex_sc_shared_def ex_sc_state_def ex_sc_startup_def)
  from restart_restores_state_root [OF ex_sc_started d this s] s show ?thesis
    by (simp add: ex_sc_node_def ex_sc_shared_def ex_sc_state_def)
qed

section \<open>The history of batches\<close>

text \<open>The hash map lists each of its entries once.\<close>

definition orders_entries :: "entry_order \<Rightarrow> bool" where
  "orders_entries entries \<longleftrightarrow> (\<forall>h. finite (dom h) \<longrightarrow> lists_entries entries h)"

definition history_ok :: "batch_history \<Rightarrow> bool" where
  "history_ok b \<longleftrightarrow> bh_limit b = 100 \<and> finite (dom (bh_history b)) \<and> card (dom (bh_history b)) \<le> 100"

lemma lists_entries_length: "lists_entries entries h \<Longrightarrow> length (entries h) = card (dom h)"
  by (metis distinct_card dom_map_of_conv_image_fst length_map lists_entries_def set_map)

lemma oldest_entry_in: "oldest_entry e es \<in> set (e # es)"
  by (induction e es rule: oldest_entry.induct) (auto split: if_splits)

lemma oldest_entry_least: "x \<in> set (e # es) \<Longrightarrow> bi_timestamp (snd (oldest_entry e es)) \<le> bi_timestamp (snd x)"
proof (induction e es arbitrary: x rule: oldest_entry.induct)
  case (2 e y ys)
  let ?m = "if bi_timestamp (snd y) < bi_timestamp (snd e) then y else e"
  from "2.IH" [of ?m] "2.IH" [of x] "2.prems" show ?case by (auto split: if_splits)
qed simp

lemma add_batch_cases:
  assumes "lists_entries entries h" and "h = (bh_history b)(signature \<mapsto> \<lparr>bi_id = signature, bi_status = BatchPending, bi_timestamp = now\<rparr>)"
  obtains (room) "card (dom h) \<le> bh_limit b" "bh_history (add_batch entries now signature b) = h"
  | (evict) k info where "bh_limit b < card (dom h)" "h k = Some info"
      "bh_history (add_batch entries now signature b) = h(k := None)"
      "\<And>k' info'. h k' = Some info' \<Longrightarrow> bi_timestamp info \<le> bi_timestamp info'"
proof (cases "bh_limit b < card (dom h)")
  case False
  with assms lists_entries_length [OF assms(1)] show thesis by (intro room) (simp_all add: add_batch_def Let_def)
next
  case True
  with lists_entries_length [OF assms(1)] obtain e es where es: "entries h = e # es" by (cases "entries h") auto
  obtain k info where o: "oldest_entry e es = (k, info)" by (cases "oldest_entry e es")
  have m: "h k' = Some info' \<longleftrightarrow> (k', info') \<in> set (e # es)" for k' info'
    using assms(1) es by (metis lists_entries_def map_of_eq_Some_iff)
  show thesis
  proof (rule evict [OF True, of k info])
    show "h k = Some info" using m oldest_entry_in [of e es] o by simp
    show "bh_history (add_batch entries now signature b) = h(k := None)"
      using True lists_entries_length [OF assms(1)] es o assms(2) by (simp add: add_batch_def Let_def)
    show "bi_timestamp info \<le> bi_timestamp info'" if "h k' = Some info'" for k' info'
      using oldest_entry_least [of "(k', info')" e es] o that m by simp
  qed
qed

lemma add_batch_limit [simp]: "bh_limit (add_batch entries now signature b) = bh_limit b"
  by (simp add: add_batch_def Let_def)

lemma add_batch_history_ok:
  assumes "orders_entries entries" and "history_ok b"
  shows "history_ok (add_batch entries now signature b)"
proof -
  define h where "h = (bh_history b)(signature \<mapsto> \<lparr>bi_id = signature, bi_status = BatchPending, bi_timestamp = now\<rparr>)"
  have fin: "finite (dom h)" "card (dom h) \<le> 101" using assms(2) by (auto simp: h_def history_ok_def card_insert_if)
  with assms(1) have l: "lists_entries entries h" by (simp add: orders_entries_def)
  from l h_def show ?thesis
  proof (cases rule: add_batch_cases)
    case room
    with assms(2) fin show ?thesis by (simp add: history_ok_def)
  next
    case (evict k info)
    then have "card (dom (h(k := None))) \<le> 100" using fin by (simp add: card_Diff_singleton domI)
    with evict assms(2) fin show ?thesis by (simp add: history_ok_def)
  qed
qed

lemma status_history_ok [simp]:
  "history_ok (update_batch_status signature st b) = history_ok b" "history_ok (history_commit signature b) = history_ok b"
  by (auto simp: history_ok_def update_batch_status_def history_commit_def insert_absorb domI split: option.split batch_status.split)

lemma write_history: "ss_batch_history (snd (write_current_state_root tr s)) = ss_batch_history s"
  by (auto simp: write_current_state_root_def bind_act_def rust_simps split: result.split hex_error.split)

lemma commit_history_ok:
  assumes "history_ok (ss_batch_history s)"
  shows "history_ok (ss_batch_history (snd (commit_state tr s)))"
proof -
  have w: "keeps (\<lambda>s. history_ok (ss_batch_history s)) (write_current_state_root tr)"
    by (simp add: keeps_def write_history)
  show ?thesis
    unfolding commit_state_def Let_def using assms
    by (auto split: option.split prod.split intro!: keepsD [of "\<lambda>s. history_ok (ss_batch_history s)"] keeps_intros w)
qed

lemma prepare_history_ok: "history_ok (ss_batch_history s) \<Longrightarrow> history_ok (ss_batch_history (snd (prepare_change tr b s)))"
  by (auto simp: prepare_change_def bind_act_def rust_simps split: result.split)

interpretation hi: scabbard_state_invariant w
    "\<lambda>s. orders_entries (sc_entries (cw_env w)) \<longrightarrow> history_ok (ss_batch_history s)" for w :: sc_world
proof unfold_locales
  fix s su keys assume "state_new (sc_transact (cw_env w)) su keys = Ok s"
  then show "orders_entries (sc_entries (cw_env w)) \<longrightarrow> history_ok (ss_batch_history s)"
    by (auto simp: state_new_def rust_simps history_ok_def batch_history_new_def)
qed (auto simp: commit_history_ok prepare_history_ok add_batch_history_ok subscribe_frame shutdown_event_dealer_def)

text \<open>C17. 
  The history of batches is bounded, and old batches are the ones that go: in every reachable node it has at
  most 100 entries, and when a batch is added, every entry stays as it is but one, and that one is not younger
  than any other.
\<close>

theorem batch_history_bounded:
  assumes "sc_reachable w nd" and "orders_entries (sc_entries (cw_env w))"
    and "b = ss_batch_history (sh_state (sb_shared (sn_service nd)))"
    and "h = (bh_history b)(signature \<mapsto> \<lparr>bi_id = signature, bi_status = BatchPending, bi_timestamp = now\<rparr>)"
  shows "finite (dom (bh_history b)) \<and> card (dom (bh_history b)) \<le> 100 \<and>
    (bh_history (add_batch (sc_entries (cw_env w)) now signature b) = h \<or>
     (\<exists>k info. h k = Some info \<and> bh_history (add_batch (sc_entries (cw_env w)) now signature b) = h(k := None) \<and>
        list_all (\<lambda>(k', info'). bi_timestamp info \<le> bi_timestamp info') (sc_entries (cw_env w) h)))"
proof -
  have ok: "history_ok b" using hi.Q_reachable [OF assms(1)] assms(2,3) by simp
  then have "finite (dom h)" using assms(4) by (simp add: history_ok_def)
  with assms(2) have l: "lists_entries (sc_entries (cw_env w)) h" by (simp add: orders_entries_def)
  then have e: "(k', i') \<in> set (sc_entries (cw_env w) h) \<Longrightarrow> h k' = Some i'" for k' i'
    by (metis lists_entries_def map_of_is_SomeI)
  have "bh_history (add_batch (sc_entries (cw_env w)) now signature b) = h \<or>
     (\<exists>k info. h k = Some info \<and> bh_history (add_batch (sc_entries (cw_env w)) now signature b) = h(k := None) \<and>
        list_all (\<lambda>(k', info'). bi_timestamp info \<le> bi_timestamp info') (sc_entries (cw_env w) h))"
    using l assms(4)
  proof (cases rule: add_batch_cases)
    case (evict k info)
    then have "list_all (\<lambda>(k', info'). bi_timestamp info \<le> bi_timestamp info') (sc_entries (cw_env w) h)"
      using e by (auto simp: list_all_iff)
    with evict(2,3) show ?thesis by blast
  qed simp
  with ok show ?thesis by (simp add: history_ok_def)
qed

lemma ex_entries_order: "orders_entries ex_entries"
  unfolding orders_entries_def
proof (intro allI impI)
  fix h :: "string \<rightharpoonup> batch_info" assume f: "finite (dom h)"
  have "map_of (ex_entries h) = h"
  proof
    fix k show "map_of (ex_entries h) k = h k"
      using f by (cases "h k") (auto simp: ex_entries_def map_of_map_restrict restrict_map_def domIff)
  qed
  moreover have "map fst (ex_entries h) = sorted_list_of_set (dom h)" by (simp add: ex_entries_def comp_def)
  ultimately show "lists_entries ex_entries h" using f by (simp add: lists_entries_def)
qed

theorem batch_history_bounded_witness:
  "card (dom (bh_history batch_history_new)) \<le> 100 \<and>
   (\<exists>h. bh_history (add_batch ex_entries 5 ''x'' batch_history_new) = h \<and> finite (dom h))"
proof -
  let ?nd = "ex_sc_node ex_sc_e0 Map.empty None []"
  have "orders_entries (sc_entries (cw_env ex_sc_world))"
    "batch_history_new = ss_batch_history (sh_state (sb_shared (sn_service ?nd)))"
    by (simp_all add: ex_sc_world_def ex_sc_env_def ex_entries_order ex_sc_node_def ex_sc_shared_def ex_sc_state_def)
  from batch_history_bounded [OF ex_sc_started this refl, where signature = "''x''" and now = 5] show ?thesis
    by (auto simp: ex_sc_world_def ex_sc_env_def batch_history_new_def)
qed

section \<open>Which batches are let in\<close>

definition transaction_verified :: "scabbard_env \<Rightarrow> batch_pair \<Rightarrow> transaction \<times> bytes \<Rightarrow> bool" where
  "transaction_verified env batch = (\<lambda>(txn, i).
     case sc_txn_header env (tx_header txn) of
       Err _ \<Rightarrow> False
     | Ok header \<Rightarrow>
         parse_hex (tx_header_signature txn) = Ok i \<and>
         th_batcher_public_key header = bp_signer_public_key batch \<and>
         sc_verify env (tx_header txn) i (th_signer_public_key header) = Ok True \<and>
         sc_sha512 env (tx_payload txn) = Ok (th_payload_hash header))"

text \<open>
  A batch in order: it is signed by its signer, its header lists the ids of its transactions, and every
  transaction is signed, names the signer of the batch as its batcher and has the payload hash of its header.
\<close>

definition batch_verified :: "scabbard_env \<Rightarrow> batch_pair \<Rightarrow> bool" where
  "batch_verified env batch \<longleftrightarrow>
     (case parse_hex (bp_header_signature batch) of
        Err _ \<Rightarrow> False
      | Ok signature \<Rightarrow> sc_verify env (bp_header batch) signature (bp_signer_public_key batch) = Ok True) \<and>
     length (bp_transaction_ids batch) = length (bp_transactions batch) \<and>
     list_all (transaction_verified env batch) (zip (bp_transactions batch) (bp_transaction_ids batch))"

lemma hex_argument_Ok: "hex_argument s = Ok b \<longleftrightarrow> parse_hex s = Ok b"
  by (simp add: hex_argument_def rust_simps)

lemma verify_transactions_iff:
  "i + length txns = length (bp_transaction_ids batch) \<Longrightarrow>
   verify_transactions env batch i txns = Ok True \<longleftrightarrow>
     list_all (transaction_verified env batch) (zip txns (drop i (bp_transaction_ids batch)))"
proof (induction txns arbitrary: i)
  case (Cons txn txns)
  from Cons.prems have i: "i < length (bp_transaction_ids batch)"
    "drop i (bp_transaction_ids batch) = bp_transaction_ids batch ! i # drop (Suc i) (bp_transaction_ids batch)"
    by (simp_all add: Cons_nth_drop_Suc)
  have IH: "verify_transactions env batch (Suc i) txns = Ok True \<longleftrightarrow>
      list_all (transaction_verified env batch) (zip txns (drop (Suc i) (bp_transaction_ids batch)))"
    using Cons by simp
  show ?case
  proof (cases "sc_txn_header env (tx_header txn)")
    case (Err e)
    then show ?thesis by (simp add: i transaction_verified_def)
  next
    case (Ok header)
    with IH i show ?thesis
      by (auto simp: transaction_verified_def bind_result_Ok_iff hex_argument_Ok hash_verify_def map_err_Ok_iff map_result_Ok_iff
          split: if_splits)
  qed
qed simp

lemma verify_batches_iff: "verify_batches env batches = Ok True \<longleftrightarrow> list_all (batch_verified env) batches"
proof (induction batches)
  case (Cons b bs)
  show ?case
  proof (cases "parse_hex (bp_header_signature b)")
    case (Err e)
    then show ?thesis by (simp add: batch_verified_def hex_argument_def)
  next
    case (Ok signature)
    with Cons verify_transactions_iff [of 0 "bp_transactions b" b env] show ?thesis
      by (auto simp: batch_verified_def bind_result_Ok_iff hex_argument_Ok map_err_Ok_iff split: if_splits)
  qed
qed simp

lemma queue_batches_queue: "sh_batch_queue (queue_batches en now k batches sh) = sh_batch_queue sh @ batches"
  by (induction batches arbitrary: k sh) (simp_all add: add_batch_to_queue_def)

text \<open>C16. 
  Exactly the batches that are in order are let in: a submission is accepted if and only if every batch in it
  is; then all its batches are queued in their order, and otherwise the service is as it was.
\<close>

theorem add_batches_admits_verified:
  "case add_batches env now batches sb of (r, sb') \<Rightarrow>
     if list_all (batch_verified env) batches
     then r = Ok (Some (status_link sb batches)) \<and> sh_batch_queue (sb_shared sb') = sh_batch_queue (sb_shared sb) @ batches
     else r \<notin> range (\<lambda>link. Ok (Some link)) \<and> sb' = sb"
  by (auto simp: add_batches_def queue_batches_queue simp flip: verify_batches_iff split: result.split bool.split)

text \<open>
  A signature with a character of more than one byte stops the request: the parser of the signature slices the
  string inside the character and panics, while the handler holds the lock on the state of the service.
\<close>

theorem multibyte_signature_panics:
  assumes "batch_list body = Ok (b # bs)" and "bp_header_signature b = c # d # e # cs"
    and "\<not> continuation_byte c" and "continuation_byte e" and "even (length (bp_header_signature b))"
  shows "post_batches env batch_list now body sb = (HttpPanicked, sb)"
proof -
  have "parse_hex (bp_header_signature b) = Err HexSlicePanic"
    using assms by (simp add: parse_hex_def even_iff_mod_2_eq_zero)
  then show ?thesis
    using assms(1) by (simp add: post_batches_def add_batches_def hex_argument_def)
qed

definition ex_multibyte :: batch_pair where
  "ex_multibyte = ex_sc_batch\<lparr>bp_header_signature := [CHR ''a'', CHR 0xC3, CHR 0xA9, CHR ''a'']\<rparr>"

theorem multibyte_signature_panics_witness:
  "post_batches ex_sc_env (\<lambda>_. Ok [ex_multibyte]) (\<lambda>_. 0) [] (sn_service (ex_sc_node ex_sc_e0 Map.empty None [])) =
     (HttpPanicked, sn_service (ex_sc_node ex_sc_e0 Map.empty None []))"
  by (rule multibyte_signature_panics [of _ _ _ _ "CHR ''a''" "CHR 0xC3" "CHR 0xA9" "''a''", OF refl])
    (simp_all add: ex_multibyte_def continuation_byte_def)

section \<open>What the clients are told\<close>

lemma split_on_join:
  "ts \<noteq> [] \<Longrightarrow> list_all (\<lambda>t. c \<notin> set t) ts \<Longrightarrow> split_on c (join_texts [c] ts) = ts"
proof -
  have one: "c \<notin> set t \<Longrightarrow> split_on c t = [t]" for t by (induction t) auto
  have more: "c \<notin> set t \<Longrightarrow> split_on c (t @ c # rest) = t # split_on c rest" for t rest by (induction t) auto
  show "ts \<noteq> [] \<Longrightarrow> list_all (\<lambda>t. c \<notin> set t) ts \<Longrightarrow> split_on c (join_texts [c] ts) = ts"
    by (induction "[c]" ts rule: join_texts.induct) (simp_all add: one more)
qed

lemma butlast_commas:
  "ts \<noteq> [] \<Longrightarrow> butlast (pre @ concat (map (\<lambda>t. t @ [c]) ts)) = pre @ join_texts [c] ts"
proof (induction ts arbitrary: pre rule: rev_induct)
  case (snoc t ts)
  have "join_texts [c] (ts @ [t]) = concat (map (\<lambda>t. t @ [c]) ts) @ t"
    by (induction "[c]" ts rule: join_texts.induct) simp_all
  then show ?case by (simp add: butlast_append)
qed simp

text \<open>
  The link that answers a submission leads to its batches: it is the route of the service followed by the
  signatures, and a request for the statuses with them returns the record of each batch, in the order of the
  submission.
\<close>

theorem status_link_finds_batches:
  fixes sb batches
  defines "signatures \<equiv> map bp_header_signature batches"
  assumes "batches \<noteq> []" and "list_all (\<lambda>t. CHR '','' \<notin> set t) signatures"
  shows "status_link sb batches = ''/scabbard/'' @ sb_circuit_id sb @ ''/'' @ sb_service_id sb @ ''/batch_statuses?ids='' @
      join_texts '','' signatures \<and>
    get_batch_statuses now (Some (Map.empty(''ids'' \<mapsto> join_texts '','' signatures))) sb =
      HttpOk (map (\<lambda>t. get_batch_info now t (ss_batch_history (sh_state (sb_shared sb)))) signatures)"
proof -
  have ne: "signatures \<noteq> []" using assms(2) by (simp add: signatures_def)
  have "status_link sb batches = butlast ((''/scabbard/'' @ sb_circuit_id sb @ ''/'' @ sb_service_id sb @ ''/batch_statuses?ids='') @
      concat (map (\<lambda>t. t @ '','') signatures))"
    by (simp add: status_link_def signatures_def comp_def)
  also have "\<dots> = (''/scabbard/'' @ sb_circuit_id sb @ ''/'' @ sb_service_id sb @ ''/batch_statuses?ids='') @
      join_texts '','' signatures"
    by (rule butlast_commas [OF ne])
  finally show ?thesis
    using split_on_join [OF ne assms(3)] by (simp add: get_batch_statuses_def get_batch_infos_def)
qed

theorem status_link_finds_batches_witness:
  "status_link (sn_service (ex_sc_node ex_sc_e0 Map.empty None [])) [ex_sc_batch, ex_sc_batch\<lparr>bp_header_signature := ''bb''\<rparr>] =
     ''/scabbard/c/b/batch_statuses?ids=aa,bb''"
proof -
  have "list_all (\<lambda>t. CHR '','' \<notin> set t) (map bp_header_signature [ex_sc_batch, ex_sc_batch\<lparr>bp_header_signature := ''bb''\<rparr>])"
    by (simp add: ex_sc_batch_def)
  from status_link_finds_batches [OF _ this] show ?thesis
    by (simp add: ex_sc_batch_def ex_sc_node_def)
qed

text \<open>The link for a submission without batches loses its equals sign.\<close>

lemma status_link_empty:
  "status_link sb [] = ''/scabbard/'' @ sb_circuit_id sb @ ''/'' @ sb_service_id sb @ ''/batch_statuses?ids''"
  by (simp add: status_link_def butlast_append)

subsection \<open>Subscribers\<close>

text \<open>
  What happens to the state of a running service, with the events of the commits on the way. The web sockets
  stay open.
\<close>

inductive sc_run ::
  "transact \<Rightarrow> entry_order \<Rightarrow> scabbard_state \<Rightarrow> state_change_event list list \<Rightarrow> scabbard_state \<Rightarrow> bool" for tr entries s where
  run_start: "sc_run tr entries s [] s"
| run_prepare: "sc_run tr entries s evs (snd (prepare_change tr batch s'))" if "sc_run tr entries s evs s'"
| run_rollback: "sc_run tr entries s evs (s'\<lparr>ss_pending_changes := None\<rparr>)" if "sc_run tr entries s evs s'"
| run_commit: "sc_run tr entries s (evs @ [map from_state_change (receipts_into_state_changes rs)]) s''"
  if "sc_run tr entries s evs s'" "ss_pending_changes s' = Some (signature, rs)" "commit_state tr s' = (Ok (), s'')"
| run_failed: "sc_run tr entries s evs s''" if "sc_run tr entries s evs s'" "commit_state tr s' = (Err e, s'')"
| run_subscribe: "sc_run tr entries s evs (snd (subscribe_to_state start s'))" if "sc_run tr entries s evs s'"
| run_add: "sc_run tr entries s evs (s'\<lparr>ss_batch_history := add_batch entries now signature (ss_batch_history s')\<rparr>)"
  if "sc_run tr entries s evs s'"

definition ws_append :: "'e \<Rightarrow> 'e web_socket \<Rightarrow> 'e web_socket" where
  "ws_append e w = w\<lparr>ws_channel := (ws_channel w)\<lparr>chan_queue := chan_queue (ws_channel w) @ [WsMessage e]\<rparr>\<rparr>"

definition all_open :: "event_sender list \<Rightarrow> 'e web_sockets \<Rightarrow> bool" where
  "all_open is ws \<longleftrightarrow> distinct is \<and> (\<forall>i \<in> set is. i < length ws \<and> chan_open (ws_channel (ws ! i)))"

lemma ws_append_simps [simp]:
  "chan_open (ws_channel (ws_append e w)) = chan_open (ws_channel w)" "ws_stream (ws_append e w) = ws_stream w @ [WsMessage e]"
  by (simp_all add: ws_append_def ws_stream_def)

lemma send_or_drop_open:
  "all_open is ws \<Longrightarrow>
   \<exists>ws'. send_or_drop e is ws = (is, ws') \<and> length ws' = length ws \<and>
     (\<forall>j < length ws. ws' ! j = (if j \<in> set is then ws_append e (ws ! j) else ws ! j))"
proof (induction "is" arbitrary: ws)
  case Nil
  then show ?case by simp
next
  case (Cons i "is")
  let ?ws = "ws[i := ws_append e (ws ! i)]"
  have i: "i < length ws" "chan_open (ws_channel (ws ! i))" using Cons.prems by (simp_all add: all_open_def)
  have e: "event_send i e ws = (Ok (), ?ws)"
    using unbounded_send_open [OF i] by (simp add: event_send_def on_part_def ws_append_def)
  have "all_open is ?ws" using Cons.prems by (auto simp: all_open_def nth_list_update)
  from Cons.IH [OF this] obtain ws' where "send_or_drop e is ?ws = (is, ws')" "length ws' = length ws"
    "\<forall>j < length ws. ws' ! j = (if j \<in> set is then ws_append e (?ws ! j) else ?ws ! j)" by auto
  moreover have "i \<notin> set is" using Cons.prems by (simp add: all_open_def)
  moreover from this have "?ws ! j = ws ! j" if "j \<in> set is" for j using that by (intro nth_list_update_neq) auto
  ultimately show ?case using e i(1) by (auto simp: nth_list_update_eq nth_list_update_neq)
qed

text \<open>What a run keeps: the senders are those of open sockets, and the history is that of the last commits.\<close>

definition events_ok :: "state_change_event list list \<Rightarrow> scabbard_state \<Rightarrow> bool" where
  "events_ok past s \<longleftrightarrow> all_open (ss_event_senders s) (ss_sockets s) \<and>
     ss_commit_history s = fold history_store past history_default"

definition follows :: "event_sender \<Rightarrow> state_change_event list message_wrapper list \<Rightarrow> scabbard_state \<Rightarrow> bool" where
  "follows i stream s \<longleftrightarrow> i \<in> set (ss_event_senders s) \<and> i < length (ss_sockets s) \<and> ws_stream (ss_sockets s ! i) = stream"

lemma events_ok_cong:
  assumes "ss_event_senders s' = ss_event_senders s" "ss_sockets s' = ss_sockets s" "ss_commit_history s' = ss_commit_history s"
  shows "events_ok past s' = events_ok past s" "follows i stream s' = follows i stream s"
  using assms by (simp_all add: events_ok_def follows_def)

lemma prepare_events:
  "ss_event_senders (snd (prepare_change tr b s)) = ss_event_senders s" "ss_sockets (snd (prepare_change tr b s)) = ss_sockets s"
  "ss_commit_history (snd (prepare_change tr b s)) = ss_commit_history s"
  by (auto simp: prepare_change_def bind_act_def rust_simps split: result.split)

lemma commit_failed_events:
  assumes "commit_state tr s = (Err e, s')"
  shows "ss_event_senders s' = ss_event_senders s" "ss_sockets s' = ss_sockets s" "ss_commit_history s' = ss_commit_history s"
proof -
  have w: "write_current_state_root tr t = (Err x, t') \<Longrightarrow> t' = t" for t t' x
    by (auto simp: write_current_state_root_def bind_act_Err_iff rust_simps split: result.splits hex_error.splits)
  have w': "write_current_state_root tr t = (Ok (), t') \<Longrightarrow> ss_event_senders t' = ss_event_senders t \<and>
      ss_sockets t' = ss_sockets t \<and> ss_commit_history t' = ss_commit_history t" for t t'
    using write_current_state_root_Ok [of tr t t'] by auto
  show "ss_event_senders s' = ss_event_senders s" "ss_sockets s' = ss_sockets s" "ss_commit_history s' = ss_commit_history s"
    using assms by (cases "ss_pending_changes s";
        auto simp: commit_state_def Let_def bind_act_Err_iff rust_simps on_part_def case_prod_beta dest!: w w')+
qed

lemma commit_events:
  assumes "commit_state tr s = (Ok (), s')" and "ss_pending_changes s = Some (signature, rs)" and "events_ok past s"
  defines "ev \<equiv> map from_state_change (receipts_into_state_changes rs)"
  shows "events_ok (past @ [ev]) s'" and "follows i stream s \<Longrightarrow> follows i (stream @ [WsMessage ev]) s'"
proof -
  obtain ws' where ws': "send_or_drop ev (ss_event_senders s) (ss_sockets s) = (ss_event_senders s, ws')"
    "length ws' = length (ss_sockets s)"
    "\<forall>j < length (ss_sockets s). ws' ! j =
       (if j \<in> set (ss_event_senders s) then ws_append ev (ss_sockets s ! j) else ss_sockets s ! j)"
    using send_or_drop_open [of "ss_event_senders s" "ss_sockets s" ev] assms(3) unfolding events_ok_def by blast
  have s': "ss_commit_history s' = history_store ev (ss_commit_history s)" "ss_event_senders s' = ss_event_senders s"
    "ss_sockets s' = ws'"
    by (rule commit_state_Ok [OF assms(1)], use ws'(1) assms(2) in \<open>simp add: ev_def\<close>)+
  show "events_ok (past @ [ev]) s'" using assms(3) ws' s' by (auto simp: events_ok_def all_open_def)
  show "follows i (stream @ [WsMessage ev]) s'" if "follows i stream s" using that ws' s' by (auto simp: follows_def)
qed

lemma subscribe_events:
  assumes "events_ok past s"
  shows "events_ok past (snd (subscribe_to_state start s))"
    and "follows i stream s \<Longrightarrow> follows i stream (snd (subscribe_to_state start s))"
  using assms
  by (cases start; auto simp: subscribe_to_state_def bind_act_def on_part_def dealer_subscribe_def modify_act_def events_ok_def
      all_open_def follows_def nth_append)+

lemma sc_run_events:
  assumes "sc_run tr entries s evs s'" and "events_ok past s"
  shows "events_ok (past @ evs) s' \<and> (follows i stream s \<longrightarrow> follows i (stream @ map WsMessage evs) s')"
  using assms(1)
proof (induction rule: sc_run.induct)
  case (run_prepare evs s' batch)
  then show ?case by (simp add: events_ok_cong [OF prepare_events])
next
  case (run_rollback evs s')
  then show ?case by (simp add: events_ok_def follows_def)
next
  case (run_commit evs s' signature rs s'')
  from run_commit.IH commit_events(1) [OF run_commit.hyps(3,2), where past = "past @ evs"]
    commit_events(2) [OF run_commit.hyps(3,2), where past = "past @ evs" and i = i and stream = "stream @ map WsMessage evs"]
  show ?case by simp
next
  case (run_failed evs s' e s'')
  then show ?case using events_ok_cong [OF commit_failed_events [OF run_failed.hyps(2)]] by simp
next
  case (run_subscribe evs s' start)
  from run_subscribe.IH subscribe_events(1) [where past = "past @ evs" and s = s' and start = start]
    subscribe_events(2) [where past = "past @ evs" and s = s' and start = start and i = i and stream = "stream @ map WsMessage evs"]
  show ?case by simp
next
  case (run_add evs s' now signature)
  then show ?case by (simp add: events_ok_def follows_def)
qed (use assms(2) in simp)

text \<open>C15. 
  A subscriber misses nothing: a client that subscribes after the commits \<open>before\<close> is sent the events of the
  last 100 of them and then those of every later commit, each once and in the order of the commits.
\<close>

theorem subscriber_sees_every_commit:
  assumes "state_new tr su keys = Ok s0" and "sc_run tr entries s0 before s1"
    and "subscribe_to_state (Ok ()) s1 = (Ok (), s2)" and "sc_run tr entries s2 after s3"
  shows "ws_stream (ss_sockets s3 ! length (ss_sockets s1)) = map WsMessage (last_n 100 before @ after)"
proof -
  have "events_ok [] s0" using assms(1) by (auto simp: state_new_def events_ok_def all_open_def rust_simps)
  from sc_run_events [OF assms(2) this] have s1: "events_ok before s1" by simp
  then have h: "ss_commit_history s1 = \<lparr>eh_history = last_n 100 before, eh_limit = 100\<rparr>"
    by (simp add: events_ok_def history_default_eq history_fold)
  have s2: "events_ok before s2" using subscribe_events(1) [OF s1, of "Ok ()"] assms(3) by simp
  have "follows (length (ss_sockets s1)) (map WsMessage (last_n 100 before)) s2"
    using assms(3) h
    by (auto simp: subscribe_to_state_def bind_act_def on_part_def dealer_subscribe_def modify_act_def follows_def ws_stream_def
        history_events_def)
  with sc_run_events [OF assms(4) s2] show ?thesis by (auto simp: follows_def)
qed

lemma ex_commit_any:
  "\<exists>s'. ss_pending_changes (snd (prepare_change ex_transact ex_sc_batch s)) = Some (''aa'', [ex_sc_receipt]) \<and>
     commit_state ex_transact (snd (prepare_change ex_transact ex_sc_batch s)) = (Ok (), s')"
proof -
  have "parse_hex ''00'' = Ok [0]" using parse_hex_to_hex [of "[0]"] by (simp add: byte_to_hex_def hex_digit_def char_of_def bit_simps)
  then show ?thesis
    by (simp add: prepare_change_def commit_state_def ex_transact_def bind_act_def rust_simps ex_sc_batch_def Let_def on_part_def
        write_current_state_root_def)
qed

lemma ex_run_commit:
  assumes "sc_run ex_transact entries s evs s'"
  shows "\<exists>s''. sc_run ex_transact entries s (evs @ [[EventSet ''k'' [7]]]) s''"
proof -
  obtain s'' where "ss_pending_changes (snd (prepare_change ex_transact ex_sc_batch s')) = Some (''aa'', [ex_sc_receipt])"
    "commit_state ex_transact (snd (prepare_change ex_transact ex_sc_batch s')) = (Ok (), s'')" using ex_commit_any by blast
  from sc_run.run_commit [OF sc_run.run_prepare [OF assms] this] show ?thesis by (auto simp: ex_sc_change)
qed

theorem subscriber_sees_every_commit_witness:
  "\<exists>s1 (s3 :: scabbard_state). sc_run ex_transact ex_entries ex_sc_state [[EventSet ''k'' [7]]] s1 \<and>
     ws_stream (ss_sockets s3 ! length (ss_sockets s1)) = [WsMessage [EventSet ''k'' [7]], WsMessage [EventSet ''k'' [7]]]"
proof -
  have new: "state_new ex_transact (ex_sc_startup (Some [1])) [] = Ok ex_sc_state"
    by (simp add: state_new_def ex_sc_startup_def read_current_state_root_def ex_sc_state_def byte_to_hex_def hex_digit_def
        char_of_def bit_simps)
  obtain s1 where s1: "sc_run ex_transact ex_entries ex_sc_state [[EventSet ''k'' [7]]] s1"
    using ex_run_commit [OF sc_run.run_start] by auto
  obtain s2 where s2: "subscribe_to_state (Ok ()) s1 = (Ok (), s2)"
    by (simp add: subscribe_to_state_def bind_act_def on_part_def dealer_subscribe_def modify_act_def)
  obtain s3 where s3: "sc_run ex_transact ex_entries s2 [[EventSet ''k'' [7]]] s3"
    using ex_run_commit [OF sc_run.run_start] by auto
  from subscriber_sees_every_commit [OF new s1 s2 s3] s1 show ?thesis
    by (intro exI [of _ s1] exI [of _ s3]) (simp add: last_n_def)
qed

section \<open>Batches of other services\<close>

text \<open>C35. 
  A batch that another service proposes is not verified: whatever the signature verifier says of it, it is
  filed under the id of the proposal, and when executing it leads to the state root of this id, checking the
  proposal makes it ready to be committed and reports it valid.
\<close>

theorem peer_batch_is_not_verified:
  assumes "parse_from_bytes (sc_message_c env) bs = Ok (ScProposedBatch pb)"
    and "proposal_try_from (sc_proposal_c env) (pb_proposal pb) = Ok new" and "parse_from_bytes (sc_batch_c env) (pb_batch pb) = Ok batch"
    and "sb_consensus sb = Some c" and "chan_open (scm_updates c)" and "verify_batches env [batch] = Ok False"
    and "prepare_change (sc_transact env) batch (sh_state (sb_shared sb)) = (Ok h, st)" and "prop_id new = ProposalId (as_bytes h)"
  shows "\<exists>sb' c' m'. sb_handle_message env bs sb = (Ok (), sb') \<and> sb_consensus sb' = Some c' \<and>
    sc_check_proposal env (prop_id new) (sc_manager_of sb' c') = (Ok (), m') \<and>
    last (chan_queue (sm_updates m')) = ProposalValid (prop_id new) \<and>
    (\<exists>rs. ss_pending_changes (sh_state (sm_shared m')) = Some (bp_header_signature batch, rs))"
proof -
  define u where "u = ProposalReceived new (PeerId (as_bytes (pb_service_id pb)))"
  define c' where "c' = c\<lparr>scm_updates := (scm_updates c)\<lparr>chan_queue := chan_queue (scm_updates c) @ [u]\<rparr>\<rparr>"
  define sb' where "sb' = sb\<lparr>sb_shared := add_proposed_batch (prop_id new) batch (sb_shared sb), sb_consensus := Some c'\<rparr>"
  have "sb_handle_message env bs sb = (Ok (), sb')"
    using assms(1-5) by (simp add: sb_handle_message_def bind_act_def rust_simps with_sc_consensus_def scm_send_update_def on_part_def
        chan_send_def sb'_def c'_def u_def)
  moreover obtain rs where "ss_pending_changes st = Some (bp_header_signature batch, rs)"
    by (rule prepare_change_Ok [OF assms(7)]) simp
  ultimately show ?thesis
    using assms(5,7,8)
    by (auto simp: sb'_def c'_def sc_check_proposal_def sc_manager_of_def add_proposed_batch_def bind_act_def on_sm_shared_def
        on_state_def on_part_def sc_send_update_def chan_send_def)
qed

definition ex_sc_refusing :: scabbard_env where
  "ex_sc_refusing = ex_sc_env\<lparr>sc_verify := \<lambda>_ _ _. Ok False\<rparr>"

theorem peer_batch_is_not_verified_witness:
  "verify_batches ex_sc_refusing [ex_sc_batch] = Ok False \<and>
   (\<exists>sb' c' m'. sb_handle_message ex_sc_refusing [0] (sn_service (ex_sc_node ex_sc_e0 Map.empty None [])) = (Ok (), sb') \<and>
     sc_check_proposal ex_sc_refusing ex_sc_id (sc_manager_of sb' c') = (Ok (), m') \<and>
     last (chan_queue (sm_updates m')) = ProposalValid ex_sc_id)"
proof -
  let ?sb = "sn_service (ex_sc_node ex_sc_e0 Map.empty None [])"
  let ?pb = "\<lparr>pb_proposal = [0], pb_batch = [0], pb_service_id = ''a''\<rparr>"
  have h: "parse_hex ''aa'' = Ok [170]" using parse_hex_to_hex [of "[170]"]
    by (simp add: byte_to_hex_def hex_digit_def char_of_def bit_simps)
  have 1: "parse_from_bytes (sc_message_c ex_sc_refusing) [0] = Ok (ScProposedBatch ?pb)"
    by (simp add: ex_sc_refusing_def ex_sc_env_def table_codec_def ex_sc_message_def)
  have 2: "proposal_try_from (sc_proposal_c ex_sc_refusing) (pb_proposal ?pb) = Ok (batch_proposal ''00'')"
    "parse_from_bytes (sc_batch_c ex_sc_refusing) (pb_batch ?pb) = Ok ex_sc_batch"
    by (simp_all add: ex_sc_refusing_def ex_sc_env_def table_codec_def proposal_try_from_def)
  have 3: "verify_batches ex_sc_refusing [ex_sc_batch] = Ok False"
    by (simp add: ex_sc_refusing_def ex_sc_env_def hex_argument_def ex_sc_batch_def h)
  have 4: "sb_consensus ?sb = Some \<lparr>scm_messages = \<lparr>chan_open = True, chan_queue = []\<rparr>, scm_updates = \<lparr>chan_open = True, chan_queue = []\<rparr>\<rparr>"
    by (simp add: ex_sc_node_def)
  have 5: "prepare_change (sc_transact ex_sc_refusing) ex_sc_batch (sh_state (sb_shared ?sb)) =
      (Ok ''00'', ex_sc_state\<lparr>ss_pending_changes := Some (''aa'', [ex_sc_receipt])\<rparr>)"
    using ex_sc_prepare [of None] by (simp add: ex_sc_refusing_def ex_sc_env_def ex_sc_node_def ex_sc_shared_def)
  have i: "prop_id (batch_proposal ''00'') = ex_sc_id" by (simp add: batch_proposal_def ex_sc_id_def)
  show ?thesis
    using peer_batch_is_not_verified [OF 1 2 4 _ 3 5] 3 by (auto simp: i ex_sc_id_def)
qed

end
