(* ===== verification/Node_Registry.thy ===== *)
theory Node_Registry
  imports Paging "HOL-Library.Char_ord" "HOL-Library.List_Lexorder"
begin

text \<open>
  The registry of nodes (\<^verbatim>\<open>libsplinter/src/node_registry\<close>): the trait with its errors, the registry in a YAML file
  and the registry without nodes.

  The YAML reader and writer and the file system are arguments, gathered in the record \<open>yaml_env\<close>. A registry
  that is shared between requests is locked for each reading and for each writing of its nodes, and not for the
  whole of an operation; the operations that change it are therefore a reading (\<open>get_cached_nodes\<close>) followed by
  the rest of the operation on what was read.
\<close>

section \<open>The trait\<close>

record node =
  nd_identity :: string
  nd_metadata :: "string \<rightharpoonup> string"

datatype node_registry_error =
  NotFoundError string | DuplicateNodeError string | InvalidFilterError string | RegistryInternalError string
| UnableToAddNode string "string option"

fun node_registry_error_text :: "node_registry_error \<Rightarrow> string" where
  "node_registry_error_text (NotFoundError e) = ''Node not found: '' @ e"
| "node_registry_error_text (DuplicateNodeError e) = ''Duplicate identity: '' @ e"
| "node_registry_error_text (InvalidFilterError e) = ''Invalid filter: '' @ e"
| "node_registry_error_text (RegistryInternalError e) = ''Internal error: '' @ e"
| "node_registry_error_text (UnableToAddNode msg err) =
     ''unable to add node: '' @ msg @ (case err of Some e \<Rightarrow> ''; '' @ e | None \<Rightarrow> '''')"

text \<open>The filters are the entries of a hash map, in the order in which it is iterated.\<close>

type_synonym node_filters = "(string \<times> string \<times> string) list"

text \<open>An implementation of the trait on registries of type \<open>'s\<close>.\<close>

record 's node_registry =
  nr_add_node :: "node \<Rightarrow> ('s, unit, node_registry_error) action"
  nr_list_nodes :: "node_filters option \<Rightarrow> nat option \<Rightarrow> nat option \<Rightarrow> 's \<Rightarrow> (node list, node_registry_error) result"
  nr_fetch_node :: "string \<Rightarrow> 's \<Rightarrow> (node, node_registry_error) result"
  nr_update_node :: "string \<Rightarrow> (string \<rightharpoonup> string) \<Rightarrow> ('s, unit, node_registry_error) action"
  nr_delete_node :: "string \<Rightarrow> ('s, unit, node_registry_error) action"

section \<open>The registry without nodes\<close>

definition noop_registry :: "unit node_registry" where
  "noop_registry =
     \<lparr>nr_add_node = (\<lambda>_. fail_act (UnableToAddNode ''operation not supported'' None)),
      nr_list_nodes = (\<lambda>_ _ _ _. Ok []),
      nr_fetch_node = (\<lambda>i _. Err (NotFoundError i)),
      nr_update_node = (\<lambda>i _. fail_act (NotFoundError i)),
      nr_delete_node = (\<lambda>i. fail_act (NotFoundError i))\<rparr>"

section \<open>The registry in a YAML file\<close>

datatype yaml_error = SerdeError string | IoError string

fun yaml_error_text :: "yaml_error \<Rightarrow> string" where
  "yaml_error_text (SerdeError e) = ''Serde error: '' @ e"
| "yaml_error_text (IoError e) = ''IO error: '' @ e"

type_synonym files = "string \<rightharpoonup> bytes"

record yaml_env =
  ye_open :: "files \<Rightarrow> string \<Rightarrow> (bytes, string) result"
  ye_write :: "string \<Rightarrow> bytes \<Rightarrow> (files, unit, string) action"
  ye_yaml :: "node list codec"

record yaml_registry =
  yr_file_path :: string
  yr_cached_nodes :: "node list"
  yr_files :: files

definition yaml_new :: "yaml_env \<Rightarrow> string \<Rightarrow> files \<Rightarrow> (yaml_registry, yaml_error) result" where
  "yaml_new env path fs =
     bind_result (map_err IoError (ye_open env fs path)) (\<lambda>file.
     bind_result (map_err SerdeError (parse_from_bytes (ye_yaml env) file)) (\<lambda>nodes.
       Ok \<lparr>yr_file_path = path, yr_cached_nodes = nodes, yr_files = fs\<rparr>))"

definition get_cached_nodes :: "yaml_registry \<Rightarrow> node list" where
  "get_cached_nodes r = yr_cached_nodes r"

definition write_nodes :: "yaml_env \<Rightarrow> node list \<Rightarrow> (yaml_registry, unit, yaml_error) action" where
  "write_nodes env data =
     bind_act (lift_act (\<lambda>_. map_err SerdeError (write_to_bytes (ye_yaml env) data))) (\<lambda>output.
     bind_act (\<lambda>r. on_part yr_files (\<lambda>fs r. r\<lparr>yr_files := fs\<rparr>) IoError (ye_write env (yr_file_path r) output) r) (\<lambda>_.
       modify_act (\<lambda>r. r\<lparr>yr_cached_nodes := data\<rparr>)))"

definition save_nodes :: "yaml_env \<Rightarrow> node list \<Rightarrow> (yaml_registry, unit, node_registry_error) action" where
  "save_nodes env data =
     on_part (\<lambda>r. r) (\<lambda>r _. r) (\<lambda>e. RegistryInternalError (yaml_error_text e)) (write_nodes env data)"

definition add_node_to ::
  "yaml_env \<Rightarrow> node \<Rightarrow> node list \<Rightarrow> (yaml_registry, unit, node_registry_error) action" where
  "add_node_to env node nodes =
     (if \<exists>n \<in> set nodes. nd_identity n = nd_identity node
      then fail_act (DuplicateNodeError (''Node with ID '' @ nd_identity node @ '' already exists''))
      else save_nodes env (nodes @ [node]))"

definition yaml_add_node :: "yaml_env \<Rightarrow> node \<Rightarrow> (yaml_registry, unit, node_registry_error) action" where
  "yaml_add_node env node r = add_node_to env node (get_cached_nodes r) r"

definition missing_node :: "string \<Rightarrow> node_registry_error" where
  "missing_node i = NotFoundError (''Could not find node with identity: '' @ i)"

definition update_node_in ::
  "yaml_env \<Rightarrow> string \<Rightarrow> (string \<rightharpoonup> string) \<Rightarrow> node list \<Rightarrow> (yaml_registry, unit, node_registry_error) action" where
  "update_node_in env i updates nodes =
     (case position (\<lambda>n. nd_identity n = i) nodes of
        Some k \<Rightarrow>
          save_nodes env (nodes[k := \<lparr>nd_identity = nd_identity (nodes ! k),
                                       nd_metadata = nd_metadata (nodes ! k) ++ updates\<rparr>])
      | None \<Rightarrow> fail_act (missing_node i))"

definition yaml_update_node ::
  "yaml_env \<Rightarrow> string \<Rightarrow> (string \<rightharpoonup> string) \<Rightarrow> (yaml_registry, unit, node_registry_error) action" where
  "yaml_update_node env i updates r = update_node_in env i updates (get_cached_nodes r) r"

definition delete_node_from ::
  "yaml_env \<Rightarrow> string \<Rightarrow> node list \<Rightarrow> (yaml_registry, unit, node_registry_error) action" where
  "delete_node_from env i nodes =
     (case position (\<lambda>n. nd_identity n = i) nodes of
        Some k \<Rightarrow> save_nodes env (remove_at k nodes)
      | None \<Rightarrow> fail_act (missing_node i))"

definition yaml_delete_node :: "yaml_env \<Rightarrow> string \<Rightarrow> (yaml_registry, unit, node_registry_error) action" where
  "yaml_delete_node env i r = delete_node_from env i (get_cached_nodes r) r"

definition yaml_fetch_node :: "string \<Rightarrow> yaml_registry \<Rightarrow> (node, node_registry_error) result" where
  "yaml_fetch_node i r =
     ok_or (NotFoundError (''Could not find node with identity '' @ i))
       (find (\<lambda>n. nd_identity n = i) (get_cached_nodes r))"

text \<open>Texts are compared by their bytes.\<close>

definition filter_operator :: "string \<Rightarrow> (string \<Rightarrow> string \<Rightarrow> bool) option" where
  "filter_operator oper =
     (if oper = ''='' then Some (\<lambda>current value. current = value)
      else if oper = ''>'' then Some (\<lambda>current value. value < current)
      else if oper = ''<'' then Some (\<lambda>current value. current < value)
      else if oper = ''<='' then Some (\<lambda>current value. current \<le> value)
      else if oper = ''>='' then Some (\<lambda>current value. value \<le> current)
      else if oper = ''!='' then Some (\<lambda>current value. current \<noteq> value)
      else None)"

definition node_matches :: "(string \<Rightarrow> string \<Rightarrow> bool) \<Rightarrow> string \<Rightarrow> string \<Rightarrow> node \<Rightarrow> bool" where
  "node_matches oper key value n = (case nd_metadata n key of Some current \<Rightarrow> oper current value | None \<Rightarrow> False)"

fun filter_nodes :: "nat \<Rightarrow> nat \<Rightarrow> node_filters \<Rightarrow> node list \<Rightarrow> (node list, node_registry_error) result" where
  "filter_nodes limit offset [] acc = Ok acc"
| "filter_nodes limit offset ((key, oper, value) # filters) acc =
     (case filter_operator oper of
        Some f \<Rightarrow> filter_nodes limit offset filters (page limit offset (filter (node_matches f key value) acc))
      | None \<Rightarrow> Err (InvalidFilterError (''Unknown operator '' @ oper)))"

definition yaml_list_nodes ::
  "node_filters option \<Rightarrow> nat option \<Rightarrow> nat option \<Rightarrow> yaml_registry \<Rightarrow> (node list, node_registry_error) result" where
  "yaml_list_nodes filters limit offset r =
     (let nodes = get_cached_nodes r;
          offset = unwrap_or offset 0;
          limit = unwrap_or limit (length nodes)
      in case filters of
           Some fs \<Rightarrow> filter_nodes limit offset fs nodes
         | None \<Rightarrow> Ok (page limit offset nodes))"

definition yaml_node_registry :: "yaml_env \<Rightarrow> yaml_registry node_registry" where
  "yaml_node_registry env =
     \<lparr>nr_add_node = yaml_add_node env, nr_list_nodes = yaml_list_nodes, nr_fetch_node = yaml_fetch_node,
      nr_update_node = yaml_update_node env, nr_delete_node = yaml_delete_node env\<rparr>"

section \<open>Specification\<close>

text \<open>A registry promises a map from identities to metadata.\<close>

type_synonym node_map = "string \<rightharpoonup> string \<rightharpoonup> string"

datatype registry_call = AddNode node | UpdateNode string "string \<rightharpoonup> string" | DeleteNode string

datatype call_outcome = Done | Duplicate | Missing

fun make_call :: "'s node_registry \<Rightarrow> registry_call \<Rightarrow> ('s, unit, node_registry_error) action" where
  "make_call R (AddNode n) = nr_add_node R n"
| "make_call R (UpdateNode i u) = nr_update_node R i u"
| "make_call R (DeleteNode i) = nr_delete_node R i"

fun spec_call :: "registry_call \<Rightarrow> node_map \<Rightarrow> call_outcome \<times> node_map" where
  "spec_call (AddNode n) m =
     (if nd_identity n \<in> dom m then (Duplicate, m) else (Done, m(nd_identity n \<mapsto> nd_metadata n)))"
| "spec_call (UpdateNode i u) m = (case m i of Some d \<Rightarrow> (Done, m(i \<mapsto> d ++ u)) | None \<Rightarrow> (Missing, m))"
| "spec_call (DeleteNode i) m = (if i \<in> dom m then (Done, m(i := None)) else (Missing, m))"

text \<open>What the caller learns; the other errors say nothing about the nodes.\<close>

fun outcome :: "(unit, node_registry_error) result \<Rightarrow> call_outcome option" where
  "outcome (Ok _) = Some Done"
| "outcome (Err (DuplicateNodeError _)) = Some Duplicate"
| "outcome (Err (NotFoundError _)) = Some Missing"
| "outcome (Err _) = None"

definition node_map :: "node list \<Rightarrow> node_map" where
  "node_map nodes = map_of (map (\<lambda>n. (nd_identity n, nd_metadata n)) nodes)"

locale registry_laws =
  fixes R :: "'s node_registry" and abs :: "'s \<Rightarrow> node_map" and inv :: "'s \<Rightarrow> bool"
  assumes call_law: "inv s \<Longrightarrow> make_call R c s = (r, s') \<Longrightarrow>
      inv s' \<and> (case outcome r of Some x \<Rightarrow> spec_call c (abs s) = (x, abs s') | None \<Rightarrow> abs s' = abs s)"
    and fetch_law: "inv s \<Longrightarrow>
      (case abs s i of
         Some d \<Rightarrow> nr_fetch_node R i s = Ok \<lparr>nd_identity = i, nd_metadata = d\<rparr>
       | None \<Rightarrow> \<exists>t. nr_fetch_node R i s = Err (NotFoundError t))"
    and list_law: "inv s \<Longrightarrow> \<exists>ns. node_map ns = abs s \<and> distinct (map nd_identity ns) \<and>
      (\<forall>limit offset. nr_list_nodes R None limit offset s =
         Ok (page (unwrap_or limit (length ns)) (unwrap_or offset 0) ns))"

text \<open>Calls one after the other, and the outcomes that a caller sees.\<close>

fun make_calls :: "'s node_registry \<Rightarrow> registry_call list \<Rightarrow> 's \<Rightarrow> (unit, node_registry_error) result list \<times> 's" where
  "make_calls R [] s = ([], s)"
| "make_calls R (c # cs) s =
     (let (r, s') = make_call R c s; (rs, s'') = make_calls R cs s' in (r # rs, s''))"

fun spec_calls :: "registry_call list \<Rightarrow> node_map \<Rightarrow> call_outcome list \<times> node_map" where
  "spec_calls [] m = ([], m)"
| "spec_calls (c # cs) m = (let (x, m') = spec_call c m; (xs, m'') = spec_calls cs m' in (x # xs, m''))"

context registry_laws
begin

lemma calls_refine:
  assumes "inv s" and "make_calls R cs s = (rs, s')" and "\<forall>r \<in> set rs. outcome r \<noteq> None"
  shows "inv s' \<and> spec_calls cs (abs s) = (map (the \<circ> outcome) rs, abs s')"
  using assms
proof (induction cs arbitrary: s rs)
  case (Cons c cs)
  obtain r s1 rs1 where c: "make_call R c s = (r, s1)" "make_calls R cs s1 = (rs1, s')" "rs = r # rs1"
    using Cons.prems(2) by (auto split: prod.splits)
  with Cons.prems(3) obtain x where x: "outcome r = Some x" by auto
  with call_law [OF Cons.prems(1) c(1)] have "inv s1" "spec_call c (abs s) = (x, abs s1)" by auto
  with Cons.IH [OF _ c(2)] Cons.prems(3) c(3) x show ?case by simp
qed simp

end

section \<open>Both registries implement the trait\<close>

interpretation nn: registry_laws noop_registry "\<lambda>_. Map.empty" "\<lambda>_. True"
proof unfold_locales
  show "True \<and> (case outcome r of Some x \<Rightarrow> spec_call c Map.empty = (x, Map.empty) | None \<Rightarrow> Map.empty = Map.empty)"
    if "make_call noop_registry c s = (r, s')" for c s r s'
    using that by (cases c) (auto simp: noop_registry_def fail_act_def)
  show "\<exists>ns. node_map ns = Map.empty \<and> distinct (map nd_identity ns) \<and> (\<forall>limit offset.
      nr_list_nodes noop_registry None limit offset s = Ok (page (unwrap_or limit (length ns)) (unwrap_or offset 0) ns))" for s
    by (rule exI [of _ "[]"]) (simp add: noop_registry_def node_map_def page_def)
qed (simp add: noop_registry_def)

definition yaml_abs :: "yaml_registry \<Rightarrow> node_map" where
  "yaml_abs r = node_map (yr_cached_nodes r)"

text \<open>The identities in the file differ; \<open>new\<close> does not check this.\<close>

definition yaml_inv :: "yaml_registry \<Rightarrow> bool" where
  "yaml_inv r \<longleftrightarrow> distinct (map nd_identity (yr_cached_nodes r))"

lemma save_nodes_cases:
  assumes "save_nodes env data r = (res, r')"
  obtains "res = Ok ()" and "yr_cached_nodes r' = data" and "yr_file_path r' = yr_file_path r"
  | e where "res = Err (RegistryInternalError e)" and "yr_cached_nodes r' = yr_cached_nodes r"
      and "yr_file_path r' = yr_file_path r"
proof (cases "write_to_bytes (ye_yaml env) data")
  case (Ok bs)
  obtain w fs where "ye_write env (yr_file_path r) bs (yr_files r) = (w, fs)" by force
  with Ok assms that show ?thesis
    by (cases w) (auto simp: save_nodes_def write_nodes_def on_part_def bind_act_def rust_simps)
qed (use assms that in \<open>auto simp: save_nodes_def write_nodes_def on_part_def bind_act_def rust_simps\<close>)

lemma node_map_append: "node_map (xs @ [n]) = (\<lambda>i. case node_map xs i of Some d \<Rightarrow> Some d | None \<Rightarrow>
   if i = nd_identity n then Some (nd_metadata n) else None)"
  by (rule ext) (auto simp: node_map_def map_add_def split: option.split)

lemma dom_node_map: "dom (node_map ns) = nd_identity ` set ns"
  by (force simp: node_map_def dom_map_of_conv_image_fst image_image)

lemma node_map_add:
  "nd_identity n \<notin> nd_identity ` set ns \<Longrightarrow> node_map (ns @ [n]) = (node_map ns)(nd_identity n \<mapsto> nd_metadata n)"
proof -
  assume "nd_identity n \<notin> nd_identity ` set ns"
  then have "node_map ns (nd_identity n) = None" using dom_node_map by blast
  then show ?thesis by (auto simp: node_map_append fun_eq_iff split: option.split)
qed

lemma nth_not_image: "j < length xs \<Longrightarrow> y \<notin> f ` set xs \<Longrightarrow> f (xs ! j) \<noteq> y"
  by (metis image_eqI nth_mem)

lemma node_map_nth:
  "distinct (map nd_identity ns) \<Longrightarrow> k < length ns \<Longrightarrow> node_map ns (nd_identity (ns ! k)) = Some (nd_metadata (ns ! k))"
  by (force simp: node_map_def comp_def in_set_conv_nth intro: map_of_is_SomeI)

lemma node_map_update:
  assumes "distinct (map nd_identity ns)" and "k < length ns" and "nd_identity n = nd_identity (ns ! k)"
  shows "node_map (ns[k := n]) = (node_map ns)(nd_identity n \<mapsto> nd_metadata n)"
  using assms
proof (induction ns arbitrary: k)
  case (Cons x ns)
  show ?case
  proof (cases k)
    case 0
    with Cons.prems show ?thesis by (auto simp: node_map_def fun_eq_iff)
  next
    case (Suc j)
    with Cons.prems have "nd_identity n \<noteq> nd_identity x" using nth_not_image [of j ns "nd_identity x" nd_identity] by simp
    with Cons Suc show ?thesis by (auto simp: node_map_def fun_eq_iff)
  qed
qed simp

lemma node_map_remove:
  assumes "distinct (map nd_identity ns)" and "k < length ns"
  shows "node_map (remove_at k ns) = (node_map ns)(nd_identity (ns ! k) := None)"
  using assms
proof (induction ns arbitrary: k)
  case (Cons x ns)
  have no: "node_map ns (nd_identity x) = None"
    using Cons.prems(1) dom_node_map [of ns] by auto
  show ?case
  proof (cases k)
    case 0
    with no show ?thesis by (auto simp: node_map_def fun_eq_iff)
  next
    case (Suc j)
    with Cons.prems have "nd_identity (ns ! j) \<noteq> nd_identity x" using nth_not_image [of j ns "nd_identity x" nd_identity] by simp
    with Cons Suc show ?thesis by (auto simp: node_map_def fun_eq_iff)
  qed
qed simp

lemma position_identity:
  assumes "position (\<lambda>n. nd_identity n = i) ns = Some k"
  shows "k < length ns" and "nd_identity (ns ! k) = i"
  using position_SomeD [OF assms] by auto

lemma position_missing: "position (\<lambda>n. nd_identity n = i) ns = None \<longleftrightarrow> node_map ns i = None"
proof -
  have "node_map ns i = None \<longleftrightarrow> i \<notin> nd_identity ` set ns" by (simp flip: dom_node_map add: domIff)
  then show ?thesis by (auto simp: position_None_iff)
qed

lemma find_identity:
  "find (\<lambda>n. nd_identity n = i) ns = map_option (\<lambda>d. \<lparr>nd_identity = i, nd_metadata = d\<rparr>) (node_map ns i)"
  by (induction ns) (auto simp: node_map_def)

lemma yaml_call_law:
  assumes "yaml_inv r" and "make_call (yaml_node_registry env) c r = (res, r')"
  shows "yaml_inv r' \<and> (case outcome res of
     Some x \<Rightarrow> spec_call c (yaml_abs r) = (x, yaml_abs r') | None \<Rightarrow> yaml_abs r' = yaml_abs r)"
proof (cases c)
  case (AddNode n)
  show ?thesis
  proof (cases "nd_identity n \<in> nd_identity ` set (yr_cached_nodes r)")
    case True
    then have "\<exists>x \<in> set (yr_cached_nodes r). nd_identity x = nd_identity n" by force
    then obtain t where "res = Err (DuplicateNodeError t)" and "r' = r"
      using assms(2) AddNode by (auto simp: yaml_node_registry_def yaml_add_node_def add_node_to_def get_cached_nodes_def fail_act_def)
    with True assms(1) AddNode show ?thesis by (simp add: yaml_abs_def dom_node_map)
  next
    case False
    then have "\<not> (\<exists>x \<in> set (yr_cached_nodes r). nd_identity x = nd_identity n)" by (metis image_eqI)
    then have "save_nodes env (yr_cached_nodes r @ [n]) r = (res, r')"
      using assms(2) AddNode by (simp add: yaml_node_registry_def yaml_add_node_def add_node_to_def get_cached_nodes_def)
    then show ?thesis
      using False assms(1) AddNode
      by (cases rule: save_nodes_cases) (auto simp: yaml_inv_def yaml_abs_def node_map_add dom_node_map)
  qed
next
  case (UpdateNode i u)
  show ?thesis
  proof (cases "position (\<lambda>n. nd_identity n = i) (yr_cached_nodes r)")
    case None
    with assms UpdateNode show ?thesis
      by (auto simp: yaml_node_registry_def yaml_update_node_def update_node_in_def get_cached_nodes_def fail_act_def yaml_abs_def
          missing_node_def position_missing)
  next
    case (Some k)
    note k = position_identity [OF Some]
    let ?n = "\<lparr>nd_identity = i, nd_metadata = nd_metadata (yr_cached_nodes r ! k) ++ u\<rparr>"
    have "save_nodes env ((yr_cached_nodes r)[k := ?n]) r = (res, r')"
      using assms(2) UpdateNode Some k by (simp add: yaml_node_registry_def yaml_update_node_def update_node_in_def get_cached_nodes_def)
    moreover have "map nd_identity ((yr_cached_nodes r)[k := ?n]) = map nd_identity (yr_cached_nodes r)"
      using k by (simp add: map_update list_update_same_conv)
    moreover have "yaml_abs r i = Some (nd_metadata (yr_cached_nodes r ! k))"
      using node_map_nth [of "yr_cached_nodes r" k] k assms(1) by (simp add: yaml_abs_def yaml_inv_def)
    moreover have "node_map ((yr_cached_nodes r)[k := ?n]) = (yaml_abs r)(i \<mapsto> nd_metadata ?n)"
      using node_map_update [of "yr_cached_nodes r" k ?n] k assms(1) by (simp add: yaml_abs_def yaml_inv_def)
    ultimately show ?thesis
      using assms(1) UpdateNode
      by (cases rule: save_nodes_cases [of env "(yr_cached_nodes r)[k := ?n]" r res r']) (auto simp: yaml_inv_def yaml_abs_def)
  qed
next
  case (DeleteNode i)
  show ?thesis
  proof (cases "position (\<lambda>n. nd_identity n = i) (yr_cached_nodes r)")
    case None
    with assms DeleteNode show ?thesis
      by (auto simp: yaml_node_registry_def yaml_delete_node_def delete_node_from_def get_cached_nodes_def fail_act_def yaml_abs_def
          missing_node_def position_missing)
  next
    case (Some k)
    note k = position_identity [OF Some]
    have "save_nodes env (remove_at k (yr_cached_nodes r)) r = (res, r')"
      using assms(2) DeleteNode Some by (simp add: yaml_node_registry_def yaml_delete_node_def delete_node_from_def get_cached_nodes_def)
    moreover have "yaml_abs r i = Some (nd_metadata (yr_cached_nodes r ! k))"
      using node_map_nth [of "yr_cached_nodes r" k] k assms(1) by (simp add: yaml_abs_def yaml_inv_def)
    moreover have "node_map (remove_at k (yr_cached_nodes r)) = (yaml_abs r)(i := None)"
      using node_map_remove [of "yr_cached_nodes r" k] k assms(1) by (simp add: yaml_abs_def yaml_inv_def)
    moreover have "distinct (map nd_identity (remove_at k (yr_cached_nodes r)))"
      using assms(1) by (simp add: map_remove_at distinct_remove_at yaml_inv_def)
    ultimately show ?thesis
      using assms(1) DeleteNode
      by (cases rule: save_nodes_cases [of env "remove_at k (yr_cached_nodes r)" r res r']) (auto simp: yaml_inv_def yaml_abs_def dom_def)
  qed
qed

interpretation yn: registry_laws "yaml_node_registry env" yaml_abs yaml_inv for env
proof unfold_locales
  show "case yaml_abs s i of
      Some d \<Rightarrow> nr_fetch_node (yaml_node_registry env) i s = Ok \<lparr>nd_identity = i, nd_metadata = d\<rparr>
    | None \<Rightarrow> \<exists>t. nr_fetch_node (yaml_node_registry env) i s = Err (NotFoundError t)" for s i
    by (auto simp: yaml_node_registry_def yaml_fetch_node_def find_identity yaml_abs_def get_cached_nodes_def split: option.split)
  show "\<exists>ns. node_map ns = yaml_abs s \<and> distinct (map nd_identity ns) \<and> (\<forall>limit offset.
      nr_list_nodes (yaml_node_registry env) None limit offset s =
        Ok (page (unwrap_or limit (length ns)) (unwrap_or offset 0) ns))" if "yaml_inv s" for s
    using that by (intro exI [of _ "yr_cached_nodes s"])
      (simp add: yaml_node_registry_def yaml_list_nodes_def yaml_abs_def yaml_inv_def get_cached_nodes_def Let_def)
qed (use yaml_call_law in blast)

end
