(* ===== verification/Rest_Routes.thy ===== *)
theory Rest_Routes
  imports Node_Registry Circuit Keys
begin

text \<open>
  The REST routes of the daemon (\<^verbatim>\<open>splinterd/src/routes\<close>) over the node registry, the circuits of the Splinter
  state and the key registry, the status route, and the choice of the node registry
  (\<^verbatim>\<open>splinterd/src/registry_config.rs\<close>, \<open>create_node_registry\<close> in \<^verbatim>\<open>daemon.rs\<close>).

  A handler is a function from what it reads of the request to the reply, and to the registry where it changes
  it. The query parser, the JSON readers and the percent encoding are arguments. A reply has the status and the
  value that is written as its body; \<open>ReplyPanic\<close> is a panic in the handler. The thread pool that runs the
  blocking part, and the error for a pool that shuts down, are not modelled.
\<close>

section \<open>Requests and replies\<close>

datatype 'b reply =
  ReplyOk 'b | ReplyEmpty | ReplyBadRequest string | ReplyNotFound "string option" | ReplyForbidden string
| ReplyInternalError "string option" | ReplyPanic

record 'b listing =
  ls_data :: "'b list"
  ls_paging :: paging

type_synonym query = "(string \<rightharpoonup> string, unit) result"

definition usize_param :: "string \<Rightarrow> nat \<Rightarrow> (string \<rightharpoonup> string) \<Rightarrow> (nat, string) result" where
  "usize_param name otherwise q =
     (case q name of
        Some value \<Rightarrow>
          map_err (\<lambda>e. ''Invalid '' @ name @ '' value passed: '' @ value @ ''. Error: '' @ parse_int_error_text e)
            (parse_usize value)
      | None \<Rightarrow> Ok otherwise)"

text \<open>What every listing does first; the offset is read before the limit.\<close>

definition with_page ::
  "query \<Rightarrow> ((string \<rightharpoonup> string) \<Rightarrow> nat \<Rightarrow> nat \<Rightarrow> 'b reply) \<Rightarrow> 'b reply" where
  "with_page qr handler =
     (case qr of
        Err _ \<Rightarrow> ReplyBadRequest ''Invalid query''
      | Ok q \<Rightarrow>
          (case usize_param ''offset'' DEFAULT_OFFSET q of
             Err e \<Rightarrow> ReplyBadRequest e
           | Ok offset \<Rightarrow>
               (case usize_param ''limit'' DEFAULT_LIMIT q of
                  Err e \<Rightarrow> ReplyBadRequest e
                | Ok limit \<Rightarrow> handler q offset limit)))"

definition listing_reply :: "nat option \<Rightarrow> nat option \<Rightarrow> string \<Rightarrow> nat \<Rightarrow> 'b list \<Rightarrow> 'b listing reply" where
  "listing_reply limit offset link count data =
     (case get_response_paging_info limit offset link count of
        Some p \<Rightarrow> ReplyOk \<lparr>ls_data = data, ls_paging = p\<rparr>
      | None \<Rightarrow> ReplyPanic)"

section \<open>Nodes\<close>

fun node_error :: "node_registry_error \<Rightarrow> 'b reply" where
  "node_error (NotFoundError e) = ReplyNotFound (Some e)"
| "node_error e = ReplyInternalError (Some (node_registry_error_text e))"

definition route_fetch_node :: "'s node_registry \<Rightarrow> string option \<Rightarrow> 's \<Rightarrow> node reply" where
  "route_fetch_node R identity s =
     (case nr_fetch_node R (unwrap_or identity '''') s of Ok node \<Rightarrow> ReplyOk node | Err e \<Rightarrow> node_error e)"

definition route_update_node ::
  "'s node_registry \<Rightarrow> (bytes \<Rightarrow> (string \<rightharpoonup> string, string) result) \<Rightarrow> string option \<Rightarrow> bytes \<Rightarrow> 's \<Rightarrow> unit reply \<times> 's" where
  "route_update_node R from_slice identity body s =
     (case from_slice body of
        Err e \<Rightarrow> (ReplyBadRequest (''invalid updates: '' @ e), s)
      | Ok updates \<Rightarrow>
          (case nr_update_node R (unwrap_or identity '''') updates s of
             (Ok _, s') \<Rightarrow> (ReplyEmpty, s')
           | (Err e, s') \<Rightarrow> (node_error e, s')))"

definition route_delete_node :: "'s node_registry \<Rightarrow> string option \<Rightarrow> 's \<Rightarrow> unit reply \<times> 's" where
  "route_delete_node R identity s =
     (case nr_delete_node R (unwrap_or identity '''') s of
        (Ok _, s') \<Rightarrow> (ReplyEmpty, s')
      | (Err e, s') \<Rightarrow> (node_error e, s'))"

definition route_add_node ::
  "'s node_registry \<Rightarrow> (bytes \<Rightarrow> (node, string) result) \<Rightarrow> bytes \<Rightarrow> 's \<Rightarrow> unit reply \<times> 's" where
  "route_add_node R from_slice body s =
     (case from_slice body of
        Err e \<Rightarrow> (ReplyBadRequest (''invalid node: '' @ e), s)
      | Ok node \<Rightarrow>
          (case nr_add_node R node s of
             (Ok _, s') \<Rightarrow> (ReplyEmpty, s')
           | (Err (DuplicateNodeError i), s') \<Rightarrow>
               (ReplyForbidden (''node with with ID ('' @ i @ '') already exists''), s')
           | (Err e, s') \<Rightarrow> (ReplyInternalError (Some (node_registry_error_text e)), s')))"

fun list_error :: "node_registry_error \<Rightarrow> 'b reply" where
  "list_error (InvalidFilterError e) = ReplyBadRequest e"
| "list_error _ = ReplyInternalError None"

definition query_list_nodes ::
  "'s node_registry \<Rightarrow> string \<Rightarrow> node_filters option \<Rightarrow> nat option \<Rightarrow> nat option \<Rightarrow> 's \<Rightarrow> node listing reply" where
  "query_list_nodes R link filters offset limit s =
     (case nr_list_nodes R filters None None s of
        Err e \<Rightarrow> list_error e
      | Ok nodes \<Rightarrow>
          (case nr_list_nodes R filters limit offset s of
             Err e \<Rightarrow> list_error e
           | Ok data \<Rightarrow> listing_reply limit offset link (length nodes) data))"

definition route_list_nodes ::
  "'s node_registry \<Rightarrow> (string \<Rightarrow> string) \<Rightarrow> (string \<Rightarrow> (node_filters, string) result) \<Rightarrow> string \<Rightarrow> query \<Rightarrow> 's \<Rightarrow>
   node listing reply" where
  "route_list_nodes R percent_encode from_str path qr s =
     with_page qr (\<lambda>q offset limit.
       case q ''filter'' of
         Some value \<Rightarrow>
           (case from_str value of
              Ok filters \<Rightarrow>
                query_list_nodes R (path @ ''?'' @ ''filter='' @ percent_encode value @ ''&'') (Some filters)
                  (Some offset) (Some limit) s
            | Err e \<Rightarrow> ReplyBadRequest (''Invalid filter value passed: '' @ value @ ''. Error: '' @ e))
       | None \<Rightarrow> query_list_nodes R (path @ ''?'') None (Some offset) (Some limit) s)"

section \<open>Circuits\<close>

record circuit_response =
  cr_id :: string
  cr_auth :: auth_kind
  cr_members :: "string list"
  cr_roster :: roster
  cr_persistence :: persistence_kind
  cr_durability :: durability_kind
  cr_routes :: route_kind
  cr_circuit_management_type :: string

definition circuit_response :: "string \<times> circuit \<Rightarrow> circuit_response" where
  "circuit_response ic =
     (case ic of (i, c) \<Rightarrow>
        \<lparr>cr_id = i, cr_auth = circuit_auth c, cr_members = circuit_members c, cr_roster = circuit_roster c,
         cr_persistence = circuit_persistence c, cr_durability = circuit_durability c, cr_routes = circuit_routes c,
         cr_circuit_management_type = circuit_management_type c\<rparr>)"

definition route_fetch_circuit :: "string option \<Rightarrow> splinter_state \<Rightarrow> circuit_response reply" where
  "route_fetch_circuit identity s =
     (let i = unwrap_or identity '''' in
      case state_circuit s i of
        Some c \<Rightarrow> ReplyOk (circuit_response (i, c))
      | None \<Rightarrow> ReplyNotFound (Some (''Unable to find circuit: '' @ i)))"

text \<open>The entries of the map of circuits, in the order of its iterator, are an argument.\<close>

type_synonym circuit_order = "(string \<rightharpoonup> circuit) \<Rightarrow> (string \<times> circuit) list"

definition query_list_circuits ::
  "circuit_order \<Rightarrow> string \<Rightarrow> string option \<Rightarrow> nat option \<Rightarrow> nat option \<Rightarrow> splinter_state \<Rightarrow> circuit_response listing reply" where
  "query_list_circuits entries link filters offset limit s =
     (let circuits = entries (cd_circuits (circuit_dir s));
          offset_value = unwrap_or offset 0;
          limit_value = unwrap_or limit (length circuits)
      in if circuits \<noteq> [] then
           (case filters of
              Some member \<Rightarrow>
                (let data = map circuit_response
                   (page limit_value offset_value (filter (\<lambda>(_, c). member \<in> set (circuit_members c)) circuits))
                 in listing_reply limit offset link (length data) data)
            | None \<Rightarrow>
                (let data = map circuit_response (page limit_value offset_value circuits)
                 in listing_reply limit offset link (length data) data))
         else listing_reply limit offset link (length circuits) [])"

definition route_list_circuits :: "circuit_order \<Rightarrow> string \<Rightarrow> query \<Rightarrow> splinter_state \<Rightarrow> circuit_response listing reply" where
  "route_list_circuits entries path qr s =
     with_page qr (\<lambda>q offset limit.
       query_list_circuits entries
         (path @ ''?'' @ (case q ''filter'' of Some value \<Rightarrow> ''filter='' @ value @ ''&'' | None \<Rightarrow> ''''))
         (q ''filter'') (Some offset) (Some limit) s)"

section \<open>Keys\<close>

text \<open>The public key is written in hexadecimal.\<close>

record key_info_response =
  kir_public_key :: string
  kir_node_id :: string
  kir_metadata :: "string \<rightharpoonup> string"

definition key_info_response :: "key_info \<Rightarrow> key_info_response" where
  "key_info_response ki =
     \<lparr>kir_public_key = to_hex (ki_public_key ki), kir_node_id = ki_associated_node_id ki, kir_metadata = ki_metadata ki\<rparr>"

text \<open>The parser of the route reads pairs of digits as the one of the library does; only its messages differ.\<close>

fun hex_message :: "hex_error \<Rightarrow> string option" where
  "hex_message (HexOddDigits hex) = Some (hex @ '' is not valid hex: odd number of digits'')"
| "hex_message (HexInvalid hex _) = Some (hex @ '' contains invalid hex'')"
| "hex_message HexSlicePanic = None"

definition route_fetch_key :: "string option \<Rightarrow> key_registry \<Rightarrow> key_info_response reply" where
  "route_fetch_key public_key r =
     (case map_err hex_message (parse_hex (unwrap_or public_key '''')) of
        Err None \<Rightarrow> ReplyPanic
      | Err (Some message) \<Rightarrow> ReplyBadRequest message
      | Ok key \<Rightarrow>
          (case get_key r key of
             Ok (Some ki) \<Rightarrow> ReplyOk (key_info_response ki)
           | Ok None \<Rightarrow> ReplyNotFound None
           | Err _ \<Rightarrow> ReplyInternalError None))"

definition route_list_keys :: "string \<Rightarrow> query \<Rightarrow> key_registry \<Rightarrow> key_info_response listing reply" where
  "route_list_keys path qr r =
     with_page qr (\<lambda>q offset limit.
       listing_reply (Some limit) (Some offset) (path @ ''?'') (key_count r)
         (map key_info_response (page limit offset (registry_keys r))))"

section \<open>Status\<close>

record status =
  st_node_id :: string
  st_endpoint :: string
  st_version :: string

definition get_version :: "string \<Rightarrow> string \<Rightarrow> string \<Rightarrow> string" where
  "get_version major minor patch = major @ ''.'' @ minor @ ''.'' @ patch"

definition get_status :: "string \<Rightarrow> string \<Rightarrow> string \<Rightarrow> status reply" where
  "get_status version node_id endpoint = ReplyOk \<lparr>st_node_id = node_id, st_endpoint = endpoint, st_version = version\<rparr>"

section \<open>The choice of the node registry\<close>

datatype registry_config = FileRegistry string | NoOpRegistry

datatype registry_config_error = MissingValue string | InvalidType string

record registry_config_builder =
  rb_registry_backend :: "string option"
  rb_registry_file :: "string option"

definition registry_config_default :: registry_config_builder where
  "registry_config_default = \<lparr>rb_registry_backend = Some ''FILE'', rb_registry_file = None\<rparr>"

definition registry_config_build :: "registry_config_builder \<Rightarrow> (registry_config, registry_config_error) result" where
  "registry_config_build b =
     (case rb_registry_backend b of
        Some t \<Rightarrow>
          if t = ''FILE'' then
            ok_or (MissingValue ''For registry_backend of type 'FILE' a path to the file must be provided.'')
              (map_option FileRegistry (rb_registry_file b))
          else Err (InvalidType ''NodeRegistry type is not supported'')
      | None \<Rightarrow> Ok NoOpRegistry)"

datatype any_registry = YamlRegistry yaml_registry | NoOpNodeRegistry

definition create_node_registry :: "yaml_env \<Rightarrow> files \<Rightarrow> registry_config \<Rightarrow> (any_registry, string) result" where
  "create_node_registry env fs config =
     (case config of
        FileRegistry path \<Rightarrow>
          map_err (\<lambda>e. ''Failed to initialize YamlNodeRegistry: '' @ yaml_error_text e)
            (map_result YamlRegistry (yaml_new env path fs))
      | NoOpRegistry \<Rightarrow> Ok NoOpNodeRegistry)"

end
