(* ===== verification/Rest_Properties.thy ===== *)
theory Rest_Properties
  imports Rest_Routes
begin

text \<open>
  Properties of the node registry and of the REST routes: the registry is a map that survives a restart, requests
  that interleave lose updates, and what a client sees that follows the links of a listing.
\<close>

section \<open>The file of the registry\<close>

text \<open>The documented behaviour of the file system and of the YAML library: what was written is read back.\<close>

definition files_work :: "yaml_env \<Rightarrow> bool" where
  "files_work env \<longleftrightarrow> round_trip (ye_yaml env) \<and>
     (\<forall>path bs fs fs'. ye_write env path bs fs = (Ok (), fs') \<longrightarrow> ye_open env fs' path = Ok bs)"

definition on_disk :: "yaml_env \<Rightarrow> yaml_registry \<Rightarrow> bool" where
  "on_disk env r \<longleftrightarrow> yaml_new env (yr_file_path r) (yr_files r) = Ok r"

lemma save_nodes_on_disk:
  assumes "files_work env" and "save_nodes env data r = (Ok (), r')"
  shows "on_disk env r'"
proof -
  obtain bs where bs: "write_to_bytes (ye_yaml env) data = Ok bs"
    using assms(2) by (cases "write_to_bytes (ye_yaml env) data")
      (auto simp: save_nodes_def write_nodes_def on_part_def bind_act_def rust_simps)
  obtain w fs where w: "ye_write env (yr_file_path r) bs (yr_files r) = (w, fs)" by force
  with bs assms(2) have "w = Ok ()" "r' = r\<lparr>yr_files := fs, yr_cached_nodes := data\<rparr>"
    by (cases w; auto simp: save_nodes_def write_nodes_def on_part_def bind_act_def rust_simps)+
  moreover have "parse_from_bytes (ye_yaml env) bs = Ok data"
    using assms(1) bs by (auto simp: files_work_def round_trip_def)
  ultimately show ?thesis
    using assms(1) w by (auto simp: on_disk_def yaml_new_def files_work_def)
qed

lemma call_saves_or_keeps:
  assumes "make_call (yaml_node_registry env) c r = (res, r')"
  shows "r' = r \<or> (\<exists>data. save_nodes env data r = (res, r'))"
  using assms
  by (cases c) (auto simp: yaml_node_registry_def yaml_add_node_def add_node_to_def yaml_update_node_def update_node_in_def
      yaml_delete_node_def delete_node_from_def fail_act_def split: if_splits option.splits)

lemma call_on_disk:
  assumes "files_work env" and "on_disk env r" and "make_call (yaml_node_registry env) c r = (res, r')"
    and "outcome res \<noteq> None"
  shows "on_disk env r'"
  using call_saves_or_keeps [OF assms(3)]
proof
  assume "\<exists>data. save_nodes env data r = (res, r')"
  then obtain data where data: "save_nodes env data r = (res, r')" ..
  then show ?thesis
  proof (cases rule: save_nodes_cases)
    case 1
    with data show ?thesis using save_nodes_on_disk [OF assms(1)] by simp
  qed (use assms(4) in simp)
qed (use assms(2) in simp)

lemma calls_on_disk:
  assumes "files_work env" and "on_disk env r" and "make_calls (yaml_node_registry env) cs r = (rs, r')"
    and "\<forall>res \<in> set rs. outcome res \<noteq> None"
  shows "on_disk env r'"
  using assms(2-)
proof (induction cs arbitrary: r rs)
  case (Cons c cs)
  then obtain res r1 rs1 where "make_call (yaml_node_registry env) c r = (res, r1)"
    "make_calls (yaml_node_registry env) cs r1 = (rs1, r')" "rs = res # rs1"
    by (auto split: prod.splits)
  note c = this
  have "on_disk env r1"
    by (rule call_on_disk [OF assms(1) Cons.prems(1) c(1)]) (use Cons.prems(3) c(3) in simp)
  then show ?case by (rule Cons.IH [OF _ c(2)]) (use Cons.prems(3) c(3) in simp)
qed simp

text \<open>C36. 
  The node registry is a map from identities to metadata that survives a restart: requests that follow one
  another, and of which none fails for a reason of its own, have the outcomes and the effect that they have on a
  map; and a registry that is opened again on the file they have left is the same.
\<close>

theorem node_registry_refines_map:
  assumes "files_work env" and "on_disk env r" and "yaml_inv r"
    and "make_calls (yaml_node_registry env) cs r = (rs, r')" and "\<forall>res \<in> set rs. outcome res \<noteq> None"
  shows "spec_calls cs (yaml_abs r) = (map (the \<circ> outcome) rs, yaml_abs r') \<and>
    yaml_new env (yr_file_path r') (yr_files r') = Ok r'"
  using yn.calls_refine [OF assms(3-5)] calls_on_disk [OF assms(1,2,4,5)] by (simp add: on_disk_def)

definition ex_node :: "string \<Rightarrow> node" where
  "ex_node i = \<lparr>nd_identity = i, nd_metadata = [''company'' \<mapsto> ''acme'', ''region'' \<mapsto> ''west'']\<rparr>"

definition ex_files_env :: "node list list \<Rightarrow> yaml_env" where
  "ex_files_env tables =
     \<lparr>ye_open = (\<lambda>fs path. ok_or ''no such file'' (fs path)),
      ye_write = (\<lambda>path bs fs. (Ok (), fs(path \<mapsto> bs))),
      ye_yaml = table_codec tables\<rparr>"

lemma ex_files_work: "files_work (ex_files_env tables)"
  by (auto simp: files_work_def ex_files_env_def round_trip_table)

definition ex_env :: yaml_env where
  "ex_env = ex_files_env [[ex_node ''a''], [ex_node ''a'', ex_node ''b''], [ex_node ''b'']]"

lemma ex_files_work2: "files_work ex_env"
  by (simp add: ex_env_def ex_files_work)

definition ex_registry :: "nat \<Rightarrow> node list \<Rightarrow> yaml_registry" where
  "ex_registry k nodes = \<lparr>yr_file_path = ''nodes'', yr_cached_nodes = nodes, yr_files = [''nodes'' \<mapsto> [of_nat k]]\<rparr>"

lemma ex_save [simp]:
  "save_nodes ex_env [ex_node ''a'', ex_node ''b''] (ex_registry k ns) = (Ok (), ex_registry 1 [ex_node ''a'', ex_node ''b''])"
  "save_nodes ex_env [ex_node ''b''] (ex_registry k ns) = (Ok (), ex_registry 2 [ex_node ''b''])"
  by (simp_all add: save_nodes_def write_nodes_def on_part_def bind_act_def rust_simps ex_env_def ex_files_env_def table_codec_def
      ex_registry_def ex_node_def)

lemma ex_node_eq [simp]: "ex_node i = ex_node j \<longleftrightarrow> i = j"
  by (auto simp: ex_node_def)

lemma ex_node_identity [simp]: "nd_identity (ex_node i) = i"
  by (simp add: ex_node_def)

lemma ex_registry_calls:
  "make_calls (yaml_node_registry ex_env) [AddNode (ex_node ''b''), AddNode (ex_node ''b''), DeleteNode ''a'']
     (ex_registry 0 [ex_node ''a'']) =
   ([Ok (), Err (DuplicateNodeError ''Node with ID b already exists''), Ok ()], ex_registry 2 [ex_node ''b''])"
proof -
  have "yr_cached_nodes (ex_registry k ns) = ns" for k ns by (simp add: ex_registry_def)
  then show ?thesis
    by (simp add: yaml_node_registry_def yaml_add_node_def add_node_to_def yaml_delete_node_def delete_node_from_def
        get_cached_nodes_def fail_act_def)
qed

lemma ex_on_disk: "on_disk ex_env (ex_registry 0 [ex_node ''a''])"
  by (simp add: on_disk_def yaml_new_def ex_registry_def ex_env_def ex_files_env_def table_codec_def)

theorem node_registry_refines_map_witness:
  "spec_calls [AddNode (ex_node ''b''), AddNode (ex_node ''b''), DeleteNode ''a'']
     (yaml_abs (ex_registry 0 [ex_node ''a''])) =
     ([Done, Duplicate, Done], yaml_abs (ex_registry 2 [ex_node ''b''])) \<and>
   yaml_new ex_env ''nodes'' [''nodes'' \<mapsto> [2]] = Ok (ex_registry 2 [ex_node ''b''])"
proof -
  have "yaml_inv (ex_registry 0 [ex_node ''a''])" by (simp add: yaml_inv_def ex_registry_def)
  from node_registry_refines_map [OF ex_files_work2 ex_on_disk this ex_registry_calls]
  show ?thesis by (simp add: ex_registry_def)
qed

section \<open>Requests that interleave\<close>

text \<open>C37. 
  Updates get lost: when two requests to add a node have both read the nodes before one of them writes, both are
  answered with success, and the node of the one that writes first is gone.
\<close>

theorem concurrent_adds_lose_a_node:
  assumes "\<forall>path bs fs. fst (ye_write env path bs fs) = Ok ()"
    and "is_ok (write_to_bytes (ye_yaml env) (get_cached_nodes r @ [a]))"
    and "is_ok (write_to_bytes (ye_yaml env) (get_cached_nodes r @ [b]))"
    and "nd_identity a \<notin> dom (yaml_abs r)" and "nd_identity b \<notin> dom (yaml_abs r)" and "nd_identity a \<noteq> nd_identity b"
  shows "let nodes = get_cached_nodes r;
             (ra, r1) = add_node_to env a nodes r;
             (rb, r2) = add_node_to env b nodes r1
         in ra = Ok () \<and> rb = Ok () \<and> yaml_abs r1 (nd_identity a) = Some (nd_metadata a) \<and>
            yaml_abs r2 (nd_identity a) = None"
proof -
  have add: "add_node_to env n (get_cached_nodes r) s = save_nodes env (get_cached_nodes r @ [n]) s"
    if "nd_identity n \<notin> dom (yaml_abs r)" for n s
    using that by (auto simp: add_node_to_def yaml_abs_def dom_node_map get_cached_nodes_def image_iff)
  have ok: "fst (save_nodes env data s) = Ok ()" if "is_ok (write_to_bytes (ye_yaml env) data)" for data s
  proof -
    from that obtain bs where bs: "write_to_bytes (ye_yaml env) data = Ok bs" by (auto simp: is_ok_iff)
    obtain fs where "ye_write env (yr_file_path s) bs (yr_files s) = (Ok (), fs)" using assms(1) by (metis prod.collapse)
    with bs show ?thesis by (simp add: save_nodes_def write_nodes_def on_part_def bind_act_def rust_simps)
  qed
  obtain r1 where r1: "save_nodes env (get_cached_nodes r @ [a]) r = (Ok (), r1)" using ok [OF assms(2)] by (metis prod.collapse)
  obtain r2 where r2: "save_nodes env (get_cached_nodes r @ [b]) r1 = (Ok (), r2)" using ok [OF assms(3)] by (metis prod.collapse)
  have n: "node_map (get_cached_nodes r @ [x]) = (yaml_abs r)(nd_identity x \<mapsto> nd_metadata x)"
    if "nd_identity x \<notin> dom (yaml_abs r)" for x
    using that node_map_add [of x "get_cached_nodes r"] by (simp add: yaml_abs_def get_cached_nodes_def dom_node_map)
  have "yr_cached_nodes r1 = get_cached_nodes r @ [a]" using r1 by (cases rule: save_nodes_cases) auto
  moreover have "yr_cached_nodes r2 = get_cached_nodes r @ [b]" using r2 by (cases rule: save_nodes_cases) auto
  ultimately show ?thesis
    using assms(4-6) n by (simp add: add r1 r2 yaml_abs_def domIff)
qed

theorem concurrent_adds_lose_a_node_witness:
  "let nodes = [];
       (ra, r1) = add_node_to ex_env (ex_node ''a'') nodes (ex_registry 0 []);
       (rb, r2) = add_node_to ex_env (ex_node ''b'') nodes r1
   in ra = Ok () \<and> rb = Ok () \<and> yaml_abs r1 ''a'' = Some (nd_metadata (ex_node ''a'')) \<and> yaml_abs r2 ''a'' = None"
proof -
  have empty: "get_cached_nodes (ex_registry 0 []) = []" "yaml_abs (ex_registry 0 []) = Map.empty"
    by (simp_all add: get_cached_nodes_def ex_registry_def yaml_abs_def node_map_def)
  have "\<forall>path bs fs. fst (ye_write ex_env path bs fs) = Ok ()" by (simp add: ex_env_def ex_files_env_def)
  from concurrent_adds_lose_a_node [OF this, of "ex_registry 0 []" "ex_node ''a''" "ex_node ''b''"]
  show ?thesis by (simp add: empty ex_env_def ex_files_env_def table_codec_def)
qed

section \<open>Filters\<close>

text \<open>What the filters ask for.\<close>

definition matches_all :: "node_filters \<Rightarrow> node \<Rightarrow> bool" where
  "matches_all fs n \<longleftrightarrow>
     list_all (\<lambda>(key, oper, value). case filter_operator oper of Some f \<Rightarrow> node_matches f key value n | None \<Rightarrow> False) fs"

definition operators_known :: "node_filters \<Rightarrow> bool" where
  "operators_known fs \<longleftrightarrow> list_all (\<lambda>(key, oper, value). filter_operator oper \<noteq> None) fs"

lemma page_all: "length xs \<le> limit \<Longrightarrow> page limit 0 xs = xs"
  by (simp add: page_def)

lemma filter_nodes_unpaged:
  "operators_known fs \<Longrightarrow> length ns \<le> limit \<Longrightarrow> filter_nodes limit 0 fs ns = Ok (filter (matches_all fs) ns)"
proof (induction fs arbitrary: ns)
  case (Cons x fs)
  obtain key oper val where x: "x = (key, oper, val)" by (cases x)
  with Cons.prems obtain f where f: "filter_operator oper = Some f" by (auto simp: operators_known_def)
  let ?ns = "filter (node_matches f key val) ns"
  have len: "length ?ns \<le> limit" using Cons.prems(2) length_filter_le [of "node_matches f key val" ns] by linarith
  moreover have "filter (matches_all fs) ?ns = filter (matches_all (x # fs)) ns"
    by (auto simp: matches_all_def x f intro: filter_cong)
  ultimately show ?case
    using Cons.IH [of ?ns] Cons.prems(1) by (simp add: x f page_all operators_known_def)
qed (simp add: matches_all_def)

lemma yaml_list_unpaged:
  "operators_known fs \<Longrightarrow> yaml_list_nodes (Some fs) None None r = Ok (filter (matches_all fs) (yr_cached_nodes r))"
  by (simp add: yaml_list_nodes_def unwrap_or_def get_cached_nodes_def filter_nodes_unpaged)

lemma yaml_list_one_filter:
  assumes "operators_known [f]"
  shows "yaml_list_nodes (Some [f]) (Some limit) (Some offset) r =
    Ok (page limit offset (filter (matches_all [f]) (yr_cached_nodes r)))"
  using assms by (cases f) (auto simp: yaml_list_nodes_def unwrap_or_def get_cached_nodes_def operators_known_def matches_all_def [abs_def])

text \<open>C39. 
  Two filters do not go with paging: offset and limit are applied after each filter, so that with two filters or
  more every page after the first is empty, however many nodes match; the number of matching nodes that is
  reported with it is right.
\<close>

theorem two_filters_empty_later_pages:
  assumes "operators_known fs" and "2 \<le> length fs" and "0 < limit" and "limit \<le> offset"
  shows "yaml_list_nodes (Some fs) (Some limit) (Some offset) r = Ok [] \<and>
    yaml_list_nodes (Some fs) None None r = Ok (filter (matches_all fs) (yr_cached_nodes r))"
proof -
  have none: "filter_nodes limit offset gs ns = Ok []" if "operators_known gs" "length ns \<le> limit" "gs \<noteq> []" for gs ns
    using that
  proof (induction gs arbitrary: ns)
    case (Cons g gs)
    obtain key oper val where g: "g = (key, oper, val)" by (cases g)
    with Cons.prems obtain f where f: "filter_operator oper = Some f" by (auto simp: operators_known_def)
    have "length (filter (node_matches f key val) ns) \<le> offset"
      using Cons.prems(2) assms(4) length_filter_le [of "node_matches f key val" ns] by linarith
    then have "page limit offset (filter (node_matches f key val) ns) = []" by (simp add: page_def)
    with Cons g f show ?case by (cases gs) (auto simp: operators_known_def)
  qed simp
  obtain key oper val gs where fs: "fs = (key, oper, val) # gs" using assms(2) by (cases fs) auto
  with assms(1,2) obtain f where f: "filter_operator oper = Some f" "operators_known gs" "gs \<noteq> []"
    by (cases gs) (auto simp: operators_known_def)
  then have "filter_nodes limit offset fs (yr_cached_nodes r) = Ok []"
    by (simp add: fs none page_def)
  with yaml_list_unpaged [OF assms(1)] show ?thesis
    by (simp add: yaml_list_nodes_def unwrap_or_def get_cached_nodes_def)
qed

theorem two_filters_empty_later_pages_witness:
  "yaml_list_nodes (Some [(''company'', ''='', ''acme''), (''region'', ''!='', ''east'')]) (Some 1) (Some 1)
     (ex_registry 0 [ex_node ''a'', ex_node ''b'']) = Ok [] \<and>
   yaml_list_nodes (Some [(''company'', ''='', ''acme''), (''region'', ''!='', ''east'')]) None None
     (ex_registry 0 [ex_node ''a'', ex_node ''b'']) = Ok [ex_node ''a'', ex_node ''b'']"
  using two_filters_empty_later_pages [of "[(''company'', ''='', ''acme''), (''region'', ''!='', ''east'')]" 1 1
      "ex_registry 0 [ex_node ''a'', ex_node ''b'']"]
  by (simp add: operators_known_def filter_operator_def matches_all_def node_matches_def ex_registry_def ex_node_def)

section \<open>Following the links\<close>

text \<open>The request for a page, and the items of the reply.\<close>

definition page_query :: "nat \<Rightarrow> string option \<Rightarrow> nat \<Rightarrow> query" where
  "page_query limit filt offset =
     Ok ([''limit'' \<mapsto> decimal limit, ''offset'' \<mapsto> decimal offset](''filter'' := filt))"

fun reply_data :: "'b listing reply \<Rightarrow> 'b list" where
  "reply_data (ReplyOk l) = ls_data l"
| "reply_data _ = []"

lemma with_page_query:
  assumes "limit \<le> usize_max" and "offset \<le> usize_max"
  shows "with_page (page_query limit filt offset) handler =
    handler ([''limit'' \<mapsto> decimal limit, ''offset'' \<mapsto> decimal offset](''filter'' := filt)) offset limit"
  using assms by (simp add: with_page_def page_query_def usize_param_def parse_usize_decimal)

lemma listing_reply_Ok:
  assumes "last_offset limit count = Some final"
  obtains p where "listing_reply (Some limit) (Some offset) link count data = ReplyOk \<lparr>ls_data = data, ls_paging = p\<rparr>"
    and "pg_total p = count" and "pg_next p = offset_link link limit (next_offset limit offset final)"
  using assms by (simp add: listing_reply_def get_response_paging_info_def unwrap_or_def Let_def)

lemma listing_reply_zero: "0 < count \<Longrightarrow> listing_reply (Some 0) (Some offset) link count data = ReplyPanic"
  by (simp add: listing_reply_def get_response_paging_info_def unwrap_or_def Let_def last_offset_def)

lemma walk_bound: "offset \<le> final \<Longrightarrow> i \<in> set (walk limit final offset) \<Longrightarrow> i \<le> final"
proof (induction limit final offset rule: walk.induct)
  case (1 limit final offset)
  from "1.prems"(2) show ?case
    by (subst (asm) walk.simps) (use 1 next_offset_bound in \<open>auto simp: Let_def split: if_splits\<close>)
qed

lemma length_page: "length (page limit offset xs) \<le> limit"
  by (simp add: page_def)

text \<open>A listing whose replies are the pages of a list, with their links and the length of the list, sends the list.\<close>

lemma listing_covers:
  assumes "\<And>i. i \<le> final \<Longrightarrow> route i = listing_reply (Some limit) (Some i) link (length xs) (map f (page limit i xs))"
    and "0 < limit" and "length xs + limit \<le> usize_max" and "last_offset limit (length xs) = Some final"
  shows "concat (map (\<lambda>i. reply_data (route i)) (walk limit final 0)) = map f xs"
    and "\<forall>i \<in> set (walk limit final 0). \<exists>l. route i = ReplyOk l \<and> pg_total (ls_paging l) = length xs \<and>
           pg_next (ls_paging l) = offset_link link limit (next_offset limit i final)"
proof -
  have p: "\<exists>l. route i = ReplyOk l \<and> ls_data l = map f (page limit i xs) \<and> pg_total (ls_paging l) = length xs \<and>
      pg_next (ls_paging l) = offset_link link limit (next_offset limit i final)" if "i \<in> set (walk limit final 0)" for i
    using assms(1) [of i] walk_bound [of 0 final i limit] that
    by (cases rule: listing_reply_Ok [OF assms(4), of i link "map f (page limit i xs)"]) auto
  then show "\<forall>i \<in> set (walk limit final 0). \<exists>l. route i = ReplyOk l \<and> pg_total (ls_paging l) = length xs \<and>
      pg_next (ls_paging l) = offset_link link limit (next_offset limit i final)"
    by blast
  have "map (\<lambda>i. reply_data (route i)) (walk limit final 0) = map (\<lambda>i. map f (page limit i xs)) (walk limit final 0)"
    by (intro map_cong) (auto dest!: p)
  also have "concat \<dots> = map f (concat (map (\<lambda>i. page limit i xs) (walk limit final 0)))"
    by (simp add: map_concat comp_def)
  also have "\<dots> = map f xs"
    using walk_covers [OF assms(2,4), of 0] assms(3) by simp
  finally show "concat (map (\<lambda>i. reply_data (route i)) (walk limit final 0)) = map f xs" .
qed


lemma ex_walk: "walk 2 2 0 = [0, 2]"
proof -
  have "next_offset 2 0 2 = 2" "next_offset 2 2 2 = 2" by (simp_all add: next_offset_exact usize_max_def)
  then show ?thesis by (subst walk.simps, simp add: Let_def) (subst walk.simps, simp)
qed


lemma query_list_circuits_eq:
  "query_list_circuits entries link filt (Some offset) (Some limit) s =
     (let xs = page limit offset (filter (\<lambda>(_, c). case filt of None \<Rightarrow> True | Some m \<Rightarrow> m \<in> set (circuit_members c))
                 (entries (cd_circuits (circuit_dir s))))
      in listing_reply (Some limit) (Some offset) link (length xs) (map circuit_response xs))"
  by (cases filt) (auto simp: query_list_circuits_def unwrap_or_def Let_def page_def)

text \<open>C40. 
  The links of the list of circuits lead nowhere: the number of circuits it reports is the number on the page, so
  that whatever page is asked for and however many circuits there are, the links to the next and to the last page
  are those to the first one.
\<close>

theorem circuit_links_stay_on_first_page:
  assumes "route_list_circuits entries path (page_query limit filt offset) s = ReplyOk l"
    and "0 < limit" and "limit \<le> usize_max" and "offset \<le> usize_max"
  shows "pg_total (ls_paging l) = length (ls_data l) \<and> pg_next (ls_paging l) = pg_first (ls_paging l) \<and>
    pg_last (ls_paging l) = pg_first (ls_paging l)"
proof -
  have zero: "decimal 0 = ''0''" by (subst decimal.simps) (simp add: decimal_digit_def char_of_def bit_iff_odd)
  have reply: "pg_total p = count \<and> pg_next p = pg_first p \<and> pg_last p = pg_first p \<and> data' = data"
    if "listing_reply (Some limit) (Some offset) link count data = ReplyOk \<lparr>ls_data = data', ls_paging = p\<rparr>" and "count \<le> limit"
    for link count p and data data' :: "circuit_response list"
  proof -
    have "(count - 1) div limit = 0" using that(2) assms(2) by simp
    then have "last_offset limit count = Some 0" using assms(2) by (auto simp: last_offset_def)
    with that(1) zero show ?thesis
      by (auto simp: listing_reply_def get_response_paging_info_def unwrap_or_def Let_def next_offset_def offset_link_def)
  qed
  obtain data p where l: "l = \<lparr>ls_data = data, ls_paging = p\<rparr>" by (cases l) simp
  obtain link xs where "listing_reply (Some limit) (Some offset) link (length xs) (map circuit_response xs) = ReplyOk l" "length xs \<le> limit"
    using assms(1) unfolding route_list_circuits_def with_page_query [OF assms(3,4)] query_list_circuits_eq Let_def
    by (rule that) (simp add: length_page)
  with reply [of link "length xs" "map circuit_response xs" data p] l show ?thesis by auto
qed

definition ex_circuit_order :: circuit_order where
  "ex_circuit_order m = List.map_filter (\<lambda>i. map_option (Pair i) (m i)) [''a'', ''b'']"

definition ex_circuits :: splinter_state where
  "ex_circuits = splinter_state_new (directory_new\<lparr>cd_circuits :=
     [''a'' \<mapsto> circuit_new_admin\<lparr>circuit_id := ''a''\<rparr>, ''b'' \<mapsto> circuit_new_admin\<lparr>circuit_id := ''b''\<rparr>]\<rparr>)"

theorem circuit_links_stay_on_first_page_witness:
  "\<exists>l. route_list_circuits ex_circuit_order ''/circuits'' (page_query 1 None 0) ex_circuits = ReplyOk l \<and>
     map cr_id (ls_data l) = [''a''] \<and> pg_total (ls_paging l) = 1 \<and> pg_next (ls_paging l) = pg_first (ls_paging l)"
proof -
  let ?r = "route_list_circuits ex_circuit_order ''/circuits'' (page_query 1 None 0) ex_circuits"
  let ?xs = "[(''a'', circuit_new_admin\<lparr>circuit_id := ''a''\<rparr>)]"
  have "page 1 0 (filter (\<lambda>(_, c). True) (ex_circuit_order (cd_circuits (circuit_dir ex_circuits)))) = ?xs"
    by (simp add: ex_circuits_def splinter_state_new_def directory_new_def ex_circuit_order_def List.map_filter_def page_def)
  then have "?r = listing_reply (Some 1) (Some 0) (''/circuits'' @ ''?'') (length ?xs) (map circuit_response ?xs)"
    unfolding route_list_circuits_def by (subst with_page_query) (simp_all add: usize_max_def query_list_circuits_eq)
  moreover have "last_offset 1 (length ?xs) = Some 0" by (simp add: last_offset_def)
  ultimately obtain p where p: "?r = ReplyOk \<lparr>ls_data = map circuit_response ?xs, ls_paging = p\<rparr>"
    using listing_reply_Ok [of 1 "length ?xs" 0 0 "''/circuits'' @ ''?''" "map circuit_response ?xs"] by metis
  define l where "l = \<lparr>ls_data = map circuit_response ?xs, ls_paging = p\<rparr>"
  have l: "?r = ReplyOk l" "map cr_id (ls_data l) = [''a'']"
    by (simp_all only: p l_def) (simp add: circuit_response_def)
  have len: "length (ls_data l) = 1" unfolding length_map [of cr_id, symmetric] l(2) by simp
  have "pg_total (ls_paging l) = length (ls_data l) \<and> pg_next (ls_paging l) = pg_first (ls_paging l) \<and>
      pg_last (ls_paging l) = pg_first (ls_paging l)"
    by (rule circuit_links_stay_on_first_page [OF l(1)]) (simp_all add: usize_max_def)
  then show ?thesis unfolding len by (intro exI [of _ l] conjI l) (erule conjunct1, erule conjunct2 [THEN conjunct1])
qed

text \<open>
  The list of keys is complete and consistent with the lookup of one key: following its links a client is sent
  every key of the registry once, and asking for the key that is printed in the list returns this entry.
\<close>

theorem key_pages_cover:
  assumes "registry_wf (kr_keys r)" and "0 < limit" and "key_count r + limit \<le> usize_max"
    and "last_offset limit (key_count r) = Some final"
  shows "concat (map (\<lambda>i. reply_data (route_list_keys path (page_query limit None i) r)) (walk limit final 0)) =
      map key_info_response (registry_keys r) \<and>
    (\<forall>ki \<in> set (registry_keys r).
       route_fetch_key (Some (kir_public_key (key_info_response ki))) r = ReplyOk (key_info_response ki))"
proof
  note keys = registry_iteration_complete [OF assms(1)]
  note l = last_page [OF assms(2,4)]
  have "route_list_keys path (page_query limit None i) r =
      listing_reply (Some limit) (Some i) (path @ ''?'') (length (registry_keys r)) (map key_info_response (page limit i (registry_keys r)))"
    if "i \<le> final" for i
    using that l(1) assms(3) keys by (simp add: route_list_keys_def with_page_query)
  then show "concat (map (\<lambda>i. reply_data (route_list_keys path (page_query limit None i) r)) (walk limit final 0)) =
      map key_info_response (registry_keys r)"
    by (rule listing_covers(1)) (use assms keys in simp_all)
  show "\<forall>ki \<in> set (registry_keys r).
      route_fetch_key (Some (kir_public_key (key_info_response ki))) r = ReplyOk (key_info_response ki)"
    using keys by (simp add: route_fetch_key_def key_info_response_def unwrap_or_def parse_hex_to_hex)
qed

definition ex_keys :: key_registry where
  "ex_keys = snd (save_keys (Ok ()) [key_info_builder [1] ''a'', key_info_builder [2] ''b'', key_info_builder [3] ''c'']
     \<lparr>kr_keys = [], kr_stored = []\<rparr>)"

theorem key_pages_cover_witness:
  "concat (map (\<lambda>i. reply_data (route_list_keys ''/keys'' (page_query 2 None i) ex_keys)) [0, 2]) =
     map key_info_response (registry_keys ex_keys) \<and> length (registry_keys ex_keys) = 3"
proof -
  have r: "kr_keys ex_keys =
      fold persisted_add_key [key_info_builder [1] ''a'', key_info_builder [2] ''b'', key_info_builder [3] ''c''] []"
    by (simp add: ex_keys_def save_keys_def bind_act_def modify_act_def write_key_registry_def)
  then have wf: "registry_wf (kr_keys ex_keys)" by (simp only: registry_wf_add_all registry_wf_empty)
  have count: "key_count ex_keys = 3" unfolding key_count_def r by code_simp
  have "last_offset 2 (key_count ex_keys) = Some 2" by (simp add: count last_offset_def)
  from key_pages_cover [OF wf _ _ this, of "''/keys''"] registry_iteration_complete [OF wf] count
  show ?thesis by (simp add: usize_max_def ex_walk)
qed

text \<open>
  A limit of 0 crashes the listing: for a request with readable numbers the handler panics exactly when the limit
  is 0 and there is a node to list.
\<close>

theorem zero_limit_panics:
  assumes "limit \<le> usize_max" and "offset \<le> usize_max"
  shows "route_list_nodes (yaml_node_registry env) percent_encode from_str path (page_query limit None offset) r = ReplyPanic
    \<longleftrightarrow> limit = 0 \<and> yr_cached_nodes r \<noteq> []"
  by (auto simp: route_list_nodes_def with_page_query [OF assms] query_list_nodes_def yaml_node_registry_def yaml_list_nodes_def
      unwrap_or_def get_cached_nodes_def page_all listing_reply_def get_response_paging_info_def last_offset_def Let_def)

theorem zero_limit_panics_witness:
  "route_list_nodes (yaml_node_registry ex_env) (\<lambda>t. t) (\<lambda>t. Err t) ''/nodes'' (page_query 0 None 0)
     (ex_registry 0 [ex_node ''a'']) = ReplyPanic"
  using zero_limit_panics [of 0 0 ex_env "\<lambda>t. t" "\<lambda>t. Err t" "''/nodes''" "ex_registry 0 [ex_node ''a'']"]
  by (simp add: ex_registry_def)

end
