(* ===== verification/Spec2Isabelle.thy ===== *)
theory Spec2Isabelle
  imports Hex Paging Two_Phase_Engine Two_Phase_System Auth Circuit_Handlers Daemon Mailbox Keys Open_Proposals Orchestrator
    Admin_Node_Properties Scabbard_Properties Rest_Properties
begin

text \<open>
  A model of the Splinter node: the library \<^verbatim>\<open>src/libsplinter\<close> and the daemon \<^verbatim>\<open>src/splinterd\<close>, with the
  properties that make them correct.

  \<^bold>\<open>The program.\<close> Splinter nodes are connected by a network of authorized peers. Services, on the nodes
  or connected to them, exchange messages over circuits: named groups of nodes with a roster of services. The
  nodes agree on circuits through the admin service: a node proposes a circuit, the members vote, and each step
  is decided by a two-phase commit among the members. Scabbard is a service that runs transactions on a state
  which its instances keep equal, by the same two-phase commit. The daemon connects these parts by dispatchers
  and offers REST routes on them.

  A message takes this way: the main loop of the daemon (\<open>Daemon\<close>) reads it from the network (\<open>Network\<close>) and
  hands it to a dispatcher (\<open>Dispatch\<close>); authorization messages go to the handlers of \<open>Auth\<close>, circuit messages
  behind a guard to those of \<open>Circuit_Handlers\<close>; these look up the Splinter state (\<open>Circuit\<close>) and forward the
  message to a node or to a local service, where the service processor (\<open>Service_Net\<close>) or the orchestrator
  (\<open>Orchestrator\<close>) hands it to the service. The admin service (\<open>Admin_Service\<close>, its state \<open>Admin_Shared\<close>) and
  scabbard (\<open>Scabbard\<close>) give the proposals they receive to their consensus thread, which runs the engine of
  \<open>Two_Phase\<close> and calls them back to create, check, accept and reject proposals.

  \<^bold>\<open>How the code is modelled.\<close> A struct is a record, an enum a datatype, and a method one definition with its
  name where Isabelle allows it. Code that takes \<^verbatim>\<open>&mut self\<close> is an \<open>action\<close>: a function from the state to a
  result and the state, where a mutation made before an error stays (\<open>Splinter_Prelude\<close>). A \<^verbatim>\<open>String\<close> is the list
  of its UTF-8 bytes. A panic is a value of its own. Protobuf, JSON and YAML codecs, cryptography, the file
  system, sockets, the clock and the transact and sawtooth libraries are arguments, and what is needed of them
  is a named hypothesis (for instance \<open>round_trip\<close>, \<open>files_work\<close>, \<open>database_works\<close>). Each property with
  hypotheses has a witness on concrete data. Threads are steps: a turn of a thread's loop, or the part of an
  operation that runs under one lock, and they interleave.

  \<^bold>\<open>The theories.\<close>

  \<^item> \<open>Splinter_Prelude\<close>: results, actions, codecs, channels, texts; invariant preservation (\<open>keeps\<close>) and the
    collections \<open>rust_simps\<close> and \<open>keeps_intros\<close>.
  \<^item> \<open>BiHashMap\<close> (\<^verbatim>\<open>collections/mod.rs\<close>), \<open>BTreeMap\<close> (the standard map), \<open>Durable_Set\<close>
    (\<^verbatim>\<open>storage/sets\<close>), \<open>Hex\<close> (\<^verbatim>\<open>hex.rs\<close>): containers and codecs. The interfaces their users rely on are the
    locales \<open>bidirectional_map\<close>, \<open>ordered_map\<close>, \<open>durable_set\<close> and \<open>durable_ordered_set\<close>, each interpreted by the
    model of the container. A bounded ordered set keeps its latest values (C28).
  \<^item> \<open>Consensus\<close> (\<^verbatim>\<open>consensus/mod.rs\<close>), \<open>Two_Phase\<close> (\<^verbatim>\<open>consensus/two_phase\<close>), \<open>Two_Phase_Node\<close>,
    \<open>Two_Phase_Engine\<close>, \<open>Two_Phase_System\<close>: the engine method by method, the invariant of one engine, and engines
    together under loss, repetition and reordering: agreement and validity (C1, C2), and that the run loop
    refines the system (C3); what a timeout does, when the loop ends, and a proposal that is never decided
    (C18--C20).
  \<^item> \<open>Engine_Client\<close>: the engine together with the service that runs it, as the locale \<open>engine_client\<close>: the
    engine accepts a proposal only when the service is ready for it. \<open>Admin_Node\<close> and \<open>Scabbard_Node\<close> interpret it.
  \<^item> \<open>Network\<close>, \<open>Dispatch\<close>, \<open>Auth\<close> (\<^verbatim>\<open>network\<close>): peer table, dispatchers, authorization. Peers resolve (C23), a
    peer is authorized only after a handshake (C21), and no authorization message causes a panic (C22).
  \<^item> \<open>Circuit\<close>, \<open>Circuit_Handlers\<close> (\<^verbatim>\<open>circuit\<close>): circuits, directory, Splinter state and message handlers. Direct
    messages stay in their circuit and are never dropped silently (C24, C25); service connections (C26).
  \<^item> \<open>Daemon\<close> (\<^verbatim>\<open>splinterd/src/daemon.rs\<close>): dispatchers, main loop and sender as events in any order. A peer that
    is not authorized leaves no trace (C27).
  \<^item> \<open>Service_Net\<close> (\<^verbatim>\<open>network/reply.rs\<close>, \<^verbatim>\<open>service\<close>), \<open>Orchestrator\<close> (\<^verbatim>\<open>orchestrator\<close>): requests and replies
    (C31), services and their definitions (C32).
  \<^item> \<open>Admin_Messages\<close>, \<open>Open_Proposals\<close>, \<open>Mailbox\<close>, \<open>Keys\<close>: messages, stored proposals (C30), events (C29) and
    keys of the admin service; the locales \<open>proposal_store\<close> and \<open>mailbox_store\<close>.
  \<^item> \<open>Admin_Validation\<close>, \<open>Admin_Shared\<close>, \<open>Admin_Invariant\<close>, \<open>Admin_Properties\<close>
    (\<^verbatim>\<open>admin/service/shared.rs\<close>): the checks, the state and its invariant; a circuit needs every member (C6--C9),
    payloads are released (C33), and what the checks leave open (C34).
  \<^item> \<open>Admin_Service\<close>, \<open>Admin_Node\<close>, \<open>Admin_Node_Properties\<close> (\<^verbatim>\<open>admin/service/mod.rs\<close>, \<^verbatim>\<open>consensus.rs\<close>): the
    service with its engine. What is committed is what was proposed (C4, C10), proposals reach the members
    (C11), a start restores the services (C12), and a rejection that loses an accepted proposal (C13).
  \<^item> \<open>Event_Dealer\<close> (\<^verbatim>\<open>rest_api/events.rs\<close>), \<open>Scabbard_State\<close>, \<open>Scabbard\<close>, \<open>Scabbard_Node\<close>,
    \<open>Scabbard_Properties\<close> (\<^verbatim>\<open>service/scabbard\<close>): web socket events; the state, service and endpoints of scabbard;
    the service with its engine. The state root it moves to is the agreed one (C5), it survives a restart
    (C14), subscribers see every commit (C15), only verified batches are let in by clients (C16) but not from
    peers (C35), and histories are bounded (C17).
  \<^item> \<open>Paging\<close>, \<open>Node_Registry\<close>, \<open>Rest_Routes\<close>, \<open>Rest_Properties\<close> (\<^verbatim>\<open>node_registry\<close>,
    \<^verbatim>\<open>splinterd/src/routes\<close>): the registry of nodes refines a map and survives a restart (C36) as long as its
    requests do not interleave (C37); a client that follows the links of a listing sees everything once (C38),
    but not with two filters (C39) nor in the list of circuits (C40). The locale \<open>registry_laws\<close> is the contract
    of the registry trait, interpreted by both of its implementations.

  \<^bold>\<open>Bounds.\<close> No model has fuel: the loops are recursive functions with a termination proof or steps of a
  relation. Numbers are unbounded where the code cannot overflow; a \<^verbatim>\<open>usize\<close> that is read from a request or that
  may wrap is bounded by \<open>usize_max\<close>, and bytes are 8-bit words. Channels are unbounded queues: the blocking of a
  full channel is left out, so that the modelled runs include those of the program. A call that waits is a
  step that is not enabled, or the value \<open>None\<close>.

  \<^bold>\<open>Not modelled.\<close> The mesh and the transports (\<^verbatim>\<open>mesh\<close>, \<^verbatim>\<open>transport\<close>) poll sockets of the operating system; the
  network is given the outcomes of their operations. The file formats of \<^verbatim>\<open>storage\<close> are outcomes of writes. The
  web server and the reactor (\<^verbatim>\<open>rest_api\<close> but for its events, \<^verbatim>\<open>events\<close>) run on actix and tokio, and the REST
  routes of the admin service only pass requests on. \<^verbatim>\<open>biome\<close> and \<^verbatim>\<open>database\<close> are queries to a database, \<^verbatim>\<open>signing\<close>
  but for the hash signer calls cryptographic libraries. Of the daemon, configuration files, certificates and
  the start of threads are left out. The command line tools, the health service and the examples are programs
  of their own. Locks are assumed not to be poisoned; where the code would panic while it holds one, the
  panic is a value of the model. Logging is left out everywhere.
\<close>

end
